(* ===== verification/Kani_Prelude.thy ===== *)
theory Kani_Prelude
  imports Main "HOL-Library.AList"
begin

text \<open>
  Shared vocabulary of the development.

  \<^item> Fallible code returns \<open>'e + 'a\<close>: \<open>Inl e\<close> is Rust's \<open>Err(e)\<close>, \<open>Inr x\<close> is
    \<open>Ok(x)\<close>. \<open>and_then r k\<close> is the \<open>?\<close> operator: it runs \<open>k\<close> on the value of
    \<open>r\<close>, or returns the error of \<open>r\<close>.
  \<^item> A \<open>std::collections::HashMap\<close> is an association list with distinct keys; the list
    order stands for the iteration order, which Rust leaves unspecified. The locale
    \<open>key_value_map\<close> states what the clients may use of such a map, and its
    interpretation \<open>hm\<close> discharges the laws for the association lists.
  \<^item> The collections \<open>res_simps\<close> and \<open>map_simps\<close> carry the rewriting of results and of
    map lookups through the component theories.
\<close>

named_theorems res_simps "rewriting of fallible computations"
named_theorems map_simps "rewriting of map lookups and updates"

section \<open>Results\<close>

definition and_then :: "'e + 'a \<Rightarrow> ('a \<Rightarrow> 'e + 'b) \<Rightarrow> 'e + 'b" where
  "and_then r k = (case r of Inl e \<Rightarrow> Inl e | Inr x \<Rightarrow> k x)"

definition ensure :: "bool \<Rightarrow> 'e \<Rightarrow> 'e + unit" where
  "ensure ok err = (if ok then Inr () else Inl err)"

definition map_err :: "('e \<Rightarrow> 'f) \<Rightarrow> 'e + 'a \<Rightarrow> 'f + 'a" where
  "map_err f r = (case r of Inl e \<Rightarrow> Inl (f e) | Inr x \<Rightarrow> Inr x)"

definition is_ok :: "'e + 'a \<Rightarrow> bool" where
  "is_ok r = (case r of Inl e \<Rightarrow> False | Inr x \<Rightarrow> True)"

definition ok_or :: "'e \<Rightarrow> 'a option \<Rightarrow> 'e + 'a" where
  "ok_or err v = (case v of None \<Rightarrow> Inl err | Some x \<Rightarrow> Inr x)"

lemma and_then_simps [simp]:
  "and_then (Inl e) k = Inl e"
  "and_then (Inr x) k = k x"
  by (simp_all add: and_then_def)

lemma and_then_eq_Inr [res_simps]:
  "and_then r k = Inr y \<longleftrightarrow> (\<exists>x. r = Inr x \<and> k x = Inr y)"
  by (cases r) (simp_all add: and_then_def)

lemma and_then_eq_Inl [res_simps]:
  "and_then r k = Inl e \<longleftrightarrow> r = Inl e \<or> (\<exists>x. r = Inr x \<and> k x = Inl e)"
  by (cases r) (auto simp add: and_then_def)

lemma ensure_simps [simp]:
  "ensure True err = Inr ()"
  "ensure False err = Inl err"
  by (simp_all add: ensure_def)

lemma ensure_eq_Inr [res_simps]: "ensure ok err = Inr u \<longleftrightarrow> ok"
  by (simp add: ensure_def)

lemma ensure_eq_Inl [res_simps]: "ensure ok err = Inl e \<longleftrightarrow> \<not> ok \<and> e = err"
  by (auto simp add: ensure_def)

lemma ok_or_simps [simp]:
  "ok_or err None = Inl err"
  "ok_or err (Some x) = Inr x"
  by (simp_all add: ok_or_def)

lemma ok_or_eq_Inr [res_simps]: "ok_or err v = Inr x \<longleftrightarrow> v = Some x"
  by (cases v) simp_all

lemma ok_or_eq_Inl [res_simps]: "ok_or err v = Inl e \<longleftrightarrow> v = None \<and> e = err"
  by (cases v) auto

lemma map_err_simps [simp]:
  "map_err f (Inl e) = Inl (f e)"
  "map_err f (Inr x) = Inr x"
  by (simp_all add: map_err_def)

lemma map_err_eq_Inr [res_simps]: "map_err f r = Inr x \<longleftrightarrow> r = Inr x"
  by (cases r) simp_all

lemma map_err_eq_Inl [res_simps]: "map_err f r = Inl e \<longleftrightarrow> (\<exists>e'. r = Inl e' \<and> e = f e')"
  by (cases r) auto

lemma is_ok_simps [simp]:
  "\<not> is_ok (Inl e)"
  "is_ok (Inr x)"
  by (simp_all add: is_ok_def)

lemma is_ok_iff: "is_ok r \<longleftrightarrow> (\<exists>x. r = Inr x)"
  by (cases r) simp_all

text \<open>\<open>collect::<Result<Vec<_>, _>>()\<close>: the first error, or all the values.\<close>

fun collect_results :: "('e + 'a) list \<Rightarrow> 'e + 'a list" where
  "collect_results [] = Inr []"
| "collect_results (r # rs) =
     and_then r (\<lambda>x. and_then (collect_results rs) (\<lambda>xs. Inr (x # xs)))"

lemma collect_results_map_Inr: "collect_results (map (\<lambda>x. Inr (f x)) xs) = Inr (map f xs)"
  by (induction xs) auto

section \<open>Fallible operations on a state\<close>

text \<open>
  An \<open>async fn\<close> that may fail and reads or writes a shared state: the result and the state it
  leaves, on failure as well. \<open>h_bind\<close> is the \<open>?\<close> operator.
\<close>

definition h_return :: "'a \<Rightarrow> 's \<Rightarrow> ('e + 'a) \<times> 's" where
  "h_return x = (\<lambda>s. (Inr x, s))"

definition h_fail :: "'e \<Rightarrow> 's \<Rightarrow> ('e + 'a) \<times> 's" where
  "h_fail e = (\<lambda>s. (Inl e, s))"

definition h_bind ::
  "('s \<Rightarrow> ('e + 'a) \<times> 's) \<Rightarrow> ('a \<Rightarrow> 's \<Rightarrow> ('e + 'b) \<times> 's) \<Rightarrow> 's \<Rightarrow> ('e + 'b) \<times> 's" where
  "h_bind m k = (\<lambda>s. case m s of (Inl e, s) \<Rightarrow> (Inl e, s) | (Inr x, s) \<Rightarrow> k x s)"

definition h_lift :: "'e + 'a \<Rightarrow> 's \<Rightarrow> ('e + 'a) \<times> 's" where
  "h_lift r = (\<lambda>s. (r, s))"

lemma h_bind_return [simp]: "h_bind (h_return x) k = k x"
  by (simp add: h_bind_def h_return_def)

lemma h_bind_okE:
  assumes "h_bind m k s = (Inr x, s')"
  obtains y t where "m s = (Inr y, t)" "k y t = (Inr x, s')"
  using assms by (auto simp: h_bind_def split: prod.splits sum.splits)

lemma h_lift_ok [simp]: "h_lift r s = (Inr x, s') \<longleftrightarrow> r = Inr x \<and> s' = s"
  by (auto simp: h_lift_def)

lemma h_return_ok [simp]: "h_return x s = (y, s') \<longleftrightarrow> y = Inr x \<and> s' = s"
  by (auto simp: h_return_def)

lemma h_fail_ok [simp]: "h_fail e s \<noteq> (Inr x, s')"
  by (simp add: h_fail_def)

lemma h_bind_ok: "\<exists>y. fst (h s) = Inr y \<Longrightarrow> (\<And>x s. \<exists>y. fst (k x s) = Inr y) \<Longrightarrow> \<exists>y. fst (h_bind h k s) = Inr y"
  by (cases "h s") (auto simp: h_bind_def)

lemma h_return_always [simp]: "fst (h_return x s) = Inr x"
  by (simp add: h_return_def)

text \<open>
  \<open>keeps R h\<close> says that the operation \<open>h\<close> moves the state along the relation \<open>R\<close>, whatever its
  outcome. Operations composed of operations that keep a preorder keep it.
\<close>

definition keeps :: "('s \<Rightarrow> 's \<Rightarrow> bool) \<Rightarrow> ('s \<Rightarrow> ('e + 'a) \<times> 's) \<Rightarrow> bool" where
  "keeps R h \<longleftrightarrow> (\<forall>s. R s (snd (h s)))"

lemma keepsI: "(\<And>s r s'. h s = (r, s') \<Longrightarrow> R s s') \<Longrightarrow> keeps R h"
  by (metis keeps_def prod.collapse)

lemma keepsD: "keeps R h \<Longrightarrow> h s = (r, s') \<Longrightarrow> R s s'"
  by (metis keeps_def snd_conv)

locale state_preorder =
  fixes R :: "'s \<Rightarrow> 's \<Rightarrow> bool"
  assumes R_refl: "R s s"
    and R_trans: "R s t \<Longrightarrow> R t u \<Longrightarrow> R s u"
begin

lemma keeps_return [intro!, simp]: "keeps R (h_return x)"
  by (simp add: keeps_def h_return_def R_refl)

lemma keeps_fail [intro!, simp]: "keeps R (h_fail e)"
  by (simp add: keeps_def h_fail_def R_refl)

lemma keeps_lift [intro!, simp]: "keeps R (h_lift r)"
  by (simp add: keeps_def h_lift_def R_refl)

lemma keeps_bind [intro!]:
  assumes "keeps R h" "\<And>x. keeps R (k x)"
  shows "keeps R (h_bind h k)"
proof (rule keepsI)
  fix s r s'
  assume run: "h_bind h k s = (r, s')"
  obtain x t where h: "h s = (x, t)" by (rule prod.exhaust)
  have "R s t" using assms(1) h by (rule keepsD)
  moreover have "R t s'"
    using run h keepsD [OF assms(2)] R_refl by (auto simp: h_bind_def split: sum.splits)
  ultimately show "R s s'" by (rule R_trans)
qed

lemma keeps_if [intro!]: "keeps R h \<Longrightarrow> keeps R k \<Longrightarrow> keeps R (if b then h else k)"
  by simp

lemma keeps_option [intro!]:
  "keeps R h \<Longrightarrow> (\<And>x. keeps R (k x)) \<Longrightarrow> keeps R (case v of None \<Rightarrow> h | Some x \<Rightarrow> k x)"
  by (simp split: option.split)

lemma keeps_pair [intro!]: "(\<And>x y. keeps R (k x y)) \<Longrightarrow> keeps R (case p of (x, y) \<Rightarrow> k x y)"
  by (simp split: prod.split)

end

section \<open>Maps\<close>

text \<open>
  The interface of a key-value map: lookup, insertion, and the entries in iteration order.
  Sums over the entries (totals of balances, issued amounts) are computed once here.
\<close>

locale key_value_map =
  fixes get :: "'m \<Rightarrow> 'k \<Rightarrow> 'v option"
    and put :: "'k \<Rightarrow> 'v \<Rightarrow> 'm \<Rightarrow> 'm"
    and entries :: "'m \<Rightarrow> ('k \<times> 'v) list"
    and wf :: "'m \<Rightarrow> bool"
  assumes get_put: "get (put k v m) k' = (if k' = k then Some v else get m k')"
    and wf_put: "wf m \<Longrightarrow> wf (put k v m)"
    and entries_get: "wf m \<Longrightarrow> (k, v) \<in> set (entries m) \<longleftrightarrow> get m k = Some v"
    and entries_distinct: "wf m \<Longrightarrow> distinct (map fst (entries m))"
begin

lemma entries_sum:
  fixes f :: "'k \<times> 'v \<Rightarrow> int"
  assumes "wf m"
  shows "(\<Sum>e\<leftarrow>entries m. f e) = (\<Sum>e\<in>set (entries m). f e)"
  using entries_distinct [OF assms] by (simp add: sum_list_distinct_conv_sum_set distinct_map)

lemma entries_put_set:
  assumes "wf m"
  shows "set (entries (put k v m)) = insert (k, v) {e \<in> set (entries m). fst e \<noteq> k}"
  using assms by (auto simp: entries_get wf_put get_put split: if_splits)

lemma entries_key_set:
  assumes "wf m"
  shows "{e \<in> set (entries m). fst e = k} = (case get m k of None \<Rightarrow> {} | Some w \<Rightarrow> {(k, w)})"
  using assms by (auto simp: entries_get split: option.splits)

lemma sum_put:
  fixes f :: "'k \<times> 'v \<Rightarrow> int"
  assumes wf: "wf m"
  shows "(\<Sum>e\<leftarrow>entries (put k v m). f e) =
    (\<Sum>e\<leftarrow>entries m. f e) - (case get m k of None \<Rightarrow> 0 | Some w \<Rightarrow> f (k, w)) + f (k, v)"
proof -
  let ?S = "set (entries m)"
  let ?R = "{e \<in> ?S. fst e \<noteq> k}"
  have "(\<Sum>e\<in>?S. f e) = (\<Sum>e\<in>?R. f e) + (\<Sum>e\<in>{e \<in> ?S. fst e = k}. f e)"
    by (subst sum.union_disjoint [symmetric]) (auto intro!: sum.cong)
  moreover have "(\<Sum>e\<in>set (entries (put k v m)). f e) = f (k, v) + (\<Sum>e\<in>?R. f e)"
    unfolding entries_put_set [OF wf] by (subst sum.insert) auto
  ultimately show ?thesis
    using wf by (simp add: entries_sum wf_put entries_key_set split: option.splits)
qed

lemma get_put_same: "get (put k v m) k = Some v"
  by (simp add: get_put)

lemma get_put_other: "k' \<noteq> k \<Longrightarrow> get (put k v m) k' = get m k'"
  by (simp add: get_put)

end

type_synonym ('k, 'v) hash_map = "('k \<times> 'v) list"

definition hm_get :: "('k, 'v) hash_map \<Rightarrow> 'k \<Rightarrow> 'v option" where
  "hm_get m k = map_of m k"

definition hm_insert :: "'k \<Rightarrow> 'v \<Rightarrow> ('k, 'v) hash_map \<Rightarrow> ('k, 'v) hash_map" where
  "hm_insert k v m = AList.update k v m"

definition hm_values :: "('k, 'v) hash_map \<Rightarrow> 'v list" where
  "hm_values m = map snd m"

definition hm_wf :: "('k, 'v) hash_map \<Rightarrow> bool" where
  "hm_wf m = distinct (map fst m)"

text \<open>Rust's \<open>iter().map(|x| (key, value)).collect()\<close> into a map: later items win.\<close>

definition hm_collect :: "('k \<times> 'v) list \<Rightarrow> ('k, 'v) hash_map" where
  "hm_collect kvs = foldl (\<lambda>m (k, v). hm_insert k v m) [] kvs"

lemma hm_get_Nil [simp]: "hm_get [] k = None"
  by (simp add: hm_get_def)

lemma hm_get_insert [map_simps]:
  "hm_get (hm_insert k v m) k' = (if k' = k then Some v else hm_get m k')"
  by (simp add: hm_get_def hm_insert_def update_conv')

lemma hm_wf_Nil [simp]: "hm_wf []"
  by (simp add: hm_wf_def)

lemma hm_wf_insert [simp]: "hm_wf m \<Longrightarrow> hm_wf (hm_insert k v m)"
  by (simp add: hm_wf_def hm_insert_def distinct_update)

interpretation hm: key_value_map hm_get hm_insert "\<lambda>m. m" hm_wf
  by unfold_locales (simp_all add: hm_get_insert, simp_all add: hm_wf_def hm_get_def)

lemma hm_values_iff: "hm_wf m \<Longrightarrow> v \<in> set (hm_values m) \<longleftrightarrow> (\<exists>k. hm_get m k = Some v)"
  by (force simp: hm_values_def hm.entries_get [symmetric])

lemma hm_insert_fresh: "hm_get m k = None \<Longrightarrow> hm_insert k v m = m @ [(k, v)]"
  by (induction m) (auto simp: hm_get_def hm_insert_def split: if_splits)

lemma hm_collect_foldl_wf: "hm_wf m \<Longrightarrow> hm_wf (foldl (\<lambda>m (k, v). hm_insert k v m) m kvs)"
  by (induction kvs arbitrary: m) auto

lemma hm_collect_wf [simp]: "hm_wf (hm_collect kvs)"
  by (simp add: hm_collect_def hm_collect_foldl_wf)

lemma hm_collect_foldl_distinct:
  "distinct (map fst (m @ kvs)) \<Longrightarrow> foldl (\<lambda>m (k, v). hm_insert k v m) m kvs = m @ kvs"
proof (induction kvs arbitrary: m)
  case Nil
  then show ?case by simp
next
  case (Cons kv kvs)
  obtain k v where kv: "kv = (k, v)" by force
  from Cons.prems kv have "hm_get m k = None"
    by (auto simp: hm_get_def map_of_eq_None_iff)
  then have "hm_insert k v m = m @ [(k, v)]" by (rule hm_insert_fresh)
  with Cons.IH [of "m @ [(k, v)]"] Cons.prems kv show ?case by simp
qed

lemma hm_collect_distinct: "distinct (map fst kvs) \<Longrightarrow> hm_collect kvs = kvs"
  by (simp add: hm_collect_def hm_collect_foldl_distinct)

lemma hm_collect_get:
  "hm_get (foldl (\<lambda>m (k, v). hm_insert k v m) m kvs) k =
    (case map_of (rev kvs) k of None \<Rightarrow> hm_get m k | Some v \<Rightarrow> Some v)"
  by (induction kvs arbitrary: m) (auto simp: hm_get_insert map_add_def split: option.splits)

section \<open>Lists\<close>

text \<open>Rust's \<open>skip(offset).take(limit)\<close>.\<close>

definition page :: "nat \<Rightarrow> nat \<Rightarrow> 'a list \<Rightarrow> 'a list" where
  "page offset limit xs = take limit (drop offset xs)"

lemma page_append: "page n k xs @ page (n + k) l xs = page n (k + l) xs"
  by (simp add: page_def take_add add.commute)

lemma set_page: "set (page n k xs) \<subseteq> set xs"
  by (auto simp: page_def dest: in_set_takeD in_set_dropD)

lemma length_page: "length (page n k xs) = min k (length xs - n)"
  by (simp add: page_def min.commute)

lemma filter_sum_list_append:
  fixes f :: "'a \<Rightarrow> int"
  shows "(\<Sum>x\<leftarrow>filter P (xs @ ys). f x) = (\<Sum>x\<leftarrow>filter P xs. f x) + (\<Sum>x\<leftarrow>filter P ys. f x)"
  by simp

lemma find_None_iff_all: "List.find P xs = None \<longleftrightarrow> (\<forall>x\<in>set xs. \<not> P x)"
  by (auto simp: find_None_iff)

lemma find_Some_in: "List.find P xs = Some x \<Longrightarrow> x \<in> set xs \<and> P x"
  by (auto simp: find_Some_iff)

text \<open>Rust's \<open>iter().position(p)\<close>: the index of the first match.\<close>

fun position :: "('a \<Rightarrow> bool) \<Rightarrow> 'a list \<Rightarrow> nat option" where
  "position P [] = None"
| "position P (x # xs) = (if P x then Some 0 else map_option Suc (position P xs))"

lemma position_nth:
  assumes "distinct (map f xs)" "i < length xs"
  shows "position (\<lambda>x. f x = f (xs ! i)) xs = Some i"
  using assms
proof (induction xs arbitrary: i)
  case Nil
  then show ?case by simp
next
  case (Cons x xs)
  show ?case
  proof (cases i)
    case 0
    then show ?thesis by simp
  next
    case (Suc j)
    with Cons.prems have "f (xs ! j) \<in> set (map f xs)" by simp
    with Cons.prems(1) have "f x \<noteq> f (xs ! j)" by auto
    with Cons Suc show ?thesis by simp
  qed
qed

lemma position_SomeD: "position P xs = Some i \<Longrightarrow> i < length xs \<and> P (xs ! i)"
  by (induction xs arbitrary: i) (auto split: if_splits)

text \<open>A window of a circular list: \<open>n\<close> elements from index \<open>k\<close> on, wrapping around.\<close>

definition circular :: "nat \<Rightarrow> nat \<Rightarrow> 'a list \<Rightarrow> 'a list" where
  "circular k n xs = map (\<lambda>d. xs ! ((k + d) mod length xs)) [0..<n]"

lemma length_circular [simp]: "length (circular k n xs) = n"
  by (simp add: circular_def)

lemma mod_add_left_inj:
  fixes k :: nat
  assumes "(k + a) mod m = (k + b) mod m" "a < m" "b < m"
  shows "a = b"
proof -
  have "int a mod int m = int b mod int m"
  proof -
    from assms(1) have "(int k + int a) mod int m = (int k + int b) mod int m"
      by (metis of_nat_add of_nat_mod)
    then have "(int k + int a - int k) mod int m = (int k + int b - int k) mod int m"
      by (rule mod_diff_cong) simp
    then show ?thesis by simp
  qed
  then have "a mod m = b mod m" by (metis of_nat_eq_iff of_nat_mod)
  with assms(2,3) show ?thesis by simp
qed

lemma distinct_circular:
  assumes "distinct xs" "n \<le> length xs"
  shows "distinct (circular k n xs)"
proof -
  have "inj_on (\<lambda>d. xs ! ((k + d) mod length xs)) {0..<n}"
  proof (rule inj_onI)
    fix a b
    assume ab: "a \<in> {0..<n}" "b \<in> {0..<n}"
      and eq: "xs ! ((k + a) mod length xs) = xs ! ((k + b) mod length xs)"
    from ab assms(2) have lt: "a < length xs" "b < length xs" by auto
    then have "(k + a) mod length xs < length xs" "(k + b) mod length xs < length xs"
      by (auto intro!: mod_less_divisor)
    with eq assms(1) have "(k + a) mod length xs = (k + b) mod length xs"
      by (simp add: nth_eq_iff_index_eq)
    from mod_add_left_inj [OF this lt] show "a = b" .
  qed
  then show ?thesis by (simp add: circular_def distinct_map)
qed

lemma set_circular: "xs \<noteq> [] \<Longrightarrow> set (circular k n xs) \<subseteq> set xs"
  by (auto simp: circular_def)

lemma circular_head: "k < length xs \<Longrightarrow> 0 < n \<Longrightarrow> xs ! k \<in> set (circular k n xs)"
  by (auto simp: circular_def intro!: image_eqI [of _ _ 0])

lemma map_circular: "xs \<noteq> [] \<Longrightarrow> map f (circular k n xs) = circular k n (map f xs)"
  by (simp add: circular_def)

text \<open>Two subsets of a finite set whose sizes add up to more than the set overlap.\<close>

lemma card_overlap:
  assumes "finite U" "A \<subseteq> U" "B \<subseteq> U"
  shows "card A + card B \<le> card U + card (A \<inter> B)"
proof -
  have "card A + card B = card (A \<union> B) + card (A \<inter> B)"
    using assms by (intro card_Un_Int) (auto dest: finite_subset)
  moreover have "card (A \<union> B) \<le> card U" using assms by (intro card_mono) auto
  ultimately show ?thesis by simp
qed

lemma length_pos_nonempty: "Suc 0 \<le> n \<Longrightarrow> n \<le> length xs \<Longrightarrow> xs \<noteq> []"
  by auto

lemma mod_length_less: "Suc 0 \<le> n \<Longrightarrow> n \<le> length xs \<Longrightarrow> k mod length xs < length xs"
  by (intro mod_less_divisor) linarith

lemma sorted_wrt_snoc:
  fixes x :: "'a :: order"
  assumes "sorted_wrt (<) xs" "xs \<noteq> []" "last xs < x"
  shows "sorted_wrt (<) (xs @ [x])"
proof -
  have "y \<le> last xs" if "y \<in> set xs" for y
    using assms(1,2) that
  proof (induction xs)
    case (Cons z zs)
    then show ?case by (cases zs) (auto dest: less_imp_le order.trans)
  qed simp
  with assms show ?thesis by (auto simp: sorted_wrt_append intro: le_less_trans)
qed

end
