(* ===== verification/Rust_Std.thy ===== *)
theory Rust_Std
  imports Kani_Prelude "HOL-Library.Char_ord" "HOL-Library.List_Lexorder"
begin

text \<open>
  The parts of the Rust standard library the program uses.

  \<^item> \<open>String\<close> and \<open>&str\<close> are \<open>string\<close>, read as the sequence of the UTF-8 bytes
    (a \<open>char\<close> of HOL is one byte), so \<open>len()\<close> is \<open>length\<close>, equality, \<open>starts_with\<close>
    and the byte-wise order of \<open>Ord for str\<close> are the ones of lists. \<open>trim\<close> removes the
    UTF-8 encodings of the 25 code points with the property \<open>White_Space\<close>.
  \<^item> \<open>i128\<close> and \<open>i64\<close> are \<open>int\<close>; the arithmetic operators of the release build
    (\<open>docker/api.Dockerfile\<close> builds with \<open>--release\<close>, which does not check overflow) wrap
    around in two's complement: \<open>i128_wrap\<close>, \<open>i64_wrap\<close>.
  \<^item> \<open>Uuid::new_v4()\<close> and \<open>Utc::now()\<close> draw from the environment \<open>env\<close>: two infinite
    supplies and the number of values drawn so far.
  \<^item> \<open>BTreeMap<String, _>\<close> is an association list sorted by key.
\<close>

section \<open>Machine integers\<close>

type_synonym i128 = int
type_synonym i64 = int
type_synonym usize = nat

definition i128_wrap :: "int \<Rightarrow> i128" where
  "i128_wrap x = (x + 2 ^ 127) mod 2 ^ 128 - 2 ^ 127"

definition i64_wrap :: "int \<Rightarrow> i64" where
  "i64_wrap x = (x + 2 ^ 63) mod 2 ^ 64 - 2 ^ 63"

definition i128_MAX :: i128 where "i128_MAX = 2 ^ 127 - 1"
definition i128_MIN :: i128 where "i128_MIN = - (2 ^ 127)"

definition in_i128 :: "int \<Rightarrow> bool" where
  "in_i128 x \<longleftrightarrow> i128_MIN \<le> x \<and> x \<le> i128_MAX"

definition i128_add :: "i128 \<Rightarrow> i128 \<Rightarrow> i128" where "i128_add x y = i128_wrap (x + y)"
definition i128_sub :: "i128 \<Rightarrow> i128 \<Rightarrow> i128" where "i128_sub x y = i128_wrap (x - y)"

text \<open>\<open>i128::checked_abs\<close>.\<close>

definition i128_checked_abs :: "i128 \<Rightarrow> i128 option" where
  "i128_checked_abs x = (if x = i128_MIN then None else Some \<bar>x\<bar>)"

text \<open>\<open>usize::try_from(n.max(0)).unwrap_or(usize::MAX)\<close> for an \<open>i64\<close> on a 64-bit target,
  where the conversion of a non-negative value always succeeds.\<close>

definition clamp_usize :: "i64 \<Rightarrow> usize" where
  "clamp_usize n = nat (max n 0)"

lemma i128_wrap_id [simp]: "in_i128 x \<Longrightarrow> i128_wrap x = x"
  by (simp add: i128_wrap_def in_i128_def i128_MIN_def i128_MAX_def)

lemma i128_wrap_range [simp]: "in_i128 (i128_wrap x)"
proof -
  have "0 \<le> (x + 2 ^ 127) mod 2 ^ 128" "(x + 2 ^ 127) mod 2 ^ 128 < 2 ^ 128" by simp_all
  then show ?thesis by (simp add: in_i128_def i128_wrap_def i128_MIN_def i128_MAX_def)
qed

lemma i128_wrap_mod: "i128_wrap x mod 2 ^ 128 = x mod 2 ^ 128"
proof -
  have "i128_wrap x mod 2 ^ 128 = (x + 2 ^ 127 - 2 ^ 127) mod 2 ^ 128"
    unfolding i128_wrap_def by (rule mod_diff_left_eq)
  then show ?thesis by simp
qed

lemma i128_wrap_cong: "x mod 2 ^ 128 = y mod 2 ^ 128 \<Longrightarrow> i128_wrap x = i128_wrap y"
  unfolding i128_wrap_def by (metis mod_add_left_eq)

lemma i128_wrap_add_left [simp]:
  "i128_wrap (i128_wrap x + y) = i128_wrap (x + y)"
  "i128_wrap (i128_wrap x - y) = i128_wrap (x - y)"
proof -
  have "(i128_wrap x + y) mod 2 ^ 128 = (x + y) mod 2 ^ 128"
    by (rule mod_add_cong [OF i128_wrap_mod refl])
  then show "i128_wrap (i128_wrap x + y) = i128_wrap (x + y)" by (rule i128_wrap_cong)
  have "(i128_wrap x - y) mod 2 ^ 128 = (x - y) mod 2 ^ 128"
    by (rule mod_diff_cong [OF i128_wrap_mod refl])
  then show "i128_wrap (i128_wrap x - y) = i128_wrap (x - y)" by (rule i128_wrap_cong)
qed

lemma i64_wrap_le: "- (2 ^ 63) \<le> x \<Longrightarrow> i64_wrap x \<le> x"
  using zmod_le_nonneg_dividend [of "x + 2 ^ 63" "2 ^ 64"] by (simp add: i64_wrap_def)

definition i128_modulus :: int where "i128_modulus = 2 ^ 128"

lemma i128_wrap_modulus: "i128_wrap x mod i128_modulus = x mod i128_modulus"
  by (simp only: i128_modulus_def i128_wrap_mod)

lemma i128_wrap_0 [simp]: "i128_wrap 0 = 0"
  by (simp add: i128_wrap_def)

lemma i64_wrap_id: "- (2 ^ 63) \<le> x \<Longrightarrow> x < 2 ^ 63 \<Longrightarrow> i64_wrap x = x"
  by (simp add: i64_wrap_def)

lemma in_i128_eq_iff_mod:
  assumes "in_i128 x" "in_i128 y" "x mod 2 ^ 128 = y mod 2 ^ 128"
  shows "x = y"
  using assms i128_wrap_cong i128_wrap_id by metis

lemma in_i128_nonneg: "0 \<le> x \<Longrightarrow> in_i128 x \<longleftrightarrow> x < 2 ^ 127"
  by (auto simp: in_i128_def i128_MIN_def i128_MAX_def)

section \<open>Strings\<close>

definition byte_of :: "char \<Rightarrow> nat" where
  "byte_of c = of_char c"

definition is_ascii_digit :: "char \<Rightarrow> bool" where
  "is_ascii_digit c \<longleftrightarrow> 48 \<le> byte_of c \<and> byte_of c \<le> 57"

definition is_ascii_uppercase :: "char \<Rightarrow> bool" where
  "is_ascii_uppercase c \<longleftrightarrow> 65 \<le> byte_of c \<and> byte_of c \<le> 90"

definition is_ascii_lowercase :: "char \<Rightarrow> bool" where
  "is_ascii_lowercase c \<longleftrightarrow> 97 \<le> byte_of c \<and> byte_of c \<le> 122"

definition char_to_upper :: "char \<Rightarrow> char" where
  "char_to_upper c = (if is_ascii_lowercase c then char_of (byte_of c - 32) else c)"

definition char_to_lower :: "char \<Rightarrow> char" where
  "char_to_lower c = (if is_ascii_uppercase c then char_of (byte_of c + 32) else c)"

definition to_ascii_uppercase :: "string \<Rightarrow> string" where
  "to_ascii_uppercase s = map char_to_upper s"

definition to_ascii_lowercase :: "string \<Rightarrow> string" where
  "to_ascii_lowercase s = map char_to_lower s"

definition eq_ignore_ascii_case :: "string \<Rightarrow> string \<Rightarrow> bool" where
  "eq_ignore_ascii_case s t \<longleftrightarrow> to_ascii_lowercase s = to_ascii_lowercase t"

definition starts_with :: "string \<Rightarrow> string \<Rightarrow> bool" where
  "starts_with s p \<longleftrightarrow> take (length p) s = p"

definition ends_with :: "string \<Rightarrow> string \<Rightarrow> bool" where
  "ends_with s p \<longleftrightarrow> length p \<le> length s \<and> drop (length s - length p) s = p"

text \<open>The UTF-8 encodings of the code points \<open>char::is_whitespace\<close> accepts.\<close>

definition white_space :: "string list" where
  "white_space =
    [[CHR 0x09], [CHR 0x0A], [CHR 0x0B], [CHR 0x0C], [CHR 0x0D], [CHR 0x20],
     [CHR 0xC2, CHR 0x85], [CHR 0xC2, CHR 0xA0], [CHR 0xE1, CHR 0x9A, CHR 0x80],
     [CHR 0xE2, CHR 0x80, CHR 0x80], [CHR 0xE2, CHR 0x80, CHR 0x81],
     [CHR 0xE2, CHR 0x80, CHR 0x82], [CHR 0xE2, CHR 0x80, CHR 0x83],
     [CHR 0xE2, CHR 0x80, CHR 0x84], [CHR 0xE2, CHR 0x80, CHR 0x85],
     [CHR 0xE2, CHR 0x80, CHR 0x86], [CHR 0xE2, CHR 0x80, CHR 0x87],
     [CHR 0xE2, CHR 0x80, CHR 0x88], [CHR 0xE2, CHR 0x80, CHR 0x89],
     [CHR 0xE2, CHR 0x80, CHR 0x8A], [CHR 0xE2, CHR 0x80, CHR 0xA8],
     [CHR 0xE2, CHR 0x80, CHR 0xA9], [CHR 0xE2, CHR 0x80, CHR 0xAF],
     [CHR 0xE2, CHR 0x81, CHR 0x9F], [CHR 0xE3, CHR 0x80, CHR 0x80]]"

lemma white_space_nonempty: "w \<in> set white_space \<Longrightarrow> w \<noteq> []"
  by (auto simp: white_space_def)

lemma find_white_space_nonempty: "List.find P white_space = Some w \<Longrightarrow> w \<noteq> []"
  using white_space_nonempty find_Some_in by metis

lemma starts_with_shorter:
  assumes "List.find (starts_with s) white_space = Some w"
  shows "length (drop (length w) s) < length s"
proof -
  from assms have "w \<noteq> []" and "take (length w) s = w"
    using find_white_space_nonempty find_Some_in by (metis, metis starts_with_def)
  then have "s \<noteq> []" by auto
  with \<open>w \<noteq> []\<close> show ?thesis by simp
qed

lemma ends_with_shorter:
  assumes "List.find (ends_with s) white_space = Some w"
  shows "length (take (length s - length w) s) < length s"
proof -
  from assms have "w \<noteq> []" and "length w \<le> length s"
    using find_white_space_nonempty find_Some_in by (metis, metis ends_with_def)
  then have "length s - length w < length s" by (intro diff_less) auto
  then show ?thesis by simp
qed

function trim_start :: "string \<Rightarrow> string" where
  "trim_start s = (case List.find (starts_with s) white_space of
     None \<Rightarrow> s | Some w \<Rightarrow> trim_start (drop (length w) s))"
  by pat_completeness auto
termination
  by (relation "measure length") (simp_all only: wf_measure in_measure starts_with_shorter)

function trim_end :: "string \<Rightarrow> string" where
  "trim_end s = (case List.find (ends_with s) white_space of
     None \<Rightarrow> s | Some w \<Rightarrow> trim_end (take (length s - length w) s))"
  by pat_completeness auto
termination
  by (relation "measure length") (simp_all only: wf_measure in_measure ends_with_shorter)

declare trim_start.simps [simp del] trim_end.simps [simp del]

definition trim :: "string \<Rightarrow> string" where
  "trim s = trim_end (trim_start s)"

definition is_blank :: "string \<Rightarrow> bool" where
  "is_blank s \<longleftrightarrow> trim s = []"

lemma trim_start_stable: "List.find (starts_with (trim_start s)) white_space = None"
proof (induction s rule: trim_start.induct)
  case (1 s)
  then show ?case
    by (cases "List.find (starts_with s) white_space") (simp_all add: trim_start.simps [of s])
qed

lemma trim_end_stable: "List.find (ends_with (trim_end s)) white_space = None"
proof (induction s rule: trim_end.induct)
  case (1 s)
  then show ?case
    by (cases "List.find (ends_with s) white_space") (simp_all add: trim_end.simps [of s])
qed

lemma trim_end_take: "\<exists>n. trim_end s = take n s"
proof (induction s rule: trim_end.induct)
  case (1 s)
  show ?case
  proof (cases "List.find (ends_with s) white_space")
    case None
    then show ?thesis by (intro exI [of _ "length s"]) (simp add: trim_end.simps [of s])
  next
    case (Some w)
    with 1 show ?thesis by (auto simp: trim_end.simps [of s] take_take)
  qed
qed

lemma starts_with_take:
  assumes "starts_with (take n s) w"
  shows "starts_with s w"
proof -
  have "take (min (length w) n) s = w" using assms by (simp add: starts_with_def take_take)
  then have "take (length w) s = w"
    by (metis length_take min.commute min_def take_all take_take)
  then show ?thesis by (simp add: starts_with_def)
qed

lemma trim_idem [simp]: "trim (trim s) = trim s"
proof -
  obtain n where n: "trim s = take n (trim_start s)"
    using trim_end_take by (auto simp: trim_def)
  have "List.find (starts_with (trim s)) white_space = None"
    using trim_start_stable [of s] by (auto simp: find_None_iff n dest: starts_with_take)
  then have "trim_start (trim s) = trim s" by (simp add: trim_start.simps [of "trim s"])
  moreover have "trim_end (trim s) = trim s"
    using trim_end_stable [of "trim_start s"] by (simp add: trim_def trim_end.simps)
  ultimately show ?thesis by (simp add: trim_def)
qed

lemma trim_Nil [simp]: "trim [] = []"
  using trim_end_take [of "trim_start []"]
  by (auto simp: trim_def trim_start.simps white_space_def starts_with_def)

text \<open>\<open>value.map(|v| v.trim().to_string()).filter(|v| !v.is_empty())\<close>, the shape the code
  repeats for optional strings.\<close>

definition non_blank :: "string option \<Rightarrow> string option" where
  "non_blank v = (case v of None \<Rightarrow> None
     | Some s \<Rightarrow> if trim s = [] then None else Some (trim s))"

lemma non_blank_idem [simp]: "non_blank (non_blank v) = non_blank v"
  by (simp add: non_blank_def split: option.splits)

section \<open>Splitting and replacing\<close>

text \<open>\<open>s.split(c)\<close>: always at least one piece.\<close>

fun split_on :: "char \<Rightarrow> string \<Rightarrow> string list" where
  "split_on c [] = [[]]"
| "split_on c (x # xs) =
     (if x = c then [] # split_on c xs
      else (case split_on c xs of [] \<Rightarrow> [[x]] | y # ys \<Rightarrow> (x # y) # ys))"

text \<open>\<open>s.replace(c, t)\<close> for a one-byte pattern.\<close>

definition replace_char :: "char \<Rightarrow> string \<Rightarrow> string \<Rightarrow> string" where
  "replace_char c t s = concat (map (\<lambda>x. if x = c then t else [x]) s)"

definition strip_prefix :: "string \<Rightarrow> string \<Rightarrow> string option" where
  "strip_prefix p s = (if starts_with s p then Some (drop (length p) s) else None)"

text \<open>\<open>s.rsplit_once(c)\<close>: the parts before and after the last occurrence.\<close>

definition rsplit_once :: "char \<Rightarrow> string \<Rightarrow> (string \<times> string) option" where
  "rsplit_once c s = (if c \<in> set s
     then Some (rev (tl (dropWhile (\<lambda>x. x \<noteq> c) (rev s))), rev (takeWhile (\<lambda>x. x \<noteq> c) (rev s)))
     else None)"

lemma starts_with_append [simp]: "starts_with (p @ s) p"
  by (simp add: starts_with_def)

lemma strip_prefix_append [simp]: "strip_prefix p (p @ s) = Some s"
  by (simp add: strip_prefix_def)

lemma rsplit_once_append:
  assumes "c \<notin> set t"
  shows "rsplit_once c (s @ c # t) = Some (s, t)"
proof -
  from assms have "\<forall>x\<in>set (rev t). x \<noteq> c" by auto
  then have "takeWhile (\<lambda>x. x \<noteq> c) (rev t @ c # rev s) = rev t"
    and "dropWhile (\<lambda>x. x \<noteq> c) (rev t @ c # rev s) = c # rev s"
    by (auto simp: takeWhile_append dropWhile_append)
  then show ?thesis by (simp add: rsplit_once_def)
qed

lemma replace_char_append [simp]:
  "replace_char c t (s @ s') = replace_char c t s @ replace_char c t s'"
  by (simp add: replace_char_def)

lemma split_on_no_sep: "s' \<in> set (split_on c s) \<Longrightarrow> c \<notin> set s'"
proof (induction s arbitrary: s')
  case Nil
  then show ?case by simp
next
  case (Cons x xs)
  then show ?case
    by (cases "split_on c xs") (auto split: if_splits)
qed

section \<open>Decimal numbers\<close>

definition dec_digit :: "nat \<Rightarrow> char" where
  "dec_digit n = char_of (48 + n)"

fun nat_to_dec :: "nat \<Rightarrow> string" where
  "nat_to_dec n = (if n < 10 then [dec_digit n] else nat_to_dec (n div 10) @ [dec_digit (n mod 10)])"

declare nat_to_dec.simps [simp del]

definition int_to_dec :: "int \<Rightarrow> string" where
  "int_to_dec x = (if x < 0 then CHR ''-'' # nat_to_dec (nat (- x)) else nat_to_dec (nat x))"

definition dec_value :: "string \<Rightarrow> nat" where
  "dec_value s = foldl (\<lambda>acc c. acc * 10 + (byte_of c - 48)) 0 s"

definition parse_digits :: "string \<Rightarrow> nat option" where
  "parse_digits s = (if s \<noteq> [] \<and> list_all is_ascii_digit s then Some (dec_value s) else None)"

text \<open>\<open>str::parse::<i128>()\<close>: an optional sign, at least one digit, no overflow.\<close>

definition parse_i128 :: "string \<Rightarrow> i128 option" where
  "parse_i128 s =
     (let value = (case s of [] \<Rightarrow> None
        | c # cs \<Rightarrow> if c = CHR ''-'' then map_option (\<lambda>n. - int n) (parse_digits cs)
                   else if c = CHR ''+'' then map_option int (parse_digits cs)
                   else map_option int (parse_digits s))
      in case value of None \<Rightarrow> None | Some x \<Rightarrow> if in_i128 x then Some x else None)"

lemma byte_of_dec_digit [simp]: "n < 10 \<Longrightarrow> byte_of (dec_digit n) = 48 + n"
  by (simp add: byte_of_def dec_digit_def)

lemma is_ascii_digit_dec_digit [simp]: "n < 10 \<Longrightarrow> is_ascii_digit (dec_digit n)"
  by (simp add: is_ascii_digit_def)

lemma dec_value_snoc [simp]: "dec_value (s @ [c]) = dec_value s * 10 + (byte_of c - 48)"
  by (simp add: dec_value_def)

lemma nat_to_dec_digits:
  "nat_to_dec n \<noteq> [] \<and> list_all is_ascii_digit (nat_to_dec n) \<and> dec_value (nat_to_dec n) = n"
proof (induction n rule: nat_to_dec.induct)
  case (1 n)
  show ?case
  proof (cases "n < 10")
    case True
    then show ?thesis by (simp add: nat_to_dec.simps [of n] dec_value_def)
  next
    case False
    with 1 show ?thesis by (simp add: nat_to_dec.simps [of n])
  qed
qed

lemma nat_to_dec_nonempty [simp]: "nat_to_dec n \<noteq> []"
  and nat_to_dec_all_digits [simp]: "list_all is_ascii_digit (nat_to_dec n)"
  and dec_value_nat_to_dec [simp]: "dec_value (nat_to_dec n) = n"
  using nat_to_dec_digits by blast+

lemma parse_digits_nat_to_dec [simp]: "parse_digits (nat_to_dec n) = Some n"
  by (simp add: parse_digits_def)

lemma nat_to_dec_head:
  assumes "nat_to_dec n = c # cs"
  shows "c \<noteq> CHR ''-''" "c \<noteq> CHR ''+''"
proof -
  from assms have "is_ascii_digit c" using nat_to_dec_all_digits [of n] by simp
  then show "c \<noteq> CHR ''-''" "c \<noteq> CHR ''+''" by (auto simp: is_ascii_digit_def byte_of_def)
qed

lemma parse_i128_int_to_dec: "in_i128 x \<Longrightarrow> parse_i128 (int_to_dec x) = Some x"
proof (cases "x < 0")
  case False
  assume x: "in_i128 x"
  obtain c cs where c: "nat_to_dec (nat x) = c # cs"
    by (cases "nat_to_dec (nat x)") simp_all
  have "parse_digits (c # cs) = Some (nat x)"
    using parse_digits_nat_to_dec [of "nat x"] c by simp
  with False x nat_to_dec_head [OF c] show ?thesis
    by (simp add: int_to_dec_def parse_i128_def c)
qed (simp add: int_to_dec_def parse_i128_def)

lemma int_to_dec_inj: "in_i128 x \<Longrightarrow> in_i128 y \<Longrightarrow> int_to_dec x = int_to_dec y \<Longrightarrow> x = y"
  using parse_i128_int_to_dec by (metis option.inject)

section \<open>Ordered maps\<close>

type_synonym 'v btree_map = "(string \<times> 'v) list"

fun bt_insert :: "string \<Rightarrow> 'v \<Rightarrow> 'v btree_map \<Rightarrow> 'v btree_map" where
  "bt_insert k v [] = [(k, v)]"
| "bt_insert k v ((k', v') # m) =
     (if k < k' then (k, v) # (k', v') # m
      else if k = k' then (k, v) # m
      else (k', v') # bt_insert k v m)"

definition bt_get :: "'v btree_map \<Rightarrow> string \<Rightarrow> 'v option" where
  "bt_get m k = map_of m k"

definition bt_wf :: "'v btree_map \<Rightarrow> bool" where
  "bt_wf m \<longleftrightarrow> sorted_wrt (<) (map fst m)"

text \<open>\<open>BTreeMap::from([...])\<close>.\<close>

definition bt_from :: "(string \<times> 'v) list \<Rightarrow> 'v btree_map" where
  "bt_from kvs = foldl (\<lambda>m (k, v). bt_insert k v m) [] kvs"

lemma bt_get_insert [map_simps]:
  "bt_get (bt_insert k v m) k' = (if k' = k then Some v else bt_get m k')"
  by (induction k v m rule: bt_insert.induct) (auto simp: bt_get_def)

lemma set_keys_bt_insert: "set (map fst (bt_insert k v m)) = insert k (set (map fst m))"
  by (induction k v m rule: bt_insert.induct) auto

lemma bt_wf_insert: "bt_wf m \<Longrightarrow> bt_wf (bt_insert k v m)"
  unfolding bt_wf_def
proof (induction k v m rule: bt_insert.induct)
  case (2 k v k' v' m)
  then show ?case
    using set_keys_bt_insert [of k v m] by (auto simp: not_less)
qed simp

lemma bt_wf_distinct: "bt_wf m \<Longrightarrow> distinct (map fst m)"
  by (simp add: bt_wf_def strict_sorted_iff)

interpretation bt: key_value_map bt_get bt_insert "\<lambda>m. m" bt_wf
  by unfold_locales
    (simp_all add: bt_get_insert bt_wf_insert bt_wf_distinct, simp add: bt_wf_distinct bt_get_def)

section \<open>Clock and identifiers\<close>

type_synonym timestamp = int
type_synonym uuid = string

text \<open>
  The outside world: the n-th value \<open>Uuid::new_v4()\<close> returns (as text) and the n-th value
  \<open>Utc::now()\<close> returns, with the number of values drawn so far. \<open>DateTime<Utc>\<close> is used
  through its order only and is an integer here.
\<close>

record env =
  uuids :: "nat \<Rightarrow> uuid"
  clock :: "nat \<Rightarrow> timestamp"
  drawn :: nat
  ticks :: nat

definition new_uuid :: "env \<Rightarrow> uuid \<times> env" where
  "new_uuid w = (uuids w (drawn w), w\<lparr>drawn := drawn w + 1\<rparr>)"

definition utc_now :: "env \<Rightarrow> timestamp \<times> env" where
  "utc_now w = (clock w (ticks w), w\<lparr>ticks := ticks w + 1\<rparr>)"

lemma new_uuid_sel [simp]: "fst (new_uuid w) = uuids w (drawn w)"
  "snd (new_uuid w) = w\<lparr>drawn := drawn w + 1\<rparr>"
  by (simp_all add: new_uuid_def)

lemma utc_now_sel [simp]: "fst (utc_now w) = clock w (ticks w)"
  "snd (utc_now w) = w\<lparr>ticks := ticks w + 1\<rparr>"
  by (simp_all add: utc_now_def)

text \<open>The environment only advances.\<close>

definition env_le :: "env \<Rightarrow> env \<Rightarrow> bool" where
  "env_le w w' \<longleftrightarrow> uuids w' = uuids w \<and> clock w' = clock w \<and> drawn w \<le> drawn w' \<and> ticks w \<le> ticks w'"

lemma env_le_refl [simp]: "env_le w w"
  by (simp add: env_le_def)

lemma env_le_trans [trans]: "env_le w w' \<Longrightarrow> env_le w' w'' \<Longrightarrow> env_le w w''"
  by (auto simp: env_le_def)

lemma env_le_draw [simp]: "env_le w (w\<lparr>drawn := drawn w + 1\<rparr>)" "env_le w (w\<lparr>ticks := ticks w + 1\<rparr>)"
  "env_le w (w\<lparr>drawn := Suc (drawn w)\<rparr>)" "env_le w (w\<lparr>ticks := Suc (ticks w)\<rparr>)"
  "env_le w (w\<lparr>drawn := Suc (drawn w), ticks := Suc (ticks w)\<rparr>)"
  "env_le w (w\<lparr>ticks := Suc (ticks w), drawn := Suc (drawn w)\<rparr>)"
  by (simp_all add: env_le_def)

text \<open>An environment to evaluate examples in: numbered identifiers, a clock that ticks by one.\<close>

definition sample_env :: env where
  "sample_env = \<lparr>uuids = (\<lambda>n. ''uuid-'' @ nat_to_dec n), clock = int, drawn = 0, ticks = 0\<rparr>"

section \<open>Environment variables\<close>

text \<open>\<open>std::env::var\<close>, and its idioms \<open>unwrap_or_else(|_| default)\<close> and \<open>ok()\<close>.\<close>

datatype var_error = VarNotPresent | VarNotUnicode

type_synonym env_vars = "string \<Rightarrow> var_error + string"

definition var_or :: "string \<Rightarrow> var_error + string \<Rightarrow> string" where
  "var_or d v = (case v of Inl _ \<Rightarrow> d | Inr s \<Rightarrow> s)"

definition var_ok :: "var_error + string \<Rightarrow> string option" where
  "var_ok v = (case v of Inl _ \<Rightarrow> None | Inr s \<Rightarrow> Some s)"

text \<open>\<open>str::parse::<i64>()\<close> differs from that of \<open>i128\<close> in its range only.\<close>

definition parse_i64 :: "string \<Rightarrow> i64 option" where
  "parse_i64 s = (case parse_i128 s of
     None \<Rightarrow> None | Some x \<Rightarrow> if - (2 ^ 63) \<le> x \<and> x < 2 ^ 63 then Some x else None)"

end
