(* ===== verification/Kani_Types.thy ===== *)
theory Kani_Types
  imports Rust_Std
begin

text \<open>
  The data model of the network: \<open>crates/kani-types/src/lib.rs\<close>. Every struct is a record
  with the source's fields in the source's order (the field names carry a prefix for the
  struct), every enum is a datatype with the source's variants, and every constructor that
  reads the clock or draws an identifier takes the environment and returns it advanced.
\<close>

section \<open>Constants\<close>

definition GENESIS_HASH :: string where "GENESIS_HASH = ''KANI_GENESIS_V1''"
definition SANDBOX_TREASURY_ACCOUNT :: string where "SANDBOX_TREASURY_ACCOUNT = ''TREASURY_SANDBOX''"
definition SANDBOX_CORP_A_ACCOUNT :: string where "SANDBOX_CORP_A_ACCOUNT = ''CORP_A''"
definition SANDBOX_CORP_B_ACCOUNT :: string where "SANDBOX_CORP_B_ACCOUNT = ''CORP_B''"
definition SANDBOX_FEE_ACCOUNT :: string where "SANDBOX_FEE_ACCOUNT = ''FEE_SANDBOX''"
definition SANDBOX_TREASURY_INSTITUTION :: string where "SANDBOX_TREASURY_INSTITUTION = ''KANI_TREASURY''"
definition SANDBOX_CORP_A_INSTITUTION :: string where "SANDBOX_CORP_A_INSTITUTION = ''CORP_A''"
definition SANDBOX_CORP_B_INSTITUTION :: string where "SANDBOX_CORP_B_INSTITUTION = ''CORP_B''"
definition SANDBOX_NETWORK_INSTITUTION :: string where "SANDBOX_NETWORK_INSTITUTION = ''KANI''"
definition KCAD_TEST :: string where "KCAD_TEST = ''KCAD_TEST''"
definition KUSD_TEST :: string where "KUSD_TEST = ''KUSD_TEST''"

lemmas kani_constants =
  GENESIS_HASH_def SANDBOX_TREASURY_ACCOUNT_def SANDBOX_CORP_A_ACCOUNT_def
  SANDBOX_CORP_B_ACCOUNT_def SANDBOX_FEE_ACCOUNT_def SANDBOX_TREASURY_INSTITUTION_def
  SANDBOX_CORP_A_INSTITUTION_def SANDBOX_CORP_B_INSTITUTION_def
  SANDBOX_NETWORK_INSTITUTION_def KCAD_TEST_def KUSD_TEST_def

section \<open>Accounts\<close>

datatype account_type = Treasury | InstitutionAccount | Settlement | Fee

record account =
  acc_id :: string
  acc_type :: account_type
  acc_institution_id :: "string option"
  acc_created_at :: timestamp

definition account_new :: "env \<Rightarrow> string \<Rightarrow> account_type \<Rightarrow> string option \<Rightarrow> account \<times> env" where
  "account_new w i ty inst =
     (let (now, w) = utc_now w in
      (\<lparr>acc_id = i, acc_type = ty, acc_institution_id = inst, acc_created_at = now\<rparr>, w))"

section \<open>Institutions\<close>

datatype institution_status =
  InstRequested | InstDueDiligence | InstApproved | InstRejected | InstSuspended | InstOffboarded

datatype institution_risk_tier = Low | Medium | High | Restricted

datatype institution_role = Operator | Approver | Auditor | ComplianceReviewer | TechnicalAdmin

record institution_definition =
  idef_id :: string
  idef_legal_name :: string
  idef_institution_code :: string
  idef_jurisdiction :: string
  idef_status :: institution_status
  idef_risk_tier :: institution_risk_tier
  idef_allowed_assets :: "string list"
  idef_roles :: "institution_role list"

record institution =
  inst_id :: string
  inst_legal_name :: string
  inst_institution_code :: string
  inst_jurisdiction :: string
  inst_status :: institution_status
  inst_risk_tier :: institution_risk_tier
  inst_allowed_assets :: "string list"
  inst_roles :: "institution_role list"
  inst_created_at :: timestamp
  inst_approved_at :: "timestamp option"
  inst_suspended_at :: "timestamp option"
  inst_updated_at :: timestamp

definition institution_new :: "env \<Rightarrow> institution_definition \<Rightarrow> institution \<times> env" where
  "institution_new w d =
     (let (now, w) = utc_now w; status = idef_status d in
      (\<lparr>inst_id = idef_id d, inst_legal_name = idef_legal_name d,
        inst_institution_code = idef_institution_code d,
        inst_jurisdiction = idef_jurisdiction d, inst_status = status,
        inst_risk_tier = idef_risk_tier d, inst_allowed_assets = idef_allowed_assets d,
        inst_roles = idef_roles d, inst_created_at = now,
        inst_approved_at = (if status = InstApproved then Some now else None),
        inst_suspended_at = (if status = InstSuspended then Some now else None),
        inst_updated_at = now\<rparr>, w))"

definition institution_sandbox_approved ::
  "env \<Rightarrow> string \<Rightarrow> string \<Rightarrow> string \<Rightarrow> institution \<times> env" where
  "institution_sandbox_approved w i legal_name code =
     institution_new w \<lparr>idef_id = i, idef_legal_name = legal_name, idef_institution_code = code,
       idef_jurisdiction = ''CA'', idef_status = InstApproved, idef_risk_tier = Low,
       idef_allowed_assets = [KCAD_TEST, KUSD_TEST],
       idef_roles = [Operator, Auditor, TechnicalAdmin]\<rparr>"

definition institution_suspended :: "env \<Rightarrow> institution \<Rightarrow> institution \<times> env" where
  "institution_suspended w i =
     (let (now, w) = utc_now w in
      (i\<lparr>inst_status := InstSuspended, inst_suspended_at := Some now, inst_updated_at := now\<rparr>, w))"

definition institution_with_limits_update :: "env \<Rightarrow> institution \<Rightarrow> institution \<times> env" where
  "institution_with_limits_update w i =
     (let (now, w) = utc_now w in (i\<lparr>inst_updated_at := now\<rparr>, w))"

datatype institution_credential_type = SandboxApiKey | MtlsCertificate | OidcClient

datatype institution_credential_status = CredPending | CredActive | CredRetired | CredRevoked

record institution_credential =
  cred_id :: string
  cred_institution_id :: string
  cred_type :: institution_credential_type
  cred_label :: string
  cred_fingerprint :: string
  cred_issuer :: "string option"
  cred_subject :: "string option"
  cred_expires_at :: "timestamp option"
  cred_status :: institution_credential_status
  cred_created_at :: timestamp
  cred_revoked_at :: "timestamp option"
  cred_revocation_reason :: "string option"

definition institution_credential_new ::
  "env \<Rightarrow> string \<Rightarrow> institution_credential_type \<Rightarrow> string \<Rightarrow> string
    \<Rightarrow> institution_credential \<times> env" where
  "institution_credential_new w inst ty label fingerprint =
     (let (i, w) = new_uuid w; (now, w) = utc_now w in
      (\<lparr>cred_id = i, cred_institution_id = inst, cred_type = ty, cred_label = label,
        cred_fingerprint = fingerprint, cred_issuer = None, cred_subject = None,
        cred_expires_at = None, cred_status = CredActive, cred_created_at = now,
        cred_revoked_at = None, cred_revocation_reason = None\<rparr>, w))"

record institution_limit =
  lim_institution_id :: string
  lim_asset :: string
  lim_daily_limit :: i128
  lim_per_transaction_limit :: i128
  lim_updated_at :: timestamp

definition institution_limit_new ::
  "env \<Rightarrow> string \<Rightarrow> string \<Rightarrow> i128 \<Rightarrow> i128 \<Rightarrow> institution_limit \<times> env" where
  "institution_limit_new w inst asset daily per_tx =
     (let (now, w) = utc_now w in
      (\<lparr>lim_institution_id = inst, lim_asset = asset, lim_daily_limit = daily,
        lim_per_transaction_limit = per_tx, lim_updated_at = now\<rparr>, w))"

datatype onboarding_case_status =
  OnbRequested | OnbDueDiligence | OnbApproved | OnbRejected | OnbSuspended | OnbOffboarded

record onboarding_case =
  onb_id :: string
  onb_institution_id :: string
  onb_status :: onboarding_case_status
  onb_created_at :: timestamp
  onb_updated_at :: timestamp

definition onboarding_case_new ::
  "env \<Rightarrow> string \<Rightarrow> onboarding_case_status \<Rightarrow> onboarding_case \<times> env" where
  "onboarding_case_new w inst status =
     (let (now, w) = utc_now w; (i, w) = new_uuid w in
      (\<lparr>onb_id = i, onb_institution_id = inst, onb_status = status, onb_created_at = now,
        onb_updated_at = now\<rparr>, w))"

section \<open>Compliance cases\<close>

datatype compliance_case_status =
  CaseOpened | CaseAssigned | CaseEvidenceRequested | CaseEscalated
| CaseApproved | CaseRejected | CaseClosed

record compliance_case =
  case_id :: string
  case_payment_id :: string
  case_status :: compliance_case_status
  case_policy_version :: string
  case_rule_id :: string
  case_reason :: string
  case_opened_by_institution :: string
  case_assigned_to :: "string option"
  case_reviewer :: "string option"
  case_resolution_reason :: "string option"
  case_created_at :: timestamp
  case_updated_at :: timestamp
  case_resolved_at :: "timestamp option"

record compliance_case_open =
  copen_payment_id :: string
  copen_policy_version :: string
  copen_rule_id :: string
  copen_reason :: string
  copen_opened_by_institution :: string

definition compliance_case_opened :: "env \<Rightarrow> compliance_case_open \<Rightarrow> compliance_case \<times> env" where
  "compliance_case_opened w r =
     (let (now, w) = utc_now w; (i, w) = new_uuid w in
      (\<lparr>case_id = i, case_payment_id = copen_payment_id r, case_status = CaseOpened,
        case_policy_version = copen_policy_version r, case_rule_id = copen_rule_id r,
        case_reason = copen_reason r,
        case_opened_by_institution = copen_opened_by_institution r, case_assigned_to = None,
        case_reviewer = None, case_resolution_reason = None, case_created_at = now,
        case_updated_at = now, case_resolved_at = None\<rparr>, w))"

definition compliance_case_approved ::
  "env \<Rightarrow> string option \<Rightarrow> string option \<Rightarrow> compliance_case \<Rightarrow> compliance_case \<times> env" where
  "compliance_case_approved w reviewer reason c =
     (let (now, w) = utc_now w in
      (c\<lparr>case_status := CaseApproved, case_reviewer := reviewer,
        case_resolution_reason := reason, case_updated_at := now,
        case_resolved_at := Some now\<rparr>, w))"

definition compliance_case_rejected ::
  "env \<Rightarrow> string option \<Rightarrow> string option \<Rightarrow> compliance_case \<Rightarrow> compliance_case \<times> env" where
  "compliance_case_rejected w reviewer reason c =
     (let (now, w) = utc_now w in
      (c\<lparr>case_status := CaseRejected, case_reviewer := reviewer,
        case_resolution_reason := reason, case_updated_at := now,
        case_resolved_at := Some now\<rparr>, w))"

section \<open>Transactions and payments\<close>

datatype transaction_kind = Mint | Burn | Transfer

record transaction =
  tx_id :: string
  tx_from :: string
  tx_to :: string
  tx_asset :: string
  tx_amount :: i128
  tx_nonce :: i64
  tx_signatures :: "string list"
  tx_kind :: transaction_kind
  tx_metadata :: "string btree_map"
  tx_created_at :: timestamp

definition transaction_new ::
  "env \<Rightarrow> transaction_kind \<Rightarrow> string \<Rightarrow> string \<Rightarrow> string \<Rightarrow> i128 \<Rightarrow> i64 \<Rightarrow> transaction \<times> env" where
  "transaction_new w kind sender receiver asset amount nonce =
     (let (i, w) = new_uuid w; (now, w) = utc_now w in
      (\<lparr>tx_id = i, tx_from = sender, tx_to = receiver, tx_asset = asset, tx_amount = amount,
        tx_nonce = nonce, tx_signatures = [], tx_kind = kind, tx_metadata = [],
        tx_created_at = now\<rparr>, w))"

definition transaction_new_transfer ::
  "env \<Rightarrow> string \<Rightarrow> string \<Rightarrow> string \<Rightarrow> i128 \<Rightarrow> i64 \<Rightarrow> transaction \<times> env" where
  "transaction_new_transfer w sender receiver asset amount nonce =
     transaction_new w Transfer sender receiver asset amount nonce"

definition transaction_new_mint ::
  "env \<Rightarrow> string \<Rightarrow> string \<Rightarrow> string \<Rightarrow> i128 \<Rightarrow> i64 \<Rightarrow> transaction \<times> env" where
  "transaction_new_mint w treasury receiver asset amount nonce =
     transaction_new w Mint treasury receiver asset amount nonce"

definition transaction_new_burn ::
  "env \<Rightarrow> string \<Rightarrow> string \<Rightarrow> string \<Rightarrow> i128 \<Rightarrow> i64 \<Rightarrow> transaction \<times> env" where
  "transaction_new_burn w sender treasury asset amount nonce =
     transaction_new w Burn sender treasury asset amount nonce"

datatype transaction_status = Pending | Held | Finalized | Rejected

record payment_record =
  pay_transaction :: transaction
  pay_status :: transaction_status
  pay_block_height :: "i64 option"
  pay_block_hash :: "string option"
  pay_failure_reason :: "string option"
  pay_client_reference_id :: "string option"
  pay_request_fingerprint :: "string option"
  pay_created_at :: timestamp
  pay_updated_at :: timestamp

definition client_reference_id_from :: "transaction \<Rightarrow> string option" where
  "client_reference_id_from tx = bt_get (tx_metadata tx) ''client_reference_id''"

definition request_fingerprint_from :: "transaction \<Rightarrow> string option" where
  "request_fingerprint_from tx = bt_get (tx_metadata tx) ''request_fingerprint''"

definition payment_pending :: "env \<Rightarrow> transaction \<Rightarrow> payment_record \<times> env" where
  "payment_pending w tx =
     (let (now, w) = utc_now w in
      (\<lparr>pay_transaction = tx, pay_status = Pending, pay_block_height = None,
        pay_block_hash = None, pay_failure_reason = None,
        pay_client_reference_id = client_reference_id_from tx,
        pay_request_fingerprint = request_fingerprint_from tx,
        pay_created_at = now, pay_updated_at = now\<rparr>, w))"

definition payment_finalized ::
  "env \<Rightarrow> transaction \<Rightarrow> i64 \<Rightarrow> string \<Rightarrow> payment_record \<times> env" where
  "payment_finalized w tx block_height block_hash =
     (let (now, w) = utc_now w in
      (\<lparr>pay_transaction = tx, pay_status = Finalized, pay_block_height = Some block_height,
        pay_block_hash = Some block_hash, pay_failure_reason = None,
        pay_client_reference_id = client_reference_id_from tx,
        pay_request_fingerprint = request_fingerprint_from tx,
        pay_created_at = now, pay_updated_at = now\<rparr>, w))"

definition payment_held :: "env \<Rightarrow> transaction \<Rightarrow> string \<Rightarrow> payment_record \<times> env" where
  "payment_held w tx reason =
     (let (now, w) = utc_now w in
      (\<lparr>pay_transaction = tx, pay_status = Held, pay_block_height = None,
        pay_block_hash = None, pay_failure_reason = Some reason,
        pay_client_reference_id = client_reference_id_from tx,
        pay_request_fingerprint = request_fingerprint_from tx,
        pay_created_at = now, pay_updated_at = now\<rparr>, w))"

definition payment_rejected :: "env \<Rightarrow> transaction \<Rightarrow> string \<Rightarrow> payment_record \<times> env" where
  "payment_rejected w tx reason =
     (let (now, w) = utc_now w in
      (\<lparr>pay_transaction = tx, pay_status = Rejected, pay_block_height = None,
        pay_block_hash = None, pay_failure_reason = Some reason,
        pay_client_reference_id = client_reference_id_from tx,
        pay_request_fingerprint = request_fingerprint_from tx,
        pay_created_at = now, pay_updated_at = now\<rparr>, w))"

definition with_client_reference_id :: "string option \<Rightarrow> payment_record \<Rightarrow> payment_record" where
  "with_client_reference_id cri p = p\<lparr>pay_client_reference_id := cri\<rparr>"

definition with_request_fingerprint :: "string option \<Rightarrow> payment_record \<Rightarrow> payment_record" where
  "with_request_fingerprint fp p = p\<lparr>pay_request_fingerprint := fp\<rparr>"

definition payment_mark_pending :: "env \<Rightarrow> payment_record \<Rightarrow> payment_record \<times> env" where
  "payment_mark_pending w p =
     (let (now, w) = utc_now w in
      (p\<lparr>pay_status := Pending, pay_failure_reason := None, pay_updated_at := now\<rparr>, w))"

definition payment_mark_rejected :: "env \<Rightarrow> string \<Rightarrow> payment_record \<Rightarrow> payment_record \<times> env" where
  "payment_mark_rejected w reason p =
     (let (now, w) = utc_now w in
      (p\<lparr>pay_status := Rejected, pay_failure_reason := Some reason, pay_updated_at := now\<rparr>, w))"

section \<open>Journal, consensus objects, blocks and audit events\<close>

datatype journal_direction = Debit | Credit

record journal_entry =
  je_id :: string
  je_transaction_id :: string
  je_account_id :: string
  je_asset :: string
  je_amount :: i128
  je_direction :: journal_direction
  je_block_height :: i64
  je_created_at :: timestamp

definition journal_entry_new ::
  "env \<Rightarrow> string \<Rightarrow> string \<Rightarrow> string \<Rightarrow> i128 \<Rightarrow> journal_direction \<Rightarrow> i64 \<Rightarrow> journal_entry \<times> env" where
  "journal_entry_new w txid acct asset amount dir block_height =
     (let (i, w) = new_uuid w; (now, w) = utc_now w in
      (\<lparr>je_id = i, je_transaction_id = txid, je_account_id = acct, je_asset = asset,
        je_amount = amount, je_direction = dir, je_block_height = block_height,
        je_created_at = now\<rparr>, w))"

record consensus_validator =
  cv_id :: string
  cv_public_key :: string
  cv_voting_power :: i64
  cv_active :: bool

record validator_set =
  vs_id :: string
  vs_epoch :: i64
  vs_validators :: "consensus_validator list"
  vs_created_at :: timestamp

record consensus_proposal =
  prop_id :: string
  prop_height :: i64
  prop_round :: i64
  prop_epoch :: i64
  prop_proposer :: string
  prop_block_hash :: string
  prop_prev_hash :: string
  prop_created_at :: timestamp

datatype consensus_vote_kind = Prevote | Precommit | Finality

record consensus_vote =
  vote_id :: string
  vote_proposal_id :: string
  vote_height :: i64
  vote_round :: i64
  vote_epoch :: i64
  vote_voter :: string
  vote_kind :: consensus_vote_kind
  vote_block_hash :: string
  vote_signature :: string
  vote_created_at :: timestamp

record quorum_certificate =
  qc_id :: string
  qc_height :: i64
  qc_round :: i64
  qc_epoch :: i64
  qc_block_hash :: string
  qc_vote_kind :: consensus_vote_kind
  qc_voters :: "string list"
  qc_signature :: string
  qc_created_at :: timestamp

record finality_proof =
  fp_block_height :: i64
  fp_block_hash :: string
  fp_validator_set_id :: string
  fp_quorum_certificate :: quorum_certificate
  fp_finalized_at :: timestamp

record block =
  blk_height :: i64
  blk_prev_hash :: string
  blk_txs :: "transaction list"
  blk_validator :: string
  blk_signature :: string
  blk_hash :: string
  blk_finalized_by :: "string list"
  blk_created_at :: timestamp

definition block_new_unsealed ::
  "env \<Rightarrow> i64 \<Rightarrow> string \<Rightarrow> transaction list \<Rightarrow> string \<Rightarrow> block \<times> env" where
  "block_new_unsealed w height prev_hash txs validator =
     (let (now, w) = utc_now w in
      (\<lparr>blk_height = height, blk_prev_hash = prev_hash, blk_txs = txs,
        blk_validator = validator, blk_signature = [], blk_hash = [], blk_finalized_by = [],
        blk_created_at = now\<rparr>, w))"

definition block_seal :: "string \<Rightarrow> string \<Rightarrow> string list \<Rightarrow> block \<Rightarrow> block" where
  "block_seal hash signature finalized_by b =
     b\<lparr>blk_hash := hash, blk_signature := signature, blk_finalized_by := finalized_by\<rparr>"

record audit_event =
  ae_id :: string
  ae_event_type :: string
  ae_message :: string
  ae_metadata :: "string btree_map"
  ae_block_height :: "i64 option"
  ae_transaction_id :: "string option"
  ae_created_at :: timestamp

definition audit_event_new ::
  "env \<Rightarrow> string \<Rightarrow> string \<Rightarrow> i64 option \<Rightarrow> string option \<Rightarrow> audit_event \<times> env" where
  "audit_event_new w event_type message block_height transaction_id =
     (let (i, w) = new_uuid w; (now, w) = utc_now w in
      (\<lparr>ae_id = i, ae_event_type = event_type, ae_message = message, ae_metadata = [],
        ae_block_height = block_height, ae_transaction_id = transaction_id,
        ae_created_at = now\<rparr>, w))"

definition audit_event_with_metadata :: "string btree_map \<Rightarrow> audit_event \<Rightarrow> audit_event" where
  "audit_event_with_metadata metadata ev = ev\<lparr>ae_metadata := metadata\<rparr>"

text \<open>The constructors, unfolded together where a proof needs the fields of a new object.\<close>

lemmas constructor_defs =
  account_new_def institution_new_def institution_sandbox_approved_def institution_suspended_def
  institution_credential_new_def institution_limit_new_def compliance_case_opened_def
  compliance_case_approved_def compliance_case_rejected_def transaction_new_def
  transaction_new_transfer_def transaction_new_mint_def transaction_new_burn_def
  payment_pending_def payment_finalized_def payment_held_def payment_rejected_def
  payment_mark_pending_def payment_mark_rejected_def journal_entry_new_def
  block_new_unsealed_def audit_event_new_def new_uuid_def utc_now_def

end
