(* ===== verification/Kani_Crypto.thy ===== *)
theory Kani_Crypto
  imports Rust_Std
begin

text \<open>
  Crypto profiles: \<open>crates/kani-crypto/src/lib.rs\<close>. The digests come from the crates
  \<open>sha2\<close>, \<open>sha3\<close> and \<open>hex\<close> and the JSON bytes from \<open>serde_json\<close>; they are parameters of
  the model: \<open>hashers\<close> holds the two functions from bytes to the hexadecimal digest, and a
  serialiser is a function to the bytes or an error message. What a theorem relies on is a
  named hypothesis about these parameters (\<open>no_collision\<close>).
\<close>

datatype crypto_error = Serialization string

datatype signature_algorithm = Ed25519 | MlDsa65

datatype hash_algorithm = Sha2_256 | Sha3_256

record crypto_profile =
  cp_name :: string
  cp_transaction_signature :: "signature_algorithm list"
  cp_validator_signature :: "signature_algorithm list"
  cp_hash :: hash_algorithm

definition hybrid_pqc_v1 :: crypto_profile where
  "hybrid_pqc_v1 = \<lparr>cp_name = ''hybrid-pqc-v1'', cp_transaction_signature = [Ed25519, MlDsa65],
     cp_validator_signature = [MlDsa65], cp_hash = Sha3_256\<rparr>"

record hashers =
  sha2_256_hex :: "string \<Rightarrow> string"
  sha3_256_hex :: "string \<Rightarrow> string"

definition hash_bytes :: "hashers \<Rightarrow> hash_algorithm \<Rightarrow> string \<Rightarrow> string" where
  "hash_bytes hs algorithm bytes =
     (case algorithm of
        Sha2_256 \<Rightarrow> sha2_256_hex hs bytes
      | Sha3_256 \<Rightarrow> sha3_256_hex hs bytes)"

definition hash_json ::
  "hashers \<Rightarrow> ('a \<Rightarrow> string + string) \<Rightarrow> hash_algorithm \<Rightarrow> 'a \<Rightarrow> crypto_error + string" where
  "hash_json hs to_vec algorithm value =
     and_then (map_err Serialization (to_vec value)) (\<lambda>bytes. Inr (hash_bytes hs algorithm bytes))"

definition signing_payload :: "crypto_profile \<Rightarrow> string \<Rightarrow> string \<Rightarrow> string" where
  "signing_payload profile validator_id block_hash =
     cp_name profile @ '':'' @ validator_id @ '':'' @ block_hash"

definition sandbox_validator_signature ::
  "hashers \<Rightarrow> crypto_profile \<Rightarrow> string \<Rightarrow> string \<Rightarrow> string" where
  "sandbox_validator_signature hs profile validator_id block_hash =
     hash_bytes hs (cp_hash profile) (signing_payload profile validator_id block_hash)"

text \<open>The digest behaves like a collision-resistant hash on the two given inputs.\<close>

definition no_collision :: "hashers \<Rightarrow> hash_algorithm \<Rightarrow> string \<Rightarrow> string \<Rightarrow> bool" where
  "no_collision hs alg x y \<longleftrightarrow> (hash_bytes hs alg x \<noteq> hash_bytes hs alg y \<or> x = y)"

lemma no_collisionD:
  "no_collision hs alg x y \<Longrightarrow> hash_bytes hs alg x = hash_bytes hs alg y \<Longrightarrow> x = y"
  by (auto simp: no_collision_def)

lemma append_sep_inject:
  fixes c :: char
  assumes "c \<notin> set t" "c \<notin> set t'"
  shows "s @ c # t = s' @ c # t' \<longleftrightarrow> s = s' \<and> t = t'"
proof
  assume "s @ c # t = s' @ c # t'"
  then have "Some (s, t) = Some (s', t')"
    using rsplit_once_append [OF assms(1), of s] rsplit_once_append [OF assms(2), of s'] by metis
  then show "s = s' \<and> t = t'" by simp
qed simp

lemma signing_payload_inject:
  assumes "CHR '':'' \<notin> set h" "CHR '':'' \<notin> set h'"
  shows "signing_payload profile v h = signing_payload profile v' h' \<longleftrightarrow> v = v' \<and> h = h'"
  using append_sep_inject [OF assms, of "cp_name profile @ '':'' @ v" "cp_name profile @ '':'' @ v'"]
  by (simp add: signing_payload_def)

text \<open>
  A validator signature binds the validator and the block hash: two signatures agree only for
  the same validator and the same hash, unless the digest collides on the two payloads. Block
  hashes are hexadecimal, so they contain no colon.
\<close>

lemma validator_signature_binds:
  assumes "CHR '':'' \<notin> set h" "CHR '':'' \<notin> set h'"
    and "no_collision hs (cp_hash profile) (signing_payload profile v h) (signing_payload profile v' h')"
    and "sandbox_validator_signature hs profile v h = sandbox_validator_signature hs profile v' h'"
  shows "v = v' \<and> h = h'"
  using assms by (auto simp: sandbox_validator_signature_def signing_payload_inject dest: no_collisionD)

end
