(* ===== verification/Kani_Compliance.thy ===== *)
theory Kani_Compliance
  imports Rust_Std
begin

text \<open>
  Compliance screening of sandbox payments: \<open>crates/kani-compliance/src/lib.rs\<close>. The screen
  is a chain of checks in a fixed order; the lemmas give, for every decision, the payments that
  receive it.
\<close>

datatype compliance_error = RealValueForbidden | RedemptionForbidden

record environment_flags =
  ef_env :: string
  ef_real_value :: bool
  ef_redeemable :: bool

definition environment_flags_sandbox :: environment_flags where
  "environment_flags_sandbox = \<lparr>ef_env = ''SANDBOX'', ef_real_value = False, ef_redeemable = False\<rparr>"

definition assert_sandbox_boundary :: "environment_flags \<Rightarrow> compliance_error + unit" where
  "assert_sandbox_boundary f =
     (if ef_real_value f then Inl RealValueForbidden
      else if ef_redeemable f then Inl RedemptionForbidden
      else Inr ())"

datatype compliance_decision = Allow | Review | Reject

record compliance_result =
  cr_decision :: compliance_decision
  cr_rule_id :: string
  cr_reason :: string

record compliance_payment =
  cpay_from :: string
  cpay_to :: string
  cpay_asset :: string
  cpay_amount :: i128

record sandbox_compliance_policy =
  pol_allowed_accounts :: "string list"
  pol_allowed_asset_prefixes :: "string list"
  pol_max_payment_amount :: i128
  pol_allow_self_transfers :: bool

definition policy_sandbox_default :: sandbox_compliance_policy where
  "policy_sandbox_default =
     \<lparr>pol_allowed_accounts = [''CORP_A'', ''CORP_B''],
      pol_allowed_asset_prefixes = [''KCAD_TEST'', ''KUSD_TEST''],
      pol_max_payment_amount = 500000, pol_allow_self_transfers = False\<rparr>"

definition account_allowed :: "sandbox_compliance_policy \<Rightarrow> string \<Rightarrow> bool" where
  "account_allowed policy acct = list_ex (\<lambda>allowed. allowed = acct) (pol_allowed_accounts policy)"

definition asset_allowed :: "sandbox_compliance_policy \<Rightarrow> string \<Rightarrow> bool" where
  "asset_allowed policy asset =
     list_ex (\<lambda>p. asset = p \<or> starts_with asset (p @ ''_'')) (pol_allowed_asset_prefixes policy)"

definition screen_reject :: "string \<Rightarrow> string \<Rightarrow> compliance_result" where
  "screen_reject rule_id reason = \<lparr>cr_decision = Reject, cr_rule_id = rule_id, cr_reason = reason\<rparr>"

definition screen_review :: "string \<Rightarrow> string \<Rightarrow> compliance_result" where
  "screen_review rule_id reason = \<lparr>cr_decision = Review, cr_rule_id = rule_id, cr_reason = reason\<rparr>"

definition screen_sandbox_payment_with_policy ::
  "sandbox_compliance_policy \<Rightarrow> compliance_payment \<Rightarrow> compliance_result" where
  "screen_sandbox_payment_with_policy policy payment =
     (let sender = trim (cpay_from payment); receiver = trim (cpay_to payment);
          asset = trim (cpay_asset payment) in
      if sender = [] \<or> receiver = [] \<or> asset = [] \<or> cpay_amount payment \<le> 0
      then screen_reject ''PAYMENT_SHAPE'' ''payment shape is invalid''
      else if \<not> pol_allow_self_transfers policy \<and> sender = receiver
      then screen_reject ''NO_SELF_TRANSFER'' ''self transfers are disabled in sandbox''
      else if \<not> account_allowed policy sender \<or> \<not> account_allowed policy receiver
      then screen_reject ''ACCOUNT_ALLOWLIST''
             ''sandbox payments are limited to approved test institution accounts''
      else if \<not> asset_allowed policy asset
      then screen_reject ''ASSET_ALLOWLIST''
             ''sandbox payment asset is not approved for this compliance profile''
      else if cpay_amount payment > pol_max_payment_amount policy
      then screen_review ''MAX_PAYMENT_AMOUNT''
             ''payment amount exceeds the sandbox straight-through-processing limit''
      else \<lparr>cr_decision = Allow, cr_rule_id = ''SANDBOX_STP'',
            cr_reason = ''sandbox-only payment allowed''\<rparr>)"

definition screen_sandbox_payment :: "string \<Rightarrow> string \<Rightarrow> string \<Rightarrow> i128 \<Rightarrow> compliance_result" where
  "screen_sandbox_payment sender receiver asset amount =
     screen_sandbox_payment_with_policy policy_sandbox_default
       \<lparr>cpay_from = sender, cpay_to = receiver, cpay_asset = asset, cpay_amount = amount\<rparr>"

lemmas screen_defs =
  screen_sandbox_payment_with_policy_def screen_reject_def screen_review_def Let_def

section \<open>What each decision means\<close>

text \<open>A payment the policy lets through to settlement or to manual review.\<close>

definition admissible :: "sandbox_compliance_policy \<Rightarrow> compliance_payment \<Rightarrow> bool" where
  "admissible policy p \<longleftrightarrow>
     trim (cpay_from p) \<noteq> [] \<and> trim (cpay_to p) \<noteq> [] \<and> trim (cpay_asset p) \<noteq> [] \<and>
     0 < cpay_amount p \<and>
     (pol_allow_self_transfers policy \<or> trim (cpay_from p) \<noteq> trim (cpay_to p)) \<and>
     account_allowed policy (trim (cpay_from p)) \<and> account_allowed policy (trim (cpay_to p)) \<and>
     asset_allowed policy (trim (cpay_asset p))"

lemma screen_not_admissible:
  "cr_decision (screen_sandbox_payment_with_policy policy p) = Reject \<longleftrightarrow> \<not> admissible policy p"
  by (auto simp: screen_defs admissible_def)

lemma screen_allow_iff:
  "cr_decision (screen_sandbox_payment_with_policy policy p) = Allow \<longleftrightarrow>
     admissible policy p \<and> cpay_amount p \<le> pol_max_payment_amount policy"
  by (auto simp: screen_defs admissible_def)

lemma screen_review_iff:
  "cr_decision (screen_sandbox_payment_with_policy policy p) = Review \<longleftrightarrow>
     admissible policy p \<and> pol_max_payment_amount policy < cpay_amount p"
  by (auto simp: screen_defs admissible_def)

text \<open>The rule named in the result determines the decision.\<close>

lemma screen_rule_decision:
  "cr_rule_id (screen_sandbox_payment_with_policy policy p) = ''SANDBOX_STP'' \<longleftrightarrow>
     cr_decision (screen_sandbox_payment_with_policy policy p) = Allow"
  "cr_rule_id (screen_sandbox_payment_with_policy policy p) = ''MAX_PAYMENT_AMOUNT'' \<longleftrightarrow>
     cr_decision (screen_sandbox_payment_with_policy policy p) = Review"
  by (simp_all add: screen_defs)

text \<open>Screening is monotone in the limit: a larger limit never turns an allowed payment away.\<close>

lemma screen_allow_mono:
  assumes "cr_decision (screen_sandbox_payment_with_policy policy p) = Allow"
    and "pol_max_payment_amount policy \<le> m"
  shows "cr_decision (screen_sandbox_payment_with_policy
           (policy\<lparr>pol_max_payment_amount := m\<rparr>) p) = Allow"
  using assms by (auto simp: screen_allow_iff admissible_def account_allowed_def asset_allowed_def)

text \<open>
  Claim C33. Screening partitions the payments. A payment is allowed exactly when it is
  admissible (both accounts and the asset are named and on the policy's lists, the amount is
  positive, and it is no forbidden self-transfer) and within the limit, goes to review exactly
  when it is admissible and above the limit, and is rejected exactly when it is not admissible.
  Whatever surrounds the names as white space changes nothing.
\<close>

theorem screening_partition:
  "(cr_decision (screen_sandbox_payment_with_policy policy p) = Allow \<longleftrightarrow>
      admissible policy p \<and> cpay_amount p \<le> pol_max_payment_amount policy) \<and>
   (cr_decision (screen_sandbox_payment_with_policy policy p) = Review \<longleftrightarrow>
      admissible policy p \<and> pol_max_payment_amount policy < cpay_amount p) \<and>
   (cr_decision (screen_sandbox_payment_with_policy policy p) = Reject \<longleftrightarrow> \<not> admissible policy p) \<and>
   screen_sandbox_payment_with_policy policy
     (p\<lparr>cpay_from := trim (cpay_from p), cpay_to := trim (cpay_to p),
        cpay_asset := trim (cpay_asset p)\<rparr>) = screen_sandbox_payment_with_policy policy p"
  by (simp add: screen_allow_iff screen_review_iff screen_not_admissible)
    (simp add: screen_sandbox_payment_with_policy_def Let_def)

end
