(* ===== verification/Kani_Consensus.thy ===== *)
theory Kani_Consensus
  imports Kani_Types
begin

text \<open>
  The consensus engines: \<open>crates/kani-consensus/src/lib.rs\<close>. A validator list rotates the
  leader by height; the proof-of-authority engine asks for two thirds of the active validators
  and the BFT prototype for strictly more. The trait \<open>ConsensusEngine\<close> is the locale
  \<open>consensus_engine\<close>: its assumptions are what the node relies on, its lemmas (any two vote
  sets overlap, votes are distinct active validators) are proved once, and it is interpreted on
  the two engines and on the configured engine that dispatches to them.
\<close>

section \<open>Validators, errors, configuration\<close>

definition PHASE1_POA_ENGINE_ID :: string where "PHASE1_POA_ENGINE_ID = ''phase1-poa''"
definition SANDBOX_BFT_ENGINE_ID :: string where "SANDBOX_BFT_ENGINE_ID = ''sandbox-bft-prototype''"
definition SANDBOX_BFT_VALIDATOR_SET_ID :: string where
  "SANDBOX_BFT_VALIDATOR_SET_ID = ''sandbox-bft-v1''"
definition SANDBOX_BFT_EPOCH :: i64 where "SANDBOX_BFT_EPOCH = 1"

datatype consensus_error =
  NotEnoughValidators
| InvalidHeight i64
| InactiveValidator string
| UnsupportedEngine string
| BftPrototypeNotEnabled string string
| InvalidEpoch i64 i64
| InvalidValidatorSet string string
| EmptyBlockHash
| InvalidQuorum usize usize
| DuplicateVote string
| FinalityProofBlockHashMismatch string string

record validator =
  val_id :: string
  val_public_key :: string
  val_active :: bool

definition validator_active :: "string \<Rightarrow> string \<Rightarrow> validator" where
  "validator_active i key = \<lparr>val_id = i, val_public_key = key, val_active = True\<rparr>"

datatype consensus_algorithm = Poa | Bft

record consensus_engine_config =
  cfg_engine_id :: string
  cfg_algorithm :: consensus_algorithm
  cfg_validators :: "validator list"

definition phase1_default_validators :: "validator list" where
  "phase1_default_validators =
     [validator_active ''validator-a'' ''sandbox-pubkey-a'',
      validator_active ''validator-b'' ''sandbox-pubkey-b'',
      validator_active ''validator-c'' ''sandbox-pubkey-c'']"

definition config_phase1_poa :: consensus_engine_config where
  "config_phase1_poa = \<lparr>cfg_engine_id = PHASE1_POA_ENGINE_ID, cfg_algorithm = Poa,
     cfg_validators = phase1_default_validators\<rparr>"

definition config_sandbox_bft_prototype :: consensus_engine_config where
  "config_sandbox_bft_prototype = \<lparr>cfg_engine_id = SANDBOX_BFT_ENGINE_ID, cfg_algorithm = Bft,
     cfg_validators = phase1_default_validators\<rparr>"

section \<open>The rotation both engines use\<close>

definition active_validators :: "validator list \<Rightarrow> validator list" where
  "active_validators vs = filter val_active vs"

definition round_robin_leader :: "validator list \<Rightarrow> i64 \<Rightarrow> consensus_error + validator" where
  "round_robin_leader vs height =
     (if height < 1 then Inl (InvalidHeight height)
      else let active = active_validators vs in
      if length active < 3 then Inl NotEnoughValidators
      else let index = nat (height - 1) mod length active in Inr (active ! index))"

definition rotating_votes ::
  "validator list \<Rightarrow> usize \<Rightarrow> i64 \<Rightarrow> consensus_error + string list" where
  "rotating_votes vs threshold height =
     (let active = active_validators vs in
      if length active < 3 then Inl NotEnoughValidators
      else and_then (round_robin_leader vs height) (\<lambda>leader.
        and_then (ok_or (InactiveValidator (val_id leader))
                   (position (\<lambda>v. val_id v = val_id leader) active)) (\<lambda>leader_index.
        Inr (map (\<lambda>offset. val_id (active ! ((leader_index + offset) mod length active)))
               [0..<threshold]))))"

section \<open>Proof of authority\<close>

record poa_consensus =
  poa_engine_id :: string
  poa_validators :: "validator list"

definition poa_new_phase1 :: "validator list \<Rightarrow> consensus_error + poa_consensus" where
  "poa_new_phase1 vs =
     (let consensus = \<lparr>poa_engine_id = PHASE1_POA_ENGINE_ID, poa_validators = vs\<rparr> in
      if length (active_validators (poa_validators consensus)) < 3 then Inl NotEnoughValidators
      else Inr consensus)"

definition poa_finality_threshold :: "poa_consensus \<Rightarrow> usize" where
  "poa_finality_threshold e =
     (let active = length (active_validators (poa_validators e)) in (active * 2 + 2) div 3)"

definition poa_leader_for_height :: "poa_consensus \<Rightarrow> i64 \<Rightarrow> consensus_error + validator" where
  "poa_leader_for_height e height = round_robin_leader (poa_validators e) height"

definition poa_finality_votes_for_block ::
  "poa_consensus \<Rightarrow> i64 \<Rightarrow> consensus_error + string list" where
  "poa_finality_votes_for_block e height =
     rotating_votes (poa_validators e) (poa_finality_threshold e) height"

section \<open>The BFT prototype\<close>

record bft_consensus =
  bft_engine_id :: string
  bft_validators :: "validator list"
  bft_validator_set :: validator_set
  bft_epoch :: i64

definition bft_new_sandbox_prototype ::
  "env \<Rightarrow> validator list \<Rightarrow> consensus_error + bft_consensus \<times> env" where
  "bft_new_sandbox_prototype w vs =
     (let active_count = length (filter val_active vs) in
      if active_count < 3 then Inl NotEnoughValidators
      else let (now, w) = utc_now w in
      Inr (\<lparr>bft_engine_id = SANDBOX_BFT_ENGINE_ID, bft_validators = vs,
            bft_validator_set =
              \<lparr>vs_id = SANDBOX_BFT_VALIDATOR_SET_ID, vs_epoch = SANDBOX_BFT_EPOCH,
               vs_validators = map (\<lambda>v. \<lparr>cv_id = val_id v, cv_public_key = val_public_key v,
                 cv_voting_power = (if val_active v then 1 else 0), cv_active = val_active v\<rparr>) vs,
               vs_created_at = now\<rparr>,
            bft_epoch = SANDBOX_BFT_EPOCH\<rparr>, w))"

definition bft_finality_threshold :: "bft_consensus \<Rightarrow> usize" where
  "bft_finality_threshold e =
     (let active = length (active_validators (bft_validators e)) in active * 2 div 3 + 1)"

definition bft_leader_for_height :: "bft_consensus \<Rightarrow> i64 \<Rightarrow> consensus_error + validator" where
  "bft_leader_for_height e height = round_robin_leader (bft_validators e) height"

definition bft_finality_votes_for_block ::
  "bft_consensus \<Rightarrow> i64 \<Rightarrow> consensus_error + string list" where
  "bft_finality_votes_for_block e height =
     rotating_votes (bft_validators e) (bft_finality_threshold e) height"

text \<open>
  The loop over the voters of a certificate or a block: every voter must be an active
  validator and no voter may appear twice. The node runs the same loop with its own errors.
\<close>

fun scan_voters ::
  "(string \<Rightarrow> 'e) \<Rightarrow> (string \<Rightarrow> 'e) \<Rightarrow> string list \<Rightarrow> string list \<Rightarrow> string list \<Rightarrow> 'e + string list" where
  "scan_voters unknown dup active seen [] = Inr seen"
| "scan_voters unknown dup active seen (voter # voters) =
     (if voter \<notin> set active then Inl (unknown voter)
      else if voter \<in> set seen then Inl (dup voter)
      else scan_voters unknown dup active (voter # seen) voters)"

definition verify_quorum_certificate ::
  "bft_consensus \<Rightarrow> quorum_certificate \<Rightarrow> consensus_error + unit" where
  "verify_quorum_certificate e qc =
     (if qc_epoch qc \<noteq> bft_epoch e then Inl (InvalidEpoch (bft_epoch e) (qc_epoch qc))
      else if trim (qc_block_hash qc) = [] then Inl EmptyBlockHash
      else let required = bft_finality_threshold e in
      if length (qc_voters qc) < required then Inl (InvalidQuorum (length (qc_voters qc)) required)
      else and_then (scan_voters InactiveValidator DuplicateVote
                       (map val_id (active_validators (bft_validators e))) [] (qc_voters qc))
             (\<lambda>_. Inr ()))"

definition verify_finality_proof :: "bft_consensus \<Rightarrow> finality_proof \<Rightarrow> consensus_error + unit" where
  "verify_finality_proof e p =
     (if fp_validator_set_id p \<noteq> vs_id (bft_validator_set e)
      then Inl (InvalidValidatorSet (vs_id (bft_validator_set e)) (fp_validator_set_id p))
      else if fp_block_hash p \<noteq> qc_block_hash (fp_quorum_certificate p)
      then Inl (FinalityProofBlockHashMismatch (fp_block_hash p)
                 (qc_block_hash (fp_quorum_certificate p)))
      else verify_quorum_certificate e (fp_quorum_certificate p))"

fun vote_kind_label :: "consensus_vote_kind \<Rightarrow> string" where
  "vote_kind_label Prevote = ''prevote''"
| "vote_kind_label Precommit = ''precommit''"
| "vote_kind_label Finality = ''finality''"

definition prototype_signature :: "string \<Rightarrow> string \<Rightarrow> string \<Rightarrow> string" where
  "prototype_signature voter proposal_id block_hash =
     ''sandbox-bft-signature:'' @ voter @ '':'' @ proposal_id @ '':'' @ block_hash"

fun build_votes ::
  "env \<Rightarrow> consensus_proposal \<Rightarrow> string list \<Rightarrow> consensus_vote_kind \<Rightarrow> consensus_vote list \<times> env" where
  "build_votes w p [] kind = ([], w)"
| "build_votes w p (voter # voters) kind =
     (let (now, w) = utc_now w; (votes, w) = build_votes w p voters kind in
      (\<lparr>vote_id = prop_id p @ '':'' @ vote_kind_label kind @ '':'' @ int_to_dec (prop_round p)
          @ '':'' @ voter,
        vote_proposal_id = prop_id p, vote_height = prop_height p, vote_round = prop_round p,
        vote_epoch = prop_epoch p, vote_voter = voter, vote_kind = kind,
        vote_block_hash = prop_block_hash p,
        vote_signature = prototype_signature voter (prop_id p) (prop_block_hash p),
        vote_created_at = now\<rparr> # votes, w))"

definition build_certificate ::
  "env \<Rightarrow> consensus_proposal \<Rightarrow> string list \<Rightarrow> consensus_vote_kind \<Rightarrow> quorum_certificate \<times> env" where
  "build_certificate w p voters kind =
     (let (now, w) = utc_now w in
      (\<lparr>qc_id = prop_id p @ '':'' @ vote_kind_label kind @ '':'' @ ''qc'',
        qc_height = prop_height p, qc_round = prop_round p, qc_epoch = prop_epoch p,
        qc_block_hash = prop_block_hash p, qc_vote_kind = kind, qc_voters = voters,
        qc_signature = prototype_signature ''quorum'' (prop_id p) (prop_block_hash p),
        qc_created_at = now\<rparr>, w))"

record bft_finality_prototype =
  bfp_validator_set :: validator_set
  bfp_proposal :: consensus_proposal
  bfp_prevotes :: "consensus_vote list"
  bfp_precommits :: "consensus_vote list"
  bfp_precommit_qc :: quorum_certificate
  bfp_finality_proof :: finality_proof

definition simulate_finality_proof ::
  "env \<Rightarrow> bft_consensus \<Rightarrow> i64 \<Rightarrow> string \<Rightarrow> string \<Rightarrow> consensus_error + bft_finality_prototype \<times> env" where
  "simulate_finality_proof w e height prev_hash block_hash =
     (let round = 0 in
      if trim block_hash = [] then Inl EmptyBlockHash
      else and_then (bft_leader_for_height e height) (\<lambda>proposer.
        let (now, w) = utc_now w;
            proposal = \<lparr>prop_id = vs_id (bft_validator_set e) @ '':'' @ int_to_dec height @ '':''
                @ int_to_dec round @ '':'' @ block_hash,
              prop_height = height, prop_round = round, prop_epoch = bft_epoch e,
              prop_proposer = val_id proposer, prop_block_hash = block_hash,
              prop_prev_hash = prev_hash, prop_created_at = now\<rparr> in
        and_then (bft_finality_votes_for_block e height) (\<lambda>voters.
        let (prevotes, w) = build_votes w proposal voters Prevote;
            (precommits, w) = build_votes w proposal voters Precommit;
            (precommit_qc, w) = build_certificate w proposal voters Precommit in
        and_then (verify_quorum_certificate e precommit_qc) (\<lambda>_.
        let (finalized_at, w) = utc_now w;
            proof = \<lparr>fp_block_height = height, fp_block_hash = block_hash,
              fp_validator_set_id = vs_id (bft_validator_set e),
              fp_quorum_certificate = precommit_qc, fp_finalized_at = finalized_at\<rparr> in
        and_then (verify_finality_proof e proof) (\<lambda>_.
        Inr (\<lparr>bfp_validator_set = bft_validator_set e, bfp_proposal = proposal,
              bfp_prevotes = prevotes, bfp_precommits = precommits,
              bfp_precommit_qc = precommit_qc, bfp_finality_proof = proof\<rparr>, w))))))"

section \<open>The configured engine\<close>

datatype configured_consensus_engine = EnginePoa poa_consensus | EngineBft bft_consensus

definition build_engine ::
  "env \<Rightarrow> consensus_engine_config \<Rightarrow> consensus_error + configured_consensus_engine \<times> env" where
  "build_engine w cfg =
     (case cfg_algorithm cfg of
        Poa \<Rightarrow> and_then (poa_new_phase1 (cfg_validators cfg)) (\<lambda>e. Inr (EnginePoa e, w))
      | Bft \<Rightarrow>
          if cfg_engine_id cfg \<noteq> SANDBOX_BFT_ENGINE_ID
          then Inl (BftPrototypeNotEnabled SANDBOX_BFT_ENGINE_ID (cfg_engine_id cfg))
          else and_then (bft_new_sandbox_prototype w (cfg_validators cfg))
                 (\<lambda>(e, w). Inr (EngineBft e, w)))"

fun engine_id :: "configured_consensus_engine \<Rightarrow> string" where
  "engine_id (EnginePoa e) = poa_engine_id e"
| "engine_id (EngineBft e) = bft_engine_id e"

fun engine_algorithm :: "configured_consensus_engine \<Rightarrow> consensus_algorithm" where
  "engine_algorithm (EnginePoa e) = Poa"
| "engine_algorithm (EngineBft e) = Bft"

fun engine_validators :: "configured_consensus_engine \<Rightarrow> validator list" where
  "engine_validators (EnginePoa e) = poa_validators e"
| "engine_validators (EngineBft e) = bft_validators e"

fun engine_finality_threshold :: "configured_consensus_engine \<Rightarrow> usize" where
  "engine_finality_threshold (EnginePoa e) = poa_finality_threshold e"
| "engine_finality_threshold (EngineBft e) = bft_finality_threshold e"

fun engine_leader_for_height ::
  "configured_consensus_engine \<Rightarrow> i64 \<Rightarrow> consensus_error + validator" where
  "engine_leader_for_height (EnginePoa e) height = poa_leader_for_height e height"
| "engine_leader_for_height (EngineBft e) height = bft_leader_for_height e height"

fun engine_finality_votes_for_block ::
  "configured_consensus_engine \<Rightarrow> i64 \<Rightarrow> consensus_error + string list" where
  "engine_finality_votes_for_block (EnginePoa e) height = poa_finality_votes_for_block e height"
| "engine_finality_votes_for_block (EngineBft e) height = bft_finality_votes_for_block e height"

definition engine_active_validators :: "configured_consensus_engine \<Rightarrow> validator list" where
  "engine_active_validators e = active_validators (engine_validators e)"

section \<open>Rotation: leaders and votes\<close>

text \<open>A validator list an engine can run on: enough active validators, no id twice.\<close>

definition well_formed_validators :: "validator list \<Rightarrow> bool" where
  "well_formed_validators vs \<longleftrightarrow>
     3 \<le> length (active_validators vs) \<and> distinct (map val_id (active_validators vs))"

abbreviation active_ids :: "validator list \<Rightarrow> string list" where
  "active_ids vs \<equiv> map val_id (active_validators vs)"

lemma round_robin_leader_ok:
  assumes "3 \<le> length (active_validators vs)" "1 \<le> h"
  shows "round_robin_leader vs h =
    Inr (active_validators vs ! (nat (h - 1) mod length (active_validators vs)))"
  using assms by (simp add: round_robin_leader_def Let_def)

lemma rotating_votes_ok:
  assumes wf: "well_formed_validators vs" and h: "1 \<le> h"
  shows "rotating_votes vs t h =
    Inr (circular (nat (h - 1) mod length (active_validators vs)) t (active_ids vs))"
proof -
  let ?A = "active_validators vs"
  let ?i = "nat (h - 1) mod length ?A"
  have n: "3 \<le> length ?A" and d: "distinct (map val_id ?A)"
    using wf by (simp_all add: well_formed_validators_def)
  then have i: "?i < length ?A" by (intro mod_length_less [of 3]) simp_all
  have "round_robin_leader vs h = Inr (?A ! ?i)" by (rule round_robin_leader_ok [OF n h])
  moreover have "position (\<lambda>v. val_id v = val_id (?A ! ?i)) ?A = Some ?i"
    by (rule position_nth [OF d i])
  moreover have "?A \<noteq> []" using n by (intro length_pos_nonempty [of 3]) simp_all
  ultimately show ?thesis
    using n by (simp add: rotating_votes_def Let_def map_circular [symmetric] circular_def)
qed

lemma rotating_votes_spec:
  assumes wf: "well_formed_validators vs" and h: "1 \<le> h" and "t \<le> length (active_validators vs)"
    and "0 < t"
  obtains ls l where "rotating_votes vs t h = Inr ls" "round_robin_leader vs h = Inr l"
    "length ls = t" "distinct ls" "set ls \<subseteq> set (active_ids vs)" "val_id l \<in> set ls"
proof -
  let ?A = "active_validators vs"
  let ?i = "nat (h - 1) mod length ?A"
  have n: "3 \<le> length ?A" and d: "distinct (active_ids vs)"
    using wf by (simp_all add: well_formed_validators_def)
  then have i: "?i < length ?A" by (intro mod_length_less [of 3]) simp_all
  show thesis
  proof (rule that [OF rotating_votes_ok [OF wf h] round_robin_leader_ok [OF n h]])
    show "distinct (circular ?i t (active_ids vs))" using d assms(3) by (intro distinct_circular) simp_all
    show "set (circular ?i t (active_ids vs)) \<subseteq> set (active_ids vs)" using length_pos_nonempty [OF _ n] by (intro set_circular) simp
    have "active_ids vs ! ?i \<in> set (circular ?i t (active_ids vs))"
      using i assms(4) by (intro circular_head) simp_all
    with i show "val_id (?A ! ?i) \<in> set (circular ?i t (active_ids vs))" by simp
  qed simp
qed

text \<open>In any window of as many heights as there are active validators, each leads once.\<close>

lemma window_residue:
  fixes i n h :: int
  assumes "0 \<le> i" "i < n"
  shows "\<exists>!k. h \<le> k \<and> k < h + n \<and> (k - 1) mod n = i"
proof (rule ex1I [of _ "h + (i + 1 - h) mod n"])
  have "(h + (i + 1 - h) mod n - 1) mod n = (h - 1 + (i + 1 - h)) mod n"
    by (metis (no_types, opaque_lifting) add.commute add_diff_eq mod_add_left_eq)
  then show "h \<le> h + (i + 1 - h) mod n \<and> h + (i + 1 - h) mod n < h + n \<and>
      (h + (i + 1 - h) mod n - 1) mod n = i"
    using assms by simp
next
  fix k
  assume k: "h \<le> k \<and> k < h + n \<and> (k - 1) mod n = i"
  have "(i + 1 - h) mod n = ((k - 1) mod n + 1 - h) mod n" using k by simp
  also have "\<dots> = (k - 1 + (1 - h)) mod n" by (metis add_diff_eq mod_add_left_eq)
  also have "\<dots> = k - h" using k by (simp add: mod_pos_pos_trivial)
  finally show "k = h + (i + 1 - h) mod n" by simp
qed

lemma leader_window:
  assumes n: "3 \<le> length (active_validators vs)" and h: "1 \<le> h"
    and i: "i < length (active_validators vs)" and d: "distinct (active_ids vs)"
  shows "\<exists>!k. h \<le> k \<and> k < h + int (length (active_validators vs)) \<and>
    round_robin_leader vs k = Inr (active_validators vs ! i)"
proof -
  let ?A = "active_validators vs"
  have leader: "round_robin_leader vs k = Inr (?A ! i) \<longleftrightarrow> (k - 1) mod int (length ?A) = int i"
    if "h \<le> k" for k
  proof -
    have eq: "round_robin_leader vs k = Inr (?A ! (nat (k - 1) mod length ?A))"
      using n h that by (intro round_robin_leader_ok) simp_all
    have "nat (k - 1) mod length ?A < length ?A" using n by (intro mod_length_less [of 3]) simp_all
    moreover have "distinct ?A" using d by (simp add: distinct_map)
    ultimately have "round_robin_leader vs k = Inr (?A ! i) \<longleftrightarrow> nat (k - 1) mod length ?A = i"
      using i by (simp add: eq nth_eq_iff_index_eq)
    also have "\<dots> \<longleftrightarrow> int (nat (k - 1)) mod int (length ?A) = int i"
      by (metis of_nat_eq_iff of_nat_mod)
    finally show ?thesis using h that by simp
  qed
  have "\<exists>!k. h \<le> k \<and> k < h + int (length ?A) \<and> (k - 1) mod int (length ?A) = int i"
    using i by (intro window_residue) simp_all
  then show ?thesis using leader by (metis (no_types, lifting))
qed

section \<open>The voter scan\<close>

lemma scan_voters_Inr:
  "scan_voters u d active seen vs = Inr seen' \<longleftrightarrow>
     set vs \<subseteq> set active \<and> distinct vs \<and> set vs \<inter> set seen = {} \<and> seen' = rev vs @ seen"
  by (induction vs arbitrary: seen) auto

lemma scan_voters_ok:
  "set vs \<subseteq> set active \<Longrightarrow> distinct vs \<Longrightarrow> scan_voters u d active [] vs = Inr (rev vs)"
  by (simp add: scan_voters_Inr)

lemma scan_voters_Inl:
  assumes "scan_voters u d active seen vs = Inl err"
  shows "\<exists>v\<in>set vs. (v \<notin> set active \<and> err = u v) \<or>
    (v \<in> set active \<and> err = d v \<and> (v \<in> set seen \<or> \<not> distinct vs))"
  using assms by (induction vs arbitrary: seen) (fastforce split: if_splits)+

section \<open>The engine interface\<close>

text \<open>What the node relies on of an engine, and what follows for the votes of any two blocks.\<close>

locale consensus_engine =
  fixes validators :: "'e \<Rightarrow> validator list"
    and threshold :: "'e \<Rightarrow> usize"
    and leader :: "'e \<Rightarrow> i64 \<Rightarrow> consensus_error + validator"
    and votes :: "'e \<Rightarrow> i64 \<Rightarrow> consensus_error + string list"
  assumes leader_rotates: "leader e h = round_robin_leader (validators e) h"
    and votes_rotate: "votes e h = rotating_votes (validators e) (threshold e) h"
    and threshold_majority: "length (active_validators (validators e)) < 2 * threshold e
          \<or> active_validators (validators e) = []"
    and threshold_bounded:
      "3 \<le> length (active_validators (validators e)) \<Longrightarrow>
        threshold e \<le> length (active_validators (validators e))"
begin

lemma threshold_pos: "well_formed_validators (validators e) \<Longrightarrow> 0 < threshold e"
  using threshold_majority [of e] length_pos_nonempty [of 3 "active_validators (validators e)"]
  by (simp add: well_formed_validators_def)

lemma votes_spec:
  assumes wf: "well_formed_validators (validators e)" and "1 \<le> h"
  obtains ls l where "votes e h = Inr ls" "leader e h = Inr l" "length ls = threshold e"
    "distinct ls" "set ls \<subseteq> set (active_ids (validators e))" "val_id l \<in> set ls"
  using rotating_votes_spec [OF assms threshold_bounded threshold_pos [OF wf]] wf
  unfolding leader_rotates [symmetric] votes_rotate [symmetric] well_formed_validators_def by blast

lemma leader_height: "leader e h = Inr l \<Longrightarrow> 1 \<le> h"
  by (auto simp: leader_rotates round_robin_leader_def split: if_splits)

lemma quorums_overlap:
  assumes wf: "well_formed_validators (validators e)"
    and A: "set as \<subseteq> set (active_ids (validators e))" "distinct as" "threshold e \<le> length as"
    and B: "set bs \<subseteq> set (active_ids (validators e))" "distinct bs" "threshold e \<le> length bs"
  shows "2 * threshold e - length (active_validators (validators e)) \<le> card (set as \<inter> set bs)"
    and "set as \<inter> set bs \<noteq> {}"
proof -
  let ?U = "set (active_ids (validators e))"
  have U: "card ?U = length (active_validators (validators e))"
    using wf distinct_card [of "active_ids (validators e)"] by (simp add: well_formed_validators_def)
  have "card (set as) + card (set bs) \<le> card ?U + card (set as \<inter> set bs)"
    using A(1) B(1) by (intro card_overlap) simp_all
  then show *: "2 * threshold e - length (active_validators (validators e)) \<le> card (set as \<inter> set bs)"
    using A B U by (simp add: distinct_card)
  from wf have "active_validators (validators e) \<noteq> []"
    by (intro length_pos_nonempty [of 3]) (simp_all add: well_formed_validators_def)
  with threshold_majority [of e]
  have "0 < 2 * threshold e - length (active_validators (validators e))" by simp
  from this * have "0 < card (set as \<inter> set bs)" by (rule less_le_trans)
  then show "set as \<inter> set bs \<noteq> {}" by (metis card.empty less_irrefl)
qed

end

lemmas poa_defs = poa_leader_for_height_def poa_finality_votes_for_block_def
lemmas bft_defs = bft_leader_for_height_def bft_finality_votes_for_block_def

lemma two_thirds_up_majority: "0 < n \<Longrightarrow> n < 2 * ((n * 2 + 2) div 3)"
  for n :: nat
  by presburger

interpretation poa: consensus_engine poa_validators poa_finality_threshold
  poa_leader_for_height poa_finality_votes_for_block
proof unfold_locales
  fix e :: poa_consensus
  let ?n = "length (active_validators (poa_validators e))"
  show "?n < 2 * poa_finality_threshold e \<or> active_validators (poa_validators e) = []"
    using two_thirds_up_majority [of ?n] by (auto simp: poa_finality_threshold_def Let_def)
qed (simp_all add: poa_defs poa_finality_threshold_def Let_def)

interpretation bft: consensus_engine bft_validators bft_finality_threshold
  bft_leader_for_height bft_finality_votes_for_block
  by unfold_locales (auto simp: bft_defs bft_finality_threshold_def Let_def)

interpretation engine: consensus_engine engine_validators engine_finality_threshold
  engine_leader_for_height engine_finality_votes_for_block
proof unfold_locales
  fix e h
  show "engine_leader_for_height e h = round_robin_leader (engine_validators e) h"
    by (cases e) (simp_all add: poa_defs bft_defs)
  show "engine_finality_votes_for_block e h =
      rotating_votes (engine_validators e) (engine_finality_threshold e) h"
    by (cases e) (simp_all add: poa_defs bft_defs)
  show "length (active_validators (engine_validators e)) < 2 * engine_finality_threshold e
      \<or> active_validators (engine_validators e) = []"
    using poa.threshold_majority bft.threshold_majority by (cases e) simp_all
  show "engine_finality_threshold e \<le> length (active_validators (engine_validators e))"
    if "3 \<le> length (active_validators (engine_validators e))"
    using that poa.threshold_bounded bft.threshold_bounded by (cases e) simp_all
qed

section \<open>Certificates and finality proofs\<close>

lemma verify_quorum_certificate_iff:
  "verify_quorum_certificate e qc = Inr () \<longleftrightarrow>
     qc_epoch qc = bft_epoch e \<and> trim (qc_block_hash qc) \<noteq> [] \<and>
     bft_finality_threshold e \<le> length (qc_voters qc) \<and>
     set (qc_voters qc) \<subseteq> set (active_ids (bft_validators e)) \<and> distinct (qc_voters qc)"
  by (auto simp: verify_quorum_certificate_def Let_def res_simps scan_voters_Inr)

lemma build_certificateD:
  "build_certificate w p vs k = (q, w') \<Longrightarrow>
     qc_epoch q = prop_epoch p \<and> qc_block_hash q = prop_block_hash p \<and> qc_voters q = vs"
  by (auto simp: build_certificate_def utc_now_def Let_def)

lemma build_votesD:
  "build_votes w p vs k = (r, w') \<Longrightarrow>
     map vote_voter r = vs \<and> (\<forall>v\<in>set r. vote_block_hash v = prop_block_hash p)"
  by (induction w p vs k arbitrary: r w' rule: build_votes.induct)
    (auto simp: Let_def utc_now_def split: prod.splits)

definition sample_bft :: bft_consensus where
  "sample_bft = \<lparr>bft_engine_id = SANDBOX_BFT_ENGINE_ID, bft_validators = phase1_default_validators,
     bft_validator_set = \<lparr>vs_id = SANDBOX_BFT_VALIDATOR_SET_ID, vs_epoch = SANDBOX_BFT_EPOCH,
       vs_validators = [], vs_created_at = 0\<rparr>, bft_epoch = SANDBOX_BFT_EPOCH\<rparr>"

definition sample_qc :: quorum_certificate where
  "sample_qc = \<lparr>qc_id = ''qc'', qc_height = 1, qc_round = 0, qc_epoch = SANDBOX_BFT_EPOCH,
     qc_block_hash = ''h1'', qc_vote_kind = Precommit,
     qc_voters = [''validator-a'', ''validator-b'', ''validator-c''], qc_signature = [],
     qc_created_at = 0\<rparr>"

lemma well_formed_default: "well_formed_validators phase1_default_validators"
  by (simp add: well_formed_validators_def phase1_default_validators_def validator_active_def
      active_validators_def)

lemma well_formed_sample_bft: "well_formed_validators (bft_validators sample_bft)"
  by (simp add: sample_bft_def well_formed_default)

text \<open>
  Claim C28. Quorum intersection of the BFT prototype. Any two quorum certificates that
  \<open>verify_quorum_certificate\<close> accepts have more than a third of the active validators in
  common, whatever the blocks they certify: so two conflicting blocks can only both be
  certified when more than a third of the validators vote twice.
\<close>

theorem quorum_certificates_intersect:
  assumes "well_formed_validators (bft_validators e)"
    and "verify_quorum_certificate e qc = Inr ()" "verify_quorum_certificate e qc' = Inr ()"
  shows "length (active_validators (bft_validators e)) <
    3 * card (set (qc_voters qc) \<inter> set (qc_voters qc') \<inter> set (active_ids (bft_validators e)))"
proof -
  have "2 * bft_finality_threshold e - length (active_validators (bft_validators e))
      \<le> card (set (qc_voters qc) \<inter> set (qc_voters qc'))"
    using assms bft.quorums_overlap(1) by (simp add: verify_quorum_certificate_iff)
  moreover have "set (qc_voters qc) \<inter> set (qc_voters qc') \<inter> set (active_ids (bft_validators e)) =
      set (qc_voters qc) \<inter> set (qc_voters qc')"
    using assms(2) by (auto simp: verify_quorum_certificate_iff)
  ultimately show ?thesis by (simp add: bft_finality_threshold_def Let_def)
qed

theorem quorum_certificates_intersect_witness:
  "length (active_validators (bft_validators sample_bft)) <
    3 * card (set (qc_voters sample_qc) \<inter> set (qc_voters sample_qc)
      \<inter> set (active_ids (bft_validators sample_bft)))"
proof (rule quorum_certificates_intersect [OF well_formed_sample_bft])
  show "verify_quorum_certificate sample_bft sample_qc = Inr ()" by code_simp
  show "verify_quorum_certificate sample_bft sample_qc = Inr ()" by code_simp
qed

text \<open>
  Claim C29. The BFT prototype produces a finality proof exactly for a height of at least 1 and a
  block hash that is not blank, and what it produces verifies: its certificate holds the
  precommits of a quorum of distinct validators that includes the proposer, every prevote and
  precommit is for the given block hash, and \<open>verify_finality_proof\<close> accepts the proof.
\<close>

theorem simulate_finality_proof_spec:
  assumes wf: "well_formed_validators (bft_validators e)"
  shows "case simulate_finality_proof w e h prev bh of
      Inl err \<Rightarrow> h < 1 \<or> trim bh = []
    | Inr (r, w') \<Rightarrow> 1 \<le> h \<and> trim bh \<noteq> [] \<and>
        verify_finality_proof e (bfp_finality_proof r) = Inr () \<and>
        fp_block_hash (bfp_finality_proof r) = bh \<and>
        map vote_voter (bfp_prevotes r) = qc_voters (bfp_precommit_qc r) \<and>
        map vote_voter (bfp_precommits r) = qc_voters (bfp_precommit_qc r) \<and>
        length (qc_voters (bfp_precommit_qc r)) = bft_finality_threshold e \<and>
        prop_proposer (bfp_proposal r) \<in> set (qc_voters (bfp_precommit_qc r)) \<and>
        (\<forall>v \<in> set (bfp_prevotes r @ bfp_precommits r). vote_block_hash v = bh)"
proof (cases "1 \<le> h \<and> trim bh \<noteq> []")
  case True
  obtain ls l where votes: "bft_finality_votes_for_block e h = Inr ls"
    "bft_leader_for_height e h = Inr l" "length ls = bft_finality_threshold e" "distinct ls"
    "set ls \<subseteq> set (active_ids (bft_validators e))" "val_id l \<in> set ls"
    using bft.votes_spec [OF wf] True by blast
  let ?w = "w\<lparr>ticks := ticks w + 1\<rparr>"
  let ?p = "\<lparr>prop_id = vs_id (bft_validator_set e) @ '':'' @ int_to_dec h @ '':''
                @ int_to_dec 0 @ '':'' @ bh,
              prop_height = h, prop_round = 0, prop_epoch = bft_epoch e,
              prop_proposer = val_id l, prop_block_hash = bh,
              prop_prev_hash = prev, prop_created_at = clock w (ticks w)\<rparr>"
  obtain pv w1 where pv: "build_votes ?w ?p ls Prevote = (pv, w1)" by force
  obtain pc w2 where pc: "build_votes w1 ?p ls Precommit = (pc, w2)" by force
  obtain q w3 where q: "build_certificate w2 ?p ls Precommit = (q, w3)" by force
  have q_sel: "qc_epoch q = bft_epoch e" "qc_block_hash q = bh" "qc_voters q = ls"
    using build_certificateD [OF q] by simp_all
  have verified: "verify_quorum_certificate e q = Inr ()"
    using True votes by (simp add: verify_quorum_certificate_iff q_sel)
  have "map vote_voter pv = ls \<and> map vote_voter pc = ls \<and>
      (\<forall>v \<in> set (pv @ pc). vote_block_hash v = bh)"
    using build_votesD [OF pv] build_votesD [OF pc] by auto
  with True votes verified q_sel pv pc q show ?thesis
    by (simp add: simulate_finality_proof_def Let_def utc_now_def verify_finality_proof_def)
next
  case False
  then show ?thesis
    by (auto simp: simulate_finality_proof_def Let_def bft_defs round_robin_leader_def)
qed

theorem simulate_finality_proof_witness:
  "\<exists>r w'. simulate_finality_proof sample_env sample_bft 1 GENESIS_HASH ''block-hash-1'' = Inr (r, w')
    \<and> verify_finality_proof sample_bft (bfp_finality_proof r) = Inr ()
    \<and> length (qc_voters (bfp_precommit_qc r)) = 3"
proof -
  have "trim ''block-hash-1'' \<noteq> []" by code_simp
  moreover have "bft_finality_threshold sample_bft = 3" by code_simp
  ultimately show ?thesis
    using simulate_finality_proof_spec [OF well_formed_sample_bft,
        where w = sample_env and h = 1 and prev = GENESIS_HASH and bh = "''block-hash-1''"]
    by (cases "simulate_finality_proof sample_env sample_bft 1 GENESIS_HASH ''block-hash-1''") auto
qed

text \<open>
  Leadership rotates fairly. From any height on, in the next \<open>n\<close> heights (\<open>n\<close> the
  number of active validators) every active validator is the leader of exactly one height.
\<close>

theorem leader_rotation_fair:
  assumes "well_formed_validators (engine_validators e)" "1 \<le> h"
    and "i < length (engine_active_validators e)"
  shows "\<exists>!k. h \<le> k \<and> k < h + int (length (engine_active_validators e)) \<and>
    engine_leader_for_height e k = Inr (engine_active_validators e ! i)"
  using leader_window [of "engine_validators e" h i] assms
  by (simp add: engine.leader_rotates engine_active_validators_def well_formed_validators_def)

theorem leader_rotation_fair_witness:
  "\<exists>!k. 5 \<le> k \<and> k < 5 + int (length (engine_active_validators (EngineBft sample_bft))) \<and>
    engine_leader_for_height (EngineBft sample_bft) k =
      Inr (engine_active_validators (EngineBft sample_bft) ! 2)"
proof (rule leader_rotation_fair)
  show "well_formed_validators (engine_validators (EngineBft sample_bft))"
    by (simp add: well_formed_sample_bft)
  show "2 < length (engine_active_validators (EngineBft sample_bft))" by code_simp
qed simp

text \<open>
  The configuration decides the engine. \<open>build_engine\<close> fails exactly when a BFT
  configuration does not carry the sandbox prototype's id or fewer than three validators are
  active; otherwise the engine runs the configured algorithm on the configured validators, and
  its threshold is a strict majority of the active validators that they can always reach.
\<close>

theorem build_engine_spec:
  "case build_engine w cfg of
     Inl err \<Rightarrow>
       (cfg_algorithm cfg = Bft \<and> cfg_engine_id cfg \<noteq> SANDBOX_BFT_ENGINE_ID \<and>
          err = BftPrototypeNotEnabled SANDBOX_BFT_ENGINE_ID (cfg_engine_id cfg)) \<or>
       (length (active_validators (cfg_validators cfg)) < 3 \<and> err = NotEnoughValidators)
   | Inr (e, w') \<Rightarrow>
       3 \<le> length (active_validators (cfg_validators cfg)) \<and>
       engine_algorithm e = cfg_algorithm cfg \<and> engine_validators e = cfg_validators cfg \<and>
       length (engine_active_validators e) < 2 * engine_finality_threshold e \<and>
       engine_finality_threshold e \<le> length (engine_active_validators e)"
proof (cases "build_engine w cfg")
  case (Inl err)
  then show ?thesis
    by (auto simp: build_engine_def poa_new_phase1_def bft_new_sandbox_prototype_def Let_def
        active_validators_def res_simps split: consensus_algorithm.splits if_splits prod.splits)
next
  case (Inr r)
  obtain e w' where r: "r = (e, w')" by force
  from Inr r have "3 \<le> length (active_validators (cfg_validators cfg)) \<and>
       engine_algorithm e = cfg_algorithm cfg \<and> engine_validators e = cfg_validators cfg"
    by (auto simp: build_engine_def poa_new_phase1_def bft_new_sandbox_prototype_def Let_def
        active_validators_def res_simps split: consensus_algorithm.splits if_splits prod.splits)
  then show ?thesis
    using Inr r engine.threshold_majority [of e] engine.threshold_bounded [of e]
      length_pos_nonempty [of 3 "active_validators (cfg_validators cfg)"]
    by (simp add: engine_active_validators_def)
qed

text \<open>
  What \<open>verify_finality_proof\<close> does not look at. Its verdict does not depend on the
  block height and the time of the proof, nor on the height, round, vote kind, signature, id and
  time of the certificate: a certificate of prevotes, or one for another height, is accepted as a
  finality proof whenever the block hashes agree.
\<close>

theorem finality_proof_unchecked_fields:
  "verify_finality_proof e
     (p\<lparr>fp_block_height := height, fp_finalized_at := finalized,
        fp_quorum_certificate := (fp_quorum_certificate p)
          \<lparr>qc_id := i, qc_height := qc_h, qc_round := r, qc_vote_kind := kind,
            qc_signature := sig, qc_created_at := created\<rparr>\<rparr>) =
   verify_finality_proof e p"
  by (cases "fp_quorum_certificate p")
    (simp add: verify_finality_proof_def verify_quorum_certificate_def Let_def)

end
