(* ===== verification/Kani_Codec.thy ===== *)
theory Kani_Codec
  imports Kani_Types
begin

text \<open>
  How the enumerations of the data model are written to and read from the database
  (\<open>crates/kani-ledger/src/lib.rs\<close>, the \<open>*_to_db\<close> and \<open>*_from_db\<close> functions and
  \<open>parse_amount\<close>), with the error type of the storage layer. The locale \<open>db_codec\<close> is the
  contract of such a pair of functions; it is interpreted on each pair.
\<close>

section \<open>Storage errors\<close>

text \<open>The two transparent variants carry the error value of the \<open>sqlx\<close> and \<open>serde_json\<close>
  packages, represented by its text; \<open>ParseAmount\<close> carries the rejected value.\<close>

datatype ledger_storage_error =
  Sqlx string
| SerdeJson string
| ParseAmount string
| UnknownAccountType string
| UnknownInstitutionStatus string
| UnknownInstitutionRiskTier string
| UnknownInstitutionRole string
| UnknownInstitutionCredentialType string
| UnknownInstitutionCredentialStatus string
| UnknownTransactionKind string
| UnknownTransactionStatus string
| UnknownComplianceCaseStatus string
| StorageUnknownPayment string
| StorageUnknownComplianceCase string
| StorageTerminalComplianceCase string string
| UnknownJournalDirection string
| Migration string
| AdvisoryLockReleaseFailed
| IdempotencyConflict string string

section \<open>The contract\<close>

locale db_codec =
  fixes to_db :: "'a \<Rightarrow> string"
    and from_db :: "string \<Rightarrow> ledger_storage_error + 'a"
    and unknown :: "string \<Rightarrow> ledger_storage_error"
  assumes from_to: "from_db (to_db x) = Inr x"
    and to_from: "from_db s = Inr x \<Longrightarrow> s = to_db x"
    and rejects: "from_db s = Inl e \<Longrightarrow> e = unknown s"
begin

lemma accepts_iff: "from_db s = Inr x \<longleftrightarrow> s = to_db x"
  using from_to to_from by auto

lemma to_db_inject: "to_db x = to_db y \<longleftrightarrow> x = y"
  using from_to by (metis sum.inject(2))

lemma rejects_iff: "from_db s = Inl e \<longleftrightarrow> s \<notin> range to_db \<and> e = unknown s"
proof (cases "from_db s")
  case (Inl a)
  then show ?thesis using rejects [OF Inl] by (auto simp: from_to)
next
  case (Inr x)
  then show ?thesis using to_from [OF Inr] by (simp add: from_to)
qed

text \<open>Reading back a column of values that were all written by \<open>to_db\<close>.\<close>

lemma column_roundtrip: "collect_results (map (from_db \<circ> to_db) xs) = Inr xs"
  by (induction xs) (simp_all add: from_to)

end

section \<open>The codecs\<close>

fun account_type_to_db :: "account_type \<Rightarrow> string" where
  "account_type_to_db Treasury = ''TREASURY''"
| "account_type_to_db InstitutionAccount = ''INSTITUTION''"
| "account_type_to_db Settlement = ''SETTLEMENT''"
| "account_type_to_db Fee = ''FEE''"

definition account_type_from_db :: "string \<Rightarrow> ledger_storage_error + account_type" where
  "account_type_from_db value =
     (if value = ''TREASURY'' then Inr Treasury
     else if value = ''INSTITUTION'' then Inr InstitutionAccount
     else if value = ''SETTLEMENT'' then Inr Settlement
     else if value = ''FEE'' then Inr Fee
     else Inl (UnknownAccountType value))"

interpretation account_type_codec: db_codec account_type_to_db account_type_from_db UnknownAccountType
proof
  show "account_type_from_db (account_type_to_db x) = Inr x" for x
    by (cases x) (simp_all add: account_type_from_db_def)
qed (auto simp: account_type_from_db_def split: if_splits)

fun institution_status_to_db :: "institution_status \<Rightarrow> string" where
  "institution_status_to_db InstRequested = ''REQUESTED''"
| "institution_status_to_db InstDueDiligence = ''DUE_DILIGENCE''"
| "institution_status_to_db InstApproved = ''APPROVED''"
| "institution_status_to_db InstRejected = ''REJECTED''"
| "institution_status_to_db InstSuspended = ''SUSPENDED''"
| "institution_status_to_db InstOffboarded = ''OFFBOARDED''"

definition institution_status_from_db :: "string \<Rightarrow> ledger_storage_error + institution_status" where
  "institution_status_from_db value =
     (if value = ''REQUESTED'' then Inr InstRequested
     else if value = ''DUE_DILIGENCE'' then Inr InstDueDiligence
     else if value = ''APPROVED'' then Inr InstApproved
     else if value = ''REJECTED'' then Inr InstRejected
     else if value = ''SUSPENDED'' then Inr InstSuspended
     else if value = ''OFFBOARDED'' then Inr InstOffboarded
     else Inl (UnknownInstitutionStatus value))"

interpretation institution_status_codec: db_codec institution_status_to_db institution_status_from_db UnknownInstitutionStatus
proof
  show "institution_status_from_db (institution_status_to_db x) = Inr x" for x
    by (cases x) (simp_all add: institution_status_from_db_def)
qed (auto simp: institution_status_from_db_def split: if_splits)

fun institution_risk_tier_to_db :: "institution_risk_tier \<Rightarrow> string" where
  "institution_risk_tier_to_db Low = ''LOW''"
| "institution_risk_tier_to_db Medium = ''MEDIUM''"
| "institution_risk_tier_to_db High = ''HIGH''"
| "institution_risk_tier_to_db Restricted = ''RESTRICTED''"

definition institution_risk_tier_from_db :: "string \<Rightarrow> ledger_storage_error + institution_risk_tier" where
  "institution_risk_tier_from_db value =
     (if value = ''LOW'' then Inr Low
     else if value = ''MEDIUM'' then Inr Medium
     else if value = ''HIGH'' then Inr High
     else if value = ''RESTRICTED'' then Inr Restricted
     else Inl (UnknownInstitutionRiskTier value))"

interpretation institution_risk_tier_codec: db_codec institution_risk_tier_to_db institution_risk_tier_from_db UnknownInstitutionRiskTier
proof
  show "institution_risk_tier_from_db (institution_risk_tier_to_db x) = Inr x" for x
    by (cases x) (simp_all add: institution_risk_tier_from_db_def)
qed (auto simp: institution_risk_tier_from_db_def split: if_splits)

fun institution_role_to_db :: "institution_role \<Rightarrow> string" where
  "institution_role_to_db Operator = ''OPERATOR''"
| "institution_role_to_db Approver = ''APPROVER''"
| "institution_role_to_db Auditor = ''AUDITOR''"
| "institution_role_to_db ComplianceReviewer = ''COMPLIANCE_REVIEWER''"
| "institution_role_to_db TechnicalAdmin = ''TECHNICAL_ADMIN''"

definition institution_role_from_db :: "string \<Rightarrow> ledger_storage_error + institution_role" where
  "institution_role_from_db value =
     (if value = ''OPERATOR'' then Inr Operator
     else if value = ''APPROVER'' then Inr Approver
     else if value = ''AUDITOR'' then Inr Auditor
     else if value = ''COMPLIANCE_REVIEWER'' then Inr ComplianceReviewer
     else if value = ''TECHNICAL_ADMIN'' then Inr TechnicalAdmin
     else Inl (UnknownInstitutionRole value))"

interpretation institution_role_codec: db_codec institution_role_to_db institution_role_from_db UnknownInstitutionRole
proof
  show "institution_role_from_db (institution_role_to_db x) = Inr x" for x
    by (cases x) (simp_all add: institution_role_from_db_def)
qed (auto simp: institution_role_from_db_def split: if_splits)

fun institution_credential_type_to_db :: "institution_credential_type \<Rightarrow> string" where
  "institution_credential_type_to_db SandboxApiKey = ''SANDBOX_API_KEY''"
| "institution_credential_type_to_db MtlsCertificate = ''MTLS_CERTIFICATE''"
| "institution_credential_type_to_db OidcClient = ''OIDC_CLIENT''"

definition institution_credential_type_from_db :: "string \<Rightarrow> ledger_storage_error + institution_credential_type" where
  "institution_credential_type_from_db value =
     (if value = ''SANDBOX_API_KEY'' then Inr SandboxApiKey
     else if value = ''MTLS_CERTIFICATE'' then Inr MtlsCertificate
     else if value = ''OIDC_CLIENT'' then Inr OidcClient
     else Inl (UnknownInstitutionCredentialType value))"

interpretation institution_credential_type_codec: db_codec institution_credential_type_to_db institution_credential_type_from_db UnknownInstitutionCredentialType
proof
  show "institution_credential_type_from_db (institution_credential_type_to_db x) = Inr x" for x
    by (cases x) (simp_all add: institution_credential_type_from_db_def)
qed (auto simp: institution_credential_type_from_db_def split: if_splits)

fun institution_credential_status_to_db :: "institution_credential_status \<Rightarrow> string" where
  "institution_credential_status_to_db CredPending = ''PENDING''"
| "institution_credential_status_to_db CredActive = ''ACTIVE''"
| "institution_credential_status_to_db CredRetired = ''RETIRED''"
| "institution_credential_status_to_db CredRevoked = ''REVOKED''"

definition institution_credential_status_from_db :: "string \<Rightarrow> ledger_storage_error + institution_credential_status" where
  "institution_credential_status_from_db value =
     (if value = ''PENDING'' then Inr CredPending
     else if value = ''ACTIVE'' then Inr CredActive
     else if value = ''RETIRED'' then Inr CredRetired
     else if value = ''REVOKED'' then Inr CredRevoked
     else Inl (UnknownInstitutionCredentialStatus value))"

interpretation institution_credential_status_codec: db_codec institution_credential_status_to_db institution_credential_status_from_db UnknownInstitutionCredentialStatus
proof
  show "institution_credential_status_from_db (institution_credential_status_to_db x) = Inr x" for x
    by (cases x) (simp_all add: institution_credential_status_from_db_def)
qed (auto simp: institution_credential_status_from_db_def split: if_splits)

fun transaction_kind_to_db :: "transaction_kind \<Rightarrow> string" where
  "transaction_kind_to_db Mint = ''MINT''"
| "transaction_kind_to_db Burn = ''BURN''"
| "transaction_kind_to_db Transfer = ''TRANSFER''"

definition transaction_kind_from_db :: "string \<Rightarrow> ledger_storage_error + transaction_kind" where
  "transaction_kind_from_db value =
     (if value = ''MINT'' then Inr Mint
     else if value = ''BURN'' then Inr Burn
     else if value = ''TRANSFER'' then Inr Transfer
     else Inl (UnknownTransactionKind value))"

interpretation transaction_kind_codec: db_codec transaction_kind_to_db transaction_kind_from_db UnknownTransactionKind
proof
  show "transaction_kind_from_db (transaction_kind_to_db x) = Inr x" for x
    by (cases x) (simp_all add: transaction_kind_from_db_def)
qed (auto simp: transaction_kind_from_db_def split: if_splits)

fun transaction_status_to_db :: "transaction_status \<Rightarrow> string" where
  "transaction_status_to_db Pending = ''PENDING''"
| "transaction_status_to_db Held = ''HELD''"
| "transaction_status_to_db Finalized = ''FINALIZED''"
| "transaction_status_to_db Rejected = ''REJECTED''"

definition transaction_status_from_db :: "string \<Rightarrow> ledger_storage_error + transaction_status" where
  "transaction_status_from_db value =
     (if value = ''PENDING'' then Inr Pending
     else if value = ''HELD'' then Inr Held
     else if value = ''FINALIZED'' then Inr Finalized
     else if value = ''REJECTED'' then Inr Rejected
     else Inl (UnknownTransactionStatus value))"

interpretation transaction_status_codec: db_codec transaction_status_to_db transaction_status_from_db UnknownTransactionStatus
proof
  show "transaction_status_from_db (transaction_status_to_db x) = Inr x" for x
    by (cases x) (simp_all add: transaction_status_from_db_def)
qed (auto simp: transaction_status_from_db_def split: if_splits)

fun compliance_case_status_to_db :: "compliance_case_status \<Rightarrow> string" where
  "compliance_case_status_to_db CaseOpened = ''OPENED''"
| "compliance_case_status_to_db CaseAssigned = ''ASSIGNED''"
| "compliance_case_status_to_db CaseEvidenceRequested = ''EVIDENCE_REQUESTED''"
| "compliance_case_status_to_db CaseEscalated = ''ESCALATED''"
| "compliance_case_status_to_db CaseApproved = ''APPROVED''"
| "compliance_case_status_to_db CaseRejected = ''REJECTED''"
| "compliance_case_status_to_db CaseClosed = ''CLOSED''"

definition compliance_case_status_from_db :: "string \<Rightarrow> ledger_storage_error + compliance_case_status" where
  "compliance_case_status_from_db value =
     (if value = ''OPENED'' then Inr CaseOpened
     else if value = ''ASSIGNED'' then Inr CaseAssigned
     else if value = ''EVIDENCE_REQUESTED'' then Inr CaseEvidenceRequested
     else if value = ''ESCALATED'' then Inr CaseEscalated
     else if value = ''APPROVED'' then Inr CaseApproved
     else if value = ''REJECTED'' then Inr CaseRejected
     else if value = ''CLOSED'' then Inr CaseClosed
     else Inl (UnknownComplianceCaseStatus value))"

interpretation compliance_case_status_codec: db_codec compliance_case_status_to_db compliance_case_status_from_db UnknownComplianceCaseStatus
proof
  show "compliance_case_status_from_db (compliance_case_status_to_db x) = Inr x" for x
    by (cases x) (simp_all add: compliance_case_status_from_db_def)
qed (auto simp: compliance_case_status_from_db_def split: if_splits)

fun journal_direction_to_db :: "journal_direction \<Rightarrow> string" where
  "journal_direction_to_db Debit = ''DEBIT''"
| "journal_direction_to_db Credit = ''CREDIT''"

definition journal_direction_from_db :: "string \<Rightarrow> ledger_storage_error + journal_direction" where
  "journal_direction_from_db value =
     (if value = ''DEBIT'' then Inr Debit
     else if value = ''CREDIT'' then Inr Credit
     else Inl (UnknownJournalDirection value))"

interpretation journal_direction_codec: db_codec journal_direction_to_db journal_direction_from_db UnknownJournalDirection
proof
  show "journal_direction_from_db (journal_direction_to_db x) = Inr x" for x
    by (cases x) (simp_all add: journal_direction_from_db_def)
qed (auto simp: journal_direction_from_db_def split: if_splits)

lemmas codec_accepts_iff =
  account_type_codec.accepts_iff
  institution_status_codec.accepts_iff
  institution_risk_tier_codec.accepts_iff
  institution_role_codec.accepts_iff
  institution_credential_type_codec.accepts_iff
  institution_credential_status_codec.accepts_iff
  transaction_kind_codec.accepts_iff
  transaction_status_codec.accepts_iff
  compliance_case_status_codec.accepts_iff
  journal_direction_codec.accepts_iff

section \<open>Amounts\<close>

text \<open>Amounts travel as decimal text (\<open>NUMERIC(38, 0)\<close> columns cast to \<open>TEXT\<close>).\<close>

definition parse_amount :: "string \<Rightarrow> ledger_storage_error + i128" where
  "parse_amount value = ok_or (ParseAmount value) (parse_i128 value)"

lemma parse_amount_roundtrip: "in_i128 x \<Longrightarrow> parse_amount (int_to_dec x) = Inr x"
  by (simp add: parse_amount_def parse_i128_int_to_dec)

lemma parse_amount_in_range: "parse_amount s = Inr x \<Longrightarrow> in_i128 x"
  by (auto simp: parse_amount_def parse_i128_def ok_or_def Let_def split: option.splits if_splits)

section \<open>Terminal cases\<close>

fun compliance_case_is_terminal :: "compliance_case_status \<Rightarrow> bool" where
  "compliance_case_is_terminal CaseApproved = True"
| "compliance_case_is_terminal CaseRejected = True"
| "compliance_case_is_terminal CaseClosed = True"
| "compliance_case_is_terminal _ = False"

text \<open>
  The database text of every enumeration is exact: reading a column accepts a text
  if and only if it is the text some value is written as, and yields that value; any other text
  is an error that names it.
\<close>

theorem database_codecs_exact:
  "(\<forall>s k. transaction_kind_from_db s = Inr k \<longleftrightarrow> s = transaction_kind_to_db k) \<and>
   (\<forall>s t. transaction_status_from_db s = Inr t \<longleftrightarrow> s = transaction_status_to_db t) \<and>
   (\<forall>s c. compliance_case_status_from_db s = Inr c \<longleftrightarrow> s = compliance_case_status_to_db c) \<and>
   (\<forall>s d. journal_direction_from_db s = Inr d \<longleftrightarrow> s = journal_direction_to_db d) \<and>
   (\<forall>s a. account_type_from_db s = Inr a \<longleftrightarrow> s = account_type_to_db a) \<and>
   (\<forall>s i. institution_status_from_db s = Inr i \<longleftrightarrow> s = institution_status_to_db i) \<and>
   (\<forall>s r. institution_role_from_db s = Inr r \<longleftrightarrow> s = institution_role_to_db r) \<and>
   (\<forall>s r. institution_risk_tier_from_db s = Inr r \<longleftrightarrow> s = institution_risk_tier_to_db r) \<and>
   (\<forall>s e. transaction_status_from_db s = Inl e \<longleftrightarrow>
      s \<notin> range transaction_status_to_db \<and> e = UnknownTransactionStatus s)"
  by (simp add: codec_accepts_iff transaction_status_codec.rejects_iff)

end
