(* ===== verification/Kani_Ledger.thy ===== *)
theory Kani_Ledger
  imports Kani_Codec
begin

text \<open>
  The in-memory ledger of \<open>crates/kani-ledger/src/lib.rs\<close>: its state, the application of a
  transaction and of a block, the institution registry, the compliance cases, the searches and
  the snapshots. A method that takes \<open>&mut self\<close> returns the ledger it leaves; where the code
  can fail after the point it starts to write, the ledger is returned on failure as well.
\<close>

section \<open>Errors and state\<close>

datatype ledger_error =
  UnknownAccount string
| UnknownInstitution string
| UnknownPayment string
| UnknownComplianceCase string
| TerminalComplianceCase string string
| MissingAsset
| InvalidAmount
| InvalidNonce
| InsufficientFunds string string i128 i128
| MintRequiresTreasury
| BurnRequiresTreasury
| InvalidBlockHeight i64 i64
| InvalidPrevHash string string
| MissingBlockHash

text \<open>The texts of the errors, as \<open>thiserror\<close> derives them.\<close>

fun ledger_error_display :: "ledger_error \<Rightarrow> string" where
  "ledger_error_display (UnknownAccount i) = ''account '' @ i @ '' does not exist''"
| "ledger_error_display (UnknownInstitution i) = ''institution '' @ i @ '' does not exist''"
| "ledger_error_display (UnknownPayment i) = ''payment '' @ i @ '' does not exist''"
| "ledger_error_display (UnknownComplianceCase i) = ''compliance case '' @ i @ '' does not exist''"
| "ledger_error_display (TerminalComplianceCase i status) =
     ''compliance case '' @ i @ '' is already terminal with status '' @ status"
| "ledger_error_display MissingAsset = ''asset code is required''"
| "ledger_error_display InvalidAmount = ''amount must be positive''"
| "ledger_error_display InvalidNonce =
     ''transaction nonce must be greater than the last finalized nonce''"
| "ledger_error_display (InsufficientFunds account asset available required) =
     ''account '' @ account @ '' has insufficient '' @ asset @ '': available ''
       @ int_to_dec available @ '', required '' @ int_to_dec required"
| "ledger_error_display MintRequiresTreasury =
     ''mint transactions must originate from a treasury account''"
| "ledger_error_display BurnRequiresTreasury =
     ''burn transactions must settle to a treasury account''"
| "ledger_error_display (InvalidBlockHeight expected actual) =
     ''block height mismatch: expected '' @ int_to_dec expected @ '', got '' @ int_to_dec actual"
| "ledger_error_display (InvalidPrevHash expected actual) =
     ''block prev_hash mismatch: expected '' @ expected @ '', got '' @ actual"
| "ledger_error_display MissingBlockHash = ''block hash is required before finalization''"

record balance_row =
  bal_account_id :: string
  bal_asset :: string
  bal_amount :: i128

record ledger_snapshot =
  snap_accounts :: "account list"
  snap_institutions :: "institution list"
  snap_institution_credentials :: "institution_credential list"
  snap_institution_limits :: "institution_limit list"
  snap_balances :: "balance_row list"
  snap_payments :: "payment_record list"
  snap_compliance_cases :: "compliance_case list"
  snap_blocks :: "block list"
  snap_audit_events :: "audit_event list"
  snap_journal_entries :: "journal_entry list"
  snap_nonces :: "(string, i64) hash_map"
  snap_issued :: "(string, i128) hash_map"

type_synonym balances = "(string \<times> string, i128) hash_map"

record ledger =
  led_accounts :: "(string, account) hash_map"
  led_institutions :: "(string, institution) hash_map"
  led_institution_credentials :: "(string, institution_credential) hash_map"
  led_institution_limits :: "(string \<times> string, institution_limit) hash_map"
  led_balances :: balances
  led_payments :: "(string, payment_record) hash_map"
  led_compliance_cases :: "(string, compliance_case) hash_map"
  led_blocks :: "block list"
  led_audit_events :: "audit_event list"
  led_journal_entries :: "journal_entry list"
  led_nonces :: "(string, i64) hash_map"
  led_issued :: "(string, i128) hash_map"

definition ledger_empty :: ledger where
  "ledger_empty = \<lparr>led_accounts = [], led_institutions = [], led_institution_credentials = [],
     led_institution_limits = [], led_balances = [], led_payments = [],
     led_compliance_cases = [], led_blocks = [], led_audit_events = [],
     led_journal_entries = [], led_nonces = [], led_issued = []\<rparr>"

section \<open>Balances\<close>

text \<open>\<open>*map.entry(key).or_insert(0) = f (value)\<close>.\<close>

definition entry_or_zero :: "'k \<Rightarrow> (int \<Rightarrow> int) \<Rightarrow> ('k, int) hash_map \<Rightarrow> ('k, int) hash_map" where
  "entry_or_zero k f m =
     (case hm_get m k of None \<Rightarrow> hm_insert k (f 0) m | Some v \<Rightarrow> hm_insert k (f v) m)"

definition unwrap_or_zero :: "int option \<Rightarrow> int" where
  "unwrap_or_zero v = (case v of None \<Rightarrow> 0 | Some x \<Rightarrow> x)"

definition balance_from :: "balances \<Rightarrow> string \<Rightarrow> string \<Rightarrow> i128" where
  "balance_from balances account asset = unwrap_or_zero (hm_get balances (account, asset))"

definition ensure_sufficient_balance ::
  "balances \<Rightarrow> string \<Rightarrow> string \<Rightarrow> i128 \<Rightarrow> ledger_error + unit" where
  "ensure_sufficient_balance balances account asset amount =
     (let available = balance_from balances account asset in
      if available < amount then Inl (InsufficientFunds account asset available amount)
      else Inr ())"

definition credit :: "string \<Rightarrow> string \<Rightarrow> i128 \<Rightarrow> balances \<Rightarrow> balances" where
  "credit account asset amount balances =
     entry_or_zero (account, asset) (\<lambda>balance. i128_add balance amount) balances"

definition debit :: "string \<Rightarrow> string \<Rightarrow> i128 \<Rightarrow> balances \<Rightarrow> ledger_error + balances" where
  "debit account asset amount balances =
     and_then (ensure_sufficient_balance balances account asset amount) (\<lambda>_.
     Inr (entry_or_zero (account, asset) (\<lambda>balance. i128_sub balance amount) balances))"

section \<open>Transactions\<close>

text \<open>The working copies a block is applied to.\<close>

record working =
  work_balances :: balances
  work_nonces :: "(string, i64) hash_map"
  work_issued :: "(string, i128) hash_map"
  work_journal :: "journal_entry list"

definition push_journal ::
  "env \<Rightarrow> transaction \<Rightarrow> string \<Rightarrow> journal_direction \<Rightarrow> i64 \<Rightarrow> working \<Rightarrow> working \<times> env" where
  "push_journal w tx account direction height work =
     (let (entry, w) =
        journal_entry_new w (tx_id tx) account (tx_asset tx) (tx_amount tx) direction height
      in (work\<lparr>work_journal := work_journal work @ [entry]\<rparr>, w))"

definition apply_transaction ::
  "env \<Rightarrow> transaction \<Rightarrow> i64 \<Rightarrow> working \<Rightarrow> ledger_error + working \<times> env" where
  "apply_transaction w tx height work =
     and_then
       (case tx_kind tx of
          Transfer \<Rightarrow>
            and_then (debit (tx_from tx) (tx_asset tx) (tx_amount tx) (work_balances work))
              (\<lambda>balances.
            let balances = credit (tx_to tx) (tx_asset tx) (tx_amount tx) balances;
                work = work\<lparr>work_balances := balances\<rparr>;
                (work, w) = push_journal w tx (tx_from tx) Debit height work
            in Inr (push_journal w tx (tx_to tx) Credit height work))
        | Mint \<Rightarrow>
            (let balances = credit (tx_to tx) (tx_asset tx) (tx_amount tx) (work_balances work);
                 issued = entry_or_zero (tx_asset tx) (\<lambda>n. i128_add n (tx_amount tx))
                            (work_issued work);
                 work = work\<lparr>work_balances := balances, work_issued := issued\<rparr>
             in Inr (push_journal w tx (tx_to tx) Credit height work))
        | Burn \<Rightarrow>
            and_then (debit (tx_from tx) (tx_asset tx) (tx_amount tx) (work_balances work))
              (\<lambda>balances.
            let issued = entry_or_zero (tx_asset tx) (\<lambda>n. i128_sub n (tx_amount tx))
                           (work_issued work);
                work = work\<lparr>work_balances := balances, work_issued := issued\<rparr>
            in Inr (push_journal w tx (tx_from tx) Debit height work)))
       (\<lambda>(work, w).
     Inr (work\<lparr>work_nonces := hm_insert (tx_from tx) (tx_nonce tx) (work_nonces work)\<rparr>, w))"

definition validate_transaction ::
  "ledger \<Rightarrow> transaction \<Rightarrow> balances \<Rightarrow> (string, i64) hash_map \<Rightarrow> (string, i128) hash_map
    \<Rightarrow> ledger_error + unit" where
  "validate_transaction l tx balances nonces issued =
     (if tx_amount tx \<le> 0 then Inl InvalidAmount
      else if trim (tx_asset tx) = [] then Inl MissingAsset
      else
        and_then (ok_or (UnknownAccount (tx_from tx)) (hm_get (led_accounts l) (tx_from tx)))
          (\<lambda>from_account.
        and_then (ok_or (UnknownAccount (tx_to tx)) (hm_get (led_accounts l) (tx_to tx)))
          (\<lambda>to_account.
        let last_nonce = unwrap_or_zero (hm_get nonces (tx_from tx)) in
        if tx_nonce tx \<le> last_nonce then Inl InvalidNonce
        else (case tx_kind tx of
          Transfer \<Rightarrow>
            ensure_sufficient_balance balances (tx_from tx) (tx_asset tx) (tx_amount tx)
        | Mint \<Rightarrow> if acc_type from_account \<noteq> Treasury then Inl MintRequiresTreasury else Inr ()
        | Burn \<Rightarrow>
            if acc_type to_account \<noteq> Treasury then Inl BurnRequiresTreasury
            else
              and_then
                (ensure_sufficient_balance balances (tx_from tx) (tx_asset tx) (tx_amount tx))
                (\<lambda>_.
              if unwrap_or_zero (hm_get issued (tx_asset tx)) < tx_amount tx
              then Inl (InsufficientFunds ''ISSUANCE'' (tx_asset tx)
                          (unwrap_or_zero (hm_get issued (tx_asset tx))) (tx_amount tx))
              else Inr ())))))"

section \<open>Reading the ledger\<close>

definition latest_block :: "ledger \<Rightarrow> block option" where
  "latest_block l = (if led_blocks l = [] then None else Some (last (led_blocks l)))"

definition next_height :: "ledger \<Rightarrow> i64" where
  "next_height l = i64_wrap (i64_wrap (int (length (led_blocks l))) + 1)"

definition last_hash :: "ledger \<Rightarrow> string" where
  "last_hash l = (case latest_block l of None \<Rightarrow> GENESIS_HASH | Some b \<Rightarrow> blk_hash b)"

definition next_nonce :: "ledger \<Rightarrow> string \<Rightarrow> i64" where
  "next_nonce l account = i64_wrap (unwrap_or_zero (hm_get (led_nonces l) account) + 1)"

definition ledger_balance :: "ledger \<Rightarrow> string \<Rightarrow> string \<Rightarrow> i128" where
  "ledger_balance l account asset = balance_from (led_balances l) account asset"

definition ledger_issued :: "ledger \<Rightarrow> string \<Rightarrow> i128" where
  "ledger_issued l asset = unwrap_or_zero (hm_get (led_issued l) asset)"

definition get_payment :: "ledger \<Rightarrow> string \<Rightarrow> ledger_error + payment_record" where
  "get_payment l payment_id = ok_or (UnknownPayment payment_id) (hm_get (led_payments l) payment_id)"

definition get_payment_by_client_reference_id :: "ledger \<Rightarrow> string \<Rightarrow> payment_record option" where
  "get_payment_by_client_reference_id l cri =
     List.find (\<lambda>payment. pay_client_reference_id payment = Some cri)
       (hm_values (led_payments l))"

definition is_pristine :: "ledger \<Rightarrow> bool" where
  "is_pristine l \<longleftrightarrow> led_blocks l = [] \<and> led_payments l = [] \<and> led_audit_events l = [] \<and>
     led_journal_entries l = []"

definition pending_transactions :: "ledger \<Rightarrow> i64 \<Rightarrow> i64 \<Rightarrow> transaction list" where
  "pending_transactions l limit offset =
     (let payments = sort_key pay_created_at
        (filter (\<lambda>payment. pay_status payment = Pending) (hm_values (led_payments l)))
      in map pay_transaction (page (clamp_usize offset) (clamp_usize limit) payments))"

section \<open>Applying blocks\<close>

text \<open>The loop over the transactions of a block.\<close>

fun apply_txs ::
  "env \<Rightarrow> ledger \<Rightarrow> i64 \<Rightarrow> string \<Rightarrow> transaction list \<Rightarrow> working
    \<Rightarrow> ledger_error + payment_record list \<times> working \<times> env" where
  "apply_txs w l height hash [] work = Inr ([], work, w)"
| "apply_txs w l height hash (tx # txs) work =
     and_then
       (validate_transaction l tx (work_balances work) (work_nonces work) (work_issued work))
       (\<lambda>_.
     and_then (apply_transaction w tx height work) (\<lambda>(work, w).
     let (rec, w) = payment_finalized w tx height hash in
     and_then (apply_txs w l height hash txs work) (\<lambda>(records, work, w).
     Inr (rec # records, work, w))))"

definition working_copy :: "ledger \<Rightarrow> working" where
  "working_copy l = \<lparr>work_balances = led_balances l, work_nonces = led_nonces l,
     work_issued = led_issued l, work_journal = led_journal_entries l\<rparr>"

definition commit_working :: "working \<Rightarrow> ledger \<Rightarrow> ledger" where
  "commit_working work l = l\<lparr>led_balances := work_balances work, led_nonces := work_nonces work,
     led_issued := work_issued work, led_journal_entries := work_journal work\<rparr>"

fun record_finalized :: "env \<Rightarrow> i64 \<Rightarrow> payment_record list \<Rightarrow> ledger \<Rightarrow> ledger \<times> env" where
  "record_finalized w height [] l = (l, w)"
| "record_finalized w height (r # rs) l =
     (let tx = pay_transaction r;
          l = l\<lparr>led_payments := hm_insert (tx_id tx) r (led_payments l)\<rparr>;
          (event, w) = audit_event_new w ''TRANSACTION_FINALIZED''
            (int_to_dec (tx_amount tx) @ '' '' @ tx_asset tx @ '' finalized in block ''
               @ int_to_dec height)
            (Some height) (Some (tx_id tx));
          l = l\<lparr>led_audit_events := led_audit_events l @ [event]\<rparr>
      in record_finalized w height rs l)"

definition apply_block ::
  "env \<Rightarrow> block \<Rightarrow> ledger \<Rightarrow> (ledger_error + payment_record list) \<times> ledger \<times> env" where
  "apply_block w b l =
     (if blk_hash b = [] then (Inl MissingBlockHash, l, w)
      else let expected_height = next_height l in
      if blk_height b \<noteq> expected_height
      then (Inl (InvalidBlockHeight expected_height (blk_height b)), l, w)
      else let expected_prev_hash = last_hash l in
      if blk_prev_hash b \<noteq> expected_prev_hash
      then (Inl (InvalidPrevHash expected_prev_hash (blk_prev_hash b)), l, w)
      else (case apply_txs w l (blk_height b) (blk_hash b) (blk_txs b) (working_copy l) of
          Inl err \<Rightarrow> (Inl err, l, w)
        | Inr (records, work, w) \<Rightarrow>
            (let l = commit_working work l;
                 (l, w) = record_finalized w (blk_height b) records l;
                 (event, w) = audit_event_new w ''BLOCK_FINALIZED''
                   (''block '' @ int_to_dec (blk_height b) @ '' finalized by ''
                      @ nat_to_dec (length (blk_finalized_by b)) @ '' validator votes'')
                   (Some (blk_height b)) None;
                 l = l\<lparr>led_audit_events := led_audit_events l @ [event]\<rparr>;
                 l = l\<lparr>led_blocks := led_blocks l @ [b]\<rparr>
             in (Inr records, l, w))))"

fun validate_txs ::
  "env \<Rightarrow> ledger \<Rightarrow> i64 \<Rightarrow> transaction list \<Rightarrow> working \<Rightarrow> ledger_error + unit" where
  "validate_txs w l height [] work = Inr ()"
| "validate_txs w l height (tx # txs) work =
     and_then
       (validate_transaction l tx (work_balances work) (work_nonces work) (work_issued work))
       (\<lambda>_.
     and_then (apply_transaction w tx height work) (\<lambda>(work, w).
     validate_txs w l height txs work))"

definition validate_transactions_for_next_block ::
  "env \<Rightarrow> ledger \<Rightarrow> transaction list \<Rightarrow> ledger_error + unit" where
  "validate_transactions_for_next_block w l txs =
     validate_txs w l (next_height l) txs (working_copy l)"

section \<open>Registry of accounts and institutions\<close>

definition upsert_account :: "account \<Rightarrow> ledger \<Rightarrow> ledger" where
  "upsert_account a l = l\<lparr>led_accounts := hm_insert (acc_id a) a (led_accounts l)\<rparr>"

definition upsert_institution :: "institution \<Rightarrow> ledger \<Rightarrow> ledger" where
  "upsert_institution i l = l\<lparr>led_institutions := hm_insert (inst_id i) i (led_institutions l)\<rparr>"

definition ensure_balance_row :: "string \<Rightarrow> string \<Rightarrow> ledger \<Rightarrow> ledger" where
  "ensure_balance_row account asset l =
     l\<lparr>led_balances := entry_or_zero (account, asset) (\<lambda>n. n) (led_balances l)\<rparr>"

definition accounts :: "ledger \<Rightarrow> account list" where
  "accounts l = hm_values (led_accounts l)"

definition institutions :: "ledger \<Rightarrow> institution list" where
  "institutions l = sort_key inst_id (hm_values (led_institutions l))"

definition get_institution :: "ledger \<Rightarrow> string \<Rightarrow> ledger_error + institution" where
  "get_institution l i = ok_or (UnknownInstitution i) (hm_get (led_institutions l) i)"

definition suspend_institution ::
  "env \<Rightarrow> string \<Rightarrow> ledger \<Rightarrow> ledger_error + institution \<times> ledger \<times> env" where
  "suspend_institution w i l =
     and_then (get_institution l i) (\<lambda>inst.
     let (inst, w) = institution_suspended w inst
     in Inr (inst, upsert_institution inst l, w))"

definition upsert_institution_limit ::
  "institution_limit \<Rightarrow> ledger \<Rightarrow> ledger_error + institution_limit \<times> ledger" where
  "upsert_institution_limit limit l =
     and_then (get_institution l (lim_institution_id limit)) (\<lambda>_.
     Inr (limit, l\<lparr>led_institution_limits :=
       hm_insert (lim_institution_id limit, lim_asset limit) limit (led_institution_limits l)\<rparr>))"

definition institution_limits :: "ledger \<Rightarrow> string \<Rightarrow> ledger_error + institution_limit list" where
  "institution_limits l i =
     and_then (get_institution l i) (\<lambda>_.
     Inr (sort_key lim_asset
       (filter (\<lambda>limit. lim_institution_id limit = i) (hm_values (led_institution_limits l)))))"

definition add_institution_credential ::
  "institution_credential \<Rightarrow> ledger \<Rightarrow> ledger_error + institution_credential \<times> ledger" where
  "add_institution_credential c l =
     and_then (get_institution l (cred_institution_id c)) (\<lambda>_.
     Inr (c, l\<lparr>led_institution_credentials :=
       hm_insert (cred_id c) c (led_institution_credentials l)\<rparr>))"

definition institution_credentials :: "ledger \<Rightarrow> string option \<Rightarrow> institution_credential list" where
  "institution_credentials l i = sort_key cred_id
     (filter (\<lambda>c. case i of None \<Rightarrow> True | Some j \<Rightarrow> cred_institution_id c = j)
       (hm_values (led_institution_credentials l)))"

definition record_audit_event :: "audit_event \<Rightarrow> ledger \<Rightarrow> ledger" where
  "record_audit_event e l = l\<lparr>led_audit_events := led_audit_events l @ [e]\<rparr>"

fun sandbox_institutions :: "env \<Rightarrow> (string \<times> string) list \<Rightarrow> ledger \<Rightarrow> ledger \<times> env" where
  "sandbox_institutions w [] l = (l, w)"
| "sandbox_institutions w ((i, legal_name) # is) l =
     (let (inst, w) = institution_sandbox_approved w i legal_name i
      in sandbox_institutions w is (upsert_institution inst l))"

fun sandbox_accounts ::
  "env \<Rightarrow> (string \<times> account_type \<times> string) list \<Rightarrow> ledger \<Rightarrow> ledger \<times> env" where
  "sandbox_accounts w [] l = (l, w)"
| "sandbox_accounts w ((a, ty, i) # as) l =
     (let (acct, w) = account_new w a ty (Some i) in sandbox_accounts w as (upsert_account acct l))"

definition ledger_sandbox :: "env \<Rightarrow> ledger \<times> env" where
  "ledger_sandbox w =
     (let (l, w) = sandbox_institutions w
            [(SANDBOX_TREASURY_INSTITUTION, ''KANI Sandbox Treasury''),
             (SANDBOX_CORP_A_INSTITUTION, ''Sandbox Corporation A''),
             (SANDBOX_CORP_B_INSTITUTION, ''Sandbox Corporation B''),
             (SANDBOX_NETWORK_INSTITUTION, ''KANI Network Sandbox Operator'')] ledger_empty;
          (l, w) = sandbox_accounts w
            [(SANDBOX_TREASURY_ACCOUNT, Treasury, SANDBOX_TREASURY_INSTITUTION),
             (SANDBOX_CORP_A_ACCOUNT, InstitutionAccount, SANDBOX_CORP_A_INSTITUTION),
             (SANDBOX_CORP_B_ACCOUNT, InstitutionAccount, SANDBOX_CORP_B_INSTITUTION),
             (SANDBOX_FEE_ACCOUNT, Fee, SANDBOX_NETWORK_INSTITUTION)] l;
          l = ensure_balance_row SANDBOX_TREASURY_ACCOUNT KCAD_TEST l;
          l = ensure_balance_row SANDBOX_CORP_A_ACCOUNT KCAD_TEST l;
          l = ensure_balance_row SANDBOX_CORP_B_ACCOUNT KCAD_TEST l;
          l = ensure_balance_row SANDBOX_TREASURY_ACCOUNT KUSD_TEST l;
          l = ensure_balance_row SANDBOX_CORP_A_ACCOUNT KUSD_TEST l;
          l = ensure_balance_row SANDBOX_CORP_B_ACCOUNT KUSD_TEST l
      in (l, w))"

section \<open>Compliance cases\<close>

definition ensure_case_not_terminal :: "compliance_case \<Rightarrow> ledger_error + unit" where
  "ensure_case_not_terminal c =
     (if compliance_case_is_terminal (case_status c)
      then Inl (TerminalComplianceCase (case_id c) (compliance_case_status_to_db (case_status c)))
      else Inr ())"

definition compliance_cases :: "ledger \<Rightarrow> compliance_case list" where
  "compliance_cases l = sort_key case_created_at (hm_values (led_compliance_cases l))"

definition get_compliance_case :: "ledger \<Rightarrow> string \<Rightarrow> ledger_error + compliance_case" where
  "get_compliance_case l i =
     ok_or (UnknownComplianceCase i) (hm_get (led_compliance_cases l) i)"

definition insert_payment_and_case :: "payment_record \<Rightarrow> compliance_case \<Rightarrow> ledger \<Rightarrow> ledger" where
  "insert_payment_and_case p c l =
     l\<lparr>led_payments := hm_insert (tx_id (pay_transaction p)) p (led_payments l),
       led_compliance_cases := hm_insert (case_id c) c (led_compliance_cases l)\<rparr>"

definition hold_payment_for_review ::
  "env \<Rightarrow> payment_record \<Rightarrow> compliance_case_open \<Rightarrow> ledger
    \<Rightarrow> ledger_error + (payment_record \<times> compliance_case) \<times> ledger \<times> env" where
  "hold_payment_for_review w p copen l =
     (let (c, w) = compliance_case_opened w copen
      in Inr ((p, c), insert_payment_and_case p c l, w))"

definition approve_compliance_case ::
  "env \<Rightarrow> string \<Rightarrow> string option \<Rightarrow> string option \<Rightarrow> ledger
    \<Rightarrow> ledger_error + (compliance_case \<times> payment_record) \<times> ledger \<times> env" where
  "approve_compliance_case w i reviewer reason l =
     and_then (get_compliance_case l i) (\<lambda>c.
     and_then (ensure_case_not_terminal c) (\<lambda>_.
     and_then (get_payment l (case_payment_id c)) (\<lambda>p.
     let (p, w) = payment_mark_pending w p;
         (c, w) = compliance_case_approved w reviewer reason c
     in Inr ((c, p), insert_payment_and_case p c l, w))))"

definition reject_compliance_case ::
  "env \<Rightarrow> string \<Rightarrow> string option \<Rightarrow> string option \<Rightarrow> ledger
    \<Rightarrow> ledger_error + (compliance_case \<times> payment_record) \<times> ledger \<times> env" where
  "reject_compliance_case w i reviewer reason l =
     and_then (get_compliance_case l i) (\<lambda>c.
     and_then (ensure_case_not_terminal c) (\<lambda>_.
     let rejection_reason = (case reason of None \<Rightarrow> ''compliance case rejected'' | Some r \<Rightarrow> r) in
     and_then (get_payment l (case_payment_id c)) (\<lambda>p.
     let (p, w) = payment_mark_rejected w rejection_reason p;
         (c, w) = compliance_case_rejected w reviewer reason c
     in Inr ((c, p), insert_payment_and_case p c l, w))))"

section \<open>Snapshots\<close>

definition from_snapshot :: "ledger_snapshot \<Rightarrow> ledger" where
  "from_snapshot s =
     \<lparr>led_accounts = hm_collect (map (\<lambda>a. (acc_id a, a)) (snap_accounts s)),
      led_institutions = hm_collect (map (\<lambda>i. (inst_id i, i)) (snap_institutions s)),
      led_institution_credentials =
        hm_collect (map (\<lambda>c. (cred_id c, c)) (snap_institution_credentials s)),
      led_institution_limits =
        hm_collect (map (\<lambda>m. ((lim_institution_id m, lim_asset m), m)) (snap_institution_limits s)),
      led_balances =
        hm_collect (map (\<lambda>b. ((bal_account_id b, bal_asset b), bal_amount b)) (snap_balances s)),
      led_payments = hm_collect (map (\<lambda>p. (tx_id (pay_transaction p), p)) (snap_payments s)),
      led_compliance_cases = hm_collect (map (\<lambda>c. (case_id c, c)) (snap_compliance_cases s)),
      led_blocks = snap_blocks s,
      led_audit_events = snap_audit_events s,
      led_journal_entries = snap_journal_entries s,
      led_nonces = snap_nonces s,
      led_issued = snap_issued s\<rparr>"

definition ledger_to_snapshot :: "ledger \<Rightarrow> ledger_snapshot" where
  "ledger_to_snapshot l =
     \<lparr>snap_accounts = accounts l,
      snap_institutions = institutions l,
      snap_institution_credentials = institution_credentials l None,
      snap_institution_limits = hm_values (led_institution_limits l),
      snap_balances =
        map (\<lambda>((account, asset), amount).
          \<lparr>bal_account_id = account, bal_asset = asset, bal_amount = amount\<rparr>) (led_balances l),
      snap_payments = hm_values (led_payments l),
      snap_compliance_cases = hm_values (led_compliance_cases l),
      snap_blocks = led_blocks l,
      snap_audit_events = led_audit_events l,
      snap_journal_entries = led_journal_entries l,
      snap_nonces = led_nonces l,
      snap_issued = led_issued l\<rparr>"

section \<open>Searches\<close>

record block_search =
  bs_limit :: i64
  bs_offset :: i64

definition block_search_apply :: "block_search \<Rightarrow> block list \<Rightarrow> block list" where
  "block_search_apply q bs =
     (let limit = clamp_usize (bs_limit q); offset = clamp_usize (bs_offset q)
      in page offset limit bs)"

record journal_entry_search =
  jes_account_id :: string
  jes_asset :: "string option"
  jes_limit :: i64
  jes_offset :: i64

definition journal_entry_search_matches :: "journal_entry_search \<Rightarrow> journal_entry \<Rightarrow> bool" where
  "journal_entry_search_matches q e \<longleftrightarrow>
     je_account_id e = jes_account_id q \<and>
     (case jes_asset q of None \<Rightarrow> True | Some asset \<Rightarrow> je_asset e = asset)"

definition journal_entry_search_apply ::
  "journal_entry_search \<Rightarrow> journal_entry list \<Rightarrow> journal_entry list" where
  "journal_entry_search_apply q es =
     (let limit = clamp_usize (jes_limit q); offset = clamp_usize (jes_offset q)
      in page offset limit (filter (journal_entry_search_matches q) es))"

record audit_event_search =
  aes_event_type :: "string option"
  aes_decision :: "string option"
  aes_institution_id :: "string option"
  aes_created_from :: "timestamp option"
  aes_created_to :: "timestamp option"
  aes_limit :: i64
  aes_offset :: i64

definition metadata_matches :: "audit_event \<Rightarrow> string \<Rightarrow> string \<Rightarrow> bool" where
  "metadata_matches e key expected =
     (case bt_get (ae_metadata e) key of None \<Rightarrow> False | Some v \<Rightarrow> v = expected)"

definition metadata_matches_ignore_case :: "audit_event \<Rightarrow> string \<Rightarrow> string \<Rightarrow> bool" where
  "metadata_matches_ignore_case e key expected =
     (case bt_get (ae_metadata e) key of None \<Rightarrow> False
      | Some v \<Rightarrow> eq_ignore_ascii_case v expected)"

definition audit_event_search_matches :: "audit_event_search \<Rightarrow> audit_event \<Rightarrow> bool" where
  "audit_event_search_matches q e \<longleftrightarrow>
     (case aes_event_type q of None \<Rightarrow> True
      | Some t \<Rightarrow> eq_ignore_ascii_case (ae_event_type e) t) \<and>
     (case aes_decision q of None \<Rightarrow> True
      | Some d \<Rightarrow> metadata_matches_ignore_case e ''decision'' d) \<and>
     (case aes_institution_id q of None \<Rightarrow> True
      | Some i \<Rightarrow> metadata_matches e ''institution_id'' i) \<and>
     (case aes_created_from q of None \<Rightarrow> True | Some t \<Rightarrow> \<not> ae_created_at e < t) \<and>
     (case aes_created_to q of None \<Rightarrow> True | Some t \<Rightarrow> \<not> t < ae_created_at e)"

definition audit_event_search_apply ::
  "audit_event_search \<Rightarrow> audit_event list \<Rightarrow> audit_event list" where
  "audit_event_search_apply q es =
     (let limit = clamp_usize (aes_limit q); offset = clamp_usize (aes_offset q)
      in page offset limit (filter (audit_event_search_matches q) es))"

record validator_status =
  vst_validator_id :: string
  vst_last_seen_at :: timestamp
  vst_last_finalized_height :: "i64 option"
  vst_last_finalized_hash :: "string option"
  vst_last_finalized_at :: "timestamp option"

end
