(* ===== verification/Kani_Ledger_Inv.thy ===== *)
theory Kani_Ledger_Inv
  imports Kani_Ledger
begin

text \<open>
  The accounting of the in-memory ledger. The abstract specification is the sum of the signed
  amounts of the chain's transactions, in unbounded integers (\<open>chain_balance\<close>,
  \<open>chain_issued\<close>); the working state of \<open>apply_block\<close> follows it modulo \<open>2 ^ 128\<close> always,
  and exactly as long as less than \<open>2 ^ 127\<close> units of the asset were ever minted.
\<close>

section \<open>Specification of the accounting\<close>

definition tx_net :: "transaction \<Rightarrow> string \<Rightarrow> string \<Rightarrow> int" where
  "tx_net tx a s =
     (if tx_asset tx \<noteq> s then 0
      else (case tx_kind tx of
          Transfer \<Rightarrow> (if tx_to tx = a then tx_amount tx else 0) -
                     (if tx_from tx = a then tx_amount tx else 0)
        | Mint \<Rightarrow> (if tx_to tx = a then tx_amount tx else 0)
        | Burn \<Rightarrow> - (if tx_from tx = a then tx_amount tx else 0)))"

definition tx_issue :: "transaction \<Rightarrow> string \<Rightarrow> int" where
  "tx_issue tx s =
     (if tx_asset tx \<noteq> s then 0
      else (case tx_kind tx of Transfer \<Rightarrow> 0 | Mint \<Rightarrow> tx_amount tx | Burn \<Rightarrow> - tx_amount tx))"

definition tx_minted :: "transaction \<Rightarrow> string \<Rightarrow> int" where
  "tx_minted tx s = (if tx_asset tx = s \<and> tx_kind tx = Mint then tx_amount tx else 0)"

definition chain_balance :: "transaction list \<Rightarrow> string \<Rightarrow> string \<Rightarrow> int" where
  "chain_balance txs a s = (\<Sum>tx\<leftarrow>txs. tx_net tx a s)"

definition chain_issued :: "transaction list \<Rightarrow> string \<Rightarrow> int" where
  "chain_issued txs s = (\<Sum>tx\<leftarrow>txs. tx_issue tx s)"

definition gross_minted :: "transaction list \<Rightarrow> string \<Rightarrow> int" where
  "gross_minted txs s = (\<Sum>tx\<leftarrow>txs. tx_minted tx s)"

definition asset_total :: "balances \<Rightarrow> string \<Rightarrow> int" where
  "asset_total b s = (\<Sum>e\<leftarrow>b. if snd (fst e) = s then snd e else 0)"

lemma chain_snoc [simp]:
  "chain_balance (txs @ [tx]) a s = chain_balance txs a s + tx_net tx a s"
  "chain_issued (txs @ [tx]) s = chain_issued txs s + tx_issue tx s"
  "gross_minted (txs @ [tx]) s = gross_minted txs s + tx_minted tx s"
  by (simp_all add: chain_balance_def chain_issued_def gross_minted_def)

lemma chain_Nil [simp]:
  "chain_balance [] a s = 0" "chain_issued [] s = 0" "gross_minted [] s = 0"
  by (simp_all add: chain_balance_def chain_issued_def gross_minted_def)

lemma chain_issued_le_minted:
  "(\<forall>tx \<in> set txs. 0 < tx_amount tx) \<Longrightarrow> chain_issued txs s \<le> gross_minted txs s"
proof (induction txs)
  case (Cons tx txs)
  moreover have "tx_issue tx s \<le> tx_minted tx s"
    using Cons.prems by (auto simp: tx_issue_def tx_minted_def split: transaction_kind.splits)
  ultimately show ?case by (simp add: chain_issued_def gross_minted_def)
qed simp

section \<open>Balances\<close>

lemma unwrap_or_zero_simps [simp]: "unwrap_or_zero None = 0" "unwrap_or_zero (Some x) = x"
  by (simp_all add: unwrap_or_zero_def)

lemma entry_or_zero_insert: "entry_or_zero k f m = hm_insert k (f (unwrap_or_zero (hm_get m k))) m"
  by (simp add: entry_or_zero_def split: option.splits)

lemma hm_get_entry_or_zero [map_simps]:
  "hm_get (entry_or_zero k f m) k' =
     (if k' = k then Some (f (unwrap_or_zero (hm_get m k))) else hm_get m k')"
  by (simp add: entry_or_zero_insert map_simps)

lemma hm_wf_entry_or_zero [simp]: "hm_wf m \<Longrightarrow> hm_wf (entry_or_zero k f m)"
  by (simp add: entry_or_zero_insert)

lemma balance_from_credit [map_simps]:
  "balance_from (credit a s x b) a' s' =
     (if a' = a \<and> s' = s then i128_wrap (balance_from b a s + x) else balance_from b a' s')"
  by (simp add: balance_from_def credit_def map_simps i128_add_def)

lemma debit_iff [res_simps]:
  "debit a s x b = Inr b' \<longleftrightarrow>
     x \<le> balance_from b a s \<and> b' = entry_or_zero (a, s) (\<lambda>n. i128_sub n x) b"
  by (auto simp: debit_def ensure_sufficient_balance_def Let_def res_simps)

lemma balance_from_debit [map_simps]:
  "balance_from (entry_or_zero (a, s) (\<lambda>n. i128_sub n x) b) a' s' =
     (if a' = a \<and> s' = s then i128_wrap (balance_from b a s - x) else balance_from b a' s')"
  by (simp add: balance_from_def map_simps i128_sub_def)

lemma asset_total_insert:
  assumes "hm_wf b"
  shows "asset_total (hm_insert (a, s) v b) s' =
    asset_total b s' + (if s' = s then v - balance_from b a s else 0)"
  unfolding asset_total_def
  by (subst hm.sum_put [OF assms])
    (auto simp: balance_from_def split: option.splits)

lemma asset_total_credit:
  "hm_wf b \<Longrightarrow> asset_total (credit a s x b) s' =
    asset_total b s' + (if s' = s then i128_wrap (balance_from b a s + x) - balance_from b a s else 0)"
  by (simp add: credit_def entry_or_zero_insert asset_total_insert i128_add_def balance_from_def)

lemma asset_total_debit:
  "hm_wf b \<Longrightarrow> asset_total (entry_or_zero (a, s) (\<lambda>n. i128_sub n x) b) s' =
    asset_total b s' + (if s' = s then i128_wrap (balance_from b a s - x) - balance_from b a s else 0)"
  by (simp add: entry_or_zero_insert asset_total_insert i128_sub_def balance_from_def)

lemma hm_wf_credit [simp]: "hm_wf b \<Longrightarrow> hm_wf (credit a s x b)"
  by (simp add: credit_def)

lemma asset_total_nonneg:
  assumes "hm_wf b" "\<And>a. 0 \<le> balance_from b a s"
  shows "0 \<le> asset_total b s"
  unfolding asset_total_def
proof (rule sum_list_nonneg)
  fix x
  assume "x \<in> set (map (\<lambda>e. if snd (fst e) = s then snd e else 0) b)"
  then obtain a v where "x = 0 \<or> ((a, s), v) \<in> set b \<and> x = v" by force
  then show "0 \<le> x"
  proof
    assume av: "((a, s), v) \<in> set b \<and> x = v"
    then have "hm_get b (a, s) = Some v" using hm.entries_get [OF assms(1)] by blast
    with av assms(2) [of a] show ?thesis by (simp add: balance_from_def)
  qed simp
qed

lemma balance_le_total:
  assumes wf: "hm_wf b" and nonneg: "\<And>a. 0 \<le> balance_from b a s"
  shows "balance_from b a s \<le> asset_total b s"
proof -
  let ?b = "hm_insert (a, s) 0 b"
  have "0 \<le> asset_total ?b s"
    using wf nonneg by (intro asset_total_nonneg) (simp_all add: balance_from_def map_simps)
  then show ?thesis by (simp add: asset_total_insert [OF wf])
qed

section \<open>One transaction\<close>

text \<open>The journal postings of a transaction: what each entry says, identifiers and times aside.\<close>

definition posting_of ::
  "journal_entry \<Rightarrow> string \<times> string \<times> string \<times> i128 \<times> journal_direction \<times> i64" where
  "posting_of e = (je_transaction_id e, je_account_id e, je_asset e, je_amount e, je_direction e,
     je_block_height e)"

definition tx_postings ::
  "i64 \<Rightarrow> transaction \<Rightarrow> (string \<times> string \<times> string \<times> i128 \<times> journal_direction \<times> i64) list" where
  "tx_postings h tx =
     (case tx_kind tx of
        Transfer \<Rightarrow> [(tx_id tx, tx_from tx, tx_asset tx, tx_amount tx, Debit, h),
                     (tx_id tx, tx_to tx, tx_asset tx, tx_amount tx, Credit, h)]
      | Mint \<Rightarrow> [(tx_id tx, tx_to tx, tx_asset tx, tx_amount tx, Credit, h)]
      | Burn \<Rightarrow> [(tx_id tx, tx_from tx, tx_asset tx, tx_amount tx, Debit, h)])"

lemma push_journal_eq:
  "push_journal w tx a d h work = (work', w') \<Longrightarrow>
     \<exists>e. work' = work\<lparr>work_journal := work_journal work @ [e]\<rparr> \<and>
       posting_of e = (tx_id tx, a, tx_asset tx, tx_amount tx, d, h)"
  by (auto simp: push_journal_def journal_entry_new_def posting_of_def Let_def split: prod.splits)

text \<open>The effect of \<open>apply_transaction\<close> on each part of the working state.\<close>

definition balances_after :: "transaction \<Rightarrow> balances \<Rightarrow> balances" where
  "balances_after tx b =
     (let debited = entry_or_zero (tx_from tx, tx_asset tx) (\<lambda>n. i128_sub n (tx_amount tx)) b
      in case tx_kind tx of
        Transfer \<Rightarrow> credit (tx_to tx) (tx_asset tx) (tx_amount tx) debited
      | Mint \<Rightarrow> credit (tx_to tx) (tx_asset tx) (tx_amount tx) b
      | Burn \<Rightarrow> debited)"

lemma apply_transaction_effect:
  assumes "apply_transaction w tx h work = Inr (work', w')"
  shows "work_balances work' = balances_after tx (work_balances work)"
    and "work_nonces work' = hm_insert (tx_from tx) (tx_nonce tx) (work_nonces work)"
    and "work_issued work' = (case tx_kind tx of Transfer \<Rightarrow> work_issued work
          | Mint \<Rightarrow> entry_or_zero (tx_asset tx) (\<lambda>n. i128_add n (tx_amount tx)) (work_issued work)
          | Burn \<Rightarrow> entry_or_zero (tx_asset tx) (\<lambda>n. i128_sub n (tx_amount tx)) (work_issued work))"
    and "\<exists>es. work_journal work' = work_journal work @ es \<and> map posting_of es = tx_postings h tx"
    and "tx_kind tx \<noteq> Mint \<Longrightarrow>
          tx_amount tx \<le> balance_from (work_balances work) (tx_from tx) (tx_asset tx)"
proof -
  have "work_balances work' = balances_after tx (work_balances work) \<and>
    work_nonces work' = hm_insert (tx_from tx) (tx_nonce tx) (work_nonces work) \<and>
    work_issued work' = (case tx_kind tx of Transfer \<Rightarrow> work_issued work
          | Mint \<Rightarrow> entry_or_zero (tx_asset tx) (\<lambda>n. i128_add n (tx_amount tx)) (work_issued work)
          | Burn \<Rightarrow> entry_or_zero (tx_asset tx) (\<lambda>n. i128_sub n (tx_amount tx)) (work_issued work)) \<and>
    (\<exists>es. work_journal work' = work_journal work @ es \<and> map posting_of es = tx_postings h tx) \<and>
    (tx_kind tx \<noteq> Mint \<longrightarrow>
          tx_amount tx \<le> balance_from (work_balances work) (tx_from tx) (tx_asset tx))"
    using assms
    by (cases "tx_kind tx")
      (auto simp: apply_transaction_def res_simps Let_def balances_after_def tx_postings_def
        split: prod.splits dest!: push_journal_eq)
  then show "work_balances work' = balances_after tx (work_balances work)"
    and "work_nonces work' = hm_insert (tx_from tx) (tx_nonce tx) (work_nonces work)"
    and "work_issued work' = (case tx_kind tx of Transfer \<Rightarrow> work_issued work
          | Mint \<Rightarrow> entry_or_zero (tx_asset tx) (\<lambda>n. i128_add n (tx_amount tx)) (work_issued work)
          | Burn \<Rightarrow> entry_or_zero (tx_asset tx) (\<lambda>n. i128_sub n (tx_amount tx)) (work_issued work))"
    and "\<exists>es. work_journal work' = work_journal work @ es \<and> map posting_of es = tx_postings h tx"
    and "tx_kind tx \<noteq> Mint \<Longrightarrow>
          tx_amount tx \<le> balance_from (work_balances work) (tx_from tx) (tx_asset tx)"
    by simp_all
qed

text \<open>Exactly when a transaction is valid against the working state.\<close>

definition account_is :: "ledger \<Rightarrow> string \<Rightarrow> account_type \<Rightarrow> bool" where
  "account_is l a ty \<longleftrightarrow> map_option acc_type (hm_get (led_accounts l) a) = Some ty"

definition valid_tx :: "ledger \<Rightarrow> transaction \<Rightarrow> working \<Rightarrow> bool" where
  "valid_tx l tx work \<longleftrightarrow>
     0 < tx_amount tx \<and> trim (tx_asset tx) \<noteq> [] \<and>
     hm_get (led_accounts l) (tx_from tx) \<noteq> None \<and> hm_get (led_accounts l) (tx_to tx) \<noteq> None \<and>
     unwrap_or_zero (hm_get (work_nonces work) (tx_from tx)) < tx_nonce tx \<and>
     (tx_kind tx = Mint \<longrightarrow> account_is l (tx_from tx) Treasury) \<and>
     (tx_kind tx = Burn \<longrightarrow> account_is l (tx_to tx) Treasury \<and>
        tx_amount tx \<le> unwrap_or_zero (hm_get (work_issued work) (tx_asset tx))) \<and>
     (tx_kind tx \<noteq> Mint \<longrightarrow>
        tx_amount tx \<le> balance_from (work_balances work) (tx_from tx) (tx_asset tx))"

lemma validate_transaction_iff:
  "validate_transaction l tx (work_balances work) (work_nonces work) (work_issued work) = Inr u
     \<longleftrightarrow> valid_tx l tx work"
  by (cases "tx_kind tx")
    (auto simp: validate_transaction_def valid_tx_def account_is_def res_simps Let_def
      ensure_sufficient_balance_def not_le not_less)

text \<open>A transaction that validates is applied: the second check of the balance never fails.\<close>

lemma valid_tx_applies:
  assumes "valid_tx l tx work"
  obtains work' w' where "apply_transaction w tx h work = Inr (work', w')"
proof -
  have "\<exists>r. apply_transaction w tx h work = Inr r"
  proof (cases "tx_kind tx")
    case Transfer
    with assms show ?thesis
      by (auto simp: apply_transaction_def debit_def ensure_sufficient_balance_def Let_def
          valid_tx_def split: prod.splits)
  next
    case Mint
    then show ?thesis by (auto simp: apply_transaction_def Let_def split: prod.splits)
  next
    case Burn
    with assms show ?thesis
      by (auto simp: apply_transaction_def debit_def ensure_sufficient_balance_def Let_def
          valid_tx_def split: prod.splits)
  qed
  then show thesis using that by force
qed

section \<open>The working state follows the chain\<close>

definition nonces_of :: "string \<Rightarrow> transaction list \<Rightarrow> i64 list" where
  "nonces_of a txs = map tx_nonce (filter (\<lambda>tx. tx_from tx = a) txs)"

definition balances_follow :: "transaction list \<Rightarrow> working \<Rightarrow> bool" where
  "balances_follow txs work \<longleftrightarrow> hm_wf (work_balances work) \<and>
     (\<forall>a s. balance_from (work_balances work) a s = i128_wrap (chain_balance txs a s))"

definition issued_follows :: "transaction list \<Rightarrow> working \<Rightarrow> bool" where
  "issued_follows txs work \<longleftrightarrow>
     (\<forall>s. unwrap_or_zero (hm_get (work_issued work) s) = i128_wrap (chain_issued txs s))"

definition total_follows :: "transaction list \<Rightarrow> working \<Rightarrow> bool" where
  "total_follows txs work \<longleftrightarrow> hm_wf (work_balances work) \<and>
     (\<forall>s. asset_total (work_balances work) s mod i128_modulus = chain_issued txs s mod i128_modulus)"

definition nonces_follow :: "transaction list \<Rightarrow> working \<Rightarrow> bool" where
  "nonces_follow txs work \<longleftrightarrow>
     (\<forall>a. sorted_wrt (<) (0 # nonces_of a txs) \<and>
       unwrap_or_zero (hm_get (work_nonces work) a) = last (0 # nonces_of a txs))"

definition exact_for :: "string \<Rightarrow> transaction list \<Rightarrow> working \<Rightarrow> bool" where
  "exact_for s txs work \<longleftrightarrow>
     (\<forall>a. 0 \<le> chain_balance txs a s \<and>
        balance_from (work_balances work) a s = chain_balance txs a s) \<and>
     unwrap_or_zero (hm_get (work_issued work) s) = chain_issued txs s \<and>
     asset_total (work_balances work) s = chain_issued txs s"

definition follows :: "transaction list \<Rightarrow> working \<Rightarrow> bool" where
  "follows txs work \<longleftrightarrow>
     (\<forall>tx \<in> set txs. 0 < tx_amount tx) \<and> balances_follow txs work \<and> issued_follows txs work \<and>
     total_follows txs work \<and> nonces_follow txs work \<and>
     (\<forall>s. gross_minted txs s < 2 ^ 127 \<longrightarrow> exact_for s txs work)"

lemma balances_follow_step:
  assumes "balances_follow txs work" "apply_transaction w tx h work = Inr (work', w')"
  shows "balances_follow (txs @ [tx]) work'"
  using assms(1)
  by (cases "tx_kind tx")
    (simp_all add: balances_follow_def apply_transaction_effect [OF assms(2)] balances_after_def
      map_simps Let_def tx_net_def)

lemma issued_follows_step:
  assumes "issued_follows txs work" "apply_transaction w tx h work = Inr (work', w')"
  shows "issued_follows (txs @ [tx]) work'"
  using assms(1)
  by (cases "tx_kind tx")
    (simp_all add: issued_follows_def apply_transaction_effect [OF assms(2)] map_simps Let_def
      tx_issue_def i128_add_def i128_sub_def)

lemma nonces_follow_step:
  assumes "nonces_follow txs work" "apply_transaction w tx h work = Inr (work', w')"
    and "valid_tx l tx work"
  shows "nonces_follow (txs @ [tx]) work'"
proof -
  have "sorted_wrt (<) (0 # nonces_of a (txs @ [tx])) \<and>
      unwrap_or_zero (hm_get (work_nonces work') a) = last (0 # nonces_of a (txs @ [tx]))" for a
  proof (cases "tx_from tx = a")
    case True
    from assms(1) have sorted: "sorted_wrt (<) (0 # nonces_of a txs)"
      and last: "unwrap_or_zero (hm_get (work_nonces work) a) = last (0 # nonces_of a txs)"
      by (simp_all add: nonces_follow_def)
    from assms(3) True last have "last (0 # nonces_of a txs) < tx_nonce tx"
      by (simp add: valid_tx_def)
    with sorted have "sorted_wrt (<) ((0 # nonces_of a txs) @ [tx_nonce tx])"
      by (intro sorted_wrt_snoc) simp_all
    with True show ?thesis
      by (simp add: nonces_of_def apply_transaction_effect [OF assms(2)] map_simps)
  next
    case False
    with assms(1) show ?thesis
      by (simp add: nonces_follow_def nonces_of_def apply_transaction_effect [OF assms(2)] map_simps)
  qed
  then show ?thesis by (simp add: nonces_follow_def)
qed

text \<open>Totals modulo the width of the amounts.\<close>

lemma wrap_diff_mod: "(t + (i128_wrap y - z)) mod i128_modulus = (t + (y - z)) mod i128_modulus"
  by (intro mod_add_cong mod_diff_cong refl i128_wrap_modulus)

lemma total_credit_mod:
  "hm_wf b \<Longrightarrow> asset_total (credit a s x b) s' mod i128_modulus =
     (asset_total b s' + (if s' = s then x else 0)) mod i128_modulus"
  by (simp add: asset_total_credit wrap_diff_mod [of _ _ "balance_from b a s", simplified])

lemma total_debit_mod:
  "hm_wf b \<Longrightarrow> asset_total (entry_or_zero (a, s) (\<lambda>n. i128_sub n x) b) s' mod i128_modulus =
     (asset_total b s' - (if s' = s then x else 0)) mod i128_modulus"
  by (simp add: asset_total_debit wrap_diff_mod [of _ _ "balance_from b a s", simplified])

lemma total_after_mod:
  assumes "hm_wf b"
  shows "asset_total (balances_after tx b) s mod i128_modulus =
    (asset_total b s + tx_issue tx s) mod i128_modulus"
proof (cases "tx_kind tx")
  case Transfer
  let ?d = "entry_or_zero (tx_from tx, tx_asset tx) (\<lambda>n. i128_sub n (tx_amount tx)) b"
  let ?x = "if s = tx_asset tx then tx_amount tx else 0"
  have "asset_total (balances_after tx b) s mod i128_modulus = (asset_total ?d s + ?x) mod i128_modulus"
    using assms Transfer by (simp add: balances_after_def total_credit_mod)
  also have "\<dots> = (asset_total b s - ?x + ?x) mod i128_modulus"
    by (rule mod_add_cong [OF total_debit_mod [OF assms] refl])
  finally show ?thesis using Transfer by (simp add: tx_issue_def)
next
  case Mint
  with assms show ?thesis
    by (auto simp: balances_after_def total_credit_mod tx_issue_def)
next
  case Burn
  with assms show ?thesis
    by (auto simp: balances_after_def total_debit_mod tx_issue_def)
qed

lemma hm_wf_balances_after [simp]: "hm_wf b \<Longrightarrow> hm_wf (balances_after tx b)"
  by (simp add: balances_after_def Let_def split: transaction_kind.split)

lemma total_follows_step:
  assumes "total_follows txs work" "apply_transaction w tx h work = Inr (work', w')"
  shows "total_follows (txs @ [tx]) work'"
proof -
  have wf: "hm_wf (work_balances work)" using assms(1) by (simp add: total_follows_def)
  have "asset_total (work_balances work') s mod i128_modulus =
      chain_issued (txs @ [tx]) s mod i128_modulus" for s
  proof -
    have "asset_total (work_balances work') s mod i128_modulus =
        (asset_total (work_balances work) s + tx_issue tx s) mod i128_modulus"
      by (simp only: apply_transaction_effect [OF assms(2)] total_after_mod [OF wf])
    also have "\<dots> = (chain_issued txs s + tx_issue tx s) mod i128_modulus"
      using assms(1) unfolding total_follows_def by (intro mod_add_cong) blast+
    finally show ?thesis by simp
  qed
  with wf show ?thesis
    by (simp add: total_follows_def apply_transaction_effect [OF assms(2)])
qed

text \<open>Exact arithmetic while the total stays in range.\<close>

definition solvent :: "string \<Rightarrow> balances \<Rightarrow> bool" where
  "solvent s b \<longleftrightarrow> hm_wf b \<and> (\<forall>a. 0 \<le> balance_from b a s)"

lemma solvent_balance_range:
  assumes "solvent s b" "asset_total b s + x < 2 ^ 127" "0 \<le> x"
  shows "in_i128 (balance_from b a s + x)"
  using assms balance_le_total [of b s a] by (simp add: solvent_def in_i128_nonneg)

lemma exact_credit:
  assumes "solvent s b" "0 < x" "asset_total b s + x < 2 ^ 127"
  shows "solvent s (credit a s x b)"
    and "balance_from (credit a s x b) a' s = balance_from b a' s + (if a' = a then x else 0)"
    and "asset_total (credit a s x b) s = asset_total b s + x"
  using assms solvent_balance_range [OF assms(1,3), of a]
  by (auto simp: solvent_def map_simps asset_total_credit add_nonneg_nonneg)

lemma exact_debit:
  fixes b :: balances
  defines "b' x a s \<equiv> entry_or_zero (a, s) (\<lambda>n. i128_sub n x) b"
  assumes "solvent s b" "0 < x" "x \<le> balance_from b a s" "asset_total b s < 2 ^ 127"
  shows "solvent s (b' x a s)"
    and "balance_from (b' x a s) a' s = balance_from b a' s - (if a' = a then x else 0)"
    and "asset_total (b' x a s) s = asset_total b s - x"
proof -
  have "balance_from b a s - x < 2 ^ 127"
    using assms(2-5) balance_le_total [of b s a] by (simp add: solvent_def)
  then have "in_i128 (balance_from b a s - x)" using assms(4) by (simp add: in_i128_nonneg)
  then show "solvent s (b' x a s)"
    and "balance_from (b' x a s) a' s = balance_from b a' s - (if a' = a then x else 0)"
    and "asset_total (b' x a s) s = asset_total b s - x"
    using assms(2-4) by (auto simp: b'_def solvent_def map_simps asset_total_debit)
qed

lemma other_asset_unchanged:
  assumes "s \<noteq> tx_asset tx" "hm_wf b"
  shows "balance_from (balances_after tx b) a s = balance_from b a s"
    and "asset_total (balances_after tx b) s = asset_total b s"
  using assms by (cases "tx_kind tx",
      simp_all add: balances_after_def Let_def map_simps asset_total_credit asset_total_debit)+

lemma exact_after:
  fixes b :: balances and tx :: transaction
  defines "s \<equiv> tx_asset tx"
  assumes solv: "solvent s b" and pos: "0 < tx_amount tx"
    and funds: "tx_kind tx \<noteq> Mint \<Longrightarrow> tx_amount tx \<le> balance_from b (tx_from tx) s"
    and room: "asset_total b s + tx_minted tx s < 2 ^ 127"
  shows "solvent s (balances_after tx b) \<and>
    (\<forall>a. balance_from (balances_after tx b) a s = balance_from b a s + tx_net tx a s) \<and>
    asset_total (balances_after tx b) s = asset_total b s + tx_issue tx s"
proof (cases "tx_kind tx")
  case Transfer
  let ?d = "entry_or_zero (tx_from tx, s) (\<lambda>n. i128_sub n (tx_amount tx)) b"
  have room': "asset_total b s < 2 ^ 127" using room Transfer by (simp add: tx_minted_def)
  note d = exact_debit [OF solv pos funds room']
  have "solvent s ?d" "asset_total ?d s + tx_amount tx < 2 ^ 127"
    using d Transfer room' by simp_all
  note c = exact_credit [OF this(1) pos this(2)]
  show ?thesis using d c Transfer
    by (simp add: balances_after_def s_def [symmetric] tx_net_def tx_issue_def)
next
  case Mint
  then have "asset_total b s + tx_amount tx < 2 ^ 127" using room by (simp add: tx_minted_def s_def)
  note c = exact_credit [OF solv pos this]
  show ?thesis using c Mint
    by (simp add: balances_after_def s_def [symmetric] tx_net_def tx_issue_def)
next
  case Burn
  have room': "asset_total b s < 2 ^ 127" using room Burn by (simp add: tx_minted_def)
  note d = exact_debit [OF solv pos funds room']
  show ?thesis using d Burn
    by (simp add: balances_after_def s_def [symmetric] tx_net_def tx_issue_def)
qed

lemma exact_for_step:
  assumes exact: "exact_for s txs work" and wf: "hm_wf (work_balances work)"
    and pos: "\<forall>t \<in> set txs. 0 < tx_amount t"
    and valid: "valid_tx l tx work" and ok: "apply_transaction w tx h work = Inr (work', w')"
    and room: "gross_minted (txs @ [tx]) s < 2 ^ 127"
  shows "exact_for s (txs @ [tx]) work'"
proof (cases "s = tx_asset tx")
  case False
  with exact other_asset_unchanged [OF False wf] show ?thesis
    by (cases "tx_kind tx")
      (simp_all add: exact_for_def apply_transaction_effect [OF ok] tx_net_def tx_issue_def map_simps)
next
  case True
  let ?b = "work_balances work"
  have solv: "solvent s ?b" using exact wf by (simp add: exact_for_def solvent_def)
  have x: "0 < tx_amount tx" using valid by (simp add: valid_tx_def)
  have funds: "tx_kind tx \<noteq> Mint \<Longrightarrow> tx_amount tx \<le> balance_from ?b (tx_from tx) s"
    using valid True by (simp add: valid_tx_def)
  have issued: "asset_total ?b s = chain_issued txs s"
    and issued': "unwrap_or_zero (hm_get (work_issued work) s) = asset_total ?b s"
    using exact by (simp_all add: exact_for_def)
  then have issued'': "unwrap_or_zero (hm_get (work_issued work) (tx_asset tx)) =
      asset_total ?b (tx_asset tx)"
    using True by simp
  have total: "asset_total ?b s + tx_minted tx s < 2 ^ 127"
    using room chain_issued_le_minted [OF pos, of s] issued by simp
  note after = exact_after [of tx ?b, folded True, OF solv x funds total]
  have nonneg: "0 \<le> asset_total ?b s"
    using solv by (intro asset_total_nonneg) (simp_all add: solvent_def)
  have "asset_total ?b s + tx_issue tx s = unwrap_or_zero (hm_get (work_issued work') s)"
  proof (cases "tx_kind tx")
    case Transfer
    then show ?thesis
      by (simp add: apply_transaction_effect [OF ok] issued' tx_issue_def)
  next
    case Mint
    with total True x nonneg have "in_i128 (asset_total ?b s + tx_amount tx)"
      by (simp add: in_i128_nonneg tx_minted_def)
    with Mint True show ?thesis
      by (simp add: apply_transaction_effect [OF ok] issued'' tx_issue_def map_simps
          i128_add_def)
  next
    case Burn
    have "tx_amount tx \<le> asset_total ?b s"
      using funds Burn solv balance_le_total [of ?b s "tx_from tx"] by (simp add: solvent_def)
    with total x Burn have "in_i128 (asset_total ?b s - tx_amount tx)"
      by (simp add: in_i128_nonneg tx_minted_def)
    with Burn True show ?thesis
      by (simp add: apply_transaction_effect [OF ok] issued'' tx_issue_def map_simps
          i128_sub_def)
  qed
  with after exact issued show ?thesis
    by (auto simp: exact_for_def apply_transaction_effect(1) [OF ok] solvent_def)
qed

lemma gross_minted_mono:
  "0 < tx_amount tx \<Longrightarrow> gross_minted (txs @ [tx]) s < 2 ^ 127 \<Longrightarrow> gross_minted txs s < 2 ^ 127"
  by (simp add: tx_minted_def split: if_splits)

lemma follows_step:
  assumes "follows txs work" "valid_tx l tx work" "apply_transaction w tx h work = Inr (work', w')"
  shows "follows (txs @ [tx]) work'"
proof -
  have pos: "0 < tx_amount tx" using assms(2) by (simp add: valid_tx_def)
  have "gross_minted (txs @ [tx]) s < 2 ^ 127 \<Longrightarrow> exact_for s txs work" for s
    using assms(1) gross_minted_mono [OF pos] unfolding follows_def by blast
  then have "gross_minted (txs @ [tx]) s < 2 ^ 127 \<Longrightarrow> exact_for s (txs @ [tx]) work'" for s
    using assms exact_for_step [OF _ _ _ assms(2,3)] by (simp add: follows_def balances_follow_def)
  with assms(1) pos show ?thesis
    by (simp add: follows_def balances_follow_step [OF _ assms(3)]
        issued_follows_step [OF _ assms(3)] total_follows_step [OF _ assms(3)]
        nonces_follow_step [OF _ assms(3,2)] del: chain_snoc)
qed

section \<open>Blocks\<close>

text \<open>The transactions of a run are valid one after the other.\<close>

lemma apply_txs_ConsE:
  assumes "apply_txs w l h hash (tx # txs) work = Inr (rs, work', w')"
  obtains work1 w1 r w2 rs' where "valid_tx l tx work"
    and "apply_transaction w tx h work = Inr (work1, w1)"
    and "payment_finalized w1 tx h hash = (r, w2)"
    and "apply_txs w2 l h hash txs work1 = Inr (rs', work', w')" and "rs = r # rs'"
  using assms
  by (auto simp: res_simps validate_transaction_iff Let_def case_prod_unfold) (metis prod.collapse)

lemma payment_finalizedD:
  "payment_finalized w tx h hash = (r, w') \<Longrightarrow>
     pay_transaction r = tx \<and> pay_status r = Finalized \<and> pay_block_height r = Some h \<and>
     pay_block_hash r = Some hash"
  by (auto simp: payment_finalized_def utc_now_def)

definition finalized_in :: "i64 \<Rightarrow> string \<Rightarrow> payment_record \<Rightarrow> bool" where
  "finalized_in h hash r \<longleftrightarrow>
     pay_status r = Finalized \<and> pay_block_height r = Some h \<and> pay_block_hash r = Some hash"

lemma apply_txs_follows:
  assumes "apply_txs w l h hash txs work = Inr (rs, work', w')" "follows pre work"
  shows "follows (pre @ txs) work' \<and>
    (\<exists>es. work_journal work' = work_journal work @ es \<and>
       map posting_of es = concat (map (tx_postings h) txs)) \<and>
    map pay_transaction rs = txs \<and> (\<forall>r \<in> set rs. finalized_in h hash r)"
  using assms
proof (induction txs arbitrary: w work pre rs)
  case Nil
  then show ?case by simp
next
  case (Cons tx txs)
  from Cons.prems(1) obtain work1 w1 r w2 rs' where
    valid: "valid_tx l tx work" and ap: "apply_transaction w tx h work = Inr (work1, w1)"
    and r: "payment_finalized w1 tx h hash = (r, w2)"
    and rest: "apply_txs w2 l h hash txs work1 = Inr (rs', work', w')" and rs: "rs = r # rs'"
    by (rule apply_txs_ConsE)
  have "follows (pre @ [tx]) work1" by (rule follows_step [OF Cons.prems(2) valid ap])
  note IH = Cons.IH [OF rest this]
  obtain es where es: "work_journal work1 = work_journal work @ es"
    "map posting_of es = tx_postings h tx"
    using apply_transaction_effect(4) [OF ap] by blast
  obtain es' where "work_journal work' = work_journal work1 @ es'"
    "map posting_of es' = concat (map (tx_postings h) txs)"
    using IH by blast
  with es have "work_journal work' = work_journal work @ (es @ es') \<and>
      map posting_of (es @ es') = concat (map (tx_postings h) (tx # txs))"
    by simp
  with IH rs payment_finalizedD [OF r] show ?case
    by (simp add: finalized_in_def)
qed

lemma apply_txs_records:
  assumes "apply_txs w l h hash txs work = Inr (rs, work', w')"
  shows "map pay_transaction rs = txs \<and> (\<forall>r \<in> set rs. finalized_in h hash r)"
  using assms
proof (induction txs arbitrary: w work rs)
  case Nil
  then show ?case by simp
next
  case (Cons tx txs)
  from Cons.prems obtain work1 w1 r w2 rs' where
    r: "payment_finalized w1 tx h hash = (r, w2)"
    and rest: "apply_txs w2 l h hash txs work1 = Inr (rs', work', w')" and rs: "rs = r # rs'"
    by (rule apply_txs_ConsE)
  then show ?case using Cons.IH [OF rest] payment_finalizedD [OF r] by (simp add: finalized_in_def)
qed

text \<open>Validation before a block is produced and the application of the block agree.\<close>

definition err_of :: "'e + 'a \<Rightarrow> 'e option" where
  "err_of r = (case r of Inl e \<Rightarrow> Some e | Inr x \<Rightarrow> None)"

lemma err_of_simps [simp]: "err_of (Inl e) = Some e" "err_of (Inr x) = None"
  by (simp_all add: err_of_def)

lemma err_of_None_iff: "err_of r = None \<longleftrightarrow> (\<exists>x. r = Inr x)"
  by (cases r) simp_all

lemma err_of_Some_iff: "err_of r = Some e \<longleftrightarrow> r = Inl e"
  by (cases r) simp_all

definition same_state :: "working \<Rightarrow> working \<Rightarrow> bool" where
  "same_state a b \<longleftrightarrow> work_balances a = work_balances b \<and> work_nonces a = work_nonces b \<and>
     work_issued a = work_issued b"

lemma same_state_refl [simp]: "same_state a a"
  by (simp add: same_state_def)

lemma same_state_step:
  assumes "same_state a b" "apply_transaction w tx h a = Inr (a', v)"
    and "apply_transaction w' tx h' b = Inr (b', v')"
  shows "same_state a' b'"
  using assms(1)
  by (simp add: same_state_def apply_transaction_effect [OF assms(2)]
      apply_transaction_effect [OF assms(3)] split: transaction_kind.split)

lemma apply_txs_err:
  assumes "same_state a b"
  shows "err_of (apply_txs w l h hash txs a) = err_of (validate_txs w' l h' txs b)"
  using assms
proof (induction txs arbitrary: w w' a b)
  case Nil
  then show ?case by simp
next
  case (Cons tx txs)
  have same: "validate_transaction l tx (work_balances a) (work_nonces a) (work_issued a) =
      validate_transaction l tx (work_balances b) (work_nonces b) (work_issued b)"
    using Cons.prems by (simp add: same_state_def)
  show ?case
  proof (cases "validate_transaction l tx (work_balances b) (work_nonces b) (work_issued b)")
    case (Inl e)
    with same show ?thesis by simp
  next
    case (Inr u)
    with same have "valid_tx l tx a" "valid_tx l tx b"
      using validate_transaction_iff by metis+
    then obtain a1 v1 b1 v2 where a: "apply_transaction w tx h a = Inr (a1, v1)"
      and b: "apply_transaction w' tx h' b = Inr (b1, v2)"
      by (metis valid_tx_applies)
    obtain r v3 where "payment_finalized v1 tx h hash = (r, v3)" by force
    with Cons.IH [OF same_state_step [OF Cons.prems a b], of v3 v2] a b Inr same show ?thesis
      by (cases "apply_txs v3 l h hash txs a1") auto
  qed
qed

text \<open>
  What \<open>apply_block\<close> accepts: the three checks on the block, then the transactions. On any
  error the ledger is the one before.
\<close>

definition block_links :: "ledger \<Rightarrow> block \<Rightarrow> bool" where
  "block_links l b \<longleftrightarrow> blk_hash b \<noteq> [] \<and> blk_height b = next_height l \<and> blk_prev_hash b = last_hash l"

lemma audit_event_newD:
  "audit_event_new w ty msg h t = (e, w') \<Longrightarrow>
     ae_event_type e = ty \<and> ae_block_height e = h \<and> ae_transaction_id e = t"
  by (auto simp: audit_event_new_def split: prod.splits)

definition insert_records ::
  "payment_record list \<Rightarrow> (string, payment_record) hash_map \<Rightarrow> (string, payment_record) hash_map" where
  "insert_records rs m = foldl (\<lambda>m r. hm_insert (tx_id (pay_transaction r)) r m) m rs"

lemma record_finalized_frame:
  assumes "record_finalized w h rs l = (l', w')"
  shows "\<exists>es. l' = l\<lparr>led_payments := insert_records rs (led_payments l),
        led_audit_events := led_audit_events l @ es\<rparr> \<and>
      map ae_transaction_id es = map (\<lambda>r. Some (tx_id (pay_transaction r))) rs"
  using assms
proof (induction rs arbitrary: w l)
  case Nil
  then show ?case by (simp add: insert_records_def)
next
  case (Cons r rs)
  define l1 where
    "l1 = l\<lparr>led_payments := hm_insert (tx_id (pay_transaction r)) r (led_payments l)\<rparr>"
  obtain e w1 where e: "ae_transaction_id e = Some (tx_id (pay_transaction r))"
    and rest: "record_finalized w1 h rs (l1\<lparr>led_audit_events := led_audit_events l1 @ [e]\<rparr>) = (l', w')"
    using Cons.prems
    by (simp add: Let_def l1_def split: prod.split_asm) (auto dest: audit_event_newD)
  obtain es where
    "l' = l1\<lparr>led_payments := insert_records rs (led_payments l1),
        led_audit_events := led_audit_events l1 @ ([e] @ es)\<rparr>"
    "map ae_transaction_id es = map (\<lambda>r. Some (tx_id (pay_transaction r))) rs"
    using Cons.IH [OF rest] by auto
  with e show ?case
    by (intro exI [of _ "[e] @ es"]) (simp add: l1_def insert_records_def)
qed

end
