(* ===== verification/Kani_Ledger_Runs.thy ===== *)
theory Kani_Ledger_Runs
  imports Kani_Ledger_Inv "HOL-Library.Multiset"
begin

text \<open>
  Runs of the in-memory ledger: every operation that changes its state as a step relation, the
  invariant of the reachable ledgers (accounting, journal, nonces, hash chain, map keys), and
  the properties that follow from it.
\<close>

section \<open>What \<open>apply_block\<close> does\<close>

lemma apply_block_ok:
  assumes "apply_block w b l = (Inr rs, l', w')"
  obtains work w1 es where "block_links l b"
    and "apply_txs w l (blk_height b) (blk_hash b) (blk_txs b) (working_copy l) = Inr (rs, work, w1)"
    and "l' = (commit_working work l)
      \<lparr>led_payments := insert_records rs (led_payments l),
       led_audit_events := led_audit_events l @ es, led_blocks := led_blocks l @ [b]\<rparr>"
    and "map ae_transaction_id es = map (\<lambda>r. Some (tx_id (pay_transaction r))) rs @ [None]"
proof -
  have links: "block_links l b"
    using assms by (auto simp: apply_block_def block_links_def Let_def split: if_splits)
  obtain work w1 where txs: "apply_txs w l (blk_height b) (blk_hash b) (blk_txs b) (working_copy l)
      = Inr (rs, work, w1)"
    using assms links
    by (auto simp: apply_block_def block_links_def Let_def split: sum.splits prod.splits)
  obtain l2 w2 where rec: "record_finalized w1 (blk_height b) rs (commit_working work l) = (l2, w2)"
    by force
  obtain es where l2: "l2 = (commit_working work l)
        \<lparr>led_payments := insert_records rs (led_payments (commit_working work l)),
         led_audit_events := led_audit_events (commit_working work l) @ es\<rparr>"
    and es: "map ae_transaction_id es = map (\<lambda>r. Some (tx_id (pay_transaction r))) rs"
    using record_finalized_frame [OF rec] by blast
  obtain e where "ae_transaction_id e = None"
    and "l' = l2\<lparr>led_audit_events := led_audit_events l2 @ [e], led_blocks := led_blocks l2 @ [b]\<rparr>"
    using assms links txs rec
    by (simp add: apply_block_def block_links_def Let_def split: prod.split_asm)
      (auto dest: audit_event_newD)
  then show thesis
    using that [OF links txs, of "es @ [e]"] es l2 by (simp add: commit_working_def)
qed

lemma apply_block_err_unchanged: "apply_block w b l = (Inl e, l', w') \<Longrightarrow> l' = l"
  by (auto simp: apply_block_def Let_def split: if_splits sum.splits prod.splits)

lemma apply_block_linked:
  assumes "block_links l b"
  shows "err_of (fst (apply_block w b l)) =
    err_of (validate_transactions_for_next_block w' l (blk_txs b))"
proof -
  have "err_of (fst (apply_block w b l)) =
      err_of (apply_txs w l (blk_height b) (blk_hash b) (blk_txs b) (working_copy l))"
    using assms by (auto simp: apply_block_def block_links_def Let_def split: sum.splits prod.splits)
  also have "\<dots> = err_of (validate_transactions_for_next_block w' l (blk_txs b))"
    unfolding validate_transactions_for_next_block_def by (rule apply_txs_err) simp
  finally show ?thesis .
qed

text \<open>
  Claim C15. \<open>apply_block\<close> is atomic and decides as \<open>validate_transactions_for_next_block\<close> does.
  A rejected block leaves the ledger as it was, and is rejected because of its hash, height or
  previous hash, or with the error the validation of its transactions gives. An accepted block
  passes these checks and that validation, is appended to the chain, and yields one finalized
  payment record per transaction, in order, carrying the height and hash of the block.
\<close>

theorem apply_block_spec:
  "case apply_block w b l of
     (Inl err, l', w') \<Rightarrow>
       l' = l \<and>
       (\<not> block_links l b \<or> validate_transactions_for_next_block v l (blk_txs b) = Inl err)
   | (Inr records, l', w') \<Rightarrow>
       block_links l b \<and> validate_transactions_for_next_block v l (blk_txs b) = Inr () \<and>
       led_blocks l' = led_blocks l @ [b] \<and> led_accounts l' = led_accounts l \<and>
       map pay_transaction records = blk_txs b \<and>
       (\<forall>r \<in> set records. finalized_in (blk_height b) (blk_hash b) r) \<and>
       led_payments l' = insert_records records (led_payments l)"
proof -
  obtain r l' w' where ab: "apply_block w b l = (r, l', w')" by (cases "apply_block w b l")
  show ?thesis
  proof (cases r)
    case (Inl err)
    with ab have "l' = l" using apply_block_err_unchanged by blast
    moreover have "validate_transactions_for_next_block v l (blk_txs b) = Inl err"
      if "block_links l b"
      using apply_block_linked [OF that, of w v] ab Inl err_of_Some_iff by (metis err_of_simps(1) fst_conv)
    ultimately show ?thesis using ab Inl by auto
  next
    case (Inr rs)
    with ab have ok: "apply_block w b l = (Inr rs, l', w')" by simp
    obtain work w1 es where links: "block_links l b"
      and txs: "apply_txs w l (blk_height b) (blk_hash b) (blk_txs b) (working_copy l)
        = Inr (rs, work, w1)"
      and l': "l' = (commit_working work l)
        \<lparr>led_payments := insert_records rs (led_payments l),
         led_audit_events := led_audit_events l @ es, led_blocks := led_blocks l @ [b]\<rparr>"
      by (rule apply_block_ok [OF ok])
    have "validate_transactions_for_next_block v l (blk_txs b) = Inr ()"
      using apply_block_linked [OF links, of w v] ok err_of_None_iff by (metis err_of_simps(2) fst_conv old.unit.exhaust)
    with ok links l' apply_txs_records [OF txs] show ?thesis
      by (simp add: commit_working_def)
  qed
qed

section \<open>The invariant\<close>

definition chain_txs :: "ledger \<Rightarrow> transaction list" where
  "chain_txs l = concat (map blk_txs (led_blocks l))"

definition chain_postings ::
  "block list \<Rightarrow> (string \<times> string \<times> string \<times> i128 \<times> journal_direction \<times> i64) list" where
  "chain_postings bs =
     concat (map (\<lambda>b. concat (map (tx_postings (blk_height b)) (blk_txs b))) bs)"

definition chain_linked :: "block list \<Rightarrow> bool" where
  "chain_linked bs \<longleftrightarrow>
     (\<forall>i < length bs. blk_hash (bs ! i) \<noteq> [] \<and>
        blk_height (bs ! i) = i64_wrap (i64_wrap (int i) + 1) \<and>
        blk_prev_hash (bs ! i) = (if i = 0 then GENESIS_HASH else blk_hash (bs ! (i - 1))))"

definition keyed :: "('v \<Rightarrow> 'k) \<Rightarrow> ('k, 'v) hash_map \<Rightarrow> bool" where
  "keyed key m \<longleftrightarrow> hm_wf m \<and> (\<forall>(k, v) \<in> set m. k = key v)"

definition maps_keyed :: "ledger \<Rightarrow> bool" where
  "maps_keyed l \<longleftrightarrow>
     keyed acc_id (led_accounts l) \<and> keyed inst_id (led_institutions l) \<and>
     keyed cred_id (led_institution_credentials l) \<and>
     keyed (\<lambda>m. (lim_institution_id m, lim_asset m)) (led_institution_limits l) \<and>
     keyed (\<lambda>p. tx_id (pay_transaction p)) (led_payments l) \<and>
     keyed case_id (led_compliance_cases l) \<and> hm_wf (led_balances l)"

definition ledger_inv :: "ledger \<Rightarrow> bool" where
  "ledger_inv l \<longleftrightarrow> follows (chain_txs l) (working_copy l) \<and>
     map posting_of (led_journal_entries l) = chain_postings (led_blocks l) \<and>
     chain_linked (led_blocks l) \<and> maps_keyed l"

lemma keyed_Nil [simp]: "keyed key []"
  by (simp add: keyed_def)

lemma keyed_insert: "keyed key m \<Longrightarrow> keyed key (hm_insert (key v) v m)"
  unfolding keyed_def using hm.entries_put_set [of m "key v" v] by auto

lemma keyed_insert' [intro]: "keyed key m \<Longrightarrow> k = key v \<Longrightarrow> keyed key (hm_insert k v m)"
  by (simp add: keyed_insert)

lemma keyed_insert_records:
  "keyed (\<lambda>p. tx_id (pay_transaction p)) m \<Longrightarrow>
     keyed (\<lambda>p. tx_id (pay_transaction p)) (insert_records rs m)"
  unfolding insert_records_def by (induction rs arbitrary: m) (auto simp: keyed_insert')

lemma chain_linked_snoc:
  assumes "chain_linked (led_blocks l)" "block_links l b"
  shows "chain_linked (led_blocks l @ [b])"
proof -
  have "blk_prev_hash b = (if led_blocks l = [] then GENESIS_HASH else blk_hash (last (led_blocks l)))"
    using assms(2) by (simp add: block_links_def last_hash_def latest_block_def)
  with assms show ?thesis
    by (auto simp: chain_linked_def block_links_def next_height_def nth_append less_Suc_eq
        last_conv_nth)
qed

lemma ledger_inv_empty: "ledger_inv ledger_empty"
  by (simp add: ledger_inv_def ledger_empty_def chain_txs_def chain_postings_def chain_linked_def
      maps_keyed_def follows_def working_copy_def balances_follow_def issued_follows_def
      total_follows_def nonces_follow_def exact_for_def nonces_of_def balance_from_def asset_total_def)

lemma apply_block_chain:
  assumes "apply_block w b l = (Inr rs, l', w')"
  shows "chain_txs l' = chain_txs l @ blk_txs b"
  by (rule apply_block_ok [OF assms]) (simp add: chain_txs_def commit_working_def)

lemma ledger_inv_apply_block:
  assumes inv: "ledger_inv l" and ok: "apply_block w b l = (Inr rs, l', w')"
  shows "ledger_inv l'"
proof -
  obtain work w1 es where links: "block_links l b"
    and txs: "apply_txs w l (blk_height b) (blk_hash b) (blk_txs b) (working_copy l)
      = Inr (rs, work, w1)"
    and l': "l' = (commit_working work l)
      \<lparr>led_payments := insert_records rs (led_payments l),
       led_audit_events := led_audit_events l @ es, led_blocks := led_blocks l @ [b]\<rparr>"
    by (rule apply_block_ok [OF ok])
  have "follows (chain_txs l) (working_copy l)" using inv by (simp add: ledger_inv_def)
  note run = apply_txs_follows [OF txs this]
  have "working_copy l' = work" by (simp add: working_copy_def l' commit_working_def)
  then have "follows (chain_txs l') (working_copy l')"
    using run by (simp add: chain_txs_def l')
  moreover have "map posting_of (led_journal_entries l') = chain_postings (led_blocks l')"
    using run inv by (auto simp: ledger_inv_def l' commit_working_def chain_postings_def working_copy_def)
  moreover have "maps_keyed l'"
    using inv run by (auto simp: ledger_inv_def maps_keyed_def l' commit_working_def
        keyed_insert_records follows_def balances_follow_def)
  moreover have "chain_linked (led_blocks l')"
    using inv links by (simp add: ledger_inv_def l' chain_linked_snoc)
  ultimately show ?thesis by (simp add: ledger_inv_def)
qed

section \<open>Runs\<close>

text \<open>
  One operation of the ledger. A compliance case gets a fresh identifier: \<open>Uuid::new_v4\<close> does
  not return one that is in use. An operation that fails leaves the ledger as it is.
\<close>

inductive ledger_step :: "ledger \<Rightarrow> ledger \<Rightarrow> bool" where
  step_apply_block: "apply_block w b l = (r, l', w') \<Longrightarrow> ledger_step l l'"
| step_hold: "hold_payment_for_review w p c l = Inr (r, l', w') \<Longrightarrow>
    hm_get (led_compliance_cases l) (uuids w (drawn w)) = None \<Longrightarrow> ledger_step l l'"
| step_approve: "approve_compliance_case w i reviewer reason l = Inr (r, l', w') \<Longrightarrow> ledger_step l l'"
| step_reject: "reject_compliance_case w i reviewer reason l = Inr (r, l', w') \<Longrightarrow> ledger_step l l'"
| step_account: "ledger_step l (upsert_account a l)"
| step_balance_row: "ledger_step l (ensure_balance_row a s l)"
| step_institution: "ledger_step l (upsert_institution inst l)"
| step_suspend: "suspend_institution w i l = Inr (r, l', w') \<Longrightarrow> ledger_step l l'"
| step_limit: "upsert_institution_limit limit l = Inr (r, l') \<Longrightarrow> ledger_step l l'"
| step_credential: "add_institution_credential c l = Inr (r, l') \<Longrightarrow> ledger_step l l'"
| step_audit: "ledger_step l (record_audit_event e l)"

inductive ledger_reachable :: "ledger \<Rightarrow> bool" where
  reach_empty: "ledger_reachable ledger_empty"
| reach_step: "ledger_reachable l \<Longrightarrow> ledger_step l l' \<Longrightarrow> ledger_reachable l'"

text \<open>Operations that leave the books (balances, nonces, issuance, journal, chain) alone.\<close>

definition same_books :: "ledger \<Rightarrow> ledger \<Rightarrow> bool" where
  "same_books l l' \<longleftrightarrow> working_copy l' = working_copy l \<and> led_blocks l' = led_blocks l"

lemma ledger_inv_same_books:
  "ledger_inv l \<Longrightarrow> same_books l l' \<Longrightarrow> maps_keyed l' \<Longrightarrow> ledger_inv l'"
  by (simp add: ledger_inv_def same_books_def chain_txs_def working_copy_def)

lemma ledger_inv_keyed: "ledger_inv l \<Longrightarrow> maps_keyed l"
  by (simp add: ledger_inv_def)

lemma same_books_simps [simp]:
  "same_books l (insert_payment_and_case p c l)"
  "same_books l (upsert_account a l)"
  "same_books l (upsert_institution inst l)"
  "same_books l (record_audit_event e l)"
  by (simp_all add: same_books_def working_copy_def insert_payment_and_case_def upsert_account_def
      upsert_institution_def record_audit_event_def)

lemma maps_keyed_simps [simp]:
  assumes "maps_keyed l"
  shows "maps_keyed (insert_payment_and_case p c l)" "maps_keyed (upsert_account a l)"
    "maps_keyed (upsert_institution inst l)" "maps_keyed (record_audit_event e l)"
    "maps_keyed (ensure_balance_row x s l)"
  using assms
  by (auto simp: maps_keyed_def insert_payment_and_case_def upsert_account_def
      upsert_institution_def record_audit_event_def ensure_balance_row_def)

lemma approve_compliance_case_okE:
  assumes "approve_compliance_case w i reviewer reason l = Inr ((c', p'), l', w')"
  obtains c p w1 where "get_compliance_case l i = Inr c"
    and "\<not> compliance_case_is_terminal (case_status c)"
    and "get_payment l (case_payment_id c) = Inr p" and "payment_mark_pending w p = (p', w1)"
    and "compliance_case_approved w1 reviewer reason c = (c', w')"
    and "l' = insert_payment_and_case p' c' l"
  using assms
  by (auto simp: approve_compliance_case_def ensure_case_not_terminal_def res_simps Let_def
      case_prod_unfold split: if_splits) (metis prod.collapse)

lemma reject_compliance_case_okE:
  assumes "reject_compliance_case w i reviewer reason l = Inr ((c', p'), l', w')"
  obtains c p w1 where "get_compliance_case l i = Inr c"
    and "\<not> compliance_case_is_terminal (case_status c)"
    and "get_payment l (case_payment_id c) = Inr p"
    and "payment_mark_rejected w
          (case reason of None \<Rightarrow> ''compliance case rejected'' | Some r \<Rightarrow> r) p = (p', w1)"
    and "compliance_case_rejected w1 reviewer reason c = (c', w')"
    and "l' = insert_payment_and_case p' c' l"
  using assms
  by (auto simp: reject_compliance_case_def ensure_case_not_terminal_def res_simps Let_def
      case_prod_unfold split: if_splits) (metis prod.collapse)

lemma ledger_inv_frames [simp]:
  assumes "ledger_inv l"
  shows "ledger_inv (insert_payment_and_case p c l)" "ledger_inv (upsert_account a l)"
    "ledger_inv (upsert_institution inst l)" "ledger_inv (record_audit_event e l)"
  using assms by (auto intro!: ledger_inv_same_books [OF assms] simp: ledger_inv_keyed)

lemma follows_cong:
  assumes "\<And>a s. balance_from (work_balances v) a s = balance_from (work_balances u) a s"
    and "\<And>s. asset_total (work_balances v) s = asset_total (work_balances u) s"
    and "hm_wf (work_balances v) = hm_wf (work_balances u)"
    and "work_nonces v = work_nonces u" "work_issued v = work_issued u"
  shows "follows txs v \<longleftrightarrow> follows txs u"
  by (simp only: follows_def balances_follow_def issued_follows_def total_follows_def
      nonces_follow_def exact_for_def assms)

lemma ledger_inv_balance_row:
  assumes "ledger_inv l"
  shows "ledger_inv (ensure_balance_row a s l)"
proof -
  let ?l = "ensure_balance_row a s l"
  have wf: "hm_wf (led_balances l)"
    using ledger_inv_keyed [OF assms] by (simp add: maps_keyed_def)
  have "follows txs (working_copy ?l) \<longleftrightarrow> follows txs (working_copy l)" for txs
    using wf by (intro follows_cong)
      (auto simp: working_copy_def ensure_balance_row_def entry_or_zero_insert asset_total_insert
        balance_from_def map_simps)
  with assms show ?thesis
    by (simp add: ledger_inv_def chain_txs_def) (simp add: ensure_balance_row_def)
qed

lemma ledger_inv_step: "ledger_step l l' \<Longrightarrow> ledger_inv l \<Longrightarrow> ledger_inv l'"
proof (induction rule: ledger_step.induct)
  case (step_apply_block w b l r l' w')
  then show ?case
    using ledger_inv_apply_block apply_block_err_unchanged by (cases r) (metis, metis)
next
  case (step_hold w p c l r l' w')
  then have "\<exists>c'. l' = insert_payment_and_case p c' l"
    by (auto simp: hold_payment_for_review_def split: prod.splits)
  with step_hold show ?case
    by auto
next
  case (step_approve w i reviewer reason l r l' w')
  then have "\<exists>c p. l' = insert_payment_and_case p c l"
    by (cases r) (auto elim!: approve_compliance_case_okE)
  with step_approve show ?case
    by auto
next
  case (step_reject w i reviewer reason l r l' w')
  then have "\<exists>c p. l' = insert_payment_and_case p c l"
    by (cases r) (auto elim!: reject_compliance_case_okE)
  with step_reject show ?case
    by auto
next
  case (step_account l a)
  then show ?case by auto
next
  case (step_balance_row l a s)
  then show ?case by (simp add: ledger_inv_balance_row)
next
  case (step_institution l inst)
  then show ?case by auto
next
  case (step_suspend w i l r l' w')
  then have "\<exists>inst. l' = upsert_institution inst l"
    by (auto simp: suspend_institution_def res_simps Let_def case_prod_unfold)
  with step_suspend show ?case
    by auto
next
  case (step_limit limit l r l')
  then have l': "l' = l\<lparr>led_institution_limits :=
      hm_insert (lim_institution_id limit, lim_asset limit) limit (led_institution_limits l)\<rparr>"
    by (auto simp: upsert_institution_limit_def res_simps)
  have "maps_keyed l'"
    using ledger_inv_keyed [OF step_limit(2)] unfolding l' maps_keyed_def by auto
  then show ?case
    by (rule ledger_inv_same_books [OF step_limit(2), rotated])
      (simp add: l' same_books_def working_copy_def)
next
  case (step_credential c l r l')
  then have l': "l' = l\<lparr>led_institution_credentials :=
      hm_insert (cred_id c) c (led_institution_credentials l)\<rparr>"
    by (auto simp: add_institution_credential_def res_simps)
  have "maps_keyed l'"
    using ledger_inv_keyed [OF step_credential(2)] unfolding l' maps_keyed_def by auto
  then show ?case
    by (rule ledger_inv_same_books [OF step_credential(2), rotated])
      (simp add: l' same_books_def working_copy_def)
next
  case (step_audit l e)
  then show ?case by auto
qed

lemma ledger_inv_reachable: "ledger_reachable l \<Longrightarrow> ledger_inv l"
  by (induction rule: ledger_reachable.induct) (simp_all add: ledger_inv_empty ledger_inv_step)

text \<open>The sandbox ledger is reachable.\<close>

lemma sandbox_institutions_reachable:
  "sandbox_institutions w xs l = (l', w') \<Longrightarrow> ledger_reachable l \<Longrightarrow> ledger_reachable l'"
proof (induction xs arbitrary: w l)
  case (Cons x xs)
  obtain i legal_name where x: "x = (i, legal_name)" by force
  obtain inst w1 where "institution_sandbox_approved w i legal_name i = (inst, w1)" by force
  with Cons.prems Cons.IH [OF _ reach_step [OF Cons.prems(2) step_institution]] x
  show ?case by simp
qed simp

lemma sandbox_accounts_reachable:
  "sandbox_accounts w xs l = (l', w') \<Longrightarrow> ledger_reachable l \<Longrightarrow> ledger_reachable l'"
proof (induction xs arbitrary: w l)
  case (Cons x xs)
  obtain a ty i where x: "x = (a, ty, i)" by (cases x)
  obtain acct w1 where "account_new w a ty (Some i) = (acct, w1)" by force
  with Cons.prems Cons.IH [OF _ reach_step [OF Cons.prems(2) step_account]] x
  show ?case by simp
qed simp

lemma balance_row_reachable: "ledger_reachable l \<Longrightarrow> ledger_reachable (ensure_balance_row a s l)"
  by (blast intro: reach_step step_balance_row)

lemma sandbox_reachable: "ledger_reachable (fst (ledger_sandbox w))"
  unfolding ledger_sandbox_def Let_def case_prod_unfold fst_conv
  by (intro balance_row_reachable
      sandbox_accounts_reachable [OF surjective_pairing sandbox_institutions_reachable
        [OF surjective_pairing reach_empty]])

text \<open>An example: a treasury and two corporate accounts, and a first block on them.\<close>

definition sample_accounts :: ledger where
  "sample_accounts = ledger_empty\<lparr>led_accounts :=
     map (\<lambda>(a, ty). (a, \<lparr>acc_id = a, acc_type = ty, acc_institution_id = None, acc_created_at = 0\<rparr>))
       [(''TREASURY_SANDBOX'', Treasury), (''CORP_A'', InstitutionAccount),
        (''CORP_B'', InstitutionAccount)]\<rparr>"

definition sample_tx :: "transaction_kind \<Rightarrow> string \<Rightarrow> string \<Rightarrow> i128 \<Rightarrow> i64 \<Rightarrow> transaction" where
  "sample_tx kind sender receiver amount nonce =
     \<lparr>tx_id = sender, tx_from = sender, tx_to = receiver, tx_asset = ''KCAD'',
      tx_amount = amount, tx_nonce = nonce, tx_signatures = [], tx_kind = kind, tx_metadata = [],
      tx_created_at = 0\<rparr>"

definition sample_block :: "transaction list \<Rightarrow> block" where
  "sample_block txs = \<lparr>blk_height = 1, blk_prev_hash = ''KANI_GENESIS_V1'', blk_txs = txs,
     blk_validator = ''validator-1'', blk_signature = ''s'', blk_hash = ''h'',
     blk_finalized_by = [''validator-1'', ''validator-2''], blk_created_at = 0\<rparr>"

definition sample_run :: "transaction list \<Rightarrow> (ledger_error + payment_record list) \<times> ledger \<times> env" where
  "sample_run txs = apply_block sample_env (sample_block txs) sample_accounts"

definition sample_txs :: "transaction list" where
  "sample_txs =
     [sample_tx Mint ''TREASURY_SANDBOX'' ''CORP_A'' 1000 1,
      sample_tx Transfer ''CORP_A'' ''CORP_B'' 400 1,
      sample_tx Burn ''CORP_B'' ''TREASURY_SANDBOX'' 100 1]"

definition sample_ledger :: ledger where
  "sample_ledger = fst (snd (sample_run sample_txs))"

lemma sample_accounts_steps:
  "sample_accounts =
     upsert_account \<lparr>acc_id = ''CORP_B'', acc_type = InstitutionAccount, acc_institution_id = None,
       acc_created_at = 0\<rparr>
     (upsert_account \<lparr>acc_id = ''CORP_A'', acc_type = InstitutionAccount, acc_institution_id = None,
       acc_created_at = 0\<rparr>
     (upsert_account \<lparr>acc_id = ''TREASURY_SANDBOX'', acc_type = Treasury, acc_institution_id = None,
       acc_created_at = 0\<rparr> ledger_empty))"
  by (simp add: sample_accounts_def upsert_account_def hm_insert_def ledger_empty_def)

lemma sample_accounts_reachable: "ledger_reachable sample_accounts"
  unfolding sample_accounts_steps by (intro reach_step [OF _ step_account] reach_empty)

lemma sample_run_reachable: "ledger_reachable (fst (snd (sample_run txs)))"
proof -
  obtain r l' w' where "sample_run txs = (r, l', w')" by (cases "sample_run txs")
  then show ?thesis
    using reach_step [OF sample_accounts_reachable step_apply_block] by (simp add: sample_run_def)
qed

lemma sample_ledger_reachable: "ledger_reachable sample_ledger"
  unfolding sample_ledger_def by (rule sample_run_reachable)

lemma sample_run_ok: "is_ok (fst (sample_run sample_txs))"
  by code_simp

theorem apply_block_spec_witness:
  "\<exists>records. fst (sample_run sample_txs) = Inr records \<and>
     map pay_transaction records = sample_txs \<and> led_blocks sample_ledger = [sample_block sample_txs]"
proof -
  obtain records w where run: "sample_run sample_txs = (Inr records, sample_ledger, w)"
    using sample_run_ok by (cases "sample_run sample_txs") (auto simp: is_ok_iff sample_ledger_def)
  then show ?thesis
    using apply_block_spec [where w = sample_env and b = "sample_block sample_txs"
        and l = sample_accounts and v = sample_env]
    by (simp add: sample_run_def) (simp add: sample_block_def sample_accounts_def ledger_empty_def)
qed

lemma sample_ledger_values:
  "ledger_balance sample_ledger ''CORP_A'' ''KCAD'' = 600"
  "ledger_issued sample_ledger ''KCAD'' = 900"
  "led_blocks sample_ledger = [sample_block sample_txs]"
  by code_simp+

section \<open>Accounting\<close>

lemma reachable_follows: "ledger_reachable l \<Longrightarrow> follows (chain_txs l) (working_copy l)"
  using ledger_inv_reachable by (simp add: ledger_inv_def)

lemma working_copy_sel [simp]:
  "work_balances (working_copy l) = led_balances l" "work_nonces (working_copy l) = led_nonces l"
  "work_issued (working_copy l) = led_issued l" "work_journal (working_copy l) = led_journal_entries l"
  by (simp_all add: working_copy_def)

definition journal_net :: "journal_entry list \<Rightarrow> string \<Rightarrow> string \<Rightarrow> int" where
  "journal_net es a s = (\<Sum>e\<leftarrow>es. if je_account_id e = a \<and> je_asset e = s
     then (case je_direction e of Credit \<Rightarrow> je_amount e | Debit \<Rightarrow> - je_amount e) else 0)"

definition posting_net ::
  "string \<Rightarrow> string \<Rightarrow> string \<times> string \<times> string \<times> i128 \<times> journal_direction \<times> i64 \<Rightarrow> int" where
  "posting_net a s = (\<lambda>(i, a', s', x, d, h). if a' = a \<and> s' = s
     then (case d of Credit \<Rightarrow> x | Debit \<Rightarrow> - x) else 0)"

lemma journal_net_postings: "journal_net es a s = sum_list (map (posting_net a s) (map posting_of es))"
  by (simp add: journal_net_def posting_net_def posting_of_def o_def)

lemma tx_postings_net: "sum_list (map (posting_net a s) (tx_postings h tx)) = tx_net tx a s"
  by (cases "tx_kind tx") (simp_all add: tx_postings_def posting_net_def tx_net_def)

lemma block_postings_net:
  "sum_list (map (posting_net a s) (concat (map (tx_postings h) txs))) = chain_balance txs a s"
  by (induction txs) (simp_all add: tx_postings_net chain_balance_def)

lemma chain_postings_net:
  "sum_list (map (posting_net a s) (chain_postings bs)) =
     chain_balance (concat (map blk_txs bs)) a s"
  by (induction bs) (simp_all add: chain_postings_def block_postings_net, simp add: chain_balance_def)

text \<open>
  Conservation of value. In every ledger the operations can reach, the balances of an
  asset add up to the amount issued of it, modulo the width of the amounts.
\<close>

theorem ledger_conservation:
  assumes "ledger_reachable l"
  shows "asset_total (led_balances l) s mod 2 ^ 128 = ledger_issued l s mod 2 ^ 128"
proof -
  note f = reachable_follows [OF assms]
  have "asset_total (led_balances l) s mod i128_modulus = chain_issued (chain_txs l) s mod i128_modulus"
    using f by (simp add: follows_def total_follows_def)
  also have "\<dots> = i128_wrap (chain_issued (chain_txs l) s) mod i128_modulus"
    by (simp only: i128_wrap_modulus)
  also have "i128_wrap (chain_issued (chain_txs l) s) = ledger_issued l s"
    using f by (simp add: follows_def issued_follows_def ledger_issued_def)
  finally show ?thesis by (simp only: i128_modulus_def)
qed

theorem ledger_conservation_witness:
  "asset_total (led_balances sample_ledger) ''KCAD'' mod 2 ^ 128 = 900"
  using ledger_conservation [OF sample_ledger_reachable, of "''KCAD''"]
  by (simp add: sample_ledger_values)

text \<open>
  Claim C1. Solvency. As long as less than \<open>2 ^ 127\<close> units of an asset were ever minted, every
  account's balance is the exact sum of its credits less its debits on the chain, no balance is
  negative, and the balances add up exactly to the issued amount, which is what was minted less
  what was burned and at most what was minted.
\<close>

theorem ledger_solvency:
  assumes "ledger_reachable l" "gross_minted (chain_txs l) s < 2 ^ 127"
  shows "(\<forall>a. ledger_balance l a s = chain_balance (chain_txs l) a s \<and> 0 \<le> ledger_balance l a s) \<and>
    ledger_issued l s = chain_issued (chain_txs l) s \<and>
    asset_total (led_balances l) s = ledger_issued l s \<and>
    ledger_issued l s \<le> gross_minted (chain_txs l) s"
proof -
  have "exact_for s (chain_txs l) (working_copy l)"
    and pos: "\<forall>tx \<in> set (chain_txs l). 0 < tx_amount tx"
    using reachable_follows [OF assms(1)] assms(2) unfolding follows_def by blast+
  then show ?thesis
    using chain_issued_le_minted [OF pos]
    by (simp add: exact_for_def ledger_balance_def ledger_issued_def)
qed

theorem ledger_solvency_witness:
  "ledger_balance sample_ledger ''CORP_B'' ''KCAD'' = 300 \<and>
   asset_total (led_balances sample_ledger) ''KCAD'' = 900"
proof -
  have "gross_minted (chain_txs sample_ledger) ''KCAD'' < 2 ^ 127"
    by (simp add: chain_txs_def sample_ledger_values sample_block_def) code_simp
  moreover have "chain_balance (chain_txs sample_ledger) ''CORP_B'' ''KCAD'' = 300"
    by (simp add: chain_txs_def sample_ledger_values sample_block_def) code_simp
  ultimately show ?thesis
    using ledger_solvency [OF sample_ledger_reachable] by (simp add: sample_ledger_values)
qed

text \<open>
  Claim C23. The journal is the double-entry record of the chain. Its entries are, in order, the
  postings of the chain's transactions at the height of their block (a debit and a credit of a
  transfer, the credit of a mint, the debit of a burn), and every balance is the credits less
  the debits of the account's entries.
\<close>

theorem journal_records_chain:
  assumes "ledger_reachable l"
  shows "map posting_of (led_journal_entries l) = chain_postings (led_blocks l) \<and>
    (\<forall>a s. ledger_balance l a s = i128_wrap (journal_net (led_journal_entries l) a s))"
proof -
  have j: "map posting_of (led_journal_entries l) = chain_postings (led_blocks l)"
    using ledger_inv_reachable [OF assms] by (simp add: ledger_inv_def)
  then have "journal_net (led_journal_entries l) a s = chain_balance (chain_txs l) a s" for a s
    by (simp only: journal_net_postings chain_postings_net chain_txs_def)
  with j reachable_follows [OF assms] show ?thesis
    by (simp add: ledger_balance_def follows_def balances_follow_def)
qed

theorem journal_records_chain_witness:
  "map je_amount (led_journal_entries sample_ledger) = [1000, 400, 400, 100]"
proof -
  let ?amount = "\<lambda>(i, a, s, x, d, h). x"
  have "map je_amount es = map ?amount (map posting_of es)" for es
    by (simp add: posting_of_def)
  moreover have "map ?amount (chain_postings (led_blocks sample_ledger)) = [1000, 400, 400, 100]"
    by (simp add: sample_ledger_values) code_simp
  ultimately show ?thesis
    using journal_records_chain [OF sample_ledger_reachable] by metis
qed

text \<open>
  The blocks form a hash chain without gaps: the block at index \<open>i\<close> has height
  \<open>i + 1\<close>, a hash, and the previous block's hash (or the genesis hash) as its previous hash.
\<close>

theorem chain_integrity:
  assumes "ledger_reachable l" "i < length (led_blocks l)" "i < 2 ^ 62"
  shows "blk_height (led_blocks l ! i) = int i + 1 \<and> blk_hash (led_blocks l ! i) \<noteq> [] \<and>
    blk_prev_hash (led_blocks l ! i) =
      (if i = 0 then GENESIS_HASH else blk_hash (led_blocks l ! (i - 1)))"
proof -
  have "int i < int (2 ^ 62)" using assms(3) by (simp only: of_nat_less_iff)
  then have "i64_wrap (i64_wrap (int i) + 1) = int i + 1"
    by (simp add: i64_wrap_id)
  then show ?thesis
    using ledger_inv_reachable [OF assms(1)] assms(2) by (simp add: ledger_inv_def chain_linked_def)
qed

theorem chain_integrity_witness:
  "blk_height (led_blocks sample_ledger ! 0) = 1 \<and>
   blk_prev_hash (led_blocks sample_ledger ! 0) = ''KANI_GENESIS_V1''"
  using chain_integrity [OF sample_ledger_reachable, of 0]
  by (simp add: sample_ledger_values GENESIS_HASH_def)

text \<open>
  Claim C22. No replay. The nonces of an account's finalized transactions are positive and
  strictly increase along the chain, so no two of them share account and nonce, and a block
  carrying a transaction with a nonce the account has already used is rejected.
\<close>

theorem no_replay:
  assumes "ledger_reachable l"
  shows "(\<forall>a. sorted_wrt (<) (0 # nonces_of a (chain_txs l))) \<and>
    (\<forall>b w r l' w'. apply_block w b l = (Inr r, l', w') \<longrightarrow>
      (\<forall>tx \<in> set (blk_txs b). \<forall>old \<in> set (chain_txs l).
         tx_from tx = tx_from old \<longrightarrow> tx_nonce old < tx_nonce tx))"
proof -
  have follow: "sorted_wrt (<) (0 # nonces_of a (chain_txs l'))" if "ledger_reachable l'" for l' a
    using reachable_follows [OF that] by (auto simp: follows_def nonces_follow_def)
  moreover have "tx_nonce old < tx_nonce tx"
    if ok: "apply_block w b l = (Inr r, l', w')" and tx: "tx \<in> set (blk_txs b)"
      and old: "old \<in> set (chain_txs l)" and same: "tx_from tx = tx_from old" for b w r l' w' tx old
  proof -
    note apply_block_chain [OF ok]
    then have "sorted_wrt (<) (nonces_of (tx_from tx) (chain_txs l) @ nonces_of (tx_from tx) (blk_txs b))"
      using follow [OF reach_step [OF assms step_apply_block [OF ok]], of "tx_from tx"]
      by (simp add: nonces_of_def)
    with tx old same show ?thesis by (auto simp: sorted_wrt_append nonces_of_def)
  qed
  ultimately show ?thesis using assms by blast
qed

theorem no_replay_witness:
  "\<forall>w b. \<not> is_ok (fst (apply_block w (b\<lparr>blk_txs := sample_txs\<rparr>) sample_ledger))"
proof (intro allI)
  fix w b
  obtain r l' w' where ab: "apply_block w (b\<lparr>blk_txs := sample_txs\<rparr>) sample_ledger = (r, l', w')"
    by (cases "apply_block w (b\<lparr>blk_txs := sample_txs\<rparr>) sample_ledger")
  have "chain_txs sample_ledger = sample_txs"
    by (simp add: chain_txs_def sample_ledger_values sample_block_def)
  moreover have "hd sample_txs \<in> set sample_txs" by (simp add: sample_txs_def)
  ultimately have "\<nexists>rs. r = Inr rs"
    using no_replay [OF sample_ledger_reachable] ab by fastforce
  with ab show "\<not> is_ok (fst (apply_block w (b\<lparr>blk_txs := sample_txs\<rparr>) sample_ledger))"
    by (simp add: is_ok_iff)
qed

section \<open>Compliance decisions\<close>

lemma keyed_get: "keyed key m \<Longrightarrow> hm_get m k = Some v \<Longrightarrow> key v = k"
  using hm.entries_get [of m k v] by (auto simp: keyed_def)

lemma reachable_case_id:
  "ledger_reachable l \<Longrightarrow> get_compliance_case l i = Inr c \<Longrightarrow> case_id c = i"
  using ledger_inv_keyed [OF ledger_inv_reachable, of l] keyed_get [of case_id]
  by (auto simp: get_compliance_case_def maps_keyed_def res_simps)

lemma reachable_payment_id:
  "ledger_reachable l \<Longrightarrow> get_payment l i = Inr p \<Longrightarrow> tx_id (pay_transaction p) = i"
  using ledger_inv_keyed [OF ledger_inv_reachable, of l]
    keyed_get [of "\<lambda>p. tx_id (pay_transaction p)"]
  by (auto simp: get_payment_def maps_keyed_def res_simps)

lemma get_compliance_case_insert [map_simps]:
  "get_compliance_case (insert_payment_and_case p c l) i =
     (if i = case_id c then Inr c else get_compliance_case l i)"
  by (simp add: get_compliance_case_def insert_payment_and_case_def map_simps)

lemma get_payment_insert [map_simps]:
  "get_payment (insert_payment_and_case p c l) i =
     (if i = tx_id (pay_transaction p) then Inr p else get_payment l i)"
  by (simp add: get_payment_def insert_payment_and_case_def map_simps)

lemma compliance_case_approvedD:
  "compliance_case_approved w reviewer reason c = (c', w') \<Longrightarrow>
     case_id c' = case_id c \<and> case_status c' = CaseApproved \<and> case_reviewer c' = reviewer \<and>
     case_resolution_reason c' = reason \<and> case_resolved_at c' \<noteq> None"
  by (auto simp: compliance_case_approved_def utc_now_def)

lemma compliance_case_rejectedD:
  "compliance_case_rejected w reviewer reason c = (c', w') \<Longrightarrow>
     case_id c' = case_id c \<and> case_status c' = CaseRejected \<and> case_reviewer c' = reviewer \<and>
     case_resolution_reason c' = reason \<and> case_resolved_at c' \<noteq> None"
  by (auto simp: compliance_case_rejected_def utc_now_def)

lemma payment_markD:
  "payment_mark_pending w p = (p', w') \<Longrightarrow>
     pay_transaction p' = pay_transaction p \<and> pay_status p' = Pending \<and> pay_failure_reason p' = None"
  "payment_mark_rejected w reason p = (p', w') \<Longrightarrow>
     pay_transaction p' = pay_transaction p \<and> pay_status p' = Rejected \<and>
     pay_failure_reason p' = Some reason"
  by (auto simp: payment_mark_pending_def payment_mark_rejected_def utc_now_def)

text \<open>A terminal case is never touched again.\<close>

lemma terminal_case_step:
  assumes "ledger_step l l'" "ledger_reachable l" "get_compliance_case l i = Inr c"
    and "compliance_case_is_terminal (case_status c)"
  shows "get_compliance_case l' i = Inr c"
  using assms
proof (induction rule: ledger_step.induct)
  case (step_apply_block w b l r l' w')
  show ?case
  proof (cases r)
    case (Inl e)
    with step_apply_block show ?thesis using apply_block_err_unchanged by metis
  next
    case (Inr rs)
    with step_apply_block(1) have "apply_block w b l = (Inr rs, l', w')" by simp
    then show ?thesis
      by (rule apply_block_ok)
        (use step_apply_block(3) in \<open>simp add: get_compliance_case_def commit_working_def\<close>)
  qed
next
  case (step_hold w p copen l r l' w')
  then obtain c' where l': "l' = insert_payment_and_case p c' l" and "case_id c' = uuids w (drawn w)"
    by (auto simp: hold_payment_for_review_def compliance_case_opened_def utc_now_def new_uuid_def)
  with step_hold have "case_id c' \<noteq> i" by (auto simp: get_compliance_case_def res_simps)
  with step_hold l' show ?case by (simp add: map_simps)
next
  case (step_approve w j reviewer reason l r l' w')
  obtain c' p' where r: "r = (c', p')" by force
  from step_approve(1) [unfolded r] show ?case
  proof (rule approve_compliance_case_okE)
    fix d p w1
    assume d: "get_compliance_case l j = Inr d" "\<not> compliance_case_is_terminal (case_status d)"
      and "compliance_case_approved w1 reviewer reason d = (c', w')"
      and l': "l' = insert_payment_and_case p' c' l"
    moreover have "j \<noteq> i" using d step_approve by auto
    ultimately show ?thesis
      using step_approve reachable_case_id [OF step_approve(2) d(1)] compliance_case_approvedD
      by (auto simp: map_simps)
  qed
next
  case (step_reject w j reviewer reason l r l' w')
  obtain c' p' where r: "r = (c', p')" by force
  from step_reject(1) [unfolded r] show ?case
  proof (rule reject_compliance_case_okE)
    fix d p w1
    assume d: "get_compliance_case l j = Inr d" "\<not> compliance_case_is_terminal (case_status d)"
      and "compliance_case_rejected w1 reviewer reason d = (c', w')"
      and l': "l' = insert_payment_and_case p' c' l"
    moreover have "j \<noteq> i" using d step_reject by auto
    ultimately show ?thesis
      using step_reject reachable_case_id [OF step_reject(2) d(1)] compliance_case_rejectedD
      by (auto simp: map_simps)
  qed
next
  case (step_suspend w j l r l' w')
  then have "led_compliance_cases l' = led_compliance_cases l"
    by (auto simp: suspend_institution_def upsert_institution_def res_simps Let_def case_prod_unfold)
  with step_suspend show ?case by (simp add: get_compliance_case_def)
qed (auto simp: get_compliance_case_def upsert_account_def ensure_balance_row_def
    upsert_institution_def record_audit_event_def upsert_institution_limit_def
    add_institution_credential_def res_simps)

lemma terminal_case_forever:
  assumes "ledger_step\<^sup>*\<^sup>* l l'" "ledger_reachable l" "get_compliance_case l i = Inr c"
    and "compliance_case_is_terminal (case_status c)"
  shows "get_compliance_case l' i = Inr c \<and> ledger_reachable l'"
  using assms(1)
proof (induction rule: rtranclp_induct)
  case base
  with assms show ?case by simp
next
  case (step y z)
  with terminal_case_step [OF step(2) _ _ assms(4)] show ?case by (auto intro: reach_step)
qed

text \<open>
  Claim C30. A compliance decision is final. Once a case is approved, rejected or closed, no run
  of the ledger changes it, and every later attempt to approve or reject it, whoever reviews,
  fails with the terminal-case error that names the case and its status.
\<close>

theorem compliance_decision_final:
  assumes "ledger_reachable l" "get_compliance_case l i = Inr c"
    and "compliance_case_is_terminal (case_status c)" "ledger_step\<^sup>*\<^sup>* l l'"
  shows "get_compliance_case l' i = Inr c \<and>
    approve_compliance_case w i reviewer reason l' =
      Inl (TerminalComplianceCase i (compliance_case_status_to_db (case_status c))) \<and>
    reject_compliance_case w i reviewer reason l' =
      Inl (TerminalComplianceCase i (compliance_case_status_to_db (case_status c)))"
  using terminal_case_forever [OF assms(4,1,2,3)] assms(3) reachable_case_id [OF assms(1,2)]
  by (simp add: approve_compliance_case_def reject_compliance_case_def ensure_case_not_terminal_def)

text \<open>An example: a payment of \<open>CORP_A\<close> held for review, and its case.\<close>

definition sample_held_payment :: payment_record where
  "sample_held_payment =
     fst (payment_held sample_env (sample_tx Transfer ''CORP_A'' ''CORP_B'' 400 1) ''manual'')"

definition sample_case_open :: compliance_case_open where
  "sample_case_open = \<lparr>copen_payment_id = ''CORP_A'', copen_policy_version = ''v'',
     copen_rule_id = ''r'', copen_reason = ''manual'', copen_opened_by_institution = ''CORP_A''\<rparr>"

definition sample_case :: compliance_case where
  "sample_case = fst (compliance_case_opened sample_env sample_case_open)"

definition sample_review :: ledger where
  "sample_review = insert_payment_and_case sample_held_payment sample_case sample_accounts"

definition sample_rejected :: ledger where
  "sample_rejected = (case reject_compliance_case sample_env ''uuid-0'' None None sample_review of
     Inr (r, l, w) \<Rightarrow> l | Inl e \<Rightarrow> sample_review)"

lemma sample_review_reachable: "ledger_reachable sample_review"
proof -
  obtain w' where "compliance_case_opened sample_env sample_case_open = (sample_case, w')"
    by (cases "compliance_case_opened sample_env sample_case_open") (simp add: sample_case_def)
  then have "hold_payment_for_review sample_env sample_held_payment sample_case_open sample_accounts
      = Inr ((sample_held_payment, sample_case), sample_review, w')"
    by (simp add: hold_payment_for_review_def sample_review_def)
  moreover have "hm_get (led_compliance_cases sample_accounts)
      (uuids sample_env (drawn sample_env)) = None"
    by (simp add: sample_accounts_def ledger_empty_def)
  ultimately show ?thesis by (rule reach_step [OF sample_accounts_reachable step_hold])
qed

lemma sample_rejected_reachable: "ledger_reachable sample_rejected"
  using sample_review_reachable reach_step [OF sample_review_reachable step_reject]
  by (auto simp: sample_rejected_def split: sum.splits)

lemma sample_rejected_case:
  "map_option case_status (hm_get (led_compliance_cases sample_rejected) ''uuid-0'') = Some CaseRejected"
  by code_simp

theorem compliance_decision_final_witness:
  "approve_compliance_case sample_env ''uuid-0'' (Some ''officer'') None sample_rejected =
     Inl (TerminalComplianceCase ''uuid-0'' ''REJECTED'')"
proof -
  obtain c where "get_compliance_case sample_rejected ''uuid-0'' = Inr c" "case_status c = CaseRejected"
    using sample_rejected_case by (auto simp: get_compliance_case_def)
  then show ?thesis
    using compliance_decision_final [OF sample_rejected_reachable, of "''uuid-0''" c]
    by simp
qed

text \<open>
  What a decision does. In a reachable ledger, approving an open case whose payment is
  known marks the case approved with the reviewer and the reason, returns the held payment to
  pending with its transaction unchanged, and stores both; balances, nonces, issuance, journal
  and chain are untouched. Otherwise the operation fails: the case is unknown, or terminal, or
  its payment is unknown.
\<close>

theorem approve_case_spec:
  assumes "ledger_reachable l"
  shows "case approve_compliance_case w i reviewer reason l of
      Inl err \<Rightarrow> err = UnknownComplianceCase i \<or>
        (\<exists>c. get_compliance_case l i = Inr c \<and>
          (compliance_case_is_terminal (case_status c) \<or>
           err = UnknownPayment (case_payment_id c)))
    | Inr ((c', p'), l', w') \<Rightarrow>
        (\<exists>c p. get_compliance_case l i = Inr c \<and>
          \<not> compliance_case_is_terminal (case_status c) \<and>
          get_payment l (case_payment_id c) = Inr p \<and>
          pay_status p' = Pending \<and> pay_transaction p' = pay_transaction p \<and>
          get_payment l' (case_payment_id c) = Inr p') \<and>
        get_compliance_case l' i = Inr c' \<and> case_status c' = CaseApproved \<and>
        case_reviewer c' = reviewer \<and> case_resolution_reason c' = reason \<and>
        same_books l l'"
proof (cases "approve_compliance_case w i reviewer reason l")
  case (Inl err)
  then show ?thesis
    by (auto simp: approve_compliance_case_def ensure_case_not_terminal_def res_simps
        get_compliance_case_def get_payment_def Let_def case_prod_unfold split: if_splits)
next
  case (Inr r)
  obtain c' p' l' w' where r: "r = ((c', p'), l', w')" by (cases r) auto
  from Inr [unfolded r] show ?thesis
  proof (rule approve_compliance_case_okE)
    fix c p w1
    assume c: "get_compliance_case l i = Inr c"
      and open_case: "\<not> compliance_case_is_terminal (case_status c)"
      and p: "get_payment l (case_payment_id c) = Inr p"
      and p': "payment_mark_pending w p = (p', w1)"
      and c': "compliance_case_approved w1 reviewer reason c = (c', w')"
      and l': "l' = insert_payment_and_case p' c' l"
    show ?thesis
      using Inr r c open_case p payment_markD(1) [OF p'] compliance_case_approvedD [OF c'] l'
        reachable_case_id [OF assms c] reachable_payment_id [OF assms p]
      by (simp add: map_simps)
  qed
qed

theorem approve_case_spec_witness:
  "case approve_compliance_case sample_env ''uuid-0'' None None sample_review of
     Inl err \<Rightarrow> False
   | Inr ((c', p'), l', w') \<Rightarrow> pay_status p' = Pending \<and> same_books sample_review l'"
proof -
  have "is_ok (approve_compliance_case sample_env ''uuid-0'' None None sample_review)"
    by code_simp
  then show ?thesis
    using approve_case_spec [OF sample_review_reachable,
        where w = sample_env and i = "''uuid-0''" and reviewer = None and reason = None]
    by (auto simp: is_ok_iff)
qed

section \<open>The width of the amounts\<close>

definition overflow_txs :: "transaction list" where
  "overflow_txs =
     [sample_tx Mint ''TREASURY_SANDBOX'' ''CORP_A'' 99999999999999999999999999999999999999 1,
      sample_tx Mint ''TREASURY_SANDBOX'' ''CORP_A'' 99999999999999999999999999999999999999 2]"

definition overflow_ledger :: ledger where
  "overflow_ledger = fst (snd (sample_run overflow_txs))"

lemma overflow_run_ok: "is_ok (fst (sample_run overflow_txs))"
proof -
  have "block_links sample_accounts (sample_block overflow_txs)"
    by (simp add: block_links_def sample_block_def next_height_def last_hash_def latest_block_def
        sample_accounts_def ledger_empty_def GENESIS_HASH_def i64_wrap_def)
  then have "err_of (fst (sample_run overflow_txs)) =
      err_of (validate_transactions_for_next_block sample_env sample_accounts overflow_txs)"
    using apply_block_linked [of sample_accounts "sample_block overflow_txs"]
    by (simp add: sample_run_def) (simp add: sample_block_def)
  moreover have
    "is_ok (validate_transactions_for_next_block sample_env sample_accounts overflow_txs)"
    by code_simp
  ultimately show ?thesis using err_of_None_iff by (metis is_ok_iff)
qed

lemma overflow_ledger_values:
  "ledger_balance overflow_ledger ''CORP_A'' ''KCAD'' = 2 * (10 ^ 38 - 1) - 2 ^ 128"
  "ledger_issued overflow_ledger ''KCAD'' = 2 * (10 ^ 38 - 1) - 2 ^ 128"
proof -
  obtain records w where run: "apply_block sample_env (sample_block overflow_txs) sample_accounts
      = (Inr records, overflow_ledger, w)"
    using overflow_run_ok
    by (cases "sample_run overflow_txs") (auto simp: is_ok_iff overflow_ledger_def sample_run_def)
  have "chain_txs overflow_ledger = overflow_txs"
    using apply_block_chain [OF run]
    by (simp add: chain_txs_def sample_accounts_def ledger_empty_def sample_block_def)
  then have "follows overflow_txs (working_copy overflow_ledger)"
    using reachable_follows [of overflow_ledger] sample_run_reachable [of overflow_txs]
    by (simp add: overflow_ledger_def)
  then show "ledger_balance overflow_ledger ''CORP_A'' ''KCAD'' = 2 * (10 ^ 38 - 1) - 2 ^ 128"
    and "ledger_issued overflow_ledger ''KCAD'' = 2 * (10 ^ 38 - 1) - 2 ^ 128"
    by (simp_all add: follows_def balances_follow_def issued_follows_def ledger_balance_def
        ledger_issued_def chain_balance_def chain_issued_def tx_net_def tx_issue_def
        overflow_txs_def sample_tx_def i128_wrap_def)
qed

text \<open>
  Nothing bounds what can be minted. Two mints of \<open>10 ^ 38 - 1\<close> units, the largest
  amount a \<open>NUMERIC(38, 0)\<close> column holds, to the same account are accepted in one block, and
  leave the account and the issued amount negative: the sums wrap around at \<open>2 ^ 127\<close>.
\<close>

theorem mint_overflow_accepted:
  "case sample_run overflow_txs of
     (Inl err, l, w) \<Rightarrow> False
   | (Inr records, l, w) \<Rightarrow>
       ledger_balance l ''CORP_A'' ''KCAD'' = 2 * (10 ^ 38 - 1) - 2 ^ 128 \<and>
       ledger_balance l ''CORP_A'' ''KCAD'' < 0 \<and> ledger_issued l ''KCAD'' < 0"
  using overflow_run_ok overflow_ledger_values by (cases "sample_run overflow_txs") (auto simp: is_ok_iff overflow_ledger_def)

section \<open>Snapshots\<close>

definition same_maps :: "ledger \<Rightarrow> ledger \<Rightarrow> bool" where
  "same_maps l l' \<longleftrightarrow>
     (\<forall>k. hm_get (led_accounts l') k = hm_get (led_accounts l) k) \<and>
     (\<forall>k. hm_get (led_institutions l') k = hm_get (led_institutions l) k) \<and>
     (\<forall>k. hm_get (led_institution_credentials l') k = hm_get (led_institution_credentials l) k) \<and>
     (\<forall>k. hm_get (led_institution_limits l') k = hm_get (led_institution_limits l) k) \<and>
     (\<forall>k. hm_get (led_payments l') k = hm_get (led_payments l) k) \<and>
     (\<forall>k. hm_get (led_compliance_cases l') k = hm_get (led_compliance_cases l) k)"

lemma keyed_collect:
  assumes "keyed key m" "mset xs = mset (hm_values m)"
  shows "hm_get (hm_collect (map (\<lambda>v. (key v, v)) xs)) k = hm_get m k"
proof -
  have m: "m = map (\<lambda>v. (key v, v)) (hm_values m)"
    using assms(1) by (induction m) (auto simp: keyed_def hm_values_def hm_wf_def)
  have "map fst m = map key (hm_values m)" by (subst m) simp
  then have "distinct (map key (hm_values m))" using assms(1) by (simp add: keyed_def hm_wf_def)
  then have "distinct (map key xs)"
    using assms(2) by (metis mset_eq_imp_distinct_iff mset_map)
  then have c: "hm_collect (map (\<lambda>v. (key v, v)) xs) = map (\<lambda>v. (key v, v)) xs"
    by (intro hm_collect_distinct) (simp add: o_def)
  have wf: "hm_wf (map (\<lambda>v. (key v, v)) xs)" using c hm_collect_wf by metis
  have "set (map (\<lambda>v. (key v, v)) xs) = set m"
    using mset_eq_setD [OF assms(2)] by (subst m) simp
  then have "hm_get (hm_collect (map (\<lambda>v. (key v, v)) xs)) k = Some v \<longleftrightarrow> hm_get m k = Some v" for v
    using hm.entries_get [of m k v] hm.entries_get [of "hm_collect (map (\<lambda>v. (key v, v)) xs)" k v]
      assms(1) c wf by (simp add: keyed_def)
  then show ?thesis by (metis option.exhaust)
qed

lemma balances_collect:
  "hm_wf b \<Longrightarrow> hm_collect (map (\<lambda>r. ((bal_account_id r, bal_asset r), bal_amount r))
     (map (\<lambda>((account, asset), amount).
        \<lparr>bal_account_id = account, bal_asset = asset, bal_amount = amount\<rparr>) b)) = b"
  by (simp add: o_def case_prod_unfold hm_collect_distinct hm_wf_def)

text \<open>
  A snapshot restores the ledger. Rebuilding a reachable ledger from its snapshot gives
  the same books, history and nonces, and maps with the same entries.
\<close>

theorem snapshot_roundtrip:
  assumes "ledger_reachable l"
  shows "same_books l (from_snapshot (ledger_to_snapshot l)) \<and>
    same_maps l (from_snapshot (ledger_to_snapshot l)) \<and>
    led_audit_events (from_snapshot (ledger_to_snapshot l)) = led_audit_events l"
proof -
  note k = ledger_inv_keyed [OF ledger_inv_reachable [OF assms], unfolded maps_keyed_def]
  have "same_maps l (from_snapshot (ledger_to_snapshot l))"
    unfolding same_maps_def from_snapshot_def ledger_to_snapshot_def
    using k by (simp add: keyed_collect accounts_def institutions_def institution_credentials_def)
  moreover have "same_books l (from_snapshot (ledger_to_snapshot l))"
    using k by (simp add: same_books_def working_copy_def from_snapshot_def ledger_to_snapshot_def
        balances_collect del: map_map)
  ultimately show ?thesis by (simp add: from_snapshot_def ledger_to_snapshot_def)
qed

theorem snapshot_roundtrip_witness:
  "same_books sample_review (from_snapshot (ledger_to_snapshot sample_review))"
  using snapshot_roundtrip [OF sample_review_reachable] by simp

end
