(* ===== verification/Kani_Node.thy ===== *)
theory Kani_Node
  imports Kani_Crypto Kani_Consensus Kani_Ledger_Runs
begin

text \<open>
  The node of \<open>crates/kani-node/src/lib.rs\<close> in its in-memory mode (\<open>storage\<close> is \<open>None\<close>):
  the sandbox guard of the process, building and verifying blocks, payments with idempotency
  keys, held payments, minting and burning, and the selection of pending transactions by a
  validator. The mutex around the ledger serialises the operations, so each is a function from
  the node to the node. The JSON bytes of a block and the digests are parameters (\<open>platform\<close>).
\<close>

section \<open>Errors and the sandbox guard\<close>

datatype node_error =
  NodeLedger ledger_error
| NodeStorage ledger_storage_error
| NodeConsensus consensus_error
| NodeCrypto crypto_error
| LockPoisoned
| EmptyBlock
| InsufficientFinality usize usize
| InvalidBlockValidator string string
| UnknownFinalityValidator string
| DuplicateFinalityVote string
| MissingProducerFinalityVote string
| InvalidBlockHash string string
| InvalidBlockSignature string string
| NodeIdempotencyConflict string

record sandbox_runtime_config =
  src_environment :: string
  src_real_value :: bool
  src_redeemable :: bool

datatype sandbox_runtime_config_error =
  InvalidEnvironment string
| RealValueEnabled string
| RedeemableEnabled string

definition runtime_config_from_values ::
  "string option \<Rightarrow> string option \<Rightarrow> string option
    \<Rightarrow> sandbox_runtime_config_error + sandbox_runtime_config" where
  "runtime_config_from_values environment real_value redeemable =
     and_then (ok_or (InvalidEnvironment ''<unset>'') environment) (\<lambda>environment.
     if \<not> eq_ignore_ascii_case environment ''SANDBOX'' then Inl (InvalidEnvironment environment)
     else
     and_then (ok_or (RealValueEnabled ''<unset>'') real_value) (\<lambda>real_value.
     if \<not> eq_ignore_ascii_case real_value ''FALSE'' then Inl (RealValueEnabled real_value)
     else
     and_then (ok_or (RedeemableEnabled ''<unset>'') redeemable) (\<lambda>redeemable.
     if \<not> eq_ignore_ascii_case redeemable ''FALSE'' then Inl (RedeemableEnabled redeemable)
     else Inr \<lparr>src_environment = ''SANDBOX'', src_real_value = False, src_redeemable = False\<rparr>)))"

section \<open>State\<close>

record platform =
  pf_hashers :: hashers
  pf_block_json :: "block \<Rightarrow> string + string"

record kani_node =
  node_ledger :: ledger
  node_consensus :: configured_consensus_engine
  node_crypto_profile :: crypto_profile

definition node_new :: "ledger \<Rightarrow> configured_consensus_engine \<Rightarrow> crypto_profile \<Rightarrow> kani_node" where
  "node_new l e profile = \<lparr>node_ledger = l, node_consensus = e, node_crypto_profile = profile\<rparr>"

definition node_sandbox_default :: "env \<Rightarrow> consensus_error + kani_node \<times> env" where
  "node_sandbox_default w =
     (let (l, w) = ledger_sandbox w in
      and_then (build_engine w config_phase1_poa) (\<lambda>(e, w).
      Inr (node_new l e hybrid_pqc_v1, w)))"

section \<open>Blocks\<close>

definition block_unsealed :: "block \<Rightarrow> block" where
  "block_unsealed b = b\<lparr>blk_hash := [], blk_signature := [], blk_finalized_by := []\<rparr>"

definition block_digest :: "platform \<Rightarrow> crypto_profile \<Rightarrow> block \<Rightarrow> node_error + string" where
  "block_digest pf profile b =
     map_err NodeCrypto (hash_json (pf_hashers pf) (pf_block_json pf) (cp_hash profile) b)"

definition verify_phase1_block ::
  "platform \<Rightarrow> env \<Rightarrow> ledger \<Rightarrow> block \<Rightarrow> configured_consensus_engine \<Rightarrow> crypto_profile
    \<Rightarrow> node_error + unit" where
  "verify_phase1_block pf w l b e profile =
     (if blk_txs b = [] then Inl EmptyBlock
      else
      and_then (map_err NodeConsensus (engine_leader_for_height e (blk_height b))) (\<lambda>leader.
      if blk_validator b \<noteq> val_id leader
      then Inl (InvalidBlockValidator (val_id leader) (blk_validator b))
      else
      let required = engine_finality_threshold e in
      if length (blk_finalized_by b) < required
      then Inl (InsufficientFinality (length (blk_finalized_by b)) required)
      else
      and_then (scan_voters UnknownFinalityValidator DuplicateFinalityVote
                  (map val_id (engine_active_validators e)) [] (blk_finalized_by b)) (\<lambda>seen.
      if blk_validator b \<notin> set seen then Inl (MissingProducerFinalityVote (blk_validator b))
      else
      and_then (block_digest pf profile (block_unsealed b)) (\<lambda>expected_hash.
      if blk_hash b \<noteq> expected_hash then Inl (InvalidBlockHash expected_hash (blk_hash b))
      else
      let expected_signature =
        sandbox_validator_signature (pf_hashers pf) profile (blk_validator b) (blk_hash b) in
      if blk_signature b \<noteq> expected_signature
      then Inl (InvalidBlockSignature (blk_validator b) (blk_hash b))
      else map_err NodeLedger (validate_transactions_for_next_block w l (blk_txs b))))))"

definition build_block_for_validator ::
  "platform \<Rightarrow> env \<Rightarrow> ledger \<Rightarrow> transaction list \<Rightarrow> configured_consensus_engine
    \<Rightarrow> crypto_profile \<Rightarrow> string \<Rightarrow> node_error + block \<times> env" where
  "build_block_for_validator pf w l txs e profile validator_id =
     (if txs = [] then Inl EmptyBlock
      else
      let height = next_height l in
      and_then (map_err NodeConsensus (engine_finality_votes_for_block e height)) (\<lambda>votes.
      let required = engine_finality_threshold e in
      if length votes < required then Inl (InsufficientFinality (length votes) required)
      else
      let (b, w) = block_new_unsealed w height (last_hash l) txs validator_id in
      and_then (block_digest pf profile b) (\<lambda>hash.
      let signature = sandbox_validator_signature (pf_hashers pf) profile validator_id hash;
          b = block_seal hash signature votes b in
      and_then (verify_phase1_block pf w l b e profile) (\<lambda>_. Inr (b, w)))))"

definition build_block ::
  "platform \<Rightarrow> env \<Rightarrow> kani_node \<Rightarrow> ledger \<Rightarrow> transaction list \<Rightarrow> node_error + block \<times> env" where
  "build_block pf w node l txs =
     (let height = next_height l; e = node_consensus node; profile = node_crypto_profile node in
      and_then (map_err NodeConsensus (engine_leader_for_height e height)) (\<lambda>validator.
      and_then (map_err NodeConsensus (engine_finality_votes_for_block e height)) (\<lambda>votes.
      let required = engine_finality_threshold e in
      if length votes < required then Inl (InsufficientFinality (length votes) required)
      else
      let (b, w) = block_new_unsealed w height (last_hash l) txs (val_id validator) in
      and_then (block_digest pf profile b) (\<lambda>hash.
      let signature = sandbox_validator_signature (pf_hashers pf) profile (val_id validator) hash;
          b = block_seal hash signature votes b in
      and_then (verify_phase1_block pf w l b e profile) (\<lambda>_. Inr (b, w))))))"

definition produce_and_apply_locked ::
  "platform \<Rightarrow> env \<Rightarrow> kani_node \<Rightarrow> transaction list
    \<Rightarrow> (node_error + payment_record) \<times> kani_node \<times> env" where
  "produce_and_apply_locked pf w node txs =
     (let l = node_ledger node in
      if txs = [] then (Inl EmptyBlock, node, w)
      else (case build_block pf w node l txs of
          Inl err \<Rightarrow> (Inl err, node, w)
        | Inr (b, w) \<Rightarrow>
           (case verify_phase1_block pf w l b (node_consensus node) (node_crypto_profile node) of
              Inl err \<Rightarrow> (Inl err, node, w)
            | Inr _ \<Rightarrow>
               (case apply_block w b l of
                  (Inl err, working_ledger, w) \<Rightarrow> (Inl (NodeLedger err), node, w)
                | (Inr records, working_ledger, w) \<Rightarrow>
                    ((case records of [] \<Rightarrow> Inl EmptyBlock | r # rs \<Rightarrow> Inr r),
                     node\<lparr>node_ledger := working_ledger\<rparr>, w)))))"

section \<open>Payments\<close>

fun transaction_kind_fingerprint_value :: "transaction_kind \<Rightarrow> string" where
  "transaction_kind_fingerprint_value Mint = ''MINT''"
| "transaction_kind_fingerprint_value Burn = ''BURN''"
| "transaction_kind_fingerprint_value Transfer = ''TRANSFER''"

definition fingerprint_payload ::
  "transaction_kind \<Rightarrow> string \<Rightarrow> string \<Rightarrow> string \<Rightarrow> i128 \<Rightarrow> string" where
  "fingerprint_payload kind sender receiver asset amount =
     ''kind='' @ transaction_kind_fingerprint_value kind @ [CHR 0x0A] @ ''from='' @ sender
       @ [CHR 0x0A] @ ''to='' @ receiver @ [CHR 0x0A] @ ''asset='' @ asset @ [CHR 0x0A]
       @ ''amount='' @ int_to_dec amount @ [CHR 0x0A]"

definition request_fingerprint ::
  "platform \<Rightarrow> kani_node \<Rightarrow> transaction_kind \<Rightarrow> string \<Rightarrow> string \<Rightarrow> string \<Rightarrow> i128 \<Rightarrow> string" where
  "request_fingerprint pf node kind sender receiver asset amount =
     hash_bytes (pf_hashers pf) (cp_hash (node_crypto_profile node))
       (fingerprint_payload kind sender receiver asset amount)"

record idempotency_attempt =
  ia_kind :: transaction_kind
  ia_from :: string
  ia_to :: string
  ia_asset :: string
  ia_amount :: i128
  ia_request_fingerprint :: string
  ia_client_reference_id :: string

definition ensure_idempotent_retry :: "payment_record \<Rightarrow> idempotency_attempt \<Rightarrow> node_error + unit" where
  "ensure_idempotent_retry p a =
     (let fingerprint_matches =
        (case pay_request_fingerprint p of
           Some existing \<Rightarrow> existing = ia_request_fingerprint a
         | None \<Rightarrow>
             tx_kind (pay_transaction p) = ia_kind a \<and> tx_from (pay_transaction p) = ia_from a \<and>
             tx_to (pay_transaction p) = ia_to a \<and> tx_asset (pay_transaction p) = ia_asset a \<and>
             tx_amount (pay_transaction p) = ia_amount a)
      in if fingerprint_matches then Inr ()
         else Inl (NodeIdempotencyConflict (ia_client_reference_id a)))"

definition with_idempotency_metadata :: "string option \<Rightarrow> string \<Rightarrow> transaction \<Rightarrow> transaction" where
  "with_idempotency_metadata cri fingerprint tx =
     (case cri of
        None \<Rightarrow> tx
      | Some c \<Rightarrow> tx\<lparr>tx_metadata :=
          bt_insert ''request_fingerprint'' fingerprint
            (bt_insert ''client_reference_id'' c (tx_metadata tx))\<rparr>)"

text \<open>The payment an idempotency key was used for, if the key was given and used.\<close>

definition earlier_payment :: "ledger \<Rightarrow> string option \<Rightarrow> (string \<times> payment_record) option" where
  "earlier_payment l cri =
     (case cri of
        None \<Rightarrow> None
      | Some c \<Rightarrow> map_option (\<lambda>p. (c, p)) (get_payment_by_client_reference_id l c))"

definition submit_payment ::
  "platform \<Rightarrow> env \<Rightarrow> kani_node \<Rightarrow> string \<Rightarrow> string \<Rightarrow> string \<Rightarrow> i128 \<Rightarrow> string option
    \<Rightarrow> (node_error + payment_record) \<times> kani_node \<times> env" where
  "submit_payment pf w node sender receiver asset amount cri =
     (let fingerprint = request_fingerprint pf node Transfer sender receiver asset amount;
          l = node_ledger node in
      case earlier_payment l cri of
        Some (c, payment) \<Rightarrow>
          (case ensure_idempotent_retry payment
             \<lparr>ia_kind = Transfer, ia_from = sender, ia_to = receiver, ia_asset = asset,
              ia_amount = amount, ia_request_fingerprint = fingerprint,
              ia_client_reference_id = c\<rparr> of
             Inl err \<Rightarrow> (Inl err, node, w)
           | Inr _ \<Rightarrow> (Inr payment, node, w))
      | None \<Rightarrow>
          (let nonce = next_nonce l sender;
               (tx, w) = transaction_new_transfer w sender receiver asset amount nonce;
               tx = with_idempotency_metadata cri fingerprint tx
           in produce_and_apply_locked pf w node [tx]))"

definition node_hold_payment_for_review ::
  "platform \<Rightarrow> env \<Rightarrow> kani_node \<Rightarrow> string \<Rightarrow> string \<Rightarrow> string \<Rightarrow> i128 \<Rightarrow> string option
    \<Rightarrow> compliance_case_open
    \<Rightarrow> (node_error + payment_record \<times> compliance_case) \<times> kani_node \<times> env" where
  "node_hold_payment_for_review pf w node sender receiver asset amount cri copen =
     (let fingerprint = request_fingerprint pf node Transfer sender receiver asset amount;
          l = node_ledger node in
      case earlier_payment l cri of
        Some (c, payment) \<Rightarrow>
          (case ensure_idempotent_retry payment
             \<lparr>ia_kind = Transfer, ia_from = sender, ia_to = receiver, ia_asset = asset,
              ia_amount = amount, ia_request_fingerprint = fingerprint,
              ia_client_reference_id = c\<rparr> of
             Inl err \<Rightarrow> (Inl err, node, w)
           | Inr _ \<Rightarrow>
               (case List.find (\<lambda>c. case_payment_id c = tx_id (pay_transaction payment))
                       (compliance_cases l) of
                  None \<Rightarrow>
                    (Inl (NodeLedger (UnknownComplianceCase (tx_id (pay_transaction payment)))), node, w)
                | Some c \<Rightarrow> (Inr (payment, c), node, w)))
      | None \<Rightarrow>
          (let nonce = next_nonce l sender;
               (tx, w) = transaction_new_transfer w sender receiver asset amount nonce;
               tx = with_idempotency_metadata cri fingerprint tx;
               copen = copen\<lparr>copen_payment_id := tx_id tx\<rparr>;
               (payment, w) = payment_held w tx (copen_reason copen);
               payment = with_client_reference_id cri payment;
               payment = with_request_fingerprint (Some fingerprint) payment
           in case hold_payment_for_review w payment copen l of
                Inl err \<Rightarrow> (Inl (NodeLedger err), node, w)
              | Inr (r, l, w) \<Rightarrow> (Inr r, node\<lparr>node_ledger := l\<rparr>, w)))"

definition mint_sandbox ::
  "platform \<Rightarrow> env \<Rightarrow> kani_node \<Rightarrow> string \<Rightarrow> string \<Rightarrow> string \<Rightarrow> i128
    \<Rightarrow> (node_error + payment_record) \<times> kani_node \<times> env" where
  "mint_sandbox pf w node treasury receiver asset amount =
     (let nonce = next_nonce (node_ledger node) treasury;
          (tx, w) = transaction_new_mint w treasury receiver asset amount nonce
      in produce_and_apply_locked pf w node [tx])"

definition burn_sandbox ::
  "platform \<Rightarrow> env \<Rightarrow> kani_node \<Rightarrow> string \<Rightarrow> string \<Rightarrow> string \<Rightarrow> i128
    \<Rightarrow> (node_error + payment_record) \<times> kani_node \<times> env" where
  "burn_sandbox pf w node sender treasury asset amount =
     (let nonce = next_nonce (node_ledger node) sender;
          (tx, w) = transaction_new_burn w sender treasury asset amount nonce
      in produce_and_apply_locked pf w node [tx])"

section \<open>Compliance decisions and registry operations of the node\<close>

text \<open>A ledger operation run under the node's lock.\<close>

definition locked ::
  "env \<Rightarrow> kani_node \<Rightarrow> ledger_error + 'a \<times> ledger \<times> env \<Rightarrow> (node_error + 'a) \<times> kani_node \<times> env" where
  "locked w node r =
     (case r of
        Inl err \<Rightarrow> (Inl (NodeLedger err), node, w)
      | Inr (x, l, w) \<Rightarrow> (Inr x, node\<lparr>node_ledger := l\<rparr>, w))"

definition node_approve_compliance_case ::
  "env \<Rightarrow> kani_node \<Rightarrow> string \<Rightarrow> string option \<Rightarrow> string option
    \<Rightarrow> (node_error + compliance_case \<times> payment_record) \<times> kani_node \<times> env" where
  "node_approve_compliance_case w node i reviewer reason =
     locked w node (approve_compliance_case w i reviewer reason (node_ledger node))"

definition node_reject_compliance_case ::
  "env \<Rightarrow> kani_node \<Rightarrow> string \<Rightarrow> string option \<Rightarrow> string option
    \<Rightarrow> (node_error + compliance_case \<times> payment_record) \<times> kani_node \<times> env" where
  "node_reject_compliance_case w node i reviewer reason =
     locked w node (reject_compliance_case w i reviewer reason (node_ledger node))"

definition node_suspend_institution ::
  "env \<Rightarrow> kani_node \<Rightarrow> string \<Rightarrow> (node_error + institution) \<times> kani_node \<times> env" where
  "node_suspend_institution w node i =
     locked w node (suspend_institution w i (node_ledger node))"

definition node_upsert_institution :: "kani_node \<Rightarrow> institution \<Rightarrow> institution \<times> kani_node" where
  "node_upsert_institution node i =
     (i, node\<lparr>node_ledger := upsert_institution i (node_ledger node)\<rparr>)"

definition node_add_institution_credential ::
  "kani_node \<Rightarrow> institution_credential \<Rightarrow> (node_error + institution_credential) \<times> kani_node" where
  "node_add_institution_credential node c =
     (case add_institution_credential c (node_ledger node) of
        Inl err \<Rightarrow> (Inl (NodeLedger err), node)
      | Inr (c, l) \<Rightarrow> (Inr c, node\<lparr>node_ledger := l\<rparr>))"

definition node_upsert_institution_limit ::
  "kani_node \<Rightarrow> institution_limit \<Rightarrow> (node_error + institution_limit) \<times> kani_node" where
  "node_upsert_institution_limit node limit =
     (case upsert_institution_limit limit (node_ledger node) of
        Inl err \<Rightarrow> (Inl (NodeLedger err), node)
      | Inr (limit, l) \<Rightarrow> (Inr limit, node\<lparr>node_ledger := l\<rparr>))"

definition node_institution_credentials ::
  "kani_node \<Rightarrow> string \<Rightarrow> node_error + institution_credential list" where
  "node_institution_credentials node i =
     and_then (map_err NodeLedger (get_institution (node_ledger node) i)) (\<lambda>_.
     Inr (institution_credentials (node_ledger node) (Some i)))"

definition node_record_audit_event :: "kani_node \<Rightarrow> audit_event \<Rightarrow> kani_node" where
  "node_record_audit_event node e =
     node\<lparr>node_ledger := record_audit_event e (node_ledger node)\<rparr>"

definition node_blocks :: "kani_node \<Rightarrow> block_search \<Rightarrow> block list" where
  "node_blocks node q = block_search_apply q (led_blocks (node_ledger node))"

definition node_audit_events :: "kani_node \<Rightarrow> audit_event_search \<Rightarrow> audit_event list" where
  "node_audit_events node q = audit_event_search_apply q (led_audit_events (node_ledger node))"

definition node_journal_entries :: "kani_node \<Rightarrow> journal_entry_search \<Rightarrow> journal_entry list" where
  "node_journal_entries node q = journal_entry_search_apply q (led_journal_entries (node_ledger node))"

definition node_compliance_cases :: "kani_node \<Rightarrow> i64 \<Rightarrow> i64 \<Rightarrow> compliance_case list" where
  "node_compliance_cases node limit offset =
     (let limit = clamp_usize limit; offset = clamp_usize offset
      in page offset limit (compliance_cases (node_ledger node)))"

section \<open>Validators\<close>

record validator_info =
  vi_id :: string
  vi_public_key :: string
  vi_active :: bool
  vi_last_seen_at :: "timestamp option"
  vi_last_finalized_height :: "i64 option"
  vi_last_finalized_hash :: "string option"
  vi_last_finalized_at :: "timestamp option"

definition validator_info_from :: "validator \<Rightarrow> validator_status option \<Rightarrow> validator_info" where
  "validator_info_from v status =
     \<lparr>vi_id = val_id v, vi_public_key = val_public_key v, vi_active = val_active v,
      vi_last_seen_at = map_option vst_last_seen_at status,
      vi_last_finalized_height = Option.bind status vst_last_finalized_height,
      vi_last_finalized_hash = Option.bind status vst_last_finalized_hash,
      vi_last_finalized_at = Option.bind status vst_last_finalized_at\<rparr>"

definition node_validators :: "kani_node \<Rightarrow> validator_info list" where
  "node_validators node =
     map (\<lambda>v. validator_info_from v None) (engine_validators (node_consensus node))"

text \<open>
  The selection loop of a validator's pass: each pending transaction is tried after the ones
  accepted so far; the result is the accepted ones, and the rejected ones with their error.
\<close>

fun select_pending ::
  "env \<Rightarrow> ledger \<Rightarrow> transaction list \<Rightarrow> transaction list
    \<Rightarrow> transaction list \<times> (transaction \<times> ledger_error) list" where
  "select_pending w l accepted [] = (accepted, [])"
| "select_pending w l accepted (tx # pending) =
     (let candidate = accepted @ [tx] in
      case validate_transactions_for_next_block w l candidate of
        Inl err \<Rightarrow>
          (let (acc, rej) = select_pending w l accepted pending in (acc, (tx, err) # rej))
      | Inr _ \<Rightarrow> select_pending w l candidate pending)"

section \<open>The validator process\<close>

text \<open>The settings of \<open>crates/kani-node/src/main.rs\<close>; an error carries the rejected mode.\<close>

datatype validator_run_mode = RunForever | RunOnce | RunSweep

definition run_mode_from_env_value :: "string option \<Rightarrow> string + validator_run_mode" where
  "run_mode_from_env_value value =
     (let mode = to_ascii_lowercase (case value of None \<Rightarrow> ''forever'' | Some v \<Rightarrow> v) in
      if mode = ''forever'' then Inr RunForever
      else if mode = ''once'' then Inr RunOnce
      else if mode = ''sweep'' then Inr RunSweep
      else Inl mode)"

definition parse_validator_ids :: "string option \<Rightarrow> string \<Rightarrow> string list" where
  "parse_validator_ids value fallback =
     (let ids = filter (\<lambda>i. i \<noteq> [])
        (map trim (split_on (CHR '','') (case value of None \<Rightarrow> fallback | Some v \<Rightarrow> v)))
      in if ids = [] then [fallback] else ids)"

end
