(* ===== verification/Kani_Node_Props.thy ===== *)
theory Kani_Node_Props
  imports Kani_Node "HOL-Library.Sublist"
begin

text \<open>
  Properties of the node: what the block verification guarantees, that the node's own blocks
  pass it, idempotent submission, and the fate of a held payment's nonce.
\<close>

section \<open>Verification of blocks\<close>

definition verified :: "platform \<Rightarrow> ledger \<Rightarrow> block \<Rightarrow> configured_consensus_engine \<Rightarrow> crypto_profile \<Rightarrow> bool" where
  "verified pf l b e profile \<longleftrightarrow>
     blk_txs b \<noteq> [] \<and>
     (\<exists>leader. engine_leader_for_height e (blk_height b) = Inr leader \<and> blk_validator b = val_id leader) \<and>
     engine_finality_threshold e \<le> length (blk_finalized_by b) \<and>
     set (blk_finalized_by b) \<subseteq> set (map val_id (engine_active_validators e)) \<and>
     distinct (blk_finalized_by b) \<and> blk_validator b \<in> set (blk_finalized_by b) \<and>
     block_digest pf profile (block_unsealed b) = Inr (blk_hash b) \<and>
     blk_signature b =
       sandbox_validator_signature (pf_hashers pf) profile (blk_validator b) (blk_hash b)"

lemma verify_phase1_block_iff:
  "verify_phase1_block pf w l b e profile = Inr () \<longleftrightarrow>
     verified pf l b e profile \<and> validate_transactions_for_next_block w l (blk_txs b) = Inr ()"
  unfolding verify_phase1_block_def verified_def
  by (auto simp: res_simps Let_def scan_voters_Inr not_less split: if_splits)

text \<open>The verdict on the transactions does not depend on the identifiers and times drawn.\<close>

lemma validate_env:
  "validate_transactions_for_next_block w l txs = validate_transactions_for_next_block v l txs"
proof -
  have "err_of (validate_transactions_for_next_block w l txs) =
      err_of (validate_transactions_for_next_block v l txs)"
    unfolding validate_transactions_for_next_block_def
    using apply_txs_err [OF same_state_refl, of w l 0 "[]" txs "working_copy l" w]
      apply_txs_err [OF same_state_refl, of w l 0 "[]" txs "working_copy l" v] by simp
  then show ?thesis
    by (cases "validate_transactions_for_next_block w l txs";
        cases "validate_transactions_for_next_block v l txs") auto
qed

section \<open>The node's own blocks\<close>

text \<open>What the node relies on of its platform: blocks serialise, digests are not empty.\<close>

definition platform_ok :: "platform \<Rightarrow> bool" where
  "platform_ok pf \<longleftrightarrow>
     (\<forall>b. is_ok (pf_block_json pf b)) \<and>
     (\<forall>x. sha2_256_hex (pf_hashers pf) x \<noteq> [] \<and> sha3_256_hex (pf_hashers pf) x \<noteq> [])"

lemma block_digest_ok:
  assumes "platform_ok pf"
  obtains h where "block_digest pf profile b = Inr h" "h \<noteq> []"
proof -
  obtain bytes where "pf_block_json pf b = Inr bytes"
    using assms by (auto simp: platform_ok_def is_ok_iff)
  then have "block_digest pf profile b = Inr (hash_bytes (pf_hashers pf) (cp_hash profile) bytes)"
    by (simp add: block_digest_def hash_json_def)
  moreover have "hash_bytes (pf_hashers pf) (cp_hash profile) bytes \<noteq> []"
    using assms by (simp add: platform_ok_def hash_bytes_def split: hash_algorithm.split)
  ultimately show thesis using that by blast
qed

lemma next_height_small:
  assumes "length (led_blocks l) < 2 ^ 62"
  shows "next_height l = int (length (led_blocks l)) + 1"
proof -
  have "int (length (led_blocks l)) < int (2 ^ 62)" using assms by (simp only: of_nat_less_iff)
  then show ?thesis by (simp add: next_height_def i64_wrap_id)
qed

lemma build_block_ok:
  assumes pf: "platform_ok pf" and wf: "well_formed_validators (engine_validators (node_consensus node))"
    and len: "length (led_blocks l) < 2 ^ 62" and txs: "txs \<noteq> []"
  obtains b w' where
    "build_block pf w node l txs =
      and_then (map_err NodeLedger (validate_transactions_for_next_block w' l txs)) (\<lambda>_. Inr (b, w'))"
    "verified pf l b (node_consensus node) (node_crypto_profile node)"
    "block_links l b" "blk_txs b = txs"
proof -
  let ?e = "node_consensus node" and ?h = "next_height l" and ?p = "node_crypto_profile node"
  have h: "1 \<le> ?h" using next_height_small [OF len] by simp
  obtain votes leader where votes: "engine_finality_votes_for_block ?e ?h = Inr votes"
    and leader: "engine_leader_for_height ?e ?h = Inr leader"
    and v: "length votes = engine_finality_threshold ?e" "distinct votes"
      "set votes \<subseteq> set (map val_id (engine_active_validators ?e))" "val_id leader \<in> set votes"
    using engine.votes_spec [OF wf h] unfolding engine_active_validators_def by metis
  obtain b0 w1 where b0: "block_new_unsealed w ?h (last_hash l) txs (val_id leader) = (b0, w1)"
    by force
  then have b0_sel: "blk_height b0 = ?h" "blk_prev_hash b0 = last_hash l" "blk_txs b0 = txs"
      "blk_validator b0 = val_id leader" "block_unsealed b0 = b0"
    by (auto simp: block_new_unsealed_def utc_now_def block_unsealed_def)
  obtain hash where hash: "block_digest pf ?p b0 = Inr hash" "hash \<noteq> []"
    by (rule block_digest_ok [OF pf])
  let ?b = "block_seal hash (sandbox_validator_signature (pf_hashers pf) ?p (val_id leader) hash) votes b0"
  have "block_unsealed ?b = b0"
    using b0_sel(5) by (simp add: block_unsealed_def block_seal_def)
  with v leader b0_sel hash txs have ver: "verified pf l ?b ?e ?p"
    by (simp add: verified_def block_seal_def)
  have "verify_phase1_block pf w1 l ?b ?e ?p =
      map_err NodeLedger (validate_transactions_for_next_block w1 l txs)"
  proof -
    have "scan_voters UnknownFinalityValidator DuplicateFinalityVote
        (map val_id (engine_active_validators ?e)) [] votes = Inr (rev votes)"
      using v by (intro scan_voters_ok) simp_all
    then show ?thesis
      using v leader b0_sel hash txs \<open>block_unsealed ?b = b0\<close>
      by (simp add: verify_phase1_block_def) (simp add: block_seal_def)
  qed
  then have build: "build_block pf w node l txs =
      and_then (map_err NodeLedger (validate_transactions_for_next_block w1 l txs)) (\<lambda>_. Inr (?b, w1))"
    using votes leader v b0 hash by (simp add: build_block_def Let_def)
  show thesis
    using that [OF build ver] b0_sel hash by (simp add: block_links_def block_seal_def)
qed

text \<open>
  Claim C9. The node settles exactly the valid transactions. With enough well-formed validators,
  \<open>produce_and_apply_locked\<close> fails only on an empty list or with the ledger's own error for
  these transactions, and then changes nothing; otherwise it appends one block with exactly
  these transactions, which passes \<open>verify_phase1_block\<close>, and returns the finalized record of
  the first.
\<close>

theorem produce_and_apply_spec:
  assumes "platform_ok pf" "well_formed_validators (engine_validators (node_consensus node))"
    and "length (led_blocks (node_ledger node)) < 2 ^ 62"
  shows "case produce_and_apply_locked pf w node txs of
      (Inl err, node', w') \<Rightarrow> node' = node \<and>
        (if txs = [] then err = EmptyBlock
         else \<exists>e. validate_transactions_for_next_block v (node_ledger node) txs = Inl e \<and>
           err = NodeLedger e)
    | (Inr r, node', w') \<Rightarrow>
        validate_transactions_for_next_block v (node_ledger node) txs = Inr () \<and>
        (\<exists>b. led_blocks (node_ledger node') = led_blocks (node_ledger node) @ [b] \<and>
           blk_txs b = txs \<and>
           verify_phase1_block pf v (node_ledger node) b (node_consensus node)
             (node_crypto_profile node) = Inr () \<and>
           finalized_in (blk_height b) (blk_hash b) r) \<and>
        pay_transaction r = hd txs"
proof (cases "txs = []")
  case True
  then show ?thesis by (simp add: produce_and_apply_locked_def)
next
  case False
  let ?l = "node_ledger node"
  obtain b w1 where build: "build_block pf w node ?l txs =
      and_then (map_err NodeLedger (validate_transactions_for_next_block w1 ?l txs)) (\<lambda>_. Inr (b, w1))"
    and ver: "verified pf ?l b (node_consensus node) (node_crypto_profile node)"
    and links: "block_links ?l b" and btxs: "blk_txs b = txs"
    by (rule build_block_ok [OF assms False])
  show ?thesis
  proof (cases "validate_transactions_for_next_block v ?l txs")
    case (Inl err)
    with build validate_env [of w1 ?l txs v] False show ?thesis
      by (simp add: produce_and_apply_locked_def Let_def)
  next
    case (Inr u)
    then have valid: "validate_transactions_for_next_block x ?l txs = Inr ()" for x
      using validate_env [of x ?l txs v] by simp
    obtain res l' w' where ab: "apply_block w1 b ?l = (res, l', w')"
      by (cases "apply_block w1 b ?l")
    have "err_of res = None"
      using apply_block_linked [OF links, of w1 v] ab valid btxs by simp
    then obtain records where res: "res = Inr records" by (auto simp: err_of_None_iff)
    obtain work w2 es where
      run: "apply_txs w1 ?l (blk_height b) (blk_hash b) (blk_txs b) (working_copy ?l)
        = Inr (records, work, w2)"
      and l': "l' = (commit_working work ?l)
        \<lparr>led_payments := insert_records records (led_payments ?l),
         led_audit_events := led_audit_events ?l @ es, led_blocks := led_blocks ?l @ [b]\<rparr>"
      using apply_block_ok [OF ab [unfolded res]] by metis
    have recs: "map pay_transaction records = txs"
      "\<forall>r \<in> set records. finalized_in (blk_height b) (blk_hash b) r"
      using apply_txs_records [OF run] btxs by simp_all
    then obtain r rs where "records = r # rs" using False by (cases records) auto
    moreover have verok: "verify_phase1_block pf x ?l b (node_consensus node)
        (node_crypto_profile node) = Inr ()" for x
      by (simp add: verify_phase1_block_iff ver valid btxs)
    ultimately have "produce_and_apply_locked pf w node txs =
        (Inr r, node\<lparr>node_ledger := l'\<rparr>, w')"
      using False build valid ab res by (simp add: produce_and_apply_locked_def Let_def)
    moreover have "led_blocks l' = led_blocks ?l @ [b]" by (simp add: l')
    moreover have "hd txs = pay_transaction r" using recs(1) \<open>records = r # rs\<close> by auto
    ultimately show ?thesis
      using valid verok btxs recs \<open>records = r # rs\<close> by auto
  qed
qed

text \<open>What a successful production leaves behind.\<close>

lemma build_block_txs:
  assumes "build_block pf w node l txs = Inr (b, w')"
  shows "blk_txs b = txs"
  using assms
  by (auto simp: build_block_def Let_def res_simps case_prod_unfold block_seal_def
      block_new_unsealed_def utc_now_def split: if_splits)

lemma produce_okE:
  assumes "produce_and_apply_locked pf w node txs = (Inr r, node', w')"
  obtains b w1 l' rs where "apply_block w1 b (node_ledger node) = (Inr (r # rs), l', w')"
    "blk_txs b = txs" "node' = node\<lparr>node_ledger := l'\<rparr>"
    "map pay_transaction (r # rs) = txs"
proof -
  from assms obtain b w1 l' records where b: "build_block pf w node (node_ledger node) txs = Inr (b, w1)"
    and ab: "apply_block w1 b (node_ledger node) = (Inr records, l', w')"
    and n: "node' = node\<lparr>node_ledger := l'\<rparr>" and r: "\<exists>rs. records = r # rs"
    by (auto simp: produce_and_apply_locked_def Let_def split: if_splits sum.splits prod.splits list.splits)
  then obtain rs where rs: "records = r # rs" by blast
  have txs: "blk_txs b = txs" by (rule build_block_txs [OF b])
  obtain work w2 where "apply_txs w1 (node_ledger node) (blk_height b) (blk_hash b) (blk_txs b)
      (working_copy (node_ledger node)) = Inr (r # rs, work, w2)"
    using apply_block_ok [OF ab [unfolded rs]] by metis
  then have "map pay_transaction (r # rs) = txs" using apply_txs_records txs by blast
  with that ab rs txs n show thesis by blast
qed

lemma produce_reachable:
  assumes "produce_and_apply_locked pf w node txs = (res, node', w')"
    and "ledger_reachable (node_ledger node)"
  shows "ledger_reachable (node_ledger node') \<and> node_crypto_profile node' = node_crypto_profile node \<and>
    node_consensus node' = node_consensus node"
  using assms reach_step [OF assms(2) step_apply_block]
  by (auto simp: produce_and_apply_locked_def Let_def
      split: if_splits sum.splits prod.splits list.splits)

section \<open>Idempotent submission\<close>

lemma find_unique: "x \<in> set xs \<Longrightarrow> P x \<Longrightarrow> (\<And>y. y \<in> set xs \<Longrightarrow> P y \<Longrightarrow> y = x) \<Longrightarrow> List.find P xs = Some x"
  by (metis find_None_iff_all find_Some_in not_Some_eq)

lemma find_after_insert:
  assumes wf: "hm_wf m" and none: "List.find P (hm_values m) = None" and v: "P v"
  shows "List.find P (hm_values (hm_insert k v m)) = Some v"
proof (rule find_unique)
  have "(k, v) \<in> set (hm_insert k v m)" using hm.entries_put_set [OF wf, of k v] by simp
  then show "v \<in> set (hm_values (hm_insert k v m))" by (force simp: hm_values_def)
  show "P v" by (rule v)
  fix y
  assume y: "y \<in> set (hm_values (hm_insert k v m))" "P y"
  then obtain k' where "(k', y) \<in> set (hm_insert k v m)" by (auto simp: hm_values_def)
  then have "(k', y) \<in> insert (k, v) {e \<in> set m. fst e \<noteq> k}"
    unfolding hm.entries_put_set [OF wf] .
  moreover have "y \<notin> set (hm_values m)"
    using none y(2) by (auto simp: find_None_iff_all)
  ultimately show "y = v" by (force simp: hm_values_def)
qed

lemma payments_wf: "ledger_reachable l \<Longrightarrow> hm_wf (led_payments l)"
  using ledger_inv_keyed [OF ledger_inv_reachable] by (simp add: maps_keyed_def keyed_def)

lemma metadata_lookup:
  "client_reference_id_from (with_idempotency_metadata (Some c) fp tx) = Some c"
  "request_fingerprint_from (with_idempotency_metadata (Some c) fp tx) = Some fp"
  by (simp_all add: client_reference_id_from_def request_fingerprint_from_def
      with_idempotency_metadata_def map_simps)

lemma apply_txs_single:
  assumes "apply_txs w l h hash [tx] work = Inr ([r], work', w')"
  shows "pay_client_reference_id r = client_reference_id_from tx \<and>
    pay_request_fingerprint r = request_fingerprint_from tx"
  by (rule apply_txs_ConsE [OF assms]) (auto simp: payment_finalized_def utc_now_def)

definition attempt_of ::
  "platform \<Rightarrow> kani_node \<Rightarrow> string \<Rightarrow> string \<Rightarrow> string \<Rightarrow> i128 \<Rightarrow> string \<Rightarrow> idempotency_attempt" where
  "attempt_of pf node sender receiver asset amount c =
     \<lparr>ia_kind = Transfer, ia_from = sender, ia_to = receiver, ia_asset = asset,
      ia_amount = amount,
      ia_request_fingerprint = request_fingerprint pf node Transfer sender receiver asset amount,
      ia_client_reference_id = c\<rparr>"

text \<open>After a submission under a key, the key is used, by a payment the attempt matches.\<close>

lemma submit_records_key:
  assumes reach: "ledger_reachable (node_ledger node)"
    and ok: "submit_payment pf w node s r a x (Some c) = (Inr p, node', w')"
  shows "earlier_payment (node_ledger node') (Some c) = Some (c, p) \<and>
    ensure_idempotent_retry p (attempt_of pf node s r a x c) = Inr () \<and>
    node_crypto_profile node' = node_crypto_profile node"
proof (cases "earlier_payment (node_ledger node) (Some c)")
  case (Some cp)
  obtain c' q where cp: "cp = (c', q)" by force
  with Some have "c' = c" by (auto simp: earlier_payment_def)
  with ok Some cp show ?thesis
    by (auto simp: submit_payment_def attempt_of_def Let_def split: sum.splits)
next
  case None
  let ?fp = "request_fingerprint pf node Transfer s r a x"
  obtain tx0 w1 where tx0:
      "transaction_new_transfer w s r a x (next_nonce (node_ledger node) s) = (tx0, w1)"
    by force
  define tx where "tx = with_idempotency_metadata (Some c) ?fp tx0"
  have prod: "produce_and_apply_locked pf w1 node [tx] = (Inr p, node', w')"
    using ok None tx0 by (simp add: submit_payment_def Let_def tx_def)
  then obtain b w2 l' rs where
    ab: "apply_block w2 b (node_ledger node) = (Inr (p # rs), l', w')"
    and txs: "blk_txs b = [tx]" and node': "node' = node\<lparr>node_ledger := l'\<rparr>"
    and map: "map pay_transaction (p # rs) = [tx]"
    by (rule produce_okE)
  have rs: "rs = []" using map by simp
  obtain work w3 es where run: "apply_txs w2 (node_ledger node) (blk_height b) (blk_hash b) [tx]
      (working_copy (node_ledger node)) = Inr ([p], work, w3)"
    and l': "led_payments l' = insert_records [p] (led_payments (node_ledger node))"
    by (rule apply_block_ok [OF ab [unfolded rs]]) (simp add: txs)
  have keys: "pay_client_reference_id p = Some c" "pay_request_fingerprint p = Some ?fp"
    using apply_txs_single [OF run] by (simp_all add: tx_def metadata_lookup)
  have "get_payment_by_client_reference_id (node_ledger node) c = None"
    using None by (simp add: earlier_payment_def)
  then have "get_payment_by_client_reference_id l' c = Some p"
    unfolding get_payment_by_client_reference_id_def l' insert_records_def
    using find_after_insert [OF payments_wf [OF reach]] keys(1) by simp
  with keys node' show ?thesis
    by (simp add: earlier_payment_def ensure_idempotent_retry_def attempt_of_def)
qed

text \<open>
  Claim C11. Submission is idempotent in the client's key. After a payment was accepted under a
  key, submitting the same request under that key again returns the same payment record and
  changes nothing; submitting a request with another sender, receiver, asset or amount under it
  is refused with the idempotency conflict and changes nothing, unless the digest collides on
  the two requests.
\<close>

theorem submit_payment_idempotent:
  assumes "ledger_reachable (node_ledger node)"
    and "submit_payment pf w node s r a x (Some c) = (Inr p, node', w')"
    and "no_collision (pf_hashers pf) (cp_hash (node_crypto_profile node))
           (fingerprint_payload Transfer s r a x) (fingerprint_payload Transfer s2 r2 a2 x2)"
    and "fingerprint_payload Transfer s r a x \<noteq> fingerprint_payload Transfer s2 r2 a2 x2"
  shows "submit_payment pf v node' s r a x (Some c) = (Inr p, node', v) \<and>
    submit_payment pf v node' s2 r2 a2 x2 (Some c) = (Inl (NodeIdempotencyConflict c), node', v)"
proof -
  note k = submit_records_key [OF assms(1,2)]
  have fp: "request_fingerprint pf node' = request_fingerprint pf node"
    using k by (intro ext) (simp add: request_fingerprint_def)
  have "request_fingerprint pf node Transfer s r a x \<noteq> request_fingerprint pf node Transfer s2 r2 a2 x2"
    using assms(3,4) by (auto simp: request_fingerprint_def dest: no_collisionD)
  moreover have "\<not> (s = s2 \<and> r = r2 \<and> a = a2 \<and> x = x2)" using assms(4) by auto
  ultimately have "ensure_idempotent_retry p (attempt_of pf node s2 r2 a2 x2 c) =
      Inl (NodeIdempotencyConflict c)"
    using k by (auto simp: ensure_idempotent_retry_def attempt_of_def Let_def
        split: option.splits if_splits)
  with k show ?thesis
    by (simp add: submit_payment_def Let_def fp attempt_of_def)
qed

section \<open>The effect of a payment\<close>

lemma submit_freshE:
  assumes "submit_payment pf w node s r a x cri = (Inr p, node', w')"
    and "earlier_payment (node_ledger node) cri = None"
  obtains tx b v l' work v2 where
    "tx_kind tx = Transfer" "tx_from tx = s" "tx_to tx = r" "tx_asset tx = a" "tx_amount tx = x"
    "tx_nonce tx = next_nonce (node_ledger node) s" "pay_transaction p = tx"
    "apply_block v b (node_ledger node) = (Inr [p], l', w')" "blk_txs b = [tx]"
    "node' = node\<lparr>node_ledger := l'\<rparr>" "valid_tx (node_ledger node) tx (working_copy (node_ledger node))"
proof -
  obtain tx0 w1 where tx0:
      "transaction_new_transfer w s r a x (next_nonce (node_ledger node) s) = (tx0, w1)"
    by force
  define tx where
    "tx = with_idempotency_metadata cri (request_fingerprint pf node Transfer s r a x) tx0"
  have sel: "tx_kind tx = Transfer" "tx_from tx = s" "tx_to tx = r" "tx_asset tx = a"
    "tx_amount tx = x" "tx_nonce tx = next_nonce (node_ledger node) s"
    using tx0 by (auto simp: tx_def with_idempotency_metadata_def transaction_new_transfer_def
        transaction_new_def new_uuid_def utc_now_def split: option.split)
  have "produce_and_apply_locked pf w1 node [tx] = (Inr p, node', w')"
    using assms tx0 by (simp add: submit_payment_def Let_def tx_def)
  then obtain b v l' rs where ab: "apply_block v b (node_ledger node) = (Inr (p # rs), l', w')"
    and txs: "blk_txs b = [tx]" and node': "node' = node\<lparr>node_ledger := l'\<rparr>"
    and map: "map pay_transaction (p # rs) = [tx]"
    by (rule produce_okE)
  have rs: "rs = []" and p: "pay_transaction p = tx" using map by simp_all
  obtain work v2 where run: "apply_txs v (node_ledger node) (blk_height b) (blk_hash b) [tx]
      (working_copy (node_ledger node)) = Inr ([p], work, v2)"
    by (rule apply_block_ok [OF ab [unfolded rs]]) (simp add: txs)
  then have "valid_tx (node_ledger node) tx (working_copy (node_ledger node))"
    by (rule apply_txs_ConsE)
  with that sel p ab rs txs node' show thesis by blast
qed

lemma reachable_exact:
  "ledger_reachable l \<Longrightarrow> gross_minted (chain_txs l) s < 2 ^ 127 \<Longrightarrow> exact_for s (chain_txs l) (working_copy l)"
  using reachable_follows unfolding follows_def by blast

text \<open>
  Claim C10. A payment moves exactly its amount. When a fresh submission succeeds, the amount was
  positive and covered by the sender's balance, and afterwards the sender has that much less and
  the receiver that much more of the asset, every other balance, and the issued amount, are as
  before (nothing changes when sender and receiver are the same account). The asset is assumed
  to be minted below the overflow bound.
\<close>

theorem submit_payment_moves:
  assumes reach: "ledger_reachable (node_ledger node)"
    and ok: "submit_payment pf w node s r a x cri = (Inr p, node', w')"
    and fresh: "earlier_payment (node_ledger node) cri = None"
    and bound: "gross_minted (chain_txs (node_ledger node)) a < 2 ^ 127"
  shows "0 < x \<and> x \<le> ledger_balance (node_ledger node) s a \<and>
    (\<forall>acct. ledger_balance (node_ledger node') acct a =
       ledger_balance (node_ledger node) acct a + (if acct = r then x else 0)
         - (if acct = s then x else 0)) \<and>
    (\<forall>acct asset. asset \<noteq> a \<longrightarrow>
       ledger_balance (node_ledger node') acct asset = ledger_balance (node_ledger node) acct asset) \<and>
    (\<forall>asset. ledger_issued (node_ledger node') asset = ledger_issued (node_ledger node) asset)"
proof -
  let ?l = "node_ledger node" and ?l' = "node_ledger node'"
  from submit_freshE [OF ok fresh] obtain tx b v l' where
    sel: "tx_kind tx = Transfer" "tx_from tx = s" "tx_to tx = r" "tx_asset tx = a" "tx_amount tx = x"
    and ab: "apply_block v b ?l = (Inr [p], l', w')" and txs: "blk_txs b = [tx]"
    and node': "node' = node\<lparr>node_ledger := l'\<rparr>" and valid: "valid_tx ?l tx (working_copy ?l)"
    by metis
  have reach': "ledger_reachable ?l'"
    using reach_step [OF reach step_apply_block [OF ab]] node' by simp
  have chain: "chain_txs ?l' = chain_txs ?l @ [tx]" using apply_block_chain [OF ab] txs node' by simp
  have net: "tx_net tx acct asset =
      (if asset = a then (if acct = r then x else 0) - (if acct = s then x else 0) else 0)"
    and issue: "tx_issue tx asset = 0" for acct asset
    using sel by (auto simp: tx_net_def tx_issue_def)
  have "exact_for a (chain_txs ?l) (working_copy ?l)" "exact_for a (chain_txs ?l') (working_copy ?l')"
    using bound sel by (intro reachable_exact reach reach'; simp add: chain tx_minted_def)+
  then have "\<forall>acct. ledger_balance ?l' acct a = ledger_balance ?l acct a + tx_net tx acct a"
    by (simp add: exact_for_def ledger_balance_def chain)
  moreover have "ledger_balance ?l' acct asset = ledger_balance ?l acct asset" if "asset \<noteq> a" for acct asset
    using reachable_follows [OF reach] reachable_follows [OF reach'] that
    by (simp add: follows_def balances_follow_def ledger_balance_def chain net)
  moreover have "ledger_issued ?l' asset = ledger_issued ?l asset" for asset
    using reachable_follows [OF reach] reachable_follows [OF reach']
    by (simp add: follows_def issued_follows_def ledger_issued_def chain issue)
  ultimately show ?thesis
    using valid sel by (auto simp: net valid_tx_def ledger_balance_def)
qed

section \<open>Held payments\<close>

lemma validate_single:
  "validate_transactions_for_next_block w l [tx] =
     validate_transaction l tx (led_balances l) (led_nonces l) (led_issued l)"
proof (cases "validate_transaction l tx (led_balances l) (led_nonces l) (led_issued l)")
  case (Inr u)
  then have "valid_tx l tx (working_copy l)"
    using validate_transaction_iff [of l tx "working_copy l"] by simp
  then obtain work' w' where
    "apply_transaction w tx (next_height l) (working_copy l) = Inr (work', w')"
    by (rule valid_tx_applies)
  with Inr show ?thesis by (simp add: validate_transactions_for_next_block_def)
qed (simp add: validate_transactions_for_next_block_def)

lemma validate_used_nonce:
  assumes "validate_transactions_for_next_block w l [tx] = Inr ()"
    and "led_accounts l' = led_accounts l"
    and "tx_nonce tx \<le> unwrap_or_zero (hm_get (led_nonces l') (tx_from tx))"
  shows "validate_transactions_for_next_block v l' [tx] = Inl InvalidNonce"
  using assms(1) unfolding validate_single
  using assms(2,3) by (auto simp: validate_transaction_def res_simps Let_def split: if_splits)

text \<open>
  Claim C14. An approved payment can be lost. A payment of \<open>s\<close> is held for review while it is
  valid; another payment of \<open>s\<close> is then settled; the case is approved, which returns the held
  payment to pending. Its nonce was used by the other payment, so the released transaction is
  rejected with \<open>InvalidNonce\<close> by every validation from then on.
\<close>

theorem held_payment_nonce_stale:
  assumes hold: "node_hold_payment_for_review pf w node s r a x None copen = (Inr (p, c), node1, w1)"
    and valid: "validate_transactions_for_next_block v (node_ledger node1) [pay_transaction p] = Inr ()"
    and submit: "submit_payment pf w1 node1 s r2 a2 x2 None = (Inr p2, node2, w2)"
    and ids: "tx_id (pay_transaction p2) \<noteq> tx_id (pay_transaction p)"
    and approve: "node_approve_compliance_case w2 node2 (case_id c) reviewer reason =
      (Inr (c', p'), node3, w3)"
  shows "pay_status p' = Pending \<and> pay_transaction p' = pay_transaction p \<and>
    validate_transactions_for_next_block v' (node_ledger node3) [pay_transaction p'] = Inl InvalidNonce"
proof -
  obtain tx where p: "pay_transaction p = tx" "tx_from tx = s"
      "tx_nonce tx = next_nonce (node_ledger node) s"
    and cp: "case_payment_id c = tx_id tx"
    and node1: "node_ledger node1 = insert_payment_and_case p c (node_ledger node)"
    using hold
    by (auto simp: node_hold_payment_for_review_def earlier_payment_def Let_def
        hold_payment_for_review_def transaction_new_transfer_def transaction_new_def
        with_idempotency_metadata_def payment_held_def with_client_reference_id_def
        with_request_fingerprint_def compliance_case_opened_def new_uuid_def utc_now_def)
  from submit obtain tx2 b v2 l2 where tx2: "tx_from tx2 = s"
      "tx_nonce tx2 = next_nonce (node_ledger node1) s" "pay_transaction p2 = tx2"
    and ab: "apply_block v2 b (node_ledger node1) = (Inr [p2], l2, w2)" and txs: "blk_txs b = [tx2]"
    and node2: "node2 = node1\<lparr>node_ledger := l2\<rparr>"
    by (rule submit_freshE) (auto simp: earlier_payment_def)
  have same: "tx_nonce tx2 = tx_nonce tx"
    using p tx2 node1 by (simp add: next_nonce_def insert_payment_and_case_def)
  obtain work v3 es where run: "apply_txs v2 (node_ledger node1) (blk_height b) (blk_hash b) [tx2]
      (working_copy (node_ledger node1)) = Inr ([p2], work, v3)"
    and l2: "l2 = (commit_working work (node_ledger node1))
      \<lparr>led_payments := insert_records [p2] (led_payments (node_ledger node1)),
       led_audit_events := led_audit_events (node_ledger node1) @ es,
       led_blocks := led_blocks (node_ledger node1) @ [b]\<rparr>"
    using apply_block_ok [OF ab] txs by metis
  have "work_nonces work = hm_insert s (tx_nonce tx2) (led_nonces (node_ledger node1))"
    by (rule apply_txs_ConsE [OF run]) (auto simp: tx2 dest: apply_transaction_effect(2))
  then have nonces: "hm_get (led_nonces l2) s = Some (tx_nonce tx)"
    using same by (simp add: l2 commit_working_def map_simps)
  have case2: "get_compliance_case l2 (case_id c) = Inr c"
    by (simp add: l2 commit_working_def get_compliance_case_def node1 insert_payment_and_case_def map_simps)
  have pay2: "get_payment l2 (tx_id tx) = Inr p"
    using ids p tx2
    by (simp add: l2 commit_working_def get_payment_def node1 insert_payment_and_case_def
        insert_records_def map_simps)
  from approve node2 obtain l3 where
    ap: "approve_compliance_case w2 (case_id c) reviewer reason l2 = Inr ((c', p'), l3, w3)"
    and node3: "node3 = node2\<lparr>node_ledger := l3\<rparr>"
    by (auto simp: node_approve_compliance_case_def locked_def split: sum.splits prod.splits)
  from ap obtain q u where "get_payment l2 (case_payment_id c) = Inr q"
    and mark: "payment_mark_pending w2 q = (p', u)" and l3: "l3 = insert_payment_and_case p' c' l2"
    by (rule approve_compliance_case_okE) (use case2 in auto)
  then have q: "q = p" using pay2 cp by simp
  have p': "pay_status p' = Pending" "pay_transaction p' = tx"
    using payment_markD(1) [OF mark] q p by simp_all
  moreover have "validate_transactions_for_next_block v' (node_ledger node3) [tx] = Inl InvalidNonce"
  proof (rule validate_used_nonce)
    show "validate_transactions_for_next_block v (node_ledger node1) [tx] = Inr ()"
      using valid p by simp
    show "led_accounts (node_ledger node3) = led_accounts (node_ledger node1)"
      by (simp add: node3 l3 l2 insert_payment_and_case_def commit_working_def)
    show "tx_nonce tx \<le> unwrap_or_zero (hm_get (led_nonces (node_ledger node3)) (tx_from tx))"
      using nonces p(2) by (simp add: node3 l3 insert_payment_and_case_def)
  qed
  ultimately show ?thesis using p by simp
qed

section \<open>What a verified block guarantees\<close>

text \<open>
  The hash of a verified block binds its content. Two blocks that pass
  \<open>verify_phase1_block\<close> with the same hash agree in height, previous hash, transactions,
  producer, time and signature, provided that the digest does not collide on their bytes and
  the serialiser writes them differently when they differ. (The list of finality voters is not
  covered by the hash.)
\<close>

theorem verified_block_binding:
  assumes "verify_phase1_block pf w l b e profile = Inr ()"
    and "verify_phase1_block pf w' l' b' e profile = Inr ()"
    and "blk_hash b = blk_hash b'"
    and "pf_block_json pf (block_unsealed b) = Inr x" "pf_block_json pf (block_unsealed b') = Inr y"
    and "no_collision (pf_hashers pf) (cp_hash profile) x y"
    and "x = y \<Longrightarrow> block_unsealed b = block_unsealed b'"
  shows "block_unsealed b = block_unsealed b' \<and> blk_signature b = blk_signature b'"
proof -
  have "block_digest pf profile (block_unsealed b) = Inr (blk_hash b)"
    "block_digest pf profile (block_unsealed b') = Inr (blk_hash b)"
    using assms(1-3) by (simp_all add: verify_phase1_block_iff verified_def)
  with assms(4,5)
  have "hash_bytes (pf_hashers pf) (cp_hash profile) x = hash_bytes (pf_hashers pf) (cp_hash profile) y"
    by (simp add: block_digest_def hash_json_def)
  then have eq: "block_unsealed b = block_unsealed b'" using assms(6,7) no_collisionD by metis
  then have "blk_validator b = blk_validator b'"
    by (metis block.select_convs(4) block.surjective block.update_convs(5,6,7) block_unsealed_def)
  then show ?thesis
    using eq assms(1-3) by (simp add: verify_phase1_block_iff verified_def)
qed

text \<open>An example: a platform, a node on the sample ledger, and two verified blocks.\<close>

definition sample_platform :: platform where
  "sample_platform = \<lparr>pf_hashers = \<lparr>sha2_256_hex = (\<lambda>x. CHR ''d'' # x), sha3_256_hex = (\<lambda>x. CHR ''d'' # x)\<rparr>,
     pf_block_json = (\<lambda>b. Inr [])\<rparr>"

definition sample_engine :: configured_consensus_engine where
  "sample_engine = EnginePoa \<lparr>poa_engine_id = PHASE1_POA_ENGINE_ID,
     poa_validators = phase1_default_validators\<rparr>"

definition sample_node :: kani_node where
  "sample_node = node_new sample_ledger sample_engine hybrid_pqc_v1"

definition sample_sealed :: "string list \<Rightarrow> block" where
  "sample_sealed voters = \<lparr>blk_height = 1, blk_prev_hash = GENESIS_HASH,
     blk_txs = [sample_tx Mint ''TREASURY_SANDBOX'' ''CORP_A'' 1000 1],
     blk_validator = ''validator-a'', blk_signature = ''dhybrid-pqc-v1:validator-a:d'', blk_hash = ''d'',
     blk_finalized_by = voters, blk_created_at = 0\<rparr>"

lemma sample_sealed_verified:
  "verify_phase1_block sample_platform sample_env sample_accounts
     (sample_sealed [''validator-a'', ''validator-b'']) sample_engine hybrid_pqc_v1 = Inr ()"
  "verify_phase1_block sample_platform sample_env sample_accounts
     (sample_sealed [''validator-c'', ''validator-a'']) sample_engine hybrid_pqc_v1 = Inr ()"
  by code_simp+

lemma sample_platform_ok: "platform_ok sample_platform"
  by (simp add: platform_ok_def sample_platform_def)

lemma sample_engine_wf: "well_formed_validators (engine_validators sample_engine)"
  by (simp add: sample_engine_def well_formed_default)

theorem verified_block_binding_witness:
  "blk_signature (sample_sealed [''validator-a'', ''validator-b'']) =
   blk_signature (sample_sealed [''validator-c'', ''validator-a''])"
  using verified_block_binding [OF sample_sealed_verified, of "[]" "[]"]
  by (simp add: sample_sealed_def block_unsealed_def sample_platform_def no_collision_def)

text \<open>
  Finality quorums overlap. Two blocks that pass \<open>verify_phase1_block\<close> for the same
  engine have a validator that voted for both; at the same height they have the same producer,
  who voted for both. So two different blocks of a height need a validator that votes twice.
\<close>

theorem verified_blocks_share_voter:
  assumes "well_formed_validators (engine_validators e)"
    and "verify_phase1_block pf w l b e profile = Inr ()"
    and "verify_phase1_block pf w' l' b' e profile' = Inr ()"
  shows "set (blk_finalized_by b) \<inter> set (blk_finalized_by b') \<noteq> {} \<and>
    (blk_height b = blk_height b' \<longrightarrow> blk_validator b = blk_validator b' \<and>
       blk_validator b \<in> set (blk_finalized_by b) \<inter> set (blk_finalized_by b'))"
proof -
  have v: "verified pf l b e profile" "verified pf l' b' e profile'"
    using assms(2,3) by (simp_all add: verify_phase1_block_iff)
  have "set (blk_finalized_by b) \<inter> set (blk_finalized_by b') \<noteq> {}"
    using v unfolding verified_def engine_active_validators_def
    by (intro engine.quorums_overlap(2) [OF assms(1)]) simp_all
  with v show ?thesis by (auto simp: verified_def)
qed

theorem verified_blocks_share_voter_witness:
  "set (blk_finalized_by (sample_sealed [''validator-a'', ''validator-b''])) \<inter>
   set (blk_finalized_by (sample_sealed [''validator-c'', ''validator-a''])) \<noteq> {}"
  using verified_blocks_share_voter [OF sample_engine_wf sample_sealed_verified] by simp

section \<open>The validator's selection\<close>

text \<open>Each rejected transaction has its error after a prefix of the selected ones.\<close>

definition rejected_after ::
  "env \<Rightarrow> ledger \<Rightarrow> transaction list \<Rightarrow> (transaction \<times> ledger_error) list \<Rightarrow> bool" where
  "rejected_after w l acc rej \<longleftrightarrow>
     (\<forall>(tx, err) \<in> set rej. \<exists>n \<le> length acc.
        validate_transactions_for_next_block w l (take n acc @ [tx]) = Inl err)"

lemma validate_txs_prefix:
  "validate_txs w l h (xs @ ys) work = Inr () \<Longrightarrow> validate_txs w l h xs work = Inr ()"
  by (induction xs arbitrary: w work) (auto simp: res_simps)

lemma validate_prefix:
  "validate_transactions_for_next_block w l (xs @ ys) = Inr () \<Longrightarrow>
     validate_transactions_for_next_block w l xs = Inr ()"
  unfolding validate_transactions_for_next_block_def by (rule validate_txs_prefix)

lemma select_pending_run:
  assumes "select_pending w l acc0 pending = (acc, rej)"
    and "validate_transactions_for_next_block w l acc0 = Inr ()"
  shows "\<exists>new. acc = acc0 @ new \<and> validate_transactions_for_next_block w l acc = Inr () \<and>
    subseq new pending \<and> mset new + mset (map fst rej) = mset pending \<and> rejected_after w l acc rej \<and>
    (validate_transactions_for_next_block w l (acc0 @ pending) = Inr () \<longrightarrow> new = pending)"
  using assms
proof (induction pending arbitrary: acc0 rej)
  case Nil
  then show ?case by (simp add: rejected_after_def)
next
  case (Cons tx pending)
  show ?case
  proof (cases "validate_transactions_for_next_block w l (acc0 @ [tx])")
    case (Inl err)
    then obtain rej' where run: "select_pending w l acc0 pending = (acc, rej')"
      and rej: "rej = (tx, err) # rej'"
      using Cons.prems(1) by (auto simp: Let_def split: prod.splits)
    obtain new where new: "acc = acc0 @ new" "validate_transactions_for_next_block w l acc = Inr ()"
      "subseq new pending" "mset new + mset (map fst rej') = mset pending" "rejected_after w l acc rej'"
      using Cons.IH [OF run Cons.prems(2)] by blast
    have "take (length acc0) acc @ [tx] = acc0 @ [tx]" using new(1) by simp
    then have "rejected_after w l acc rej"
      using new(1,5) Inl rej
      by (auto simp: rejected_after_def intro!: exI [of _ "length acc0"])
    moreover have "validate_transactions_for_next_block w l (acc0 @ tx # pending) \<noteq> Inr ()"
      using validate_prefix [of w l "acc0 @ [tx]" pending] Inl by auto
    ultimately show ?thesis using new rej by auto
  next
    case (Inr u)
    then have valid: "validate_transactions_for_next_block w l (acc0 @ [tx]) = Inr ()" by simp
    have run: "select_pending w l (acc0 @ [tx]) pending = (acc, rej)"
      using Cons.prems(1) valid by (simp add: Let_def)
    show ?thesis using Cons.IH [OF run valid] by auto
  qed
qed

text \<open>
  Claim C31. A validator's selection is sound, complete and greedy. The selected transactions are
  valid as one block; every pending transaction is either selected, in the pending order, or
  rejected with the error it has after the transactions selected before it; and when all pending
  transactions are valid in their order, all are selected.
\<close>

theorem select_pending_spec:
  "case select_pending w l [] pending of
     (acc, rej) \<Rightarrow>
       validate_transactions_for_next_block w l acc = Inr () \<and> subseq acc pending \<and>
       mset acc + mset (map fst rej) = mset pending \<and> rejected_after w l acc rej \<and>
       (validate_transactions_for_next_block w l pending = Inr () \<longrightarrow> acc = pending)"
proof -
  obtain acc rej where run: "select_pending w l [] pending = (acc, rej)" by force
  have "validate_transactions_for_next_block w l [] = Inr ()"
    by (simp add: validate_transactions_for_next_block_def)
  from select_pending_run [OF run this] run show ?thesis by auto
qed

theorem select_pending_spec_witness:
  "fst (select_pending sample_env sample_accounts [] sample_txs) = sample_txs"
proof -
  have "validate_transactions_for_next_block sample_env sample_accounts sample_txs = Inr ()"
    by code_simp
  then show ?thesis
    using select_pending_spec [of sample_env sample_accounts sample_txs]
    by (cases "select_pending sample_env sample_accounts [] sample_txs") simp
qed

section \<open>The sandbox guard\<close>

text \<open>
  The process starts only as a sandbox. The runtime configuration is accepted exactly
  when \<open>ENV\<close> is SANDBOX and \<open>REAL_VALUE\<close> and \<open>REDEEMABLE\<close> are FALSE, all three set, in any
  case; the accepted configuration never has real value and is never redeemable.
\<close>

theorem runtime_config_guard:
  "runtime_config_from_values environment real_value redeemable = Inr config \<longleftrightarrow>
     (\<exists>e v r. environment = Some e \<and> real_value = Some v \<and> redeemable = Some r \<and>
        eq_ignore_ascii_case e ''SANDBOX'' \<and> eq_ignore_ascii_case v ''FALSE'' \<and>
        eq_ignore_ascii_case r ''FALSE'') \<and>
     config = \<lparr>src_environment = ''SANDBOX'', src_real_value = False, src_redeemable = False\<rparr>"
  by (auto simp: runtime_config_from_values_def res_simps split: if_splits)

section \<open>Examples\<close>

lemma sample_payment_ok:
  "is_ok (fst (submit_payment sample_platform sample_env sample_node
     ''CORP_A'' ''CORP_B'' ''KCAD'' 100 (Some ''ref-1'')))"
  by code_simp

lemma sample_node_ledger: "node_ledger sample_node = sample_ledger"
  by (simp add: sample_node_def node_new_def)

lemma sample_node_reachable: "ledger_reachable (node_ledger sample_node)"
  by (simp add: sample_node_ledger sample_ledger_reachable)

theorem produce_and_apply_spec_witness:
  "validate_transactions_for_next_block sample_env sample_ledger
     [sample_tx Transfer ''CORP_A'' ''CORP_B'' 50 7] = Inr ()"
proof -
  let ?run = "produce_and_apply_locked sample_platform sample_env sample_node
     [sample_tx Transfer ''CORP_A'' ''CORP_B'' 50 7]"
  have "is_ok (fst ?run)" by code_simp
  moreover have "well_formed_validators (engine_validators (node_consensus sample_node))"
    by (simp add: sample_node_def node_new_def sample_engine_wf)
  moreover have "length (led_blocks (node_ledger sample_node)) < 2 ^ 62"
    by (simp add: sample_node_ledger sample_ledger_values)
  ultimately show ?thesis
    using produce_and_apply_spec [OF sample_platform_ok, where node = sample_node and w = sample_env
        and v = sample_env and txs = "[sample_tx Transfer ''CORP_A'' ''CORP_B'' 50 7]"]
    by (cases ?run) (auto simp: is_ok_iff sample_node_ledger)
qed

theorem submit_payment_idempotent_witness:
  "\<exists>p node w.
     submit_payment sample_platform sample_env sample_node ''CORP_A'' ''CORP_B'' ''KCAD'' 100
       (Some ''ref-1'') = (Inr p, node, w) \<and>
     submit_payment sample_platform w node ''CORP_A'' ''CORP_B'' ''KCAD'' 100 (Some ''ref-1'') =
       (Inr p, node, w) \<and>
     submit_payment sample_platform w node ''CORP_A'' ''CORP_B'' ''KCAD'' 200 (Some ''ref-1'') =
       (Inl (NodeIdempotencyConflict ''ref-1''), node, w)"
proof -
  let ?run = "submit_payment sample_platform sample_env sample_node ''CORP_A'' ''CORP_B'' ''KCAD'' 100
    (Some ''ref-1'')"
  obtain p node w where run: "?run = (Inr p, node, w)"
    using sample_payment_ok by (cases ?run) (auto simp: is_ok_iff)
  moreover have "no_collision (pf_hashers sample_platform) alg x y" for alg x y
    by (simp add: no_collision_def sample_platform_def hash_bytes_def split: hash_algorithm.split)
  moreover have "fingerprint_payload Transfer ''CORP_A'' ''CORP_B'' ''KCAD'' 100 \<noteq>
      fingerprint_payload Transfer ''CORP_A'' ''CORP_B'' ''KCAD'' 200"
    by code_simp
  ultimately show ?thesis
    using submit_payment_idempotent [OF sample_node_reachable run, of "''CORP_A''" "''CORP_B''" "''KCAD''" 200]
    by blast
qed

theorem submit_payment_moves_witness:
  "case submit_payment sample_platform sample_env sample_node ''CORP_A'' ''CORP_B'' ''KCAD'' 100
     (Some ''ref-1'') of
     (Inl err, node, w) \<Rightarrow> False
   | (Inr p, node, w) \<Rightarrow> ledger_balance (node_ledger node) ''CORP_A'' ''KCAD'' = 500"
proof -
  have "gross_minted (chain_txs (node_ledger sample_node)) ''KCAD'' < 2 ^ 127"
    by (simp add: sample_node_ledger chain_txs_def sample_ledger_values sample_block_def) code_simp
  moreover have "earlier_payment (node_ledger sample_node) (Some ''ref-1'') = None"
    by code_simp
  ultimately show ?thesis
    using sample_payment_ok submit_payment_moves [OF sample_node_reachable, where s = "''CORP_A''"
        and r = "''CORP_B''" and a = "''KCAD''" and x = 100 and cri = "Some ''ref-1''"
        and pf = sample_platform and w = sample_env]
    by (cases "submit_payment sample_platform sample_env sample_node ''CORP_A'' ''CORP_B'' ''KCAD''
        100 (Some ''ref-1'')") (auto simp: is_ok_iff sample_node_ledger sample_ledger_values)
qed

definition sample_hold_step ::
  "(node_error + payment_record \<times> compliance_case) \<times> kani_node \<times> env" where
  "sample_hold_step = node_hold_payment_for_review sample_platform sample_env sample_node
     ''CORP_A'' ''CORP_B'' ''KCAD'' 100 None sample_case_open"

definition sample_submit_step :: "(node_error + payment_record) \<times> kani_node \<times> env" where
  "sample_submit_step = (case sample_hold_step of (r, node, w) \<Rightarrow>
     submit_payment sample_platform w node ''CORP_A'' ''CORP_B'' ''KCAD'' 50 None)"

definition sample_approve_step ::
  "(node_error + compliance_case \<times> payment_record) \<times> kani_node \<times> env" where
  "sample_approve_step = (case sample_submit_step of (r, node, w) \<Rightarrow>
     node_approve_compliance_case w node ''uuid-1'' None None)"
lemma sample_hold_ok:
  "(case sample_hold_step of (Inr (p, c), node, w) \<Rightarrow>
      case_id c = ''uuid-1'' \<and> tx_id (pay_transaction p) = ''uuid-0'' \<and>
      is_ok (validate_transactions_for_next_block w (node_ledger node) [pay_transaction p])
    | (Inl e, node, w) \<Rightarrow> False)"
  by code_simp
lemma sample_submit_ok:
  "(case sample_submit_step of (Inr p, node, w) \<Rightarrow> tx_id (pay_transaction p) = ''uuid-2''
    | (Inl e, node, w) \<Rightarrow> False)"
  by code_simp
lemma sample_approve_ok: "is_ok (fst sample_approve_step)"
  by code_simp

theorem held_payment_nonce_stale_witness:
  "case sample_approve_step of
     (Inl err, node, w) \<Rightarrow> False
   | (Inr (c, p), node, w) \<Rightarrow> pay_status p = Pending \<and>
       validate_transactions_for_next_block w (node_ledger node) [pay_transaction p] = Inl InvalidNonce"
proof -
  obtain r node1 w1 where r: "sample_hold_step = (r, node1, w1)" by (cases sample_hold_step)
  then obtain p c where hold: "sample_hold_step = (Inr (p, c), node1, w1)"
    and c: "case_id c = ''uuid-1''" and p: "tx_id (pay_transaction p) = ''uuid-0''"
    and valid: "validate_transactions_for_next_block w1 (node_ledger node1) [pay_transaction p] = Inr ()"
    using sample_hold_ok unfolding r by (cases r) (auto simp: is_ok_iff)
  obtain r2 node2 w2 where r2: "sample_submit_step = (r2, node2, w2)" by (cases sample_submit_step)
  then have step: "submit_payment sample_platform w1 node1 ''CORP_A'' ''CORP_B'' ''KCAD'' 50 None =
      (r2, node2, w2)"
    by (simp add: sample_submit_step_def hold)
  then obtain p2 where submit: "submit_payment sample_platform w1 node1 ''CORP_A'' ''CORP_B''
      ''KCAD'' 50 None = (Inr p2, node2, w2)" and p2: "tx_id (pay_transaction p2) = ''uuid-2''"
    using sample_submit_ok unfolding r2 by (cases r2) auto
  obtain c' p' node3 w3 where
    approve: "node_approve_compliance_case w2 node2 ''uuid-1'' None None = (Inr (c', p'), node3, w3)"
    using sample_approve_ok
    by (cases "node_approve_compliance_case w2 node2 ''uuid-1'' None None")
      (auto simp: sample_approve_step_def sample_submit_step_def hold submit is_ok_iff)
  have ids: "tx_id (pay_transaction p2) \<noteq> tx_id (pay_transaction p)" by (simp add: p p2)
  show ?thesis
    using held_payment_nonce_stale [OF hold [unfolded sample_hold_step_def] valid submit ids
        approve [folded c], where v' = w3]
    by (auto simp: sample_approve_step_def sample_submit_step_def hold submit approve)
qed

text \<open>A sweep always has a validator to run, and runs no blank one but the configured fallback.\<close>

lemma parse_validator_ids_nonempty: "parse_validator_ids value fallback \<noteq> []"
  by (simp add: parse_validator_ids_def Let_def)

lemma parse_validator_ids_trimmed:
  "i \<in> set (parse_validator_ids value fallback) \<Longrightarrow> i = fallback \<or> (i \<noteq> [] \<and> trim i = i)"
  by (auto simp: parse_validator_ids_def Let_def split: if_splits)

end
