(* ===== verification/Kani_Iso20022.thy ===== *)
theory Kani_Iso20022
  imports Rust_Std
begin

text \<open>
  ISO 20022 messages: \<open>crates/kani-iso20022/src/lib.rs\<close>. The XML parser is the crate
  \<open>roxmltree\<close>; it is a parameter, the record \<open>xml_api\<close> of the operations the code calls on
  a document and its nodes. Building a message is string concatenation with the values
  escaped; \<open>push_element\<close> and its companions return the text they append.
\<close>

section \<open>Messages\<close>

datatype iso20022_error =
  UnsupportedMessageType string
| EmptyMessage
| InvalidXml string
| MissingField string
| UnsupportedTransactionCount usize
| IsoInvalidAmount

datatype iso_message_type = Pacs008 | Pacs002 | Camt

record iso_envelope =
  env_message_type :: iso_message_type
  env_raw_xml :: string

record pacs008_credit_transfer =
  p8_message_id :: string
  p8_instruction_id :: "string option"
  p8_end_to_end_id :: string
  p8_debtor_account :: string
  p8_creditor_account :: string
  p8_asset :: string
  p8_amount :: i128

datatype pacs002_transaction_status =
  AcceptedSettlementCompleted | AcceptedSettlementInProcess | PacsRejected

fun pacs002_code :: "pacs002_transaction_status \<Rightarrow> string" where
  "pacs002_code AcceptedSettlementCompleted = ''ACSC''"
| "pacs002_code AcceptedSettlementInProcess = ''ACSP''"
| "pacs002_code PacsRejected = ''RJCT''"

record pacs002_payment_status =
  p2_message_id :: string
  p2_created_at :: string
  p2_original_message_id :: string
  p2_original_message_name_id :: string
  p2_original_instruction_id :: string
  p2_original_end_to_end_id :: string
  p2_transaction_id :: string
  p2_status :: pacs002_transaction_status
  p2_status_reason :: "string option"
  p2_asset :: string
  p2_amount :: i128
  p2_debtor_account :: string
  p2_creditor_account :: string

datatype camt053_indicator = CamtCredit | CamtDebit

fun camt053_code :: "camt053_indicator \<Rightarrow> string" where
  "camt053_code CamtCredit = ''CRDT''"
| "camt053_code CamtDebit = ''DBIT''"

record camt053_entry =
  ce_id :: string
  ce_transaction_id :: string
  ce_asset :: string
  ce_amount :: i128
  ce_direction :: camt053_indicator
  ce_block_height :: i64
  ce_booked_at :: string

record camt053_statement =
  cs_message_id :: string
  cs_created_at :: string
  cs_statement_id :: string
  cs_account_id :: string
  cs_asset :: string
  cs_balance :: i128
  cs_entries :: "camt053_entry list"

section \<open>Parsing\<close>

definition parse_envelope :: "string \<Rightarrow> string \<Rightarrow> iso20022_error + iso_envelope" where
  "parse_envelope message_type raw_xml =
     (if trim raw_xml = [] then Inl EmptyMessage
      else
      and_then
        (if message_type = ''pacs.008'' then Inr Pacs008
         else if message_type = ''pacs.002'' then Inr Pacs002
         else if message_type = ''camt'' \<or> message_type = ''camt.*'' then Inr Camt
         else Inl (UnsupportedMessageType message_type)) (\<lambda>ty.
      Inr \<lparr>env_message_type = ty, env_raw_xml = raw_xml\<rparr>))"

text \<open>What the code calls of \<open>roxmltree\<close>: \<open>'d\<close> is a document, \<open>'n\<close> a node.\<close>

record ('d, 'n) xml_api =
  xml_parse :: "string \<Rightarrow> string + 'd"
  xml_root_element :: "'d \<Rightarrow> 'n"
  xml_descendants :: "'d \<Rightarrow> 'n list"
  xml_children :: "'n \<Rightarrow> 'n list"
  xml_is_element :: "'n \<Rightarrow> bool"
  xml_tag_name :: "'n \<Rightarrow> string"
  xml_attribute :: "'n \<Rightarrow> string \<Rightarrow> string option"
  xml_text :: "'n \<Rightarrow> string option"

fun first_child :: "('d, 'n) xml_api \<Rightarrow> 'n \<Rightarrow> string list \<Rightarrow> 'n option" where
  "first_child api cursor [] = Some cursor"
| "first_child api cursor (name # path) =
     (case List.find (\<lambda>child. xml_is_element api child \<and> xml_tag_name api child = name)
             (xml_children api cursor) of
        None \<Rightarrow> None
      | Some child \<Rightarrow> first_child api child path)"

definition child_text :: "('d, 'n) xml_api \<Rightarrow> 'n \<Rightarrow> string list \<Rightarrow> string option" where
  "child_text api node path =
     Option.bind (first_child api node path) (\<lambda>node. non_blank (xml_text api node))"

definition required_child_text ::
  "('d, 'n) xml_api \<Rightarrow> 'n \<Rightarrow> string list \<Rightarrow> string \<Rightarrow> iso20022_error + string" where
  "required_child_text api node path field =
     ok_or (MissingField field) (child_text api node path)"

definition or_else :: "'a option \<Rightarrow> 'a option \<Rightarrow> 'a option" where
  "or_else x y = (case x of None \<Rightarrow> y | Some v \<Rightarrow> Some v)"

definition parse_minor_units :: "string \<Rightarrow> iso20022_error + i128" where
  "parse_minor_units value =
     (let value = trim value in
      if value = [] \<or> \<not> list_all is_ascii_digit value \<or>
         (starts_with value ''0'' \<and> 1 < length value)
      then Inl IsoInvalidAmount
      else and_then (ok_or IsoInvalidAmount (parse_i128 value)) (\<lambda>amount.
        if amount \<le> 0 then Inl IsoInvalidAmount else Inr amount))"

definition parse_pacs008_credit_transfer ::
  "('d, 'n) xml_api \<Rightarrow> string \<Rightarrow> iso20022_error + pacs008_credit_transfer" where
  "parse_pacs008_credit_transfer api raw_xml =
     (if trim raw_xml = [] then Inl EmptyMessage
      else
      and_then (map_err InvalidXml (xml_parse api raw_xml)) (\<lambda>document.
      and_then (required_child_text api (xml_root_element api document)
                  [''FIToFICstmrCdtTrf'', ''GrpHdr'', ''MsgId''] ''GrpHdr/MsgId'') (\<lambda>message_id.
      let transactions = filter (\<lambda>node. xml_is_element api node \<and> xml_tag_name api node = ''CdtTrfTxInf'')
            (xml_descendants api document) in
      if length transactions \<noteq> 1 then Inl (UnsupportedTransactionCount (length transactions))
      else
      let transaction = transactions ! 0;
          instruction_id = child_text api transaction [''PmtId'', ''InstrId''] in
      and_then (required_child_text api transaction [''PmtId'', ''EndToEndId''] ''PmtId/EndToEndId'')
        (\<lambda>end_to_end_id.
      and_then (ok_or (MissingField ''IntrBkSttlmAmt'')
                  (or_else (first_child api transaction [''IntrBkSttlmAmt''])
                           (first_child api transaction [''InstdAmt'']))) (\<lambda>amount_node.
      and_then (ok_or (MissingField ''IntrBkSttlmAmt/@Ccy'')
                  (non_blank (xml_attribute api amount_node ''Ccy''))) (\<lambda>asset.
      and_then (parse_minor_units (case xml_text api amount_node of None \<Rightarrow> [] | Some t \<Rightarrow> t)) (\<lambda>amount.
      and_then (ok_or (MissingField ''DbtrAcct/Id/Othr/Id'')
                  (or_else (child_text api transaction [''DbtrAcct'', ''Id'', ''Othr'', ''Id''])
                     (child_text api transaction [''Dbtr'', ''Id'', ''OrgId'', ''Othr'', ''Id''])))
        (\<lambda>debtor_account.
      and_then (ok_or (MissingField ''CdtrAcct/Id/Othr/Id'')
                  (or_else (child_text api transaction [''CdtrAcct'', ''Id'', ''Othr'', ''Id''])
                     (child_text api transaction [''Cdtr'', ''Id'', ''OrgId'', ''Othr'', ''Id''])))
        (\<lambda>creditor_account.
      Inr \<lparr>p8_message_id = message_id, p8_instruction_id = instruction_id,
           p8_end_to_end_id = end_to_end_id, p8_debtor_account = debtor_account,
           p8_creditor_account = creditor_account, p8_asset = asset, p8_amount = amount\<rparr>)))))))))"

section \<open>Escaping\<close>

definition escape_xml_text :: "string \<Rightarrow> string" where
  "escape_xml_text value =
     replace_char (CHR ''>'') ''&gt;'' (replace_char (CHR ''<'') ''&lt;''
       (replace_char (CHR ''&'') ''&amp;'' value))"

definition escape_xml_attribute :: "string \<Rightarrow> string" where
  "escape_xml_attribute value =
     replace_char (CHR 0x27) ''&apos;'' (replace_char (CHR 0x22) ''&quot;'' (escape_xml_text value))"

abbreviation nl :: string where "nl \<equiv> [CHR 0x0A]"
abbreviation quote :: string where "quote \<equiv> [CHR 0x22]"

definition push_element :: "nat \<Rightarrow> string \<Rightarrow> string \<Rightarrow> string" where
  "push_element indent name value =
     replicate indent (CHR '' '') @ ''<'' @ name @ ''>'' @ escape_xml_text value
       @ ''</'' @ name @ ''>'' @ nl"

definition push_amount_element :: "nat \<Rightarrow> string \<Rightarrow> string \<Rightarrow> i128 \<Rightarrow> string" where
  "push_amount_element indent name asset amount =
     replicate indent (CHR '' '') @ ''<'' @ name @ '' Ccy='' @ quote @ escape_xml_attribute asset
       @ quote @ ''>'' @ int_to_dec amount @ ''</'' @ name @ ''>'' @ nl"

definition balance_credit_debit_indicator :: "i128 \<Rightarrow> camt053_indicator" where
  "balance_credit_debit_indicator balance = (if balance < 0 then CamtDebit else CamtCredit)"

definition positive_amount :: "i128 \<Rightarrow> i128" where
  "positive_amount amount = (case i128_checked_abs amount of None \<Rightarrow> i128_MAX | Some x \<Rightarrow> x)"

section \<open>Building messages\<close>

definition reason_xml :: "string option \<Rightarrow> string" where
  "reason_xml r = (case r of
        None \<Rightarrow> []
      | Some reason \<Rightarrow> concat
         [''      <StsRsnInf>'' @ nl,
          ''        <Rsn>'' @ nl,
          push_element 10 ''Prtry'' ''KANI_SANDBOX'',
          ''        </Rsn>'' @ nl,
          push_element 8 ''AddtlInf'' reason,
          ''      </StsRsnInf>'' @ nl])"

definition build_pacs002_status_report :: "pacs002_payment_status \<Rightarrow> string" where
  "build_pacs002_status_report s = concat
    [''<?xml version='' @ quote @ ''1.0'' @ quote @ '' encoding='' @ quote @ ''UTF-8'' @ quote @ ''?>'', nl,
     ''<Document xmlns='' @ quote @ ''urn:iso:std:iso:20022:tech:xsd:pacs.002.001.10'' @ quote @ ''>'', nl,
     ''  <FIToFIPmtStsRpt>'' @ nl,
     ''    <GrpHdr>'' @ nl,
     push_element 6 ''MsgId'' (p2_message_id s),
     push_element 6 ''CreDtTm'' (p2_created_at s),
     ''    </GrpHdr>'' @ nl,
     ''    <OrgnlGrpInfAndSts>'' @ nl,
     push_element 6 ''OrgnlMsgId'' (p2_original_message_id s),
     push_element 6 ''OrgnlMsgNmId'' (p2_original_message_name_id s),
     ''    </OrgnlGrpInfAndSts>'' @ nl,
     ''    <TxInfAndSts>'' @ nl,
     push_element 6 ''OrgnlInstrId'' (p2_original_instruction_id s),
     push_element 6 ''OrgnlEndToEndId'' (p2_original_end_to_end_id s),
     push_element 6 ''TxId'' (p2_transaction_id s),
     push_element 6 ''TxSts'' (pacs002_code (p2_status s)),
     reason_xml (non_blank (p2_status_reason s)),
     ''      <OrgnlTxRef>'' @ nl,
     push_amount_element 8 ''IntrBkSttlmAmt'' (p2_asset s) (p2_amount s),
     ''        <DbtrAcct>'' @ nl,
     ''          <Id>'' @ nl,
     ''            <Othr>'' @ nl,
     push_element 14 ''Id'' (p2_debtor_account s),
     ''            </Othr>'' @ nl,
     ''          </Id>'' @ nl,
     ''        </DbtrAcct>'' @ nl,
     ''        <CdtrAcct>'' @ nl,
     ''          <Id>'' @ nl,
     ''            <Othr>'' @ nl,
     push_element 14 ''Id'' (p2_creditor_account s),
     ''            </Othr>'' @ nl,
     ''          </Id>'' @ nl,
     ''        </CdtrAcct>'' @ nl,
     ''      </OrgnlTxRef>'' @ nl,
     ''    </TxInfAndSts>'' @ nl,
     ''  </FIToFIPmtStsRpt>'' @ nl,
     ''</Document>'' @ nl]"

definition camt053_entry_xml :: "camt053_entry \<Rightarrow> string" where
  "camt053_entry_xml e = concat
    [''      <Ntry>'' @ nl,
     push_element 8 ''NtryRef'' (ce_id e),
     push_amount_element 8 ''Amt'' (ce_asset e) (positive_amount (ce_amount e)),
     push_element 8 ''CdtDbtInd'' (camt053_code (ce_direction e)),
     ''        <Sts>'' @ nl,
     push_element 10 ''Cd'' ''BOOK'',
     ''        </Sts>'' @ nl,
     ''        <BookgDt>'' @ nl,
     push_element 10 ''DtTm'' (ce_booked_at e),
     ''        </BookgDt>'' @ nl,
     push_element 8 ''AcctSvcrRef'' (ce_transaction_id e),
     push_element 8 ''AddtlNtryInf'' (''KANI block_height='' @ int_to_dec (ce_block_height e)),
     ''      </Ntry>'' @ nl]"

definition build_camt053_statement :: "camt053_statement \<Rightarrow> string" where
  "build_camt053_statement s = concat
    [''<?xml version='' @ quote @ ''1.0'' @ quote @ '' encoding='' @ quote @ ''UTF-8'' @ quote @ ''?>'', nl,
     ''<Document xmlns='' @ quote @ ''urn:iso:std:iso:20022:tech:xsd:camt.053.001.08'' @ quote @ ''>'', nl,
     ''  <BkToCstmrStmt>'' @ nl,
     ''    <GrpHdr>'' @ nl,
     push_element 6 ''MsgId'' (cs_message_id s),
     push_element 6 ''CreDtTm'' (cs_created_at s),
     ''    </GrpHdr>'' @ nl,
     ''    <Stmt>'' @ nl,
     push_element 6 ''Id'' (cs_statement_id s),
     push_element 6 ''ElctrncSeqNb'' ''1'',
     ''      <Acct>'' @ nl,
     ''        <Id>'' @ nl,
     ''          <Othr>'' @ nl,
     push_element 12 ''Id'' (cs_account_id s),
     ''          </Othr>'' @ nl,
     ''        </Id>'' @ nl,
     push_element 8 ''Ccy'' (cs_asset s),
     ''      </Acct>'' @ nl,
     ''      <Bal>'' @ nl,
     ''        <Tp>'' @ nl,
     ''          <CdOrPrtry>'' @ nl,
     push_element 12 ''Cd'' ''CLBD'',
     ''          </CdOrPrtry>'' @ nl,
     ''        </Tp>'' @ nl,
     push_amount_element 8 ''Amt'' (cs_asset s) (positive_amount (cs_balance s)),
     push_element 8 ''CdtDbtInd'' (camt053_code (balance_credit_debit_indicator (cs_balance s))),
     ''        <Dt>'' @ nl,
     push_element 10 ''DtTm'' (cs_created_at s),
     ''        </Dt>'' @ nl,
     ''      </Bal>'' @ nl,
     concat (map camt053_entry_xml (cs_entries s)),
     ''    </Stmt>'' @ nl,
     ''  </BkToCstmrStmt>'' @ nl,
     ''</Document>'' @ nl]"

section \<open>What escaping guarantees\<close>

definition escape_char :: "char \<Rightarrow> string" where
  "escape_char c =
     (if c = CHR ''&'' then ''&amp;'' else if c = CHR ''<'' then ''&lt;''
      else if c = CHR ''>'' then ''&gt;'' else [c])"

definition escape_attr_char :: "char \<Rightarrow> string" where
  "escape_attr_char c =
     (if c = CHR 0x22 then ''&quot;'' else if c = CHR 0x27 then ''&apos;'' else escape_char c)"

lemma replace_char_Nil [simp]: "replace_char c t [] = []"
  by (simp add: replace_char_def)

lemma replace_char_Cons [simp]:
  "replace_char c t (x # s) = (if x = c then t else [x]) @ replace_char c t s"
  by (simp add: replace_char_def)

lemma escape_xml_text_map: "escape_xml_text s = concat (map escape_char s)"
  by (induction s) (simp_all add: escape_xml_text_def escape_char_def)

lemma escape_xml_attribute_map: "escape_xml_attribute s = concat (map escape_attr_char s)"
  by (induction s) (simp_all add: escape_xml_attribute_def escape_xml_text_def escape_char_def
      escape_attr_char_def)

text \<open>How a reader of XML decodes the five predefined entities.\<close>

fun decode_entities :: "string \<Rightarrow> string" where
  "decode_entities [] = []"
| "decode_entities (c # s) =
     (if c \<noteq> CHR ''&'' then c # decode_entities s
      else if starts_with s ''amp;'' then CHR ''&'' # decode_entities (drop 4 s)
      else if starts_with s ''lt;'' then CHR ''<'' # decode_entities (drop 3 s)
      else if starts_with s ''gt;'' then CHR ''>'' # decode_entities (drop 3 s)
      else if starts_with s ''quot;'' then CHR 0x22 # decode_entities (drop 5 s)
      else if starts_with s ''apos;'' then CHR 0x27 # decode_entities (drop 5 s)
      else c # decode_entities s)"

lemma decode_escape_char: "decode_entities (escape_char c @ s) = c # decode_entities s"
  by (simp add: escape_char_def starts_with_def)

lemma decode_escape_attr_char: "decode_entities (escape_attr_char c @ s) = c # decode_entities s"
  by (simp add: escape_attr_char_def decode_escape_char) (simp add: starts_with_def)

lemma escape_char_markup:
  "x \<in> set (escape_char c) \<Longrightarrow> x \<noteq> CHR ''<'' \<and> x \<noteq> CHR ''>''"
  "x \<in> set (escape_attr_char c) \<Longrightarrow> x \<noteq> CHR ''<'' \<and> x \<noteq> CHR ''>'' \<and> x \<noteq> CHR 0x22 \<and> x \<noteq> CHR 0x27"
  by (auto simp: escape_char_def escape_attr_char_def split: if_splits)

text \<open>
  Escaping is lossless and leaves no markup. An escaped value contains no angle
  bracket (and, as an attribute, no quote), and decoding the entities gives the value back.
\<close>

theorem escaping_roundtrip:
  "decode_entities (escape_xml_text s) = s \<and> decode_entities (escape_xml_attribute s) = s \<and>
   set (escape_xml_text s) \<inter> {CHR ''<'', CHR ''>''} = {} \<and>
   set (escape_xml_attribute s) \<inter> {CHR ''<'', CHR ''>'', CHR 0x22, CHR 0x27} = {}"
proof -
  have "decode_entities (escape_xml_text s) = s"
    unfolding escape_xml_text_map by (induction s) (simp_all add: decode_escape_char)
  moreover have "decode_entities (escape_xml_attribute s) = s"
    unfolding escape_xml_attribute_map by (induction s) (simp_all add: decode_escape_attr_char)
  ultimately show ?thesis
    using escape_char_markup
    by (auto simp: escape_xml_text_map escape_xml_attribute_map)
qed

lemma nat_to_dec_ascii: "c \<in> set (nat_to_dec n) \<Longrightarrow> is_ascii_digit c"
  using nat_to_dec_all_digits [of n] by (auto simp: list_all_iff)

section \<open>Amounts\<close>

lemma dec_value_lt: "list_all is_ascii_digit s \<Longrightarrow> dec_value s < 10 ^ length s"
proof (induction s rule: rev_induct)
  case (snoc c s)
  then have "byte_of c \<le> 57" by (simp add: is_ascii_digit_def)
  with snoc show ?case by simp
qed (simp add: dec_value_def)

lemma dec_digit_0: "dec_digit 0 = CHR ''0''"
  by code_simp

lemma dec_digit_byte: "is_ascii_digit c \<Longrightarrow> dec_digit (byte_of c - 48) = c"
  by (simp add: dec_digit_def is_ascii_digit_def byte_of_def)

text \<open>A digit string without a leading zero is the decimal numeral of its value.\<close>

lemma nat_to_dec_dec_value:
  assumes "list_all is_ascii_digit s" "s \<noteq> []" "starts_with s ''0'' \<Longrightarrow> length s = 1"
  shows "nat_to_dec (dec_value s) = s"
  using assms
proof (induction s rule: rev_induct)
  case Nil
  then show ?case by simp
next
  case (snoc c s)
  have c: "is_ascii_digit c" and s: "list_all is_ascii_digit s" using snoc.prems(1) by simp_all
  then have c9: "byte_of c - 48 < 10" unfolding is_ascii_digit_def by linarith
  show ?case
  proof (cases "s = []")
    case True
    with c9 dec_digit_byte [OF c] show ?thesis
      by (simp add: dec_value_def nat_to_dec.simps [of "byte_of c - 48"])
  next
    case False
    have no0: "\<not> starts_with s ''0''"
      using snoc.prems(3) False by (cases s) (auto simp: starts_with_def)
    have IH: "nat_to_dec (dec_value s) = s" using snoc.IH [OF s False] no0 by simp
    have "dec_value s \<noteq> 0"
    proof
      assume "dec_value s = 0"
      with IH have "s = ''0''" by (simp add: nat_to_dec.simps [of 0] dec_digit_0)
      with no0 show False by (simp add: starts_with_def)
    qed
    then have "nat_to_dec (dec_value s * 10 + (byte_of c - 48)) = nat_to_dec (dec_value s) @ [c]"
      using c9 dec_digit_byte [OF c]
      by (subst nat_to_dec.simps) (simp add: div_mult_self3)
    with IH show ?thesis by simp
  qed
qed

lemma nat_to_dec_no_leading_zero: "starts_with (nat_to_dec n) ''0'' \<Longrightarrow> n = 0"
proof (induction n rule: nat_to_dec.induct)
  case (1 n)
  show ?case
  proof (cases "n < 10")
    case True
    then have "byte_of (dec_digit n) = 48 + n" by simp
    with 1(2) True show ?thesis
      by (auto simp: nat_to_dec.simps [of n] starts_with_def byte_of_def)
  next
    case False
    then have "starts_with (nat_to_dec (n div 10)) ''0''"
      using 1(2) by (cases "nat_to_dec (n div 10)") (auto simp: nat_to_dec.simps [of n] starts_with_def)
    with 1(1) False show ?thesis by simp
  qed
qed

text \<open>
  Claim C39. Amounts are read exactly. \<open>parse_minor_units\<close> accepts a text as the amount \<open>x\<close> if
  and only if the text, trimmed, is the decimal numeral of \<open>x\<close> (no sign, no leading zero, no
  fraction) and \<open>x\<close> is positive and fits the width.
\<close>

theorem parse_minor_units_exact:
  "parse_minor_units value = Inr x \<longleftrightarrow> trim value = int_to_dec x \<and> 0 < x \<and> x < 2 ^ 127"
proof
  assume ok: "parse_minor_units value = Inr x"
  let ?t = "trim value"
  from ok have digits: "list_all is_ascii_digit ?t" "?t \<noteq> []" "starts_with ?t ''0'' \<Longrightarrow> length ?t = 1"
    and x: "parse_i128 ?t = Some x" "0 < x"
    by (auto simp: parse_minor_units_def Let_def res_simps split: if_splits)
      (cases ?t; simp)
  obtain c cs where t: "?t = c # cs" using digits(2) by (cases ?t) auto
  with digits(1) have "c \<noteq> CHR ''-''" "c \<noteq> CHR ''+''" by (auto simp: is_ascii_digit_def byte_of_def)
  with x(1) t digits have "x = int (dec_value ?t)" "in_i128 x"
    by (auto simp: parse_i128_def parse_digits_def Let_def split: if_splits)
  with x(2) nat_to_dec_dec_value [OF digits] show "?t = int_to_dec x \<and> 0 < x \<and> x < 2 ^ 127"
    by (simp add: int_to_dec_def in_i128_nonneg)
next
  assume x: "trim value = int_to_dec x \<and> 0 < x \<and> x < 2 ^ 127"
  then have "in_i128 x" by (simp add: in_i128_nonneg)
  with x have "parse_i128 (trim value) = Some x" by (simp add: parse_i128_int_to_dec)
  moreover have "trim value = nat_to_dec (nat x)" using x by (simp add: int_to_dec_def)
  moreover have "\<not> starts_with (nat_to_dec (nat x)) ''0''"
    using nat_to_dec_no_leading_zero [of "nat x"] x by auto
  ultimately show "parse_minor_units value = Inr x"
    using x by (simp add: parse_minor_units_def)
qed

section \<open>Credit transfers\<close>

lemma child_text_trimmed: "child_text api node path = Some t \<Longrightarrow> t \<noteq> [] \<and> trim t = t"
  by (auto simp: child_text_def non_blank_def bind_eq_Some_conv split: option.splits if_splits)

lemma non_blank_trimmed: "non_blank v = Some t \<Longrightarrow> t \<noteq> [] \<and> trim t = t"
  by (auto simp: non_blank_def split: option.splits if_splits)

lemma or_else_SomeD: "or_else x y = Some v \<Longrightarrow> x = Some v \<or> y = Some v"
  by (auto simp: or_else_def split: option.splits)

lemma parse_minor_units_bounds: "parse_minor_units v = Inr x \<Longrightarrow> 0 < x \<and> x < 2 ^ 127"
  by (auto simp: parse_minor_units_def parse_i128_def in_i128_def i128_MAX_def Let_def res_simps
      split: if_splits option.splits)

text \<open>
  A parsed credit transfer is complete. Whatever the XML parser returns, when
  \<open>parse_pacs008_credit_transfer\<close> succeeds the document had exactly one \<open>CdtTrfTxInf\<close>, the
  message id, end-to-end id, both accounts and the asset are present, trimmed and not blank,
  an instruction id is absent or not blank, and the amount is positive and fits the width.
\<close>

theorem parse_pacs008_complete:
  assumes "parse_pacs008_credit_transfer api raw_xml = Inr p"
  shows "(\<forall>t \<in> {p8_message_id p, p8_end_to_end_id p, p8_debtor_account p, p8_creditor_account p,
      p8_asset p} \<union> set_option (p8_instruction_id p). t \<noteq> [] \<and> trim t = t) \<and>
    0 < p8_amount p \<and> p8_amount p < 2 ^ 127 \<and>
    (\<exists>d. xml_parse api raw_xml = Inr d \<and>
      length (filter (\<lambda>n. xml_is_element api n \<and> xml_tag_name api n = ''CdtTrfTxInf'')
        (xml_descendants api d)) = 1)"
proof -
  obtain d m tx e n a t x db cr where
    d: "xml_parse api raw_xml = Inr d" and
    m: "child_text api (xml_root_element api d) [''FIToFICstmrCdtTrf'', ''GrpHdr'', ''MsgId''] = Some m" and
    one: "length (filter (\<lambda>n. xml_is_element api n \<and> xml_tag_name api n = ''CdtTrfTxInf'')
        (xml_descendants api d)) = 1" and
    e: "child_text api tx [''PmtId'', ''EndToEndId''] = Some e" and
    a: "non_blank (xml_attribute api n ''Ccy'') = Some a" and
    x: "parse_minor_units t = Inr x" and
    db: "or_else (child_text api tx [''DbtrAcct'', ''Id'', ''Othr'', ''Id''])
      (child_text api tx [''Dbtr'', ''Id'', ''OrgId'', ''Othr'', ''Id'']) = Some db" and
    cr: "or_else (child_text api tx [''CdtrAcct'', ''Id'', ''Othr'', ''Id''])
      (child_text api tx [''Cdtr'', ''Id'', ''OrgId'', ''Othr'', ''Id'']) = Some cr" and
    p: "p = \<lparr>p8_message_id = m, p8_instruction_id = child_text api tx [''PmtId'', ''InstrId''],
      p8_end_to_end_id = e, p8_debtor_account = db, p8_creditor_account = cr, p8_asset = a,
      p8_amount = x\<rparr>"
    using assms
    unfolding parse_pacs008_credit_transfer_def required_child_text_def Let_def
    by (simp only: res_simps sum.inject sum.distinct simp_thms split: if_split_asm) blast
  have "t \<noteq> [] \<and> trim t = t"
    if "t \<in> {m, e, db, cr, a} \<union> set_option (child_text api tx [''PmtId'', ''InstrId''])" for t
    using that m e or_else_SomeD [OF db] or_else_SomeD [OF cr] non_blank_trimmed [OF a]
      child_text_trimmed [of api]
    by (elim UnE insertE emptyE) (blast, blast, blast, blast, blast, metis elem_set)
  then show ?thesis
    using parse_minor_units_bounds [OF x] d one p by auto
qed

text \<open>An example document, as a tree of elements with their text.\<close>

datatype sample_xml = Sample_Element string "(string \<times> string) list" string "sample_xml list"

fun sample_children :: "sample_xml \<Rightarrow> sample_xml list" where
  "sample_children (Sample_Element tag attrs text children) = children"

fun sample_descendants :: "sample_xml \<Rightarrow> sample_xml list" where
  "sample_descendants (Sample_Element tag attrs text children) =
     Sample_Element tag attrs text children # concat (map sample_descendants children)"

definition sample_path :: "string list \<Rightarrow> string \<Rightarrow> sample_xml" where
  "sample_path names text =
     foldr (\<lambda>name child. Sample_Element name [] [] [child]) (butlast names)
       (Sample_Element (last names) [] text [])"

definition sample_document :: sample_xml where
  "sample_document = Sample_Element ''Document'' [] []
     [Sample_Element ''FIToFICstmrCdtTrf'' [] []
       [sample_path [''GrpHdr'', ''MsgId''] ''m1'',
        Sample_Element ''CdtTrfTxInf'' [] []
         [sample_path [''PmtId'', ''EndToEndId''] '' e1 '',
          Sample_Element ''IntrBkSttlmAmt'' [(''Ccy'', ''KCAD'')] ''125'' [],
          sample_path [''DbtrAcct'', ''Id'', ''Othr'', ''Id''] ''CORP_A'',
          sample_path [''CdtrAcct'', ''Id'', ''Othr'', ''Id''] ''CORP_B'']]]"

definition sample_api :: "(sample_xml, sample_xml) xml_api" where
  "sample_api = \<lparr>xml_parse = (\<lambda>s. Inr sample_document), xml_root_element = (\<lambda>d. d),
     xml_descendants = sample_descendants, xml_children = sample_children,
     xml_is_element = (\<lambda>n. True),
     xml_tag_name = (\<lambda>n. case n of Sample_Element tag attrs text children \<Rightarrow> tag),
     xml_attribute = (\<lambda>n name. case n of Sample_Element tag attrs text children \<Rightarrow> map_of attrs name),
     xml_text = (\<lambda>n. case n of Sample_Element tag attrs text children \<Rightarrow> Some text)\<rparr>"

theorem parse_pacs008_complete_witness:
  "\<exists>p. parse_pacs008_credit_transfer sample_api ''<xml/>'' = Inr p \<and>
     trim (p8_end_to_end_id p) = p8_end_to_end_id p \<and> 0 < p8_amount p"
proof -
  have "is_ok (parse_pacs008_credit_transfer sample_api ''<xml/>'')" by code_simp
  then obtain p where "parse_pacs008_credit_transfer sample_api ''<xml/>'' = Inr p"
    by (auto simp: is_ok_iff)
  with parse_pacs008_complete [OF this] show ?thesis by blast
qed

end
