(* ===== verification/Kani_Iso_Read.thy ===== *)
theory Kani_Iso_Read
  imports Kani_Iso20022
begin

text \<open>
  The messages the code builds, read back: a reader of XML in two passes, characters to tokens and
  tokens to the values of the leaf elements, and what it finds in the built messages. The reader
  decodes the five predefined entities and checks that elements are properly nested; it does not
  normalize line ends.
\<close>

section \<open>A reader\<close>












section \<open>Scanning what the code pushes\<close>














section \<open>The fields of the messages\<close>











end
