(* ===== verification/Kani_Api_Input.thy ===== *)
theory Kani_Api_Input
  imports Kani_Node Kani_Iso20022 Kani_Compliance
begin

text \<open>
  The pure part of the HTTP API, \<open>crates/kani-api/src/lib.rs\<close>: its errors and the texts of the
  errors it wraps, the request bodies and their validation, the query filters and pages, and
  the mapping of ISO 20022 messages to payments and back. The formatting and parsing of
  timestamps is the crate \<open>chrono\<close>; it is a parameter, the record \<open>chrono_api\<close>.
\<close>

section \<open>Texts of errors\<close>

text \<open>Why \<open>str::parse::<i128>()\<close> of a text fails: the \<open>Display\<close> of \<open>ParseIntError\<close>.\<close>

fun int_error_scan :: "bool \<Rightarrow> nat \<Rightarrow> string \<Rightarrow> string" where
  "int_error_scan negative acc [] = []"
| "int_error_scan negative acc (c # cs) =
     (if \<not> is_ascii_digit c then ''invalid digit found in string''
      else let acc = acc * 10 + (byte_of c - 48) in
      if negative \<and> 2 ^ 127 < acc then ''number too small to fit in target type''
      else if \<not> negative \<and> 2 ^ 127 \<le> acc then ''number too large to fit in target type''
      else int_error_scan negative acc cs)"

definition parse_int_error_display :: "string \<Rightarrow> string" where
  "parse_int_error_display s =
     (if s = [] then ''cannot parse integer from empty string''
      else if s = ''+'' \<or> s = ''-'' then ''invalid digit found in string''
      else if hd s = CHR ''-'' then int_error_scan True 0 (tl s)
      else if hd s = CHR ''+'' then int_error_scan False 0 (tl s)
      else int_error_scan False 0 s)"

fun ledger_storage_error_display :: "ledger_storage_error \<Rightarrow> string" where
  "ledger_storage_error_display (Sqlx e) = e"
| "ledger_storage_error_display (SerdeJson e) = e"
| "ledger_storage_error_display (ParseAmount v) =
     ''failed to parse persisted amount '' @ v @ '': '' @ parse_int_error_display v"
| "ledger_storage_error_display (UnknownAccountType v) = ''unknown account type '' @ v"
| "ledger_storage_error_display (UnknownInstitutionStatus v) = ''unknown institution status '' @ v"
| "ledger_storage_error_display (UnknownInstitutionRiskTier v) =
     ''unknown institution risk tier '' @ v"
| "ledger_storage_error_display (UnknownInstitutionRole v) = ''unknown institution role '' @ v"
| "ledger_storage_error_display (UnknownInstitutionCredentialType v) =
     ''unknown institution credential type '' @ v"
| "ledger_storage_error_display (UnknownInstitutionCredentialStatus v) =
     ''unknown institution credential status '' @ v"
| "ledger_storage_error_display (UnknownTransactionKind v) = ''unknown transaction kind '' @ v"
| "ledger_storage_error_display (UnknownTransactionStatus v) = ''unknown transaction status '' @ v"
| "ledger_storage_error_display (UnknownComplianceCaseStatus v) =
     ''unknown compliance case status '' @ v"
| "ledger_storage_error_display (StorageUnknownPayment v) = ''payment '' @ v @ '' does not exist''"
| "ledger_storage_error_display (StorageUnknownComplianceCase v) =
     ''compliance case '' @ v @ '' does not exist''"
| "ledger_storage_error_display (StorageTerminalComplianceCase i status) =
     ''compliance case '' @ i @ '' is already terminal with status '' @ status"
| "ledger_storage_error_display (UnknownJournalDirection v) = ''unknown journal direction '' @ v"
| "ledger_storage_error_display (Migration e) = ''migration failed: '' @ e"
| "ledger_storage_error_display AdvisoryLockReleaseFailed =
     ''failed to release block production advisory lock''"
| "ledger_storage_error_display (IdempotencyConflict c p) =
     ''idempotency key '' @ c @ '' was already used for payment '' @ p"

fun consensus_error_display :: "consensus_error \<Rightarrow> string" where
  "consensus_error_display NotEnoughValidators =
     ''phase 1 PoA requires at least 3 active validators''"
| "consensus_error_display (InvalidHeight h) = ''invalid block height '' @ int_to_dec h"
| "consensus_error_display (InactiveValidator v) = ''validator '' @ v @ '' is not active''"
| "consensus_error_display (UnsupportedEngine v) = ''unsupported consensus engine '' @ v"
| "consensus_error_display (BftPrototypeNotEnabled expected actual) =
     ''BFT prototype requires sandbox engine id '' @ expected @ '', got '' @ actual"
| "consensus_error_display (InvalidEpoch expected actual) =
     ''quorum certificate epoch mismatch: expected '' @ int_to_dec expected @ '', got ''
       @ int_to_dec actual"
| "consensus_error_display (InvalidValidatorSet expected actual) =
     ''finality proof validator set mismatch: expected '' @ expected @ '', got '' @ actual"
| "consensus_error_display EmptyBlockHash = ''quorum certificate block hash is empty''"
| "consensus_error_display (InvalidQuorum got required) =
     ''quorum certificate threshold not met: got '' @ nat_to_dec got @ '', required ''
       @ nat_to_dec required"
| "consensus_error_display (DuplicateVote v) = ''duplicate consensus vote from validator '' @ v"
| "consensus_error_display (FinalityProofBlockHashMismatch expected actual) =
     ''finality proof block hash mismatch: expected '' @ expected @ '', got '' @ actual"

fun crypto_error_display :: "crypto_error \<Rightarrow> string" where
  "crypto_error_display (Serialization e) = ''failed to serialize signing payload: '' @ e"

fun iso20022_error_display :: "iso20022_error \<Rightarrow> string" where
  "iso20022_error_display (UnsupportedMessageType t) =
     ''unsupported ISO 20022 message type: '' @ t"
| "iso20022_error_display EmptyMessage = ''message body is empty''"
| "iso20022_error_display (InvalidXml e) = ''invalid XML: '' @ e"
| "iso20022_error_display (MissingField f) = ''pacs.008 field '' @ f @ '' is required''"
| "iso20022_error_display (UnsupportedTransactionCount n) =
     ''pacs.008 requires exactly one CdtTrfTxInf transaction, got '' @ nat_to_dec n"
| "iso20022_error_display IsoInvalidAmount =
     ''pacs.008 amount must be a positive integer in minor units''"

section \<open>API errors\<close>

datatype api_error =
  BadRequest string
| Conflict string
| Unauthorized string
| Forbidden string
| NotFound string
| Internal string

text \<open>\<open>ApiError::status_code\<close>, as the number the response carries.\<close>

fun status_code :: "api_error \<Rightarrow> nat" where
  "status_code (BadRequest e) = 400"
| "status_code (Conflict e) = 409"
| "status_code (Unauthorized e) = 401"
| "status_code (Forbidden e) = 403"
| "status_code (NotFound e) = 404"
| "status_code (Internal e) = 500"

fun api_error_message :: "api_error \<Rightarrow> string" where
  "api_error_message (BadRequest e) = e"
| "api_error_message (Conflict e) = e"
| "api_error_message (Unauthorized e) = e"
| "api_error_message (Forbidden e) = e"
| "api_error_message (NotFound e) = e"
| "api_error_message (Internal e) = e"

definition terminal_case_conflict :: "string \<Rightarrow> string \<Rightarrow> api_error" where
  "terminal_case_conflict i status =
     Conflict (''compliance case '' @ i @ '' is already terminal with status '' @ status)"

definition idempotency_conflict :: "string \<Rightarrow> api_error" where
  "idempotency_conflict c =
     Conflict (''idempotency key '' @ c @ '' was already used for a different payment'')"

definition api_error_from_ledger :: "ledger_error \<Rightarrow> api_error" where
  "api_error_from_ledger e =
     (case e of
        UnknownInstitution i \<Rightarrow> NotFound (''institution '' @ i @ '' not found'')
      | UnknownComplianceCase i \<Rightarrow> NotFound (''compliance case '' @ i @ '' not found'')
      | TerminalComplianceCase i status \<Rightarrow> terminal_case_conflict i status
      | _ \<Rightarrow> BadRequest (ledger_error_display e))"

definition api_error_from_storage :: "ledger_storage_error \<Rightarrow> api_error" where
  "api_error_from_storage e =
     (case e of
        StorageUnknownComplianceCase i \<Rightarrow> NotFound (''compliance case '' @ i @ '' not found'')
      | StorageTerminalComplianceCase i status \<Rightarrow> terminal_case_conflict i status
      | IdempotencyConflict c p \<Rightarrow> idempotency_conflict c
      | _ \<Rightarrow> Internal (ledger_storage_error_display e))"

fun api_error_from_node :: "node_error \<Rightarrow> api_error" where
  "api_error_from_node (NodeLedger e) = api_error_from_ledger e"
| "api_error_from_node (NodeStorage e) = api_error_from_storage e"
| "api_error_from_node (NodeIdempotencyConflict c) = idempotency_conflict c"
| "api_error_from_node (NodeConsensus e) = BadRequest (consensus_error_display e)"
| "api_error_from_node (NodeCrypto e) = Internal (crypto_error_display e)"
| "api_error_from_node LockPoisoned = Internal ''ledger lock poisoned''"
| "api_error_from_node EmptyBlock = BadRequest ''block must contain at least one transaction''"
| "api_error_from_node (InsufficientFinality got required) =
     Internal (''block finality threshold not met: got '' @ nat_to_dec got @ '', required ''
       @ nat_to_dec required)"
| "api_error_from_node (InvalidBlockValidator expected actual) =
     Internal (''block validator mismatch: expected '' @ expected @ '', got '' @ actual)"
| "api_error_from_node (UnknownFinalityValidator v) =
     Internal (''block finality vote from inactive or unknown validator '' @ v)"
| "api_error_from_node (DuplicateFinalityVote v) =
     Internal (''duplicate block finality vote from validator '' @ v)"
| "api_error_from_node (MissingProducerFinalityVote v) =
     Internal (''block finality votes must include the block producer '' @ v)"
| "api_error_from_node (InvalidBlockHash expected actual) =
     Internal (''block hash mismatch: expected '' @ expected @ '', got '' @ actual)"
| "api_error_from_node (InvalidBlockSignature v hash) =
     Internal (''block signature mismatch for validator '' @ v @ '' and hash '' @ hash)"

definition api_error_from_iso :: "iso20022_error \<Rightarrow> api_error" where
  "api_error_from_iso e = BadRequest (iso20022_error_display e)"

section \<open>Normalising fields\<close>

definition normalize_required_field :: "string \<Rightarrow> string \<Rightarrow> api_error + string" where
  "normalize_required_field name value =
     (let value = trim value in
      if value = [] then Inl (BadRequest (name @ '' is required'')) else Inr value)"

definition normalize_optional_id :: "string option \<Rightarrow> string option" where
  "normalize_optional_id value = non_blank value"

definition normalize_optional_text :: "string option \<Rightarrow> string option" where
  "normalize_optional_text value = non_blank value"

definition normalize_optional_filter :: "string option \<Rightarrow> string option" where
  "normalize_optional_filter value = non_blank value"

definition code_char :: "char \<Rightarrow> bool" where
  "code_char c \<longleftrightarrow> is_ascii_uppercase c \<or> is_ascii_digit c \<or> c = CHR ''_''"

definition normalize_asset_code :: "string \<Rightarrow> api_error + string" where
  "normalize_asset_code value =
     and_then (normalize_required_field ''asset'' value) (\<lambda>asset.
     if length asset < 3 then Inl (BadRequest ''asset must be at least 3 characters'')
     else if length asset > 32 then Inl (BadRequest ''asset must be 32 characters or fewer'')
     else if \<not> list_all code_char asset
     then Inl (BadRequest ''asset must contain only uppercase letters, digits, or underscores'')
     else Inr asset)"

definition validate_positive_amount :: "i128 \<Rightarrow> api_error + i128" where
  "validate_positive_amount amount =
     (if amount \<le> 0 then Inl (BadRequest ''amount must be positive'') else Inr amount)"

definition validate_non_negative_amount :: "string \<Rightarrow> i128 \<Rightarrow> api_error + i128" where
  "validate_non_negative_amount field amount =
     (if amount < 0 then Inl (BadRequest (field @ '' must be non-negative'')) else Inr amount)"

definition normalize_institution_id :: "string \<Rightarrow> api_error + string" where
  "normalize_institution_id value =
     and_then (normalize_required_field ''institution_id'' value) (\<lambda>value.
     let institution_id = to_ascii_uppercase value in
     if length institution_id > 64
     then Inl (BadRequest ''institution_id must be 64 characters or fewer'')
     else if \<not> list_all code_char institution_id
     then Inl (BadRequest
       ''institution_id must contain only uppercase letters, digits, or underscores'')
     else Inr institution_id)"

definition normalize_jurisdiction :: "string \<Rightarrow> api_error + string" where
  "normalize_jurisdiction value =
     and_then (normalize_required_field ''jurisdiction'' value) (\<lambda>value.
     let jurisdiction = to_ascii_uppercase value in
     if length jurisdiction < 2 \<or> length jurisdiction > 8
     then Inl (BadRequest ''jurisdiction must be between 2 and 8 characters'')
     else if \<not> list_all (\<lambda>c. is_ascii_uppercase c \<or> c = CHR ''-'') jurisdiction
     then Inl (BadRequest ''jurisdiction must contain only uppercase letters or hyphens'')
     else Inr jurisdiction)"

definition normalize_asset_list :: "string list \<Rightarrow> api_error + string list" where
  "normalize_asset_list values =
     (if values = [] then Inl (BadRequest ''allowed_assets must contain at least one asset'')
      else collect_results (map normalize_asset_code values))"

definition normalized_client_reference_id ::
  "string option \<Rightarrow> string option \<Rightarrow> api_error + string option" where
  "normalized_client_reference_id client_reference_id idempotency_key =
     (case (normalize_optional_id client_reference_id, normalize_optional_id idempotency_key) of
        (Some c, Some k) \<Rightarrow>
          if c \<noteq> k
          then Inl (BadRequest
            ''client_reference_id and idempotency_key must match when both are provided'')
          else Inr (Some c)
      | (Some c, None) \<Rightarrow> Inr (Some c)
      | (None, Some k) \<Rightarrow> Inr (Some k)
      | (None, None) \<Rightarrow> Inr None)"

section \<open>Requests\<close>

record create_payment_request =
  cpr_from :: string
  cpr_to :: string
  cpr_asset :: string
  cpr_amount :: i128
  cpr_client_reference_id :: "string option"
  cpr_idempotency_key :: "string option"

record validated_payment_request =
  vp_from :: string
  vp_to :: string
  vp_asset :: string
  vp_amount :: i128
  vp_client_reference_id :: "string option"
  vp_idempotency_key :: "string option"

definition validate_payment :: "create_payment_request \<Rightarrow> api_error + validated_payment_request" where
  "validate_payment r =
     and_then (normalize_required_field ''from'' (cpr_from r)) (\<lambda>sender.
     and_then (normalize_required_field ''to'' (cpr_to r)) (\<lambda>receiver.
     and_then (normalize_asset_code (cpr_asset r)) (\<lambda>asset.
     and_then (validate_positive_amount (cpr_amount r)) (\<lambda>amount.
     Inr \<lparr>vp_from = sender, vp_to = receiver, vp_asset = asset, vp_amount = amount,
          vp_client_reference_id = cpr_client_reference_id r,
          vp_idempotency_key = cpr_idempotency_key r\<rparr>))))"

record sandbox_mint_request =
  smr_treasury :: string
  smr_to :: string
  smr_asset :: string
  smr_amount :: i128

record validated_sandbox_mint_request =
  vm_treasury :: string
  vm_to :: string
  vm_asset :: string
  vm_amount :: i128

definition validate_mint :: "sandbox_mint_request \<Rightarrow> api_error + validated_sandbox_mint_request" where
  "validate_mint r =
     and_then (normalize_required_field ''treasury'' (smr_treasury r)) (\<lambda>treasury.
     and_then (normalize_required_field ''to'' (smr_to r)) (\<lambda>receiver.
     and_then (normalize_asset_code (smr_asset r)) (\<lambda>asset.
     and_then (validate_positive_amount (smr_amount r)) (\<lambda>amount.
     Inr \<lparr>vm_treasury = treasury, vm_to = receiver, vm_asset = asset, vm_amount = amount\<rparr>))))"

record create_institution_request =
  cir_id :: string
  cir_legal_name :: string
  cir_institution_code :: string
  cir_jurisdiction :: string
  cir_risk_tier :: "institution_risk_tier option"
  cir_allowed_assets :: "string list"
  cir_roles :: "institution_role list"

record validated_create_institution_request =
  vi_req_id :: string
  vi_req_legal_name :: string
  vi_req_institution_code :: string
  vi_req_jurisdiction :: string
  vi_req_risk_tier :: institution_risk_tier
  vi_req_allowed_assets :: "string list"
  vi_req_roles :: "institution_role list"

definition validate_create_institution ::
  "create_institution_request \<Rightarrow> api_error + validated_create_institution_request" where
  "validate_create_institution r =
     and_then (normalize_institution_id (cir_id r)) (\<lambda>i.
     and_then (normalize_institution_id (cir_institution_code r)) (\<lambda>code.
     and_then (normalize_required_field ''legal_name'' (cir_legal_name r)) (\<lambda>legal_name.
     and_then (normalize_jurisdiction (cir_jurisdiction r)) (\<lambda>jurisdiction.
     and_then (normalize_asset_list (cir_allowed_assets r)) (\<lambda>allowed_assets.
     Inr \<lparr>vi_req_id = i, vi_req_legal_name = legal_name, vi_req_institution_code = code,
          vi_req_jurisdiction = jurisdiction,
          vi_req_risk_tier = (case cir_risk_tier r of None \<Rightarrow> Medium | Some t \<Rightarrow> t),
          vi_req_allowed_assets = allowed_assets,
          vi_req_roles = (if cir_roles r = [] then [Operator, Auditor] else cir_roles r)\<rparr>)))))"

record create_institution_credential_request =
  ccr_credential_type :: institution_credential_type
  ccr_label :: string
  ccr_fingerprint :: string
  ccr_issuer :: "string option"
  ccr_subject :: "string option"
  ccr_expires_at :: "timestamp option"

record validated_create_institution_credential_request =
  vc_credential_type :: institution_credential_type
  vc_label :: string
  vc_fingerprint :: string
  vc_issuer :: "string option"
  vc_subject :: "string option"
  vc_expires_at :: "timestamp option"

definition validate_create_institution_credential ::
  "create_institution_credential_request
    \<Rightarrow> api_error + validated_create_institution_credential_request" where
  "validate_create_institution_credential r =
     and_then (normalize_required_field ''label'' (ccr_label r)) (\<lambda>label.
     and_then (normalize_required_field ''fingerprint'' (ccr_fingerprint r)) (\<lambda>fingerprint.
     Inr \<lparr>vc_credential_type = ccr_credential_type r, vc_label = label,
          vc_fingerprint = fingerprint, vc_issuer = normalize_optional_text (ccr_issuer r),
          vc_subject = normalize_optional_text (ccr_subject r),
          vc_expires_at = ccr_expires_at r\<rparr>))"

record set_institution_limit_request =
  slr_asset :: string
  slr_daily_limit :: i128
  slr_per_transaction_limit :: i128

record validated_set_institution_limit_request =
  vl_asset :: string
  vl_daily_limit :: i128
  vl_per_transaction_limit :: i128

definition validate_set_institution_limit ::
  "set_institution_limit_request \<Rightarrow> api_error + validated_set_institution_limit_request" where
  "validate_set_institution_limit r =
     and_then (validate_non_negative_amount ''daily_limit'' (slr_daily_limit r)) (\<lambda>daily_limit.
     and_then (validate_non_negative_amount ''per_transaction_limit''
                 (slr_per_transaction_limit r)) (\<lambda>per_transaction_limit.
     if per_transaction_limit > daily_limit \<and> daily_limit > 0
     then Inl (BadRequest ''per_transaction_limit cannot exceed daily_limit'')
     else
     and_then (normalize_asset_code (slr_asset r)) (\<lambda>asset.
     Inr \<lparr>vl_asset = asset, vl_daily_limit = daily_limit,
          vl_per_transaction_limit = per_transaction_limit\<rparr>)))"

record compliance_case_resolution_request =
  crr_reviewer :: "string option"
  crr_reason :: "string option"

record validated_compliance_case_resolution_request =
  vr_reviewer :: "string option"
  vr_reason :: "string option"

definition validate_case_resolution ::
  "compliance_case_resolution_request \<Rightarrow> validated_compliance_case_resolution_request" where
  "validate_case_resolution r =
     \<lparr>vr_reviewer = normalize_optional_text (crr_reviewer r),
      vr_reason = normalize_optional_text (crr_reason r)\<rparr>"

section \<open>Responses\<close>

record payment_response =
  pr_payment_id :: string
  pr_transaction_id :: string
  pr_status :: transaction_status
  pr_block_height :: "i64 option"
  pr_block_hash :: "string option"
  pr_failure_reason :: "string option"
  pr_client_reference_id :: "string option"

definition payment_response_from :: "payment_record \<Rightarrow> payment_response" where
  "payment_response_from p =
     \<lparr>pr_payment_id = tx_id (pay_transaction p), pr_transaction_id = tx_id (pay_transaction p),
      pr_status = pay_status p, pr_block_height = pay_block_height p,
      pr_block_hash = pay_block_hash p, pr_failure_reason = pay_failure_reason p,
      pr_client_reference_id = pay_client_reference_id p\<rparr>"

record iso_pacs008_payment_response =
  ipr_message_type :: string
  ipr_message_id :: string
  ipr_instruction_id :: "string option"
  ipr_end_to_end_id :: string
  ipr_payment :: payment_response

record compliance_case_response =
  ccresp_case :: compliance_case
  ccresp_payment :: payment_response

record institution_profile_response =
  ipf_institution :: institution
  ipf_credentials :: "institution_credential list"
  ipf_limits :: "institution_limit list"

record balance_response =
  br_account_id :: string
  br_asset :: string
  br_amount :: i128

record issued_response =
  ir_asset :: string
  ir_amount :: i128

record validator_response =
  vresp_id :: string
  vresp_public_key :: string
  vresp_active :: bool
  vresp_last_seen_at :: "string option"
  vresp_last_finalized_height :: "i64 option"
  vresp_last_finalized_hash :: "string option"
  vresp_last_finalized_at :: "string option"

record health_response =
  hr_service :: string
  hr_status :: string
  hr_environment :: string
  hr_real_value :: bool
  hr_redeemable :: bool

definition health :: health_response where
  "health = \<lparr>hr_service = ''kani-api'', hr_status = ''ok'', hr_environment = ''SANDBOX'',
     hr_real_value = False, hr_redeemable = False\<rparr>"

record 'a paginated_response =
  pg_items :: "'a list"
  pg_limit :: i64
  pg_offset :: i64
  pg_count :: usize
  pg_next_offset :: "i64 option"

text \<open>\<open>limit as usize\<close> for an \<open>i64\<close> on a 64-bit target.\<close>

definition i64_as_usize :: "i64 \<Rightarrow> usize" where
  "i64_as_usize n = nat (n mod 2 ^ 64)"

definition from_limit_plus_one :: "'a list \<Rightarrow> i64 \<Rightarrow> i64 \<Rightarrow> 'a paginated_response" where
  "from_limit_plus_one items limit offset =
     (let requested = i64_as_usize limit;
          has_more = length items > requested;
          items = (if has_more then take requested items else items) in
      \<lparr>pg_items = items, pg_limit = limit, pg_offset = offset, pg_count = length items,
       pg_next_offset = (if has_more then Some (i64_wrap (offset + limit)) else None)\<rparr>)"

section \<open>Queries\<close>

definition DEFAULT_BLOCK_LIMIT :: i64 where "DEFAULT_BLOCK_LIMIT = 100"
definition MAX_BLOCK_LIMIT :: i64 where "MAX_BLOCK_LIMIT = 500"
definition DEFAULT_AUDIT_EVENT_LIMIT :: i64 where "DEFAULT_AUDIT_EVENT_LIMIT = 100"
definition MAX_AUDIT_EVENT_LIMIT :: i64 where "MAX_AUDIT_EVENT_LIMIT = 500"
definition DEFAULT_COMPLIANCE_CASE_LIMIT :: i64 where "DEFAULT_COMPLIANCE_CASE_LIMIT = 100"
definition MAX_COMPLIANCE_CASE_LIMIT :: i64 where "MAX_COMPLIANCE_CASE_LIMIT = 500"
definition DEFAULT_REPORT_SCAN_LIMIT :: i64 where "DEFAULT_REPORT_SCAN_LIMIT = 500"
definition MAX_REPORT_SCAN_LIMIT :: i64 where "MAX_REPORT_SCAN_LIMIT = 500"
definition DEFAULT_STATEMENT_ENTRY_LIMIT :: i64 where "DEFAULT_STATEMENT_ENTRY_LIMIT = 100"
definition MAX_STATEMENT_ENTRY_LIMIT :: i64 where "MAX_STATEMENT_ENTRY_LIMIT = 500"

lemmas limit_defs =
  DEFAULT_BLOCK_LIMIT_def MAX_BLOCK_LIMIT_def DEFAULT_AUDIT_EVENT_LIMIT_def
  MAX_AUDIT_EVENT_LIMIT_def DEFAULT_COMPLIANCE_CASE_LIMIT_def MAX_COMPLIANCE_CASE_LIMIT_def
  DEFAULT_REPORT_SCAN_LIMIT_def MAX_REPORT_SCAN_LIMIT_def DEFAULT_STATEMENT_ENTRY_LIMIT_def
  MAX_STATEMENT_ENTRY_LIMIT_def

definition validated_page ::
  "i64 option \<Rightarrow> i64 option \<Rightarrow> i64 \<Rightarrow> i64 \<Rightarrow> api_error + i64 \<times> i64" where
  "validated_page limit offset default_limit max_limit =
     (let limit = (case limit of None \<Rightarrow> default_limit | Some n \<Rightarrow> n) in
      if limit \<le> 0 \<or> limit > max_limit
      then Inl (BadRequest (''limit must be between 1 and '' @ int_to_dec max_limit))
      else
      let offset = (case offset of None \<Rightarrow> 0 | Some n \<Rightarrow> n) in
      if offset < 0 then Inl (BadRequest ''offset must be greater than or equal to 0'')
      else Inr (limit, offset))"

record chrono_api =
  to_rfc3339 :: "timestamp \<Rightarrow> string"
  parse_from_rfc3339 :: "string \<Rightarrow> timestamp option"
  timestamp_millis :: "timestamp \<Rightarrow> i64"

definition parse_optional_rfc3339 ::
  "chrono_api \<Rightarrow> string \<Rightarrow> string option \<Rightarrow> api_error + timestamp option" where
  "parse_optional_rfc3339 ch field_name value =
     (case normalize_optional_filter value of
        None \<Rightarrow> Inr None
      | Some value \<Rightarrow>
          (case parse_from_rfc3339 ch value of
             None \<Rightarrow> Inl (BadRequest (field_name @ '' must be an RFC3339 timestamp''))
           | Some t \<Rightarrow> Inr (Some t)))"

record page_query =
  q_limit :: "i64 option"
  q_offset :: "i64 option"

record camt053_statement_query =
  cq_asset :: "string option"
  cq_limit :: "i64 option"
  cq_offset :: "i64 option"

record audit_event_query =
  aq_event_type :: "string option"
  aq_decision :: "string option"
  aq_institution_id :: "string option"
  aq_created_from :: "string option"
  aq_created_to :: "string option"
  aq_limit :: "i64 option"
  aq_offset :: "i64 option"

record report_query =
  rq_created_from :: "string option"
  rq_created_to :: "string option"
  rq_limit :: "i64 option"
  rq_offset :: "i64 option"

record block_filter =
  bf_limit :: i64
  bf_offset :: i64

definition block_filter_from :: "page_query \<Rightarrow> api_error + block_filter" where
  "block_filter_from q =
     and_then (validated_page (q_limit q) (q_offset q) DEFAULT_BLOCK_LIMIT MAX_BLOCK_LIMIT)
       (\<lambda>(limit, offset).
     Inr \<lparr>bf_limit = limit, bf_offset = offset\<rparr>)"

definition block_filter_search :: "block_filter \<Rightarrow> i64 \<Rightarrow> block_search" where
  "block_filter_search f limit = \<lparr>bs_limit = limit, bs_offset = bf_offset f\<rparr>"

record camt053_statement_filter =
  cf_asset :: string
  cf_limit :: i64
  cf_offset :: i64

definition camt053_filter_from :: "camt053_statement_query \<Rightarrow> api_error + camt053_statement_filter" where
  "camt053_filter_from q =
     and_then (ok_or (BadRequest ''asset query parameter is required'') (cq_asset q)) (\<lambda>asset.
     and_then (normalize_asset_code asset) (\<lambda>asset.
     and_then (validated_page (cq_limit q) (cq_offset q) DEFAULT_STATEMENT_ENTRY_LIMIT
                 MAX_STATEMENT_ENTRY_LIMIT) (\<lambda>(limit, offset).
     Inr \<lparr>cf_asset = asset, cf_limit = limit, cf_offset = offset\<rparr>)))"

definition camt053_filter_search :: "camt053_statement_filter \<Rightarrow> string \<Rightarrow> journal_entry_search" where
  "camt053_filter_search f account_id =
     \<lparr>jes_account_id = account_id, jes_asset = Some (cf_asset f), jes_limit = cf_limit f,
      jes_offset = cf_offset f\<rparr>"

text \<open>The check both time windows share: \<open>created_from > created_to\<close> when both are given.\<close>

definition window_reversed :: "timestamp option \<Rightarrow> timestamp option \<Rightarrow> bool" where
  "window_reversed created_from created_to =
     (case (created_from, created_to) of (Some f, Some t) \<Rightarrow> f > t | _ \<Rightarrow> False)"

record audit_event_filter =
  af_event_type :: "string option"
  af_decision :: "string option"
  af_institution_id :: "string option"
  af_created_from :: "timestamp option"
  af_created_to :: "timestamp option"
  af_limit :: i64
  af_offset :: i64

definition audit_event_filter_from ::
  "chrono_api \<Rightarrow> audit_event_query \<Rightarrow> api_error + audit_event_filter" where
  "audit_event_filter_from ch q =
     and_then (parse_optional_rfc3339 ch ''created_from'' (aq_created_from q)) (\<lambda>created_from.
     and_then (parse_optional_rfc3339 ch ''created_to'' (aq_created_to q)) (\<lambda>created_to.
     if window_reversed created_from created_to
     then Inl (BadRequest ''created_from must be before or equal to created_to'')
     else
     and_then (validated_page (aq_limit q) (aq_offset q) DEFAULT_AUDIT_EVENT_LIMIT
                 MAX_AUDIT_EVENT_LIMIT) (\<lambda>(limit, offset).
     Inr \<lparr>af_event_type = normalize_optional_filter (aq_event_type q),
          af_decision = normalize_optional_filter (aq_decision q),
          af_institution_id = normalize_optional_filter (aq_institution_id q),
          af_created_from = created_from, af_created_to = created_to,
          af_limit = limit, af_offset = offset\<rparr>)))"

definition audit_event_filter_search :: "audit_event_filter \<Rightarrow> i64 \<Rightarrow> audit_event_search" where
  "audit_event_filter_search f limit =
     \<lparr>aes_event_type = af_event_type f, aes_decision = af_decision f,
      aes_institution_id = af_institution_id f, aes_created_from = af_created_from f,
      aes_created_to = af_created_to f, aes_limit = limit, aes_offset = af_offset f\<rparr>"

record report_filter =
  rf_created_from :: "timestamp option"
  rf_created_to :: "timestamp option"
  rf_limit :: i64
  rf_offset :: i64

definition report_filter_from :: "chrono_api \<Rightarrow> report_query \<Rightarrow> api_error + report_filter" where
  "report_filter_from ch q =
     and_then (parse_optional_rfc3339 ch ''created_from'' (rq_created_from q)) (\<lambda>created_from.
     and_then (parse_optional_rfc3339 ch ''created_to'' (rq_created_to q)) (\<lambda>created_to.
     if window_reversed created_from created_to
     then Inl (BadRequest ''created_from must be before or equal to created_to'')
     else
     and_then (validated_page (rq_limit q) (rq_offset q) DEFAULT_REPORT_SCAN_LIMIT
                 MAX_REPORT_SCAN_LIMIT) (\<lambda>(limit, offset).
     Inr \<lparr>rf_created_from = created_from, rf_created_to = created_to, rf_limit = limit,
          rf_offset = offset\<rparr>)))"

definition report_block_search :: "report_filter \<Rightarrow> block_search" where
  "report_block_search f = \<lparr>bs_limit = rf_limit f, bs_offset = rf_offset f\<rparr>"

definition report_audit_search :: "report_filter \<Rightarrow> audit_event_search" where
  "report_audit_search f =
     \<lparr>aes_event_type = Some ''COMPLIANCE_DECISION'', aes_decision = None,
      aes_institution_id = None, aes_created_from = rf_created_from f,
      aes_created_to = rf_created_to f, aes_limit = rf_limit f, aes_offset = rf_offset f\<rparr>"

definition apply_block_window :: "report_filter \<Rightarrow> block list \<Rightarrow> block list" where
  "apply_block_window f blocks = filter (\<lambda>b.
     \<not> (case rf_created_from f of None \<Rightarrow> False | Some t \<Rightarrow> blk_created_at b < t) \<and>
     \<not> (case rf_created_to f of None \<Rightarrow> False | Some t \<Rightarrow> blk_created_at b > t)) blocks"

section \<open>ISO 20022 payments\<close>

definition pacs008_client_reference_id :: "pacs008_credit_transfer \<Rightarrow> string" where
  "pacs008_client_reference_id t =
     ''pacs.008:'' @ trim (p8_message_id t) @ '':'' @ trim (p8_end_to_end_id t)"

definition pacs008_transfer_request ::
  "pacs008_credit_transfer \<Rightarrow> api_error + validated_payment_request" where
  "pacs008_transfer_request t =
     and_then (normalize_required_field ''debtor_account'' (p8_debtor_account t)) (\<lambda>sender.
     and_then (normalize_required_field ''creditor_account'' (p8_creditor_account t)) (\<lambda>receiver.
     and_then (normalize_asset_code (p8_asset t)) (\<lambda>asset.
     and_then (validate_positive_amount (p8_amount t)) (\<lambda>amount.
     Inr \<lparr>vp_from = sender, vp_to = receiver, vp_asset = asset, vp_amount = amount,
          vp_client_reference_id = Some (pacs008_client_reference_id t),
          vp_idempotency_key = None\<rparr>))))"

definition original_pacs008_ids :: "payment_record \<Rightarrow> (string \<times> string) option" where
  "original_pacs008_ids p =
     Option.bind (pay_client_reference_id p) (\<lambda>reference_id.
     Option.bind (strip_prefix ''pacs.008:'' reference_id) (\<lambda>payload.
     Option.bind (rsplit_once (CHR '':'') payload) (\<lambda>(message_id, end_to_end_id).
     if trim message_id = [] \<or> trim end_to_end_id = [] then None
     else Some (trim message_id, trim end_to_end_id))))"

fun pacs002_transaction_status_of :: "transaction_status \<Rightarrow> pacs002_transaction_status" where
  "pacs002_transaction_status_of Pending = AcceptedSettlementInProcess"
| "pacs002_transaction_status_of Held = AcceptedSettlementInProcess"
| "pacs002_transaction_status_of Finalized = AcceptedSettlementCompleted"
| "pacs002_transaction_status_of Rejected = PacsRejected"

definition pacs002_status_code :: "transaction_status \<Rightarrow> string" where
  "pacs002_status_code status = pacs002_code (pacs002_transaction_status_of status)"

definition pacs002_status_from_payment ::
  "chrono_api \<Rightarrow> env \<Rightarrow> payment_record \<Rightarrow> pacs002_payment_status \<times> env" where
  "pacs002_status_from_payment ch w p =
     (let tx = pay_transaction p;
          (original_message_id, original_end_to_end_id) =
            (case original_pacs008_ids p of
               Some ids \<Rightarrow> ids
             | None \<Rightarrow>
                 ((case pay_client_reference_id p of None \<Rightarrow> tx_id tx | Some c \<Rightarrow> c), tx_id tx));
          (now, w) = utc_now w in
      (\<lparr>p2_message_id = ''pacs.002:'' @ tx_id tx @ '':'' @ pacs002_status_code (pay_status p),
        p2_created_at = to_rfc3339 ch now,
        p2_original_message_id = original_message_id,
        p2_original_message_name_id = ''pacs.008.001.08'',
        p2_original_instruction_id = tx_id tx,
        p2_original_end_to_end_id = original_end_to_end_id,
        p2_transaction_id = tx_id tx,
        p2_status = pacs002_transaction_status_of (pay_status p),
        p2_status_reason = pay_failure_reason p,
        p2_asset = tx_asset tx, p2_amount = tx_amount tx,
        p2_debtor_account = tx_from tx, p2_creditor_account = tx_to tx\<rparr>, w))"

fun camt053_direction :: "journal_direction \<Rightarrow> camt053_indicator" where
  "camt053_direction Credit = CamtCredit"
| "camt053_direction Debit = CamtDebit"

definition camt053_entry_from_journal_entry :: "chrono_api \<Rightarrow> journal_entry \<Rightarrow> camt053_entry" where
  "camt053_entry_from_journal_entry ch e =
     \<lparr>ce_id = je_id e, ce_transaction_id = je_transaction_id e, ce_asset = je_asset e,
      ce_amount = je_amount e, ce_direction = camt053_direction (je_direction e),
      ce_block_height = je_block_height e, ce_booked_at = to_rfc3339 ch (je_created_at e)\<rparr>"

definition camt053_statement_from_journal_entries ::
  "chrono_api \<Rightarrow> env \<Rightarrow> string \<Rightarrow> string \<Rightarrow> i128 \<Rightarrow> journal_entry list
    \<Rightarrow> camt053_statement \<times> env" where
  "camt053_statement_from_journal_entries ch w account_id asset balance entries =
     (let (now, w) = utc_now w;
          created_at = to_rfc3339 ch now;
          timestamp = int_to_dec (timestamp_millis ch now) in
      (\<lparr>cs_message_id = ''camt.053:'' @ account_id @ '':'' @ asset @ '':'' @ timestamp,
        cs_created_at = created_at,
        cs_statement_id = ''stmt:'' @ account_id @ '':'' @ asset @ '':'' @ timestamp,
        cs_account_id = account_id, cs_asset = asset, cs_balance = balance,
        cs_entries = map (camt053_entry_from_journal_entry ch) entries\<rparr>, w))"

end
