(* ===== verification/Kani_Api.thy ===== *)
theory Kani_Api
  imports Kani_Api_Input
begin

text \<open>
  The handlers of the HTTP API, \<open>crates/kani-api/src/lib.rs\<close>: authentication by headers,
  authorization, the audit trail, compliance gating of payments, and one definition per route.
  A handler runs on the node and the environment and returns its response or an \<open>api_error\<close>
  with the state it leaves, also when it fails: the audit events it recorded stay. What the
  crate \<open>http\<close> makes of a request (the header values, the path and query fields, the decoded
  body) is the handler's input, and a header value is what \<open>to_str\<close> says of it.
\<close>

section \<open>Handlers\<close>

type_synonym 'a handler = "kani_node \<times> env \<Rightarrow> (api_error + 'a) \<times> kani_node \<times> env"

text \<open>A handler is a fallible operation on the node and the environment: it reads the node, or
  calls an operation of the node, whose errors are converted by \<open>From<NodeError>\<close>.\<close>

definition h_read :: "(kani_node \<Rightarrow> api_error + 'a) \<Rightarrow> 'a handler" where
  "h_read f = (\<lambda>(node, w). (f node, node, w))"

definition h_call ::
  "(env \<Rightarrow> kani_node \<Rightarrow> (node_error + 'a) \<times> kani_node \<times> env) \<Rightarrow> 'a handler" where
  "h_call f = (\<lambda>(node, w). case f w node of
     (r, node, w) \<Rightarrow> (map_err api_error_from_node r, node, w))"

text \<open>Drawing from the clock or the identifiers.\<close>

definition h_draw :: "(env \<Rightarrow> 'a \<times> env) \<Rightarrow> 'a handler" where
  "h_draw f = (\<lambda>(node, w). case f w of (x, w) \<Rightarrow> (Inr x, node, w))"

text \<open>A read of the ledger whose error is a ledger error.\<close>

definition ledger_read :: "(ledger \<Rightarrow> ledger_error + 'a) \<Rightarrow> 'a handler" where
  "ledger_read f =
     h_read (\<lambda>node. map_err (\<lambda>e. api_error_from_node (NodeLedger e)) (f (node_ledger node)))"

section \<open>Authentication\<close>

datatype header_value = HeaderText string | HeaderOpaque

type_synonym header_map = "string \<Rightarrow> header_value option"

definition INSTITUTION_ID_HEADER :: string where "INSTITUTION_ID_HEADER = ''x-kani-institution-id''"
definition API_KEY_HEADER :: string where "API_KEY_HEADER = ''x-kani-api-key''"

datatype sandbox_credential_role = RoleInstitution | RoleAdmin

record sandbox_credential =
  sc_institution_id :: string
  sc_api_key :: string
  sc_role :: sandbox_credential_role

record authenticated_institution =
  auth_institution_id :: string
  auth_is_admin :: bool

type_synonym sandbox_auth_config = "sandbox_credential list"

definition credentials_with_role ::
  "sandbox_credential_role \<Rightarrow> (string \<times> string) list \<Rightarrow> sandbox_auth_config" where
  "credentials_with_role role =
     map (\<lambda>(i, key). \<lparr>sc_institution_id = i, sc_api_key = key, sc_role = role\<rparr>)"

definition auth_config_new :: "(string \<times> string) list \<Rightarrow> sandbox_auth_config" where
  "auth_config_new credentials = credentials_with_role RoleInstitution credentials"

definition auth_config_new_with_admins ::
  "(string \<times> string) list \<Rightarrow> (string \<times> string) list \<Rightarrow> sandbox_auth_config" where
  "auth_config_new_with_admins institution_keys admin_keys =
     credentials_with_role RoleInstitution institution_keys
       @ credentials_with_role RoleAdmin admin_keys"

text \<open>\<open>vars\<close> is \<open>env::var(_).ok()\<close>; a panic of the process is the error.\<close>

definition env_flag :: "(string \<Rightarrow> string option) \<Rightarrow> string \<Rightarrow> bool" where
  "env_flag vars name =
     (case vars name of
        None \<Rightarrow> False
      | Some value \<Rightarrow>
          to_ascii_lowercase (trim value) \<in> set [''1'', ''true'', ''yes'', ''y''])"

definition REQUIRE_CONFIGURED_SANDBOX_API_KEYS_ENV :: string where
  "REQUIRE_CONFIGURED_SANDBOX_API_KEYS_ENV = ''KANI_REQUIRE_CONFIGURED_SANDBOX_API_KEYS''"

definition sandbox_api_key_from_value ::
  "string \<Rightarrow> string option \<Rightarrow> string \<Rightarrow> bool \<Rightarrow> string + string" where
  "sandbox_api_key_from_value env_name configured_value default_api_key require_configured =
     (case non_blank configured_value of
        Some value \<Rightarrow> Inr value
      | None \<Rightarrow>
          if require_configured
          then Inl (env_name @ '' must be set when ''
                      @ REQUIRE_CONFIGURED_SANDBOX_API_KEYS_ENV @ ''=TRUE'')
          else Inr default_api_key)"

definition sandbox_api_key ::
  "(string \<Rightarrow> string option) \<Rightarrow> string \<Rightarrow> string \<Rightarrow> bool \<Rightarrow> string + string" where
  "sandbox_api_key vars env_name default_api_key require_configured =
     sandbox_api_key_from_value env_name (vars env_name) default_api_key require_configured"

definition auth_sandbox_defaults :: "(string \<Rightarrow> string option) \<Rightarrow> string + sandbox_auth_config" where
  "auth_sandbox_defaults vars =
     (let req = env_flag vars REQUIRE_CONFIGURED_SANDBOX_API_KEYS_ENV in
      and_then (sandbox_api_key vars ''KANI_SANDBOX_TREASURY_API_KEY''
                  ''sandbox-treasury-token'' req) (\<lambda>treasury.
      and_then (sandbox_api_key vars ''KANI_SANDBOX_CORP_A_API_KEY''
                  ''sandbox-corp-a-token'' req) (\<lambda>corp_a.
      and_then (sandbox_api_key vars ''KANI_SANDBOX_CORP_B_API_KEY''
                  ''sandbox-corp-b-token'' req) (\<lambda>corp_b.
      and_then (sandbox_api_key vars ''KANI_SANDBOX_ADMIN_API_KEY''
                  ''sandbox-admin-token'' req) (\<lambda>admin.
      Inr (auth_config_new_with_admins
        [(''KANI_TREASURY'', treasury), (''CORP_A'', corp_a), (''CORP_B'', corp_b)]
        [(''KANI_ADMIN'', admin)]))))))"

definition required_header :: "header_map \<Rightarrow> string \<Rightarrow> api_error + string" where
  "required_header headers name =
     (case headers name of
        None \<Rightarrow> Inl (Unauthorized (''missing '' @ name @ '' header''))
      | Some HeaderOpaque \<Rightarrow> Inl (Unauthorized ''invalid sandbox credentials'')
      | Some (HeaderText value) \<Rightarrow>
          (let value = trim value in
           if value = [] then Inl (Unauthorized (''missing '' @ name @ '' header''))
           else Inr value))"

definition authenticate ::
  "sandbox_auth_config \<Rightarrow> header_map \<Rightarrow> api_error + authenticated_institution" where
  "authenticate credentials headers =
     and_then (required_header headers INSTITUTION_ID_HEADER) (\<lambda>institution_id.
     and_then (required_header headers API_KEY_HEADER) (\<lambda>api_key.
     case List.find (\<lambda>c. sc_institution_id c = institution_id \<and> sc_api_key c = api_key)
            credentials of
       Some c \<Rightarrow> Inr \<lparr>auth_institution_id = institution_id, auth_is_admin = (sc_role c = RoleAdmin)\<rparr>
     | None \<Rightarrow> Inl (Unauthorized ''invalid sandbox credentials'')))"

definition institution_hint :: "header_map \<Rightarrow> string option" where
  "institution_hint headers =
     (case headers INSTITUTION_ID_HEADER of
        Some (HeaderText value) \<Rightarrow> non_blank (Some value)
      | _ \<Rightarrow> None)"

definition auth_role :: "authenticated_institution \<Rightarrow> string" where
  "auth_role auth = (if auth_is_admin auth then ''ADMIN'' else ''INSTITUTION'')"

section \<open>The audit trail\<close>

record app_state =
  app_auth :: sandbox_auth_config
  app_policy :: sandbox_compliance_policy
  app_platform :: platform
  app_chrono :: chrono_api

definition record_event ::
  "string \<Rightarrow> string \<Rightarrow> i64 option \<Rightarrow> string option \<Rightarrow> string btree_map \<Rightarrow> unit handler" where
  "record_event event_type message block_height transaction_id metadata = (\<lambda>(node, w).
     let (e, w) = audit_event_new w event_type message block_height transaction_id;
         e = audit_event_with_metadata metadata e
     in (Inr (), node_record_audit_event node e, w))"

definition audit_authorization_decision ::
  "header_map \<Rightarrow> authenticated_institution option \<Rightarrow> string \<Rightarrow> string \<Rightarrow> string \<Rightarrow> string \<Rightarrow> nat
    \<Rightarrow> unit handler" where
  "audit_authorization_decision headers auth action resource decision reason code =
     (let institution_id =
            (case auth of
               Some a \<Rightarrow> auth_institution_id a
             | None \<Rightarrow> (case institution_hint headers of Some i \<Rightarrow> i | None \<Rightarrow> ''UNKNOWN''));
          role = (case auth of Some a \<Rightarrow> auth_role a | None \<Rightarrow> ''UNKNOWN'');
          metadata = bt_from [(''action'', action), (''decision'', decision),
            (''institution_id'', institution_id), (''reason'', reason), (''resource'', resource),
            (''role'', role), (''status_code'', nat_to_dec code)]
      in record_event ''API_AUTHORIZATION_DECISION''
        (''api authorization decision decision='' @ decision @ '' action='' @ action
          @ '' resource='' @ resource @ '' institution_id='' @ institution_id
          @ '' status_code='' @ nat_to_dec code) None None metadata)"

definition audit_authorization_allowed ::
  "header_map \<Rightarrow> authenticated_institution \<Rightarrow> string \<Rightarrow> string \<Rightarrow> unit handler" where
  "audit_authorization_allowed headers auth action resource =
     audit_authorization_decision headers (Some auth) action resource ''ALLOWED'' ''authorized'' 200"

definition audit_authorization_denied ::
  "header_map \<Rightarrow> authenticated_institution option \<Rightarrow> string \<Rightarrow> string \<Rightarrow> api_error
    \<Rightarrow> unit handler" where
  "audit_authorization_denied headers auth action resource err =
     audit_authorization_decision headers auth action resource ''DENIED''
       (api_error_message err) (status_code err)"

text \<open>\<open>{:?}\<close> of the derived \<open>Debug\<close> implementations.\<close>

fun compliance_decision_debug :: "compliance_decision \<Rightarrow> string" where
  "compliance_decision_debug Allow = ''Allow''"
| "compliance_decision_debug Review = ''Review''"
| "compliance_decision_debug Reject = ''Reject''"

fun case_status_debug :: "compliance_case_status \<Rightarrow> string" where
  "case_status_debug CaseOpened = ''Opened''"
| "case_status_debug CaseAssigned = ''Assigned''"
| "case_status_debug CaseEvidenceRequested = ''EvidenceRequested''"
| "case_status_debug CaseEscalated = ''Escalated''"
| "case_status_debug CaseApproved = ''Approved''"
| "case_status_debug CaseRejected = ''Rejected''"
| "case_status_debug CaseClosed = ''Closed''"

fun payment_status_debug :: "transaction_status \<Rightarrow> string" where
  "payment_status_debug Pending = ''Pending''"
| "payment_status_debug Held = ''Held''"
| "payment_status_debug Finalized = ''Finalized''"
| "payment_status_debug Rejected = ''Rejected''"

fun credential_type_debug :: "institution_credential_type \<Rightarrow> string" where
  "credential_type_debug SandboxApiKey = ''SandboxApiKey''"
| "credential_type_debug MtlsCertificate = ''MtlsCertificate''"
| "credential_type_debug OidcClient = ''OidcClient''"

fun credential_status_debug :: "institution_credential_status \<Rightarrow> string" where
  "credential_status_debug CredPending = ''Pending''"
| "credential_status_debug CredActive = ''Active''"
| "credential_status_debug CredRetired = ''Retired''"
| "credential_status_debug CredRevoked = ''Revoked''"

definition audit_compliance_decision ::
  "header_map \<Rightarrow> authenticated_institution \<Rightarrow> string \<Rightarrow> string \<Rightarrow> compliance_payment
    \<Rightarrow> compliance_result \<Rightarrow> unit handler" where
  "audit_compliance_decision headers auth action resource payment result =
     (let decision = compliance_decision_debug (cr_decision result);
          metadata = bt_from [(''action'', action), (''amount'', int_to_dec (cpay_amount payment)),
            (''asset'', cpay_asset payment), (''decision'', decision),
            (''from'', cpay_from payment), (''institution_id'', auth_institution_id auth),
            (''reason'', cr_reason result), (''resource'', resource), (''role'', auth_role auth),
            (''rule_id'', cr_rule_id result), (''to'', cpay_to payment),
            (''request_institution_hint'',
              case institution_hint headers of None \<Rightarrow> [] | Some i \<Rightarrow> i)]
      in record_event ''COMPLIANCE_DECISION''
        (''compliance decision decision='' @ decision @ '' rule_id='' @ cr_rule_id result
          @ '' action='' @ action @ '' from='' @ cpay_from payment @ '' to='' @ cpay_to payment
          @ '' asset='' @ cpay_asset payment @ '' amount='' @ int_to_dec (cpay_amount payment))
        None None metadata)"

definition insert_some :: "string \<Rightarrow> string option \<Rightarrow> string btree_map \<Rightarrow> string btree_map" where
  "insert_some k v m = (case v of None \<Rightarrow> m | Some x \<Rightarrow> bt_insert k x m)"

definition audit_compliance_case_event ::
  "authenticated_institution \<Rightarrow> string \<Rightarrow> compliance_case \<Rightarrow> payment_record option \<Rightarrow> string
    \<Rightarrow> unit handler" where
  "audit_compliance_case_event auth event_type c payment message =
     (let metadata = bt_from [(''case_id'', case_id c),
            (''case_status'', case_status_debug (case_status c)),
            (''institution_id'', case_opened_by_institution c),
            (''operator_institution_id'', auth_institution_id auth),
            (''policy_version'', case_policy_version c), (''reason'', case_reason c),
            (''role'', auth_role auth), (''rule_id'', case_rule_id c)];
          metadata = insert_some ''reviewer'' (case_reviewer c) metadata;
          metadata = insert_some ''resolution_reason'' (case_resolution_reason c) metadata;
          metadata = insert_some ''payment_status''
            (map_option (\<lambda>p. payment_status_debug (pay_status p)) payment) metadata
      in record_event event_type message (Option.bind payment pay_block_height)
           (Some (case_payment_id c)) metadata)"

definition audit_institution_event ::
  "authenticated_institution \<Rightarrow> string \<Rightarrow> string \<Rightarrow> string \<Rightarrow> string btree_map \<Rightarrow> unit handler" where
  "audit_institution_event auth event_type institution_id message metadata =
     record_event event_type message None None
       (bt_insert ''institution_id'' institution_id
         (bt_insert ''actor_role'' (auth_role auth)
           (bt_insert ''actor_institution_id'' (auth_institution_id auth) metadata)))"

section \<open>Authorization\<close>

definition authenticate_request ::
  "app_state \<Rightarrow> header_map \<Rightarrow> string \<Rightarrow> string \<Rightarrow> authenticated_institution handler" where
  "authenticate_request app headers action resource =
     (case authenticate (app_auth app) headers of
        Inr auth \<Rightarrow> h_return auth
      | Inl err \<Rightarrow>
          h_bind (audit_authorization_denied headers None action resource err) (\<lambda>_. h_fail err))"

text \<open>
  The shape every route repeats: \<open>if let Err(error) = check { audit_denied; return Err(error) }\<close>
  and then \<open>audit_allowed\<close>.
\<close>

definition or_denied ::
  "header_map \<Rightarrow> authenticated_institution \<Rightarrow> string \<Rightarrow> string \<Rightarrow> 'a handler \<Rightarrow> 'a handler" where
  "or_denied headers auth action resource check = (\<lambda>s.
     case check s of
       (Inr x, s) \<Rightarrow> (Inr x, s)
     | (Inl err, s) \<Rightarrow>
         h_bind (audit_authorization_denied headers (Some auth) action resource err)
           (\<lambda>_. h_fail err) s)"

definition ensure_account_exists :: "string \<Rightarrow> account handler" where
  "ensure_account_exists account_id =
     h_read (\<lambda>node. ok_or (BadRequest (''account '' @ account_id @ '' does not exist''))
       (List.find (\<lambda>a. acc_id a = account_id) (accounts (node_ledger node))))"

definition ensure_institution_can_operate :: "string \<Rightarrow> unit handler" where
  "ensure_institution_can_operate institution_id =
     h_bind (ledger_read (\<lambda>l. get_institution l institution_id)) (\<lambda>institution.
     if inst_status institution = InstApproved then h_return ()
     else h_fail (Forbidden (''institution '' @ institution_id
            @ '' is not approved for account operations'')))"

definition authorize_account_access ::
  "authenticated_institution \<Rightarrow> string \<Rightarrow> string \<Rightarrow> account handler" where
  "authorize_account_access auth account_id action =
     h_bind (ensure_account_exists account_id) (\<lambda>account.
     if acc_institution_id account = Some (auth_institution_id auth)
     then h_bind (ensure_institution_can_operate (auth_institution_id auth)) (\<lambda>_. h_return account)
     else h_fail (Forbidden (''institution is not authorized to '' @ action @ '' account ''
            @ account_id)))"

definition authorize_account_control ::
  "authenticated_institution \<Rightarrow> string \<Rightarrow> account handler" where
  "authorize_account_control auth account_id = authorize_account_access auth account_id ''debit''"

definition authorize_account_read ::
  "authenticated_institution \<Rightarrow> string \<Rightarrow> account handler" where
  "authorize_account_read auth account_id = authorize_account_access auth account_id ''read''"

definition account_belongs_to_institution :: "account list \<Rightarrow> string \<Rightarrow> string \<Rightarrow> bool" where
  "account_belongs_to_institution accts account_id institution_id =
     list_ex (\<lambda>a. acc_id a = account_id \<and> acc_institution_id a = Some institution_id) accts"

definition authorize_payment_read ::
  "authenticated_institution \<Rightarrow> payment_record \<Rightarrow> unit handler" where
  "authorize_payment_read auth payment =
     h_read (\<lambda>node.
       let accts = accounts (node_ledger node); tx = pay_transaction payment in
       if account_belongs_to_institution accts (tx_from tx) (auth_institution_id auth) \<or>
          account_belongs_to_institution accts (tx_to tx) (auth_institution_id auth)
       then Inr ()
       else Inl (Forbidden (''institution is not authorized to read payment '' @ tx_id tx)))"

definition authorize_admin :: "authenticated_institution \<Rightarrow> api_error + unit" where
  "authorize_admin auth =
     (if auth_is_admin auth then Inr ()
      else Inl (Forbidden ''admin credentials are required for network-wide reads''))"

definition authorize_admin_request ::
  "app_state \<Rightarrow> header_map \<Rightarrow> string \<Rightarrow> string \<Rightarrow> authenticated_institution handler" where
  "authorize_admin_request app headers action resource =
     h_bind (authenticate_request app headers action resource) (\<lambda>auth.
     h_bind (or_denied headers auth action resource (h_lift (authorize_admin auth))) (\<lambda>_.
     h_bind (audit_authorization_allowed headers auth action resource) (\<lambda>_.
     h_return auth)))"

section \<open>Payments\<close>

definition CREATED :: nat where "CREATED = 201"

definition SANDBOX_COMPLIANCE_POLICY_VERSION :: string where
  "SANDBOX_COMPLIANCE_POLICY_VERSION = ''sandbox-stp-v1''"

definition compliance_payment_of :: "validated_payment_request \<Rightarrow> compliance_payment" where
  "compliance_payment_of r =
     \<lparr>cpay_from = vp_from r, cpay_to = vp_to r, cpay_asset = vp_asset r, cpay_amount = vp_amount r\<rparr>"

definition enforce_payment_compliance ::
  "app_state \<Rightarrow> header_map \<Rightarrow> authenticated_institution \<Rightarrow> string \<Rightarrow> string
    \<Rightarrow> validated_payment_request \<Rightarrow> compliance_result option handler" where
  "enforce_payment_compliance app headers auth action resource r =
     (let payment = compliance_payment_of r;
          result = screen_sandbox_payment_with_policy (app_policy app) payment;
          audit = audit_compliance_decision headers auth action resource payment result in
      if cr_decision result = Allow then h_bind audit (\<lambda>_. h_return None)
      else if cr_decision result = Review then h_bind audit (\<lambda>_. h_return (Some result))
      else h_bind audit (\<lambda>_. h_fail (Forbidden
             (''compliance decision '' @ compliance_decision_debug (cr_decision result)
               @ '' by '' @ cr_rule_id result @ '': '' @ cr_reason result))))"

text \<open>The end of \<open>submit_validated_payment\<close>: a payment in review is held under a new case, any
  other is settled.\<close>

definition settle_or_hold_payment ::
  "app_state \<Rightarrow> authenticated_institution \<Rightarrow> validated_payment_request \<Rightarrow> string option
    \<Rightarrow> compliance_result option \<Rightarrow> payment_response handler" where
  "settle_or_hold_payment app auth r client_reference_id held =
     (case held of
        Some result \<Rightarrow>
          h_bind (h_call (\<lambda>w node. node_hold_payment_for_review (app_platform app) w node
                    (vp_from r) (vp_to r) (vp_asset r) (vp_amount r) client_reference_id
                    \<lparr>copen_payment_id = [],
                     copen_policy_version = SANDBOX_COMPLIANCE_POLICY_VERSION,
                     copen_rule_id = cr_rule_id result, copen_reason = cr_reason result,
                     copen_opened_by_institution = auth_institution_id auth\<rparr>))
            (\<lambda>(payment, c).
          h_bind (audit_compliance_case_event auth ''COMPLIANCE_CASE_OPENED'' c (Some payment)
                    (''compliance case '' @ case_id c @ '' opened for payment ''
                      @ tx_id (pay_transaction payment))) (\<lambda>_.
          h_return (payment_response_from payment)))
      | None \<Rightarrow>
          h_bind (h_call (\<lambda>w node. submit_payment (app_platform app) w node (vp_from r) (vp_to r)
                    (vp_asset r) (vp_amount r) client_reference_id)) (\<lambda>payment.
          h_return (payment_response_from payment)))"

definition submit_validated_payment ::
  "app_state \<Rightarrow> header_map \<Rightarrow> validated_payment_request \<Rightarrow> string \<Rightarrow> payment_response handler" where
  "submit_validated_payment app headers r action =
     (let resource = ''account:'' @ vp_from r in
      h_bind (authenticate_request app headers action resource) (\<lambda>auth.
      h_bind (or_denied headers auth action resource (authorize_account_control auth (vp_from r)))
        (\<lambda>_.
      h_bind (audit_authorization_allowed headers auth action resource) (\<lambda>_.
      h_bind (ensure_account_exists (vp_to r)) (\<lambda>_.
      h_bind (h_lift (normalized_client_reference_id (vp_client_reference_id r)
                        (vp_idempotency_key r))) (\<lambda>client_reference_id.
      h_bind (enforce_payment_compliance app headers auth action resource r) (\<lambda>held.
      settle_or_hold_payment app auth r client_reference_id held)))))))"

definition create_payment ::
  "app_state \<Rightarrow> header_map \<Rightarrow> create_payment_request \<Rightarrow> (nat \<times> payment_response) handler" where
  "create_payment app headers request =
     h_bind (h_lift (validate_payment request)) (\<lambda>r.
     h_bind (submit_validated_payment app headers r ''create_payment'') (\<lambda>response.
     h_return (CREATED, response)))"

definition create_pacs008_payment ::
  "('d, 'n) xml_api \<Rightarrow> app_state \<Rightarrow> header_map \<Rightarrow> string
    \<Rightarrow> (nat \<times> iso_pacs008_payment_response) handler" where
  "create_pacs008_payment xml app headers body =
     h_bind (h_lift (map_err api_error_from_iso (parse_pacs008_credit_transfer xml body)))
       (\<lambda>transfer.
     h_bind (h_lift (pacs008_transfer_request transfer)) (\<lambda>r.
     h_bind (submit_validated_payment app headers r ''submit_iso20022_pacs008'') (\<lambda>payment.
     h_return (CREATED,
       \<lparr>ipr_message_type = ''pacs.008'', ipr_message_id = p8_message_id transfer,
        ipr_instruction_id = p8_instruction_id transfer,
        ipr_end_to_end_id = p8_end_to_end_id transfer, ipr_payment = payment\<rparr>))))"

definition read_authorized_payment ::
  "app_state \<Rightarrow> header_map \<Rightarrow> string \<Rightarrow> string \<Rightarrow> payment_record handler" where
  "read_authorized_payment app headers i action =
     (let resource = ''payment:'' @ i in
      h_bind (authenticate_request app headers action resource) (\<lambda>auth.
      h_bind (h_read (\<lambda>node. map_err (\<lambda>e. case e of
                  UnknownPayment _ \<Rightarrow> NotFound (''payment '' @ i @ '' not found'')
                | _ \<Rightarrow> api_error_from_node (NodeLedger e)) (get_payment (node_ledger node) i)))
        (\<lambda>payment.
      h_bind (or_denied headers auth action resource (authorize_payment_read auth payment)) (\<lambda>_.
      h_bind (audit_authorization_allowed headers auth action resource) (\<lambda>_.
      h_return payment)))))"

definition api_get_payment ::
  "app_state \<Rightarrow> header_map \<Rightarrow> string \<Rightarrow> payment_response handler" where
  "api_get_payment app headers i =
     h_bind (read_authorized_payment app headers i ''read_payment'') (\<lambda>payment.
     h_return (payment_response_from payment))"

definition get_pacs002_status :: "app_state \<Rightarrow> header_map \<Rightarrow> string \<Rightarrow> string handler" where
  "get_pacs002_status app headers payment_id =
     h_bind (read_authorized_payment app headers payment_id ''read_iso20022_pacs002'') (\<lambda>payment.
     h_bind (h_draw (\<lambda>w. pacs002_status_from_payment (app_chrono app) w payment)) (\<lambda>status.
     h_return (build_pacs002_status_report status)))"

text \<open>Authentication and the right to read an account, audited.\<close>

definition authorized_account_read ::
  "app_state \<Rightarrow> header_map \<Rightarrow> string \<Rightarrow> string \<Rightarrow> string \<Rightarrow> unit handler" where
  "authorized_account_read app headers action resource account_id =
     h_bind (authenticate_request app headers action resource) (\<lambda>auth.
     h_bind (or_denied headers auth action resource (authorize_account_read auth account_id)) (\<lambda>_.
     audit_authorization_allowed headers auth action resource))"

definition get_camt053_statement ::
  "app_state \<Rightarrow> header_map \<Rightarrow> string \<Rightarrow> camt053_statement_query \<Rightarrow> string handler" where
  "get_camt053_statement app headers account_id query =
     h_bind (h_lift (camt053_filter_from query)) (\<lambda>f.
     let resource = ''account:'' @ account_id @ '':camt053:'' @ cf_asset f in
     h_bind (authorized_account_read app headers ''read_iso20022_camt053'' resource account_id) (\<lambda>_.
     h_bind (h_read (\<lambda>node. Inr (ledger_balance (node_ledger node) account_id (cf_asset f))))
       (\<lambda>balance.
     h_bind (h_read (\<lambda>node. Inr (node_journal_entries node (camt053_filter_search f account_id))))
       (\<lambda>entries.
     h_bind (h_draw (\<lambda>w. camt053_statement_from_journal_entries (app_chrono app) w account_id
                       (cf_asset f) balance entries)) (\<lambda>statement.
     h_return (build_camt053_statement statement))))))"

definition sandbox_mint ::
  "app_state \<Rightarrow> header_map \<Rightarrow> sandbox_mint_request \<Rightarrow> (nat \<times> payment_response) handler" where
  "sandbox_mint app headers request =
     h_bind (h_lift (validate_mint request)) (\<lambda>r.
     let resource = ''account:'' @ vm_treasury r in
     h_bind (authenticate_request app headers ''sandbox_mint'' resource) (\<lambda>auth.
     h_bind (or_denied headers auth ''sandbox_mint'' resource
               (authorize_account_control auth (vm_treasury r))) (\<lambda>treasury_account.
     h_bind (or_denied headers auth ''sandbox_mint'' resource
               (if acc_type treasury_account \<noteq> Treasury
                then h_fail (BadRequest (''account '' @ vm_treasury r
                       @ '' is not a treasury account''))
                else h_return ())) (\<lambda>_.
     h_bind (audit_authorization_allowed headers auth ''sandbox_mint'' resource) (\<lambda>_.
     h_bind (ensure_account_exists (vm_to r)) (\<lambda>_.
     h_bind (h_call (\<lambda>w node. mint_sandbox (app_platform app) w node (vm_treasury r) (vm_to r)
               (vm_asset r) (vm_amount r))) (\<lambda>payment.
     h_return (CREATED, payment_response_from payment))))))))"

section \<open>Institutions\<close>

definition get_institutions :: "app_state \<Rightarrow> header_map \<Rightarrow> institution list handler" where
  "get_institutions app headers =
     h_bind (authorize_admin_request app headers ''read_institutions'' ''network:institutions'')
       (\<lambda>_.
     h_read (\<lambda>node. Inr (institutions (node_ledger node))))"

definition institution_profile :: "string \<Rightarrow> institution_profile_response handler" where
  "institution_profile institution_id =
     h_bind (ledger_read (\<lambda>l. get_institution l institution_id)) (\<lambda>institution.
     h_bind (h_read (\<lambda>node. map_err api_error_from_node
               (node_institution_credentials node institution_id))) (\<lambda>credentials.
     h_bind (ledger_read (\<lambda>l. institution_limits l institution_id)) (\<lambda>limits.
     h_return \<lparr>ipf_institution = institution, ipf_credentials = credentials,
               ipf_limits = limits\<rparr>)))"

definition api_get_institution ::
  "app_state \<Rightarrow> header_map \<Rightarrow> string \<Rightarrow> institution_profile_response handler" where
  "api_get_institution app headers i =
     h_bind (h_lift (normalize_institution_id i)) (\<lambda>institution_id.
     h_bind (authorize_admin_request app headers ''read_institution''
               (''institution:'' @ institution_id)) (\<lambda>_.
     institution_profile institution_id))"

definition create_institution ::
  "app_state \<Rightarrow> header_map \<Rightarrow> create_institution_request \<Rightarrow> (nat \<times> institution) handler" where
  "create_institution app headers request =
     h_bind (h_lift (validate_create_institution request)) (\<lambda>r.
     h_bind (authorize_admin_request app headers ''create_institution''
               (''institution:'' @ vi_req_id r)) (\<lambda>auth.
     h_bind (h_draw (\<lambda>w. institution_new w
       \<lparr>idef_id = vi_req_id r, idef_legal_name = vi_req_legal_name r,
        idef_institution_code = vi_req_institution_code r,
        idef_jurisdiction = vi_req_jurisdiction r, idef_status = InstRequested,
        idef_risk_tier = vi_req_risk_tier r, idef_allowed_assets = vi_req_allowed_assets r,
        idef_roles = vi_req_roles r\<rparr>)) (\<lambda>institution.
     h_bind (h_call (\<lambda>w node. case node_upsert_institution node institution of
               (institution, node) \<Rightarrow> (Inr institution, node, w))) (\<lambda>institution.
     h_bind (audit_institution_event auth ''INSTITUTION_ONBOARDING_REQUESTED'' (inst_id institution)
               (''institution '' @ inst_id institution @ '' onboarding requested'')
               (bt_from [(''institution_id'', inst_id institution),
                  (''institution_code'', inst_institution_code institution),
                  (''status'', ''REQUESTED'')])) (\<lambda>_.
     h_return (CREATED, institution))))))"

definition create_institution_credential ::
  "app_state \<Rightarrow> header_map \<Rightarrow> string \<Rightarrow> create_institution_credential_request
    \<Rightarrow> (nat \<times> institution_credential) handler" where
  "create_institution_credential app headers i request =
     h_bind (h_lift (normalize_institution_id i)) (\<lambda>institution_id.
     h_bind (h_lift (validate_create_institution_credential request)) (\<lambda>r.
     h_bind (authorize_admin_request app headers ''create_institution_credential''
               (''institution:'' @ institution_id @ '':credential'')) (\<lambda>auth.
     h_bind (ledger_read (\<lambda>l. get_institution l institution_id)) (\<lambda>_.
     h_bind (h_draw (\<lambda>w. institution_credential_new w institution_id (vc_credential_type r)
                       (vc_label r) (vc_fingerprint r))) (\<lambda>credential.
     let credential = credential\<lparr>cred_issuer := vc_issuer r, cred_subject := vc_subject r,
           cred_expires_at := vc_expires_at r, cred_status := CredActive\<rparr> in
     h_bind (h_call (\<lambda>w node. case node_add_institution_credential node credential of
               (c, node) \<Rightarrow> (c, node, w))) (\<lambda>credential.
     h_bind (audit_institution_event auth ''INSTITUTION_CREDENTIAL_CREATED'' institution_id
               (''credential '' @ cred_id credential @ '' created for institution ''
                 @ institution_id)
               (bt_from [(''credential_id'', cred_id credential),
                  (''credential_type'', credential_type_debug (cred_type credential)),
                  (''institution_id'', institution_id),
                  (''status'', credential_status_debug (cred_status credential))])) (\<lambda>_.
     h_return (CREATED, credential))))))))"

definition api_suspend_institution ::
  "app_state \<Rightarrow> header_map \<Rightarrow> string \<Rightarrow> institution handler" where
  "api_suspend_institution app headers i =
     h_bind (h_lift (normalize_institution_id i)) (\<lambda>institution_id.
     h_bind (authorize_admin_request app headers ''suspend_institution''
               (''institution:'' @ institution_id)) (\<lambda>auth.
     h_bind (h_call (\<lambda>w node. node_suspend_institution w node institution_id)) (\<lambda>institution.
     h_bind (audit_institution_event auth ''INSTITUTION_SUSPENDED'' (inst_id institution)
               (''institution '' @ inst_id institution @ '' suspended'')
               (bt_from [(''institution_id'', inst_id institution), (''status'', ''SUSPENDED'')]))
       (\<lambda>_.
     h_return institution))))"

definition set_institution_limit ::
  "app_state \<Rightarrow> header_map \<Rightarrow> string \<Rightarrow> set_institution_limit_request
    \<Rightarrow> institution_limit handler" where
  "set_institution_limit app headers i request =
     h_bind (h_lift (normalize_institution_id i)) (\<lambda>institution_id.
     h_bind (h_lift (validate_set_institution_limit request)) (\<lambda>r.
     h_bind (authorize_admin_request app headers ''set_institution_limits''
               (''institution:'' @ institution_id @ '':limits:'' @ vl_asset r)) (\<lambda>auth.
     h_bind (h_draw (\<lambda>w. institution_limit_new w institution_id (vl_asset r) (vl_daily_limit r)
                       (vl_per_transaction_limit r))) (\<lambda>limit.
     h_bind (h_call (\<lambda>w node. case node_upsert_institution_limit node limit of
               (limit, node) \<Rightarrow> (limit, node, w))) (\<lambda>limit.
     h_bind (audit_institution_event auth ''INSTITUTION_LIMIT_UPDATED'' institution_id
               (''institution '' @ institution_id @ '' limit updated for '' @ lim_asset limit)
               (bt_from [(''asset'', lim_asset limit),
                  (''daily_limit'', int_to_dec (lim_daily_limit limit)),
                  (''institution_id'', institution_id),
                  (''per_transaction_limit'', int_to_dec (lim_per_transaction_limit limit))]))
       (\<lambda>_.
     h_return limit))))))"

section \<open>Compliance cases\<close>

definition get_compliance_cases ::
  "app_state \<Rightarrow> header_map \<Rightarrow> page_query \<Rightarrow> compliance_case paginated_response handler" where
  "get_compliance_cases app headers query =
     h_bind (authorize_admin_request app headers ''read_compliance_cases''
               ''network:compliance_cases'') (\<lambda>_.
     h_bind (h_lift (validated_page (q_limit query) (q_offset query)
               DEFAULT_COMPLIANCE_CASE_LIMIT MAX_COMPLIANCE_CASE_LIMIT)) (\<lambda>(limit, offset).
     h_bind (h_read (\<lambda>node. Inr (node_compliance_cases node (i64_wrap (limit + 1)) offset)))
       (\<lambda>items.
     h_return (from_limit_plus_one items limit offset))))"

definition api_get_compliance_case ::
  "app_state \<Rightarrow> header_map \<Rightarrow> string \<Rightarrow> compliance_case_response handler" where
  "api_get_compliance_case app headers i =
     h_bind (authorize_admin_request app headers ''read_compliance_case''
               (''compliance_case:'' @ i)) (\<lambda>_.
     h_bind (ledger_read (\<lambda>l. get_compliance_case l i)) (\<lambda>c.
     h_bind (ledger_read (\<lambda>l. get_payment l (case_payment_id c))) (\<lambda>payment.
     h_return \<lparr>ccresp_case = c, ccresp_payment = payment_response_from payment\<rparr>)))"

definition api_approve_compliance_case ::
  "app_state \<Rightarrow> header_map \<Rightarrow> string \<Rightarrow> compliance_case_resolution_request
    \<Rightarrow> compliance_case_response handler" where
  "api_approve_compliance_case app headers i request =
     h_bind (authorize_admin_request app headers ''approve_compliance_case''
               (''compliance_case:'' @ i)) (\<lambda>auth.
     let r = validate_case_resolution request in
     h_bind (h_call (\<lambda>w node. node_approve_compliance_case w node i (vr_reviewer r) (vr_reason r)))
       (\<lambda>(c, payment).
     h_bind (audit_compliance_case_event auth ''COMPLIANCE_CASE_APPROVED'' c (Some payment)
               (''compliance case '' @ case_id c @ '' approved for payment ''
                 @ tx_id (pay_transaction payment))) (\<lambda>_.
     h_return \<lparr>ccresp_case = c, ccresp_payment = payment_response_from payment\<rparr>)))"

definition api_reject_compliance_case ::
  "app_state \<Rightarrow> header_map \<Rightarrow> string \<Rightarrow> compliance_case_resolution_request
    \<Rightarrow> compliance_case_response handler" where
  "api_reject_compliance_case app headers i request =
     h_bind (authorize_admin_request app headers ''reject_compliance_case''
               (''compliance_case:'' @ i)) (\<lambda>auth.
     let r = validate_case_resolution request in
     h_bind (h_call (\<lambda>w node. node_reject_compliance_case w node i (vr_reviewer r) (vr_reason r)))
       (\<lambda>(c, payment).
     h_bind (audit_compliance_case_event auth ''COMPLIANCE_CASE_REJECTED'' c (Some payment)
               (''compliance case '' @ case_id c @ '' rejected for payment ''
                 @ tx_id (pay_transaction payment))) (\<lambda>_.
     h_return \<lparr>ccresp_case = c, ccresp_payment = payment_response_from payment\<rparr>)))"

section \<open>Reading the ledger\<close>

text \<open>
  The routes below that spell out authentication, the admin check and both audits are
  \<open>authorize_admin_request\<close> written out in the code.
\<close>

definition get_accounts :: "app_state \<Rightarrow> header_map \<Rightarrow> account list handler" where
  "get_accounts app headers =
     h_bind (authorize_admin_request app headers ''read_accounts'' ''network:accounts'') (\<lambda>_.
     h_read (\<lambda>node. Inr (accounts (node_ledger node))))"

definition get_balance ::
  "app_state \<Rightarrow> header_map \<Rightarrow> string \<Rightarrow> string \<Rightarrow> balance_response handler" where
  "get_balance app headers account_id asset =
     h_bind (h_lift (normalize_asset_code asset)) (\<lambda>asset.
     h_bind (authorized_account_read app headers ''read_balance''
               (''account:'' @ account_id @ '':balance:'' @ asset) account_id) (\<lambda>_.
     h_read (\<lambda>node. Inr \<lparr>br_account_id = account_id, br_asset = asset,
       br_amount = ledger_balance (node_ledger node) account_id asset\<rparr>)))"

definition get_issued :: "app_state \<Rightarrow> header_map \<Rightarrow> string \<Rightarrow> issued_response handler" where
  "get_issued app headers asset =
     h_bind (h_lift (normalize_asset_code asset)) (\<lambda>asset.
     h_bind (authorize_admin_request app headers ''read_issued_supply''
               (''asset:'' @ asset @ '':issued'')) (\<lambda>_.
     h_read (\<lambda>node. Inr \<lparr>ir_asset = asset, ir_amount = ledger_issued (node_ledger node) asset\<rparr>)))"

definition get_pending_transactions ::
  "app_state \<Rightarrow> header_map \<Rightarrow> page_query \<Rightarrow> transaction paginated_response handler" where
  "get_pending_transactions app headers query =
     h_bind (authorize_admin_request app headers ''read_pending_transactions''
               ''network:pending_transactions'') (\<lambda>_.
     h_bind (h_lift (block_filter_from query)) (\<lambda>f.
     h_bind (h_read (\<lambda>node. Inr (pending_transactions (node_ledger node)
               (i64_wrap (bf_limit f + 1)) (bf_offset f)))) (\<lambda>items.
     h_return (from_limit_plus_one items (bf_limit f) (bf_offset f)))))"

definition get_latest_block :: "app_state \<Rightarrow> header_map \<Rightarrow> block handler" where
  "get_latest_block app headers =
     h_bind (authorize_admin_request app headers ''read_latest_block'' ''network:latest_block'')
       (\<lambda>_.
     h_read (\<lambda>node. ok_or (NotFound ''no finalized blocks yet'') (latest_block (node_ledger node))))"

definition get_blocks ::
  "app_state \<Rightarrow> header_map \<Rightarrow> page_query \<Rightarrow> block paginated_response handler" where
  "get_blocks app headers query =
     h_bind (authorize_admin_request app headers ''read_blocks'' ''network:blocks'') (\<lambda>_.
     h_bind (h_lift (block_filter_from query)) (\<lambda>f.
     h_bind (h_read (\<lambda>node.
               Inr (node_blocks node (block_filter_search f (i64_wrap (bf_limit f + 1)))))) (\<lambda>items.
     h_return (from_limit_plus_one items (bf_limit f) (bf_offset f)))))"

definition get_audit_events ::
  "app_state \<Rightarrow> header_map \<Rightarrow> audit_event_query \<Rightarrow> audit_event paginated_response handler" where
  "get_audit_events app headers query =
     h_bind (authorize_admin_request app headers ''read_audit_events'' ''network:audit_events'')
       (\<lambda>_.
     h_bind (h_lift (audit_event_filter_from (app_chrono app) query)) (\<lambda>f.
     h_bind (h_read (\<lambda>node.
               Inr (node_audit_events node (audit_event_filter_search f (i64_wrap (af_limit f + 1))))))
       (\<lambda>items.
     h_return (from_limit_plus_one items (af_limit f) (af_offset f)))))"

definition get_validators :: "app_state \<Rightarrow> header_map \<Rightarrow> validator_response list handler" where
  "get_validators app headers =
     h_bind (authorize_admin_request app headers ''read_validators'' ''network:validators'') (\<lambda>_.
     h_read (\<lambda>node. Inr (map (\<lambda>v.
       \<lparr>vresp_id = vi_id v, vresp_public_key = vi_public_key v, vresp_active = vi_active v,
        vresp_last_seen_at = map_option (to_rfc3339 (app_chrono app)) (vi_last_seen_at v),
        vresp_last_finalized_height = vi_last_finalized_height v,
        vresp_last_finalized_hash = vi_last_finalized_hash v,
        vresp_last_finalized_at = map_option (to_rfc3339 (app_chrono app)) (vi_last_finalized_at v)\<rparr>)
       (node_validators node))))"

end
