(* ===== verification/Kani_Api_Reports.thy ===== *)
theory Kani_Api_Reports
  imports Kani_Api
begin

text \<open>
  The administrator's reports of \<open>crates/kani-api/src/lib.rs\<close>: the settlement summary, the
  compliance decisions and the validator finality. Each scans one page of blocks or audit
  events and accumulates counts and amounts in ordered maps; the loops are folds over a record
  of the accumulators.
\<close>

section \<open>Accumulators\<close>

definition bt_entry_or :: "'v \<Rightarrow> string \<Rightarrow> ('v \<Rightarrow> 'v) \<Rightarrow> 'v btree_map \<Rightarrow> 'v btree_map" where
  "bt_entry_or d k f m = bt_insert k (f (case bt_get m k of None \<Rightarrow> d | Some v \<Rightarrow> v)) m"

definition add_amount :: "string \<Rightarrow> i128 \<Rightarrow> i128 btree_map \<Rightarrow> i128 btree_map" where
  "add_amount asset amount m = bt_entry_or 0 asset (\<lambda>n. i128_add n amount) m"

definition increment_count :: "string \<Rightarrow> usize btree_map \<Rightarrow> usize btree_map" where
  "increment_count key m = bt_entry_or 0 key (\<lambda>n. n + 1) m"

definition required_phase1_finality_votes :: "usize \<Rightarrow> usize" where
  "required_phase1_finality_votes active_validator_count =
     (if active_validator_count = 0 then 0 else (active_validator_count * 2 + 2) div 3)"

section \<open>Settlement summary\<close>

record settlement_tally =
  st_mint_count :: usize
  st_burn_count :: usize
  st_transfer_count :: usize
  st_minted :: "i128 btree_map"
  st_burned :: "i128 btree_map"
  st_gross_transfer :: "i128 btree_map"

definition settlement_tally_empty :: settlement_tally where
  "settlement_tally_empty = \<lparr>st_mint_count = 0, st_burn_count = 0, st_transfer_count = 0,
     st_minted = [], st_burned = [], st_gross_transfer = []\<rparr>"

definition settlement_tally_add :: "transaction \<Rightarrow> settlement_tally \<Rightarrow> settlement_tally" where
  "settlement_tally_add tx t =
     (case tx_kind tx of
        Mint \<Rightarrow> t\<lparr>st_mint_count := st_mint_count t + 1,
                   st_minted := add_amount (tx_asset tx) (tx_amount tx) (st_minted t)\<rparr>
      | Burn \<Rightarrow> t\<lparr>st_burn_count := st_burn_count t + 1,
                   st_burned := add_amount (tx_asset tx) (tx_amount tx) (st_burned t)\<rparr>
      | Transfer \<Rightarrow> t\<lparr>st_transfer_count := st_transfer_count t + 1,
                   st_gross_transfer :=
                     add_amount (tx_asset tx) (tx_amount tx) (st_gross_transfer t)\<rparr>)"

definition settlement_tally_of :: "block list \<Rightarrow> settlement_tally" where
  "settlement_tally_of blocks =
     fold settlement_tally_add (concat (map blk_txs blocks)) settlement_tally_empty"

record settlement_summary_report =
  ssr_report_type :: string
  ssr_environment :: string
  ssr_real_value :: bool
  ssr_redeemable :: bool
  ssr_created_from :: "string option"
  ssr_created_to :: "string option"
  ssr_scan_limit :: i64
  ssr_scan_offset :: i64
  ssr_block_count :: usize
  ssr_transaction_count :: usize
  ssr_mint_count :: usize
  ssr_burn_count :: usize
  ssr_transfer_count :: usize
  ssr_minted_amount_by_asset :: "i128 btree_map"
  ssr_burned_amount_by_asset :: "i128 btree_map"
  ssr_gross_transfer_amount_by_asset :: "i128 btree_map"

definition build_settlement_summary_report ::
  "chrono_api \<Rightarrow> report_filter \<Rightarrow> block list \<Rightarrow> settlement_summary_report" where
  "build_settlement_summary_report ch f blocks =
     (let t = settlement_tally_of blocks in
      \<lparr>ssr_report_type = ''settlement_summary'', ssr_environment = ''SANDBOX'',
       ssr_real_value = False, ssr_redeemable = False,
       ssr_created_from = map_option (to_rfc3339 ch) (rf_created_from f),
       ssr_created_to = map_option (to_rfc3339 ch) (rf_created_to f),
       ssr_scan_limit = rf_limit f, ssr_scan_offset = rf_offset f,
       ssr_block_count = length blocks,
       ssr_transaction_count = st_mint_count t + st_burn_count t + st_transfer_count t,
       ssr_mint_count = st_mint_count t, ssr_burn_count = st_burn_count t,
       ssr_transfer_count = st_transfer_count t,
       ssr_minted_amount_by_asset = st_minted t,
       ssr_burned_amount_by_asset = st_burned t,
       ssr_gross_transfer_amount_by_asset = st_gross_transfer t\<rparr>)"

section \<open>Compliance decisions\<close>

record compliance_tally =
  ct_latest_event_at :: "timestamp option"
  ct_by_decision :: "usize btree_map"
  ct_by_rule_id :: "usize btree_map"
  ct_by_institution :: "usize btree_map"

definition compliance_tally_empty :: compliance_tally where
  "compliance_tally_empty = \<lparr>ct_latest_event_at = None, ct_by_decision = [], ct_by_rule_id = [],
     ct_by_institution = []\<rparr>"

definition metadata_or_unknown :: "string \<Rightarrow> audit_event \<Rightarrow> string" where
  "metadata_or_unknown key e = (case bt_get (ae_metadata e) key of None \<Rightarrow> ''UNKNOWN'' | Some v \<Rightarrow> v)"

definition compliance_tally_add :: "audit_event \<Rightarrow> compliance_tally \<Rightarrow> compliance_tally" where
  "compliance_tally_add e t =
     \<lparr>ct_latest_event_at =
        (if (case ct_latest_event_at t of None \<Rightarrow> True | Some latest \<Rightarrow> ae_created_at e > latest)
         then Some (ae_created_at e) else ct_latest_event_at t),
      ct_by_decision = increment_count (metadata_or_unknown ''decision'' e) (ct_by_decision t),
      ct_by_rule_id = increment_count (metadata_or_unknown ''rule_id'' e) (ct_by_rule_id t),
      ct_by_institution =
        increment_count (metadata_or_unknown ''institution_id'' e) (ct_by_institution t)\<rparr>"

definition compliance_tally_of :: "audit_event list \<Rightarrow> compliance_tally" where
  "compliance_tally_of events = fold compliance_tally_add events compliance_tally_empty"

record compliance_decision_report =
  cdr_report_type :: string
  cdr_environment :: string
  cdr_real_value :: bool
  cdr_redeemable :: bool
  cdr_created_from :: "string option"
  cdr_created_to :: "string option"
  cdr_scan_limit :: i64
  cdr_scan_offset :: i64
  cdr_event_count :: usize
  cdr_decisions_by_decision :: "usize btree_map"
  cdr_decisions_by_rule_id :: "usize btree_map"
  cdr_decisions_by_institution :: "usize btree_map"
  cdr_latest_event_at :: "string option"

definition build_compliance_decision_report ::
  "chrono_api \<Rightarrow> report_filter \<Rightarrow> audit_event list \<Rightarrow> compliance_decision_report" where
  "build_compliance_decision_report ch f events =
     (let t = compliance_tally_of events in
      \<lparr>cdr_report_type = ''compliance_decisions'', cdr_environment = ''SANDBOX'',
       cdr_real_value = False, cdr_redeemable = False,
       cdr_created_from = map_option (to_rfc3339 ch) (rf_created_from f),
       cdr_created_to = map_option (to_rfc3339 ch) (rf_created_to f),
       cdr_scan_limit = rf_limit f, cdr_scan_offset = rf_offset f,
       cdr_event_count = length events,
       cdr_decisions_by_decision = ct_by_decision t,
       cdr_decisions_by_rule_id = ct_by_rule_id t,
       cdr_decisions_by_institution = ct_by_institution t,
       cdr_latest_event_at = map_option (to_rfc3339 ch) (ct_latest_event_at t)\<rparr>)"

section \<open>Validator finality\<close>

record finality_tally =
  ft_transaction_count :: usize
  ft_produced_blocks :: "usize btree_map"
  ft_finality_votes :: "usize btree_map"
  ft_finalized_block_count :: usize
  ft_blocks_below_threshold :: usize

definition finality_tally_empty :: finality_tally where
  "finality_tally_empty = \<lparr>ft_transaction_count = 0, ft_produced_blocks = [],
     ft_finality_votes = [], ft_finalized_block_count = 0, ft_blocks_below_threshold = 0\<rparr>"

definition finality_tally_add :: "usize \<Rightarrow> block \<Rightarrow> finality_tally \<Rightarrow> finality_tally" where
  "finality_tally_add required b t =
     (let t = t\<lparr>ft_transaction_count := ft_transaction_count t + length (blk_txs b),
          ft_produced_blocks := increment_count (blk_validator b) (ft_produced_blocks t),
          ft_finality_votes := fold increment_count (blk_finalized_by b) (ft_finality_votes t)\<rparr>
      in if length (blk_finalized_by b) \<ge> required
         then t\<lparr>ft_finalized_block_count := ft_finalized_block_count t + 1\<rparr>
         else t\<lparr>ft_blocks_below_threshold := ft_blocks_below_threshold t + 1\<rparr>)"

definition finality_tally_of :: "usize \<Rightarrow> block list \<Rightarrow> finality_tally" where
  "finality_tally_of required blocks = fold (finality_tally_add required) blocks finality_tally_empty"

record validator_finality_row =
  vfr_id :: string
  vfr_active :: bool
  vfr_produced_blocks :: usize
  vfr_finality_votes :: usize
  vfr_last_seen_at :: "string option"
  vfr_last_finalized_height :: "i64 option"
  vfr_last_finalized_hash :: "string option"
  vfr_last_finalized_at :: "string option"

definition count_of :: "usize btree_map \<Rightarrow> string \<Rightarrow> usize" where
  "count_of m k = (case bt_get m k of None \<Rightarrow> 0 | Some n \<Rightarrow> n)"

definition validator_finality_row_of ::
  "chrono_api \<Rightarrow> finality_tally \<Rightarrow> validator_info \<Rightarrow> validator_finality_row" where
  "validator_finality_row_of ch t v =
     \<lparr>vfr_id = vi_id v, vfr_active = vi_active v,
      vfr_produced_blocks = count_of (ft_produced_blocks t) (vi_id v),
      vfr_finality_votes = count_of (ft_finality_votes t) (vi_id v),
      vfr_last_seen_at = map_option (to_rfc3339 ch) (vi_last_seen_at v),
      vfr_last_finalized_height = vi_last_finalized_height v,
      vfr_last_finalized_hash = vi_last_finalized_hash v,
      vfr_last_finalized_at = map_option (to_rfc3339 ch) (vi_last_finalized_at v)\<rparr>"

record validator_finality_report =
  vfrep_report_type :: string
  vfrep_environment :: string
  vfrep_real_value :: bool
  vfrep_redeemable :: bool
  vfrep_created_from :: "string option"
  vfrep_created_to :: "string option"
  vfrep_scan_limit :: i64
  vfrep_scan_offset :: i64
  vfrep_active_validator_count :: usize
  vfrep_required_finality_votes :: usize
  vfrep_block_count :: usize
  vfrep_transaction_count :: usize
  vfrep_finalized_block_count :: usize
  vfrep_blocks_below_threshold :: usize
  vfrep_validators :: "validator_finality_row list"

definition build_validator_finality_report ::
  "chrono_api \<Rightarrow> report_filter \<Rightarrow> block list \<Rightarrow> validator_info list \<Rightarrow> validator_finality_report" where
  "build_validator_finality_report ch f blocks validators =
     (let active_validator_count = length (filter vi_active validators);
          required_finality_votes = required_phase1_finality_votes active_validator_count;
          t = finality_tally_of required_finality_votes blocks in
      \<lparr>vfrep_report_type = ''validator_finality'', vfrep_environment = ''SANDBOX'',
       vfrep_real_value = False, vfrep_redeemable = False,
       vfrep_created_from = map_option (to_rfc3339 ch) (rf_created_from f),
       vfrep_created_to = map_option (to_rfc3339 ch) (rf_created_to f),
       vfrep_scan_limit = rf_limit f, vfrep_scan_offset = rf_offset f,
       vfrep_active_validator_count = active_validator_count,
       vfrep_required_finality_votes = required_finality_votes,
       vfrep_block_count = length blocks,
       vfrep_transaction_count = ft_transaction_count t,
       vfrep_finalized_block_count = ft_finalized_block_count t,
       vfrep_blocks_below_threshold = ft_blocks_below_threshold t,
       vfrep_validators = map (validator_finality_row_of ch t) validators\<rparr>)"

section \<open>Routes\<close>

definition get_settlement_summary_report ::
  "app_state \<Rightarrow> header_map \<Rightarrow> report_query \<Rightarrow> settlement_summary_report handler" where
  "get_settlement_summary_report app headers query =
     h_bind (authorize_admin_request app headers ''read_settlement_report''
               ''network:reports:settlement_summary'') (\<lambda>_.
     h_bind (h_lift (report_filter_from (app_chrono app) query)) (\<lambda>f.
     h_bind (h_read (\<lambda>node. Inr (node_blocks node (report_block_search f)))) (\<lambda>blocks.
     h_return (build_settlement_summary_report (app_chrono app) f (apply_block_window f blocks)))))"

definition get_compliance_decision_report ::
  "app_state \<Rightarrow> header_map \<Rightarrow> report_query \<Rightarrow> compliance_decision_report handler" where
  "get_compliance_decision_report app headers query =
     h_bind (authorize_admin_request app headers ''read_compliance_report''
               ''network:reports:compliance_decisions'') (\<lambda>_.
     h_bind (h_lift (report_filter_from (app_chrono app) query)) (\<lambda>f.
     h_bind (h_read (\<lambda>node. Inr (node_audit_events node (report_audit_search f)))) (\<lambda>events.
     h_return (build_compliance_decision_report (app_chrono app) f events))))"

definition get_validator_finality_report ::
  "app_state \<Rightarrow> header_map \<Rightarrow> report_query \<Rightarrow> validator_finality_report handler" where
  "get_validator_finality_report app headers query =
     h_bind (authorize_admin_request app headers ''read_validator_report''
               ''network:reports:validator_finality'') (\<lambda>_.
     h_bind (h_lift (report_filter_from (app_chrono app) query)) (\<lambda>f.
     h_bind (h_read (\<lambda>node. Inr (node_blocks node (report_block_search f)))) (\<lambda>blocks.
     h_bind (h_read (\<lambda>node. Inr (node_validators node))) (\<lambda>validators.
     h_return (build_validator_finality_report (app_chrono app) f (apply_block_window f blocks)
                 validators)))))"

end
