(* ===== verification/Kani_Api_Router.thy ===== *)
theory Kani_Api_Router
  imports Kani_Api_Reports
begin

text \<open>
  The router of \<open>crates/kani-api/src/lib.rs\<close>: a request is a route with its path and query
  fields and its decoded body, and \<open>serve\<close> answers it with a status and a body. Requests
  axum itself turns away (unknown paths, bodies that do not decode) never reach a handler.
\<close>

datatype api_request =
  GetHealth
| GetOpenApi
| PostPayment create_payment_request
| GetPayment string
| PostPacs008 string
| GetPacs002 string
| GetCamt053 string camt053_statement_query
| GetInstitutions
| PostInstitution create_institution_request
| GetInstitution string
| PostInstitutionCredential string create_institution_credential_request
| PostSuspendInstitution string
| PostInstitutionLimit string set_institution_limit_request
| GetComplianceCases page_query
| GetComplianceCase string
| PostApproveCase string compliance_case_resolution_request
| PostRejectCase string compliance_case_resolution_request
| GetAccounts
| GetPendingTransactions page_query
| GetBalance string string
| GetIssued string
| GetBlocks page_query
| GetLatestBlock
| GetAuditEvents audit_event_query
| GetSettlementSummary report_query
| GetComplianceDecisions report_query
| GetValidatorFinality report_query
| GetValidators
| PostMint sandbox_mint_request

text \<open>The bodies of the responses; \<open>OpenApiBody\<close> is the static document.\<close>

datatype response_body =
  HealthBody health_response
| OpenApiBody
| PaymentBody payment_response
| Pacs008Body iso_pacs008_payment_response
| XmlBody string
| InstitutionsBody "institution list"
| InstitutionBody institution
| ProfileBody institution_profile_response
| CredentialBody institution_credential
| LimitBody institution_limit
| CasesBody "compliance_case paginated_response"
| CaseBody compliance_case_response
| AccountsBody "account list"
| TransactionsBody "transaction paginated_response"
| BalanceBody balance_response
| IssuedBody issued_response
| BlocksBody "block paginated_response"
| BlockBody block
| AuditEventsBody "audit_event paginated_response"
| SettlementBody settlement_summary_report
| DecisionsBody compliance_decision_report
| FinalityBody validator_finality_report
| ValidatorsBody "validator_response list"
| ErrorBody string

type_synonym api_response = "(nat \<times> response_body) \<times> kani_node \<times> env"

text \<open>\<open>IntoResponse\<close>: the status and body of a handler's result.\<close>

definition respond_created ::
  "('a \<Rightarrow> response_body) \<Rightarrow> (nat \<times> 'a) handler \<Rightarrow> kani_node \<times> env \<Rightarrow> api_response" where
  "respond_created body h s =
     (case h s of
        (Inr (code, x), s) \<Rightarrow> ((code, body x), s)
      | (Inl e, s) \<Rightarrow> ((status_code e, ErrorBody (api_error_message e)), s))"

definition respond :: "('a \<Rightarrow> response_body) \<Rightarrow> 'a handler \<Rightarrow> kani_node \<times> env \<Rightarrow> api_response" where
  "respond body h s =
     (case h s of
        (Inr x, s) \<Rightarrow> ((200, body x), s)
      | (Inl e, s) \<Rightarrow> ((status_code e, ErrorBody (api_error_message e)), s))"

fun serve ::
  "('d, 'n) xml_api \<Rightarrow> app_state \<Rightarrow> header_map \<Rightarrow> api_request \<Rightarrow> kani_node \<times> env
    \<Rightarrow> api_response" where
  "serve xml app hs GetHealth s = ((200, HealthBody health), s)"
| "serve xml app hs GetOpenApi s = ((200, OpenApiBody), s)"
| "serve xml app hs (PostPayment r) s = respond_created PaymentBody (create_payment app hs r) s"
| "serve xml app hs (GetPayment i) s = respond PaymentBody (api_get_payment app hs i) s"
| "serve xml app hs (PostPacs008 body) s =
     respond_created Pacs008Body (create_pacs008_payment xml app hs body) s"
| "serve xml app hs (GetPacs002 i) s = respond XmlBody (get_pacs002_status app hs i) s"
| "serve xml app hs (GetCamt053 i q) s = respond XmlBody (get_camt053_statement app hs i q) s"
| "serve xml app hs GetInstitutions s = respond InstitutionsBody (get_institutions app hs) s"
| "serve xml app hs (PostInstitution r) s =
     respond_created InstitutionBody (create_institution app hs r) s"
| "serve xml app hs (GetInstitution i) s = respond ProfileBody (api_get_institution app hs i) s"
| "serve xml app hs (PostInstitutionCredential i r) s =
     respond_created CredentialBody (create_institution_credential app hs i r) s"
| "serve xml app hs (PostSuspendInstitution i) s =
     respond InstitutionBody (api_suspend_institution app hs i) s"
| "serve xml app hs (PostInstitutionLimit i r) s =
     respond LimitBody (set_institution_limit app hs i r) s"
| "serve xml app hs (GetComplianceCases q) s = respond CasesBody (get_compliance_cases app hs q) s"
| "serve xml app hs (GetComplianceCase i) s = respond CaseBody (api_get_compliance_case app hs i) s"
| "serve xml app hs (PostApproveCase i r) s =
     respond CaseBody (api_approve_compliance_case app hs i r) s"
| "serve xml app hs (PostRejectCase i r) s =
     respond CaseBody (api_reject_compliance_case app hs i r) s"
| "serve xml app hs GetAccounts s = respond AccountsBody (get_accounts app hs) s"
| "serve xml app hs (GetPendingTransactions q) s =
     respond TransactionsBody (get_pending_transactions app hs q) s"
| "serve xml app hs (GetBalance i a) s = respond BalanceBody (get_balance app hs i a) s"
| "serve xml app hs (GetIssued a) s = respond IssuedBody (get_issued app hs a) s"
| "serve xml app hs (GetBlocks q) s = respond BlocksBody (get_blocks app hs q) s"
| "serve xml app hs GetLatestBlock s = respond BlockBody (get_latest_block app hs) s"
| "serve xml app hs (GetAuditEvents q) s = respond AuditEventsBody (get_audit_events app hs q) s"
| "serve xml app hs (GetSettlementSummary q) s =
     respond SettlementBody (get_settlement_summary_report app hs q) s"
| "serve xml app hs (GetComplianceDecisions q) s =
     respond DecisionsBody (get_compliance_decision_report app hs q) s"
| "serve xml app hs (GetValidatorFinality q) s =
     respond FinalityBody (get_validator_finality_report app hs q) s"
| "serve xml app hs GetValidators s = respond ValidatorsBody (get_validators app hs) s"
| "serve xml app hs (PostMint r) s = respond_created PaymentBody (sandbox_mint app hs r) s"

text \<open>The application \<open>build_router_with_auth\<close> serves: the default compliance policy.\<close>

definition app_with_auth :: "sandbox_auth_config \<Rightarrow> platform \<Rightarrow> chrono_api \<Rightarrow> app_state" where
  "app_with_auth auth pf ch = \<lparr>app_auth = auth, app_policy = policy_sandbox_default,
     app_platform = pf, app_chrono = ch\<rparr>"

text \<open>A run of the service: requests served one after the other.\<close>

inductive api_reachable :: "('d, 'n) xml_api \<Rightarrow> app_state \<Rightarrow> kani_node \<times> env \<Rightarrow> kani_node \<times> env \<Rightarrow> bool"
  for xml :: "('d, 'n) xml_api" and app :: app_state and s0 :: "kani_node \<times> env" where
  api_start: "api_reachable xml app s0 s0"
| api_serve: "api_reachable xml app s0 s \<Longrightarrow> serve xml app hs req s = (answer, s') \<Longrightarrow>
    api_reachable xml app s0 s'"

end
