(* ===== verification/Kani_Node_Steps.thy ===== *)
theory Kani_Node_Steps
  imports Kani_Node_Props "HOL-Library.Sublist"
begin

text \<open>
  The node refines the ledger: each operation of the node is a sequence of ledger operations,
  with fresh identifiers for the compliance cases it opens. \<open>node_moves\<close> is the relation
  between the states before and after an operation.
\<close>

section \<open>The environment advances\<close>

lemma constructors_env [simp]:
  "env_le w (snd (journal_entry_new w i a s x d h))"
  "env_le w (snd (payment_finalized w tx hh hash))"
  "env_le w (snd (audit_event_new w t m bh ti))"
  "env_le w (snd (block_new_unsealed w hh hash txs v))"
  "env_le w (snd (transaction_new w k a b s x n))"
  "env_le w (snd (transaction_new_transfer w a b s x n))"
  "env_le w (snd (transaction_new_mint w a b s x n))"
  "env_le w (snd (payment_held w tx reason))"
  "env_le w (snd (payment_mark_pending w p))"
  "env_le w (snd (payment_mark_rejected w reason p))"
  "env_le w (snd (compliance_case_opened w co))"
  "env_le w (snd (compliance_case_approved w rv rs c))"
  "env_le w (snd (compliance_case_rejected w rv rs c))"
  "env_le w (snd (institution_suspended w inst))"
  "env_le w (snd (institution_new w idef))"
  "env_le w (snd (institution_credential_new w i ct lb fp))"
  "env_le w (snd (institution_limit_new w i s dl pl))"
  by (simp_all add: constructor_defs Let_def)

lemma push_journal_env: "push_journal w tx a d h work = (work', w') \<Longrightarrow> env_le w w'"
  using constructors_env(1) [of w "tx_id tx" a "tx_asset tx" "tx_amount tx" d h]
  by (auto simp: push_journal_def Let_def case_prod_unfold)

lemma apply_transaction_env:
  assumes "apply_transaction w tx h work = Inr (work', w')"
  shows "env_le w w'"
  using assms
  by (auto simp: apply_transaction_def res_simps Let_def split: transaction_kind.splits prod.splits
      dest!: push_journal_env intro: env_le_trans)

lemma apply_txs_env: "apply_txs w l h hash txs work = Inr (rs, work', w') \<Longrightarrow> env_le w w'"
proof (induction txs arbitrary: w work rs work')
  case Nil
  then show ?case by simp
next
  case (Cons tx txs)
  obtain work1 w1 r w2 rs' where t: "apply_transaction w tx h work = Inr (work1, w1)"
    and p: "payment_finalized w1 tx h hash = (r, w2)"
    and run: "apply_txs w2 l h hash txs work1 = Inr (rs', work', w')"
    by (rule apply_txs_ConsE [OF Cons.prems])
  have "env_le w w1" using t by (rule apply_transaction_env)
  also have "env_le w1 w2" using constructors_env(2) [of w1 tx h hash] p by simp
  also have "env_le w2 w'" by (rule Cons.IH [OF run])
  finally show ?case .
qed

lemma record_finalized_env: "record_finalized w h rs l = (l', w') \<Longrightarrow> env_le w w'"
proof (induction rs arbitrary: w l)
  case (Cons r rs)
  then show ?case
    by (auto simp: Let_def case_prod_unfold intro: env_le_trans [OF constructors_env(3) Cons.IH])
qed simp

lemma apply_block_env:
  assumes "apply_block w b l = (r, l', w')"
  shows "env_le w w'"
proof -
  have "env_le w (snd (audit_event_new w2 t m bh ti))"
    if "apply_txs w l h hash txs work = Inr (rs, work', w1)"
      "snd (record_finalized w1 h rs l2) = w2" for h hash txs work rs work' w1 w2 l2 t m bh ti
  proof -
    have "env_le w w1" using that(1) by (rule apply_txs_env)
    also have "env_le w1 w2" using that(2) record_finalized_env by (metis prod.collapse)
    also have "env_le w2 (snd (audit_event_new w2 t m bh ti))" by simp
    finally show ?thesis .
  qed
  then show ?thesis
    using assms
    by (auto simp: apply_block_def Let_def case_prod_unfold split: if_splits sum.splits)
qed

lemma build_block_env: "build_block pf w node l txs = Inr (b, w') \<Longrightarrow> env_le w w'"
  using constructors_env(4) [of w "next_height l" "last_hash l" txs]
  by (auto simp: build_block_def Let_def res_simps case_prod_unfold split: if_splits)

lemma produce_env: "produce_and_apply_locked pf w node txs = (r, node', w') \<Longrightarrow> env_le w w'"
  unfolding produce_and_apply_locked_def
  by (auto simp: Let_def split: if_splits sum.splits prod.splits
      dest!: build_block_env apply_block_env intro: env_le_trans)

section \<open>Moves of the node\<close>

text \<open>The identifiers of the compliance cases were drawn from the environment.\<close>

definition cases_drawn :: "env \<Rightarrow> ledger \<Rightarrow> bool" where
  "cases_drawn w l \<longleftrightarrow> (\<forall>i c. hm_get (led_compliance_cases l) i = Some c \<longrightarrow>
     i \<in> uuids w ` {..<drawn w} \<and> case_id c \<in> uuids w ` {..<drawn w})"

definition fresh_ids :: "kani_node \<times> env \<Rightarrow> bool" where
  "fresh_ids s \<longleftrightarrow> inj (uuids (snd s)) \<and> cases_drawn (snd s) (node_ledger (fst s))"

definition node_moves :: "kani_node \<times> env \<Rightarrow> kani_node \<times> env \<Rightarrow> bool" where
  "node_moves s s' \<longleftrightarrow> env_le (snd s) (snd s') \<and>
     node_consensus (fst s') = node_consensus (fst s) \<and>
     node_crypto_profile (fst s') = node_crypto_profile (fst s) \<and>
     (fresh_ids s \<longrightarrow>
        ledger_step\<^sup>*\<^sup>* (node_ledger (fst s)) (node_ledger (fst s')) \<and> fresh_ids s')"

lemma cases_drawn_mono:
  assumes "cases_drawn w l" "env_le w w'"
  shows "cases_drawn w' l"
proof -
  have "uuids w ` {..<drawn w} \<subseteq> uuids w' ` {..<drawn w'}"
    using assms(2) by (auto simp: env_le_def)
  with assms(1) show ?thesis unfolding cases_drawn_def by blast
qed

lemma cases_drawn_same:
  "cases_drawn w l \<Longrightarrow> led_compliance_cases l' = led_compliance_cases l \<Longrightarrow> cases_drawn w l'"
  by (simp add: cases_drawn_def)

lemma cases_drawn_insert:
  "cases_drawn w l \<Longrightarrow> case_id c \<in> uuids w ` {..<drawn w} \<Longrightarrow>
     cases_drawn w (insert_payment_and_case p c l)"
  by (auto simp: cases_drawn_def insert_payment_and_case_def map_simps split: if_splits)

lemma node_moves_env: "env_le w w' \<Longrightarrow> node_moves (node, w) (node, w')"
  by (auto simp: node_moves_def fresh_ids_def cases_drawn_mono env_le_def)

lemma node_moves_refl: "node_moves s s"
  by (simp add: node_moves_def)

lemma node_moves_trans: "node_moves s t \<Longrightarrow> node_moves t u \<Longrightarrow> node_moves s u"
  unfolding node_moves_def by (auto intro: env_le_trans rtranclp_trans)

text \<open>An operation that is one step of the ledger and touches no case.\<close>

lemma node_moves_step:
  assumes "ledger_step (node_ledger node) l'" "env_le w w'"
    and "led_compliance_cases l' = led_compliance_cases (node_ledger node)"
  shows "node_moves (node, w) (node\<lparr>node_ledger := l'\<rparr>, w')"
  using assms cases_drawn_mono [OF cases_drawn_same]
  by (auto simp: node_moves_def fresh_ids_def env_le_def)

lemma apply_block_cases:
  "apply_block w b l = (r, l', w') \<Longrightarrow> led_compliance_cases l' = led_compliance_cases l"
  by (cases r) (auto dest: apply_block_err_unchanged elim!: apply_block_ok
      simp: commit_working_def)

lemma produce_moves:
  assumes "produce_and_apply_locked pf w node txs = (r, node', w')"
  shows "node_moves (node, w) (node', w')"
proof (cases "node' = node")
  case True
  with produce_env [OF assms] show ?thesis by (simp add: node_moves_env)
next
  case False
  with assms obtain b w1 rs l' where "apply_block w1 b (node_ledger node) = (Inr rs, l', w')"
    and "node' = node\<lparr>node_ledger := l'\<rparr>"
    by (auto simp: produce_and_apply_locked_def Let_def split: if_splits sum.splits prod.splits)
  then show ?thesis
    using node_moves_step [OF step_apply_block produce_env [OF assms]] apply_block_cases by blast
qed

lemma submit_payment_moves_node:
  assumes "submit_payment pf w node s r a x c = (res, node', w')"
  shows "node_moves (node, w) (node', w')"
proof (cases "earlier_payment (node_ledger node) c")
  case (Some cp)
  with assms show ?thesis
    by (auto simp: submit_payment_def Let_def node_moves_refl split: sum.splits prod.splits)
next
  case None
  obtain tx w1 where tx:
    "transaction_new_transfer w s r a x (next_nonce (node_ledger node) s) = (tx, w1)" by force
  then have "env_le w w1"
    using constructors_env(6) [of w s r a x "next_nonce (node_ledger node) s"] by simp
  with assms None tx show ?thesis
    by (auto simp: submit_payment_def Let_def
        intro: node_moves_trans [OF node_moves_env produce_moves])
qed

lemma mint_sandbox_moves_node:
  assumes "mint_sandbox pf w node t r a x = (res, node', w')"
  shows "node_moves (node, w) (node', w')"
proof -
  obtain tx w1 where tx:
    "transaction_new_mint w t r a x (next_nonce (node_ledger node) t) = (tx, w1)" by force
  then have "env_le w w1"
    using constructors_env(7) [of w t r a x "next_nonce (node_ledger node) t"] by simp
  with assms tx show ?thesis
    by (auto simp: mint_sandbox_def Let_def intro: node_moves_trans [OF node_moves_env produce_moves])
qed

text \<open>Opening a case: its identifier is the next one drawn, which no case has yet.\<close>

lemma hold_moves:
  assumes "hold_payment_for_review w p co (node_ledger node) = Inr (r, l', w')"
  shows "node_moves (node, w) (node\<lparr>node_ledger := l'\<rparr>, w')"
proof -
  obtain c w1 where c: "compliance_case_opened w co = (c, w1)" by force
  have sel: "case_id c = uuids w (drawn w)" "w1 = w\<lparr>ticks := Suc (ticks w), drawn := Suc (drawn w)\<rparr>"
    using c by (auto simp: compliance_case_opened_def new_uuid_def utc_now_def)
  have l': "l' = insert_payment_and_case p c (node_ledger node)" "w' = w1"
    using assms c by (auto simp: hold_payment_for_review_def)
  have "ledger_step (node_ledger node) l' \<and> cases_drawn w' l'"
    if inj: "inj (uuids w)" and drawn: "cases_drawn w (node_ledger node)"
  proof
    have "uuids w (drawn w) \<notin> uuids w ` {..<drawn w}"
      using inj by (auto dest: injD)
    then have "hm_get (led_compliance_cases (node_ledger node)) (uuids w (drawn w)) = None"
      using drawn unfolding cases_drawn_def by (metis not_Some_eq)
    with assms show "ledger_step (node_ledger node) l'" by (rule step_hold)
    have "cases_drawn w1 (node_ledger node)"
      using drawn by (rule cases_drawn_mono) (simp add: sel)
    then show "cases_drawn w' l'"
      unfolding l' by (rule cases_drawn_insert) (simp add: sel)
  qed
  then show ?thesis by (auto simp: node_moves_def fresh_ids_def l' sel)
qed

lemma hold_payment_moves_node:
  assumes "node_hold_payment_for_review pf w node s r a x c co = (res, node', w')"
  shows "node_moves (node, w) (node', w')"
proof (cases "earlier_payment (node_ledger node) c")
  case (Some cp)
  with assms show ?thesis
    by (auto simp: node_hold_payment_for_review_def Let_def node_moves_refl
        split: sum.splits prod.splits option.splits)
next
  case None
  let ?fp = "request_fingerprint pf node Transfer s r a x"
  obtain tx w1 where tx:
    "transaction_new_transfer w s r a x (next_nonce (node_ledger node) s) = (tx, w1)" by force
  obtain p w2 where p: "payment_held w1 (with_idempotency_metadata c ?fp tx) (copen_reason co) = (p, w2)"
    by force
  have env: "env_le w w2"
    using constructors_env(6) [of w s r a x "next_nonce (node_ledger node) s"]
      constructors_env(8) [of w1 "with_idempotency_metadata c ?fp tx" "copen_reason co"] tx p
    by (auto intro: env_le_trans)
  from assms None tx p show ?thesis
    by (auto simp: node_hold_payment_for_review_def Let_def split: sum.splits prod.splits
        dest!: hold_moves intro: node_moves_refl node_moves_trans [OF node_moves_env [OF env]])
qed

text \<open>Deciding a case keeps its identifier.\<close>

lemma decide_moves:
  assumes step: "ledger_step (node_ledger node) (insert_payment_and_case p' c' (node_ledger node))"
    and c: "get_compliance_case (node_ledger node) i = Inr c" "case_id c' = case_id c"
    and env: "env_le w w'"
  shows "node_moves (node, w)
    (node\<lparr>node_ledger := insert_payment_and_case p' c' (node_ledger node)\<rparr>, w')"
proof -
  have "cases_drawn w' (insert_payment_and_case p' c' (node_ledger node))"
    if d: "cases_drawn w (node_ledger node)"
  proof (rule cases_drawn_insert)
    show d': "cases_drawn w' (node_ledger node)" using d env by (rule cases_drawn_mono)
    show "case_id c' \<in> uuids w' ` {..<drawn w'}"
      using d' c by (auto simp: cases_drawn_def get_compliance_case_def res_simps)
  qed
  with step env show ?thesis by (auto simp: node_moves_def fresh_ids_def env_le_def)
qed

lemma approve_moves_node:
  assumes "node_approve_compliance_case w node i rv rs = (res, node', w')"
  shows "node_moves (node, w) (node', w')"
proof (cases "approve_compliance_case w i rv rs (node_ledger node)")
  case (Inl e)
  with assms show ?thesis
    by (simp add: node_approve_compliance_case_def locked_def node_moves_refl)
next
  case (Inr x)
  then obtain c' p' l' where ok: "approve_compliance_case w i rv rs (node_ledger node) = Inr ((c', p'), l', w')"
    and n: "node' = node\<lparr>node_ledger := l'\<rparr>"
    using assms by (cases x) (auto simp: node_approve_compliance_case_def locked_def)
  obtain c p w1 where c: "get_compliance_case (node_ledger node) i = Inr c"
    and m: "payment_mark_pending w p = (p', w1)" "compliance_case_approved w1 rv rs c = (c', w')"
    and l': "l' = insert_payment_and_case p' c' (node_ledger node)"
    by (rule approve_compliance_case_okE [OF ok])
  have "env_le w w'"
    using constructors_env(9) [of w p] constructors_env(12) [of w1 rv rs c] m
    by (auto intro: env_le_trans)
  moreover have "case_id c' = case_id c"
    using m by (auto simp: compliance_case_approved_def utc_now_def)
  ultimately show ?thesis
    unfolding n l' using step_approve [OF ok] c l' by (intro decide_moves) auto
qed

lemma reject_moves_node:
  assumes "node_reject_compliance_case w node i rv rs = (res, node', w')"
  shows "node_moves (node, w) (node', w')"
proof (cases "reject_compliance_case w i rv rs (node_ledger node)")
  case (Inl e)
  with assms show ?thesis
    by (simp add: node_reject_compliance_case_def locked_def node_moves_refl)
next
  case (Inr x)
  then obtain c' p' l' where ok: "reject_compliance_case w i rv rs (node_ledger node) = Inr ((c', p'), l', w')"
    and n: "node' = node\<lparr>node_ledger := l'\<rparr>"
    using assms by (cases x) (auto simp: node_reject_compliance_case_def locked_def)
  let ?r = "case rs of None \<Rightarrow> ''compliance case rejected'' | Some r \<Rightarrow> r"
  obtain c p w1 where c: "get_compliance_case (node_ledger node) i = Inr c"
    and m: "payment_mark_rejected w ?r p = (p', w1)" "compliance_case_rejected w1 rv rs c = (c', w')"
    and l': "l' = insert_payment_and_case p' c' (node_ledger node)"
    by (rule reject_compliance_case_okE [OF ok])
  have "env_le w w'"
    using constructors_env(10) [of w ?r p] constructors_env(13) [of w1 rv rs c] m
    by (auto intro: env_le_trans)
  moreover have "case_id c' = case_id c"
    using m by (auto simp: compliance_case_rejected_def utc_now_def)
  ultimately show ?thesis
    unfolding n l' using step_reject [OF ok] c l' by (intro decide_moves) auto
qed

lemma suspend_moves_node:
  assumes "node_suspend_institution w node i = (res, node', w')"
  shows "node_moves (node, w) (node', w')"
proof (cases "suspend_institution w i (node_ledger node)")
  case (Inl e)
  with assms show ?thesis
    by (simp add: node_suspend_institution_def locked_def node_moves_refl)
next
  case (Inr x)
  then obtain inst l' where ok: "suspend_institution w i (node_ledger node) = Inr (inst, l', w')"
    and n: "node' = node\<lparr>node_ledger := l'\<rparr>"
    using assms by (cases x) (auto simp: node_suspend_institution_def locked_def)
  from ok obtain j where "institution_suspended w j = (inst, w')"
    and l': "l' = upsert_institution inst (node_ledger node)"
    by (auto simp: suspend_institution_def res_simps case_prod_unfold Let_def)
  then have "env_le w w'" using constructors_env(14) [of w j] by simp
  then show ?thesis
    unfolding n by (intro node_moves_step step_suspend [OF ok]) (simp_all add: l' upsert_institution_def)
qed

lemma registry_moves_node:
  "node_upsert_institution node inst = (i, node') \<Longrightarrow> node_moves (node, w) (node', w)"
  "node_add_institution_credential node cr = (res, node') \<Longrightarrow> node_moves (node, w) (node', w)"
  "node_upsert_institution_limit node lm = (res2, node') \<Longrightarrow> node_moves (node, w) (node', w)"
  "node_moves (node, w) (node_record_audit_event node e, w)"
proof -
  show "node_upsert_institution node inst = (i, node') \<Longrightarrow> node_moves (node, w) (node', w)"
    using node_moves_step [OF step_institution [of "node_ledger node" inst], of w w]
    by (auto simp: node_upsert_institution_def upsert_institution_def)
  show "node_moves (node, w) (node_record_audit_event node e, w)"
    using node_moves_step [OF step_audit [of "node_ledger node" e], of w w]
    by (simp add: node_record_audit_event_def record_audit_event_def)
  show "node_moves (node, w) (node', w)" if "node_add_institution_credential node cr = (res, node')"
  proof (cases "add_institution_credential cr (node_ledger node)")
    case (Inr x)
    then obtain c l' where ok: "add_institution_credential cr (node_ledger node) = Inr (c, l')"
      by (cases x) simp
    then have "led_compliance_cases l' = led_compliance_cases (node_ledger node)"
      by (auto simp: add_institution_credential_def res_simps)
    with node_moves_step [OF step_credential [OF ok], of w w] that ok show ?thesis
      by (simp add: node_add_institution_credential_def)
  qed (use that in \<open>simp add: node_add_institution_credential_def node_moves_refl\<close>)
  show "node_moves (node, w) (node', w)" if "node_upsert_institution_limit node lm = (res2, node')"
  proof (cases "upsert_institution_limit lm (node_ledger node)")
    case (Inr x)
    then obtain c l' where ok: "upsert_institution_limit lm (node_ledger node) = Inr (c, l')"
      by (cases x) simp
    then have "led_compliance_cases l' = led_compliance_cases (node_ledger node)"
      by (auto simp: upsert_institution_limit_def res_simps)
    with node_moves_step [OF step_limit [OF ok], of w w] that ok show ?thesis
      by (simp add: node_upsert_institution_limit_def)
  qed (use that in \<open>simp add: node_upsert_institution_limit_def node_moves_refl\<close>)
qed

lemma node_moves_reachable:
  assumes "node_moves s s'" "fresh_ids s" "ledger_reachable (node_ledger (fst s))"
  shows "ledger_reachable (node_ledger (fst s')) \<and> fresh_ids s'"
proof -
  have "ledger_step\<^sup>*\<^sup>* (node_ledger (fst s)) (node_ledger (fst s'))" "fresh_ids s'"
    using assms by (auto simp: node_moves_def)
  moreover have "ledger_step\<^sup>*\<^sup>* l l' \<Longrightarrow> ledger_reachable l \<Longrightarrow> ledger_reachable l'" for l l'
    by (induction rule: rtranclp_induct) (auto intro: reach_step)
  ultimately show ?thesis using assms(3) by blast
qed

end
