(* ===== verification/Kani_Api_Contract.thy ===== *)
theory Kani_Api_Contract
  imports Kani_Api_Router Kani_Node_Steps
begin

text \<open>
  What a request can do to the state of the service. \<open>keeps R h\<close> says that the handler \<open>h\<close>
  moves the state along the relation \<open>R\<close>, whatever its outcome. The locales state what a
  relation must allow: to be a preorder, to allow drawing identifiers and recording audit events,
  and to allow each operation of the node. The routes keep every such relation; the
  interpretations give the relations of interest.
\<close>

section \<open>Preservation\<close>

type_synonym service = "kani_node \<times> env"

locale service_relation = state_preorder R
  for R :: "service \<Rightarrow> service \<Rightarrow> bool" +
  assumes R_env: "env_le w w' \<Longrightarrow> R (node, w) (node, w')"
begin

lemma keeps_read [intro!, simp]: "keeps R (h_read f)" "keeps R (ledger_read g)"
  by (simp_all add: keeps_def h_read_def ledger_read_def R_refl split: prod.split)

lemma keeps_draw: "(\<And>w. env_le w (snd (f w))) \<Longrightarrow> keeps R (h_draw f)"
  by (auto simp: keeps_def h_draw_def case_prod_unfold intro!: R_env)

end

locale audited_relation = service_relation +
  assumes R_audit: "R (node, w) (node_record_audit_event node e, w)"
begin

lemma keeps_record_event [intro!, simp]: "keeps R (record_event t m h i md)"
proof (rule keepsI)
  fix s r s'
  assume run: "record_event t m h i md s = (r, s')"
  obtain node w where s: "s = (node, w)" by force
  obtain e w' where e: "audit_event_new w t m h i = (e, w')" by force
  then have "env_le w w'" by (auto simp: audit_event_new_def new_uuid_def utc_now_def)
  moreover have "s' = (node_record_audit_event node (audit_event_with_metadata md e), w')"
    using run s e by (simp add: record_event_def)
  ultimately show "R s s'"
    using R_trans [OF R_env R_audit] s by blast
qed

lemma keeps_audits [intro!, simp]:
  "keeps R (audit_authorization_decision hs auth action resource decision reason code)"
  "keeps R (audit_authorization_allowed hs a action resource)"
  "keeps R (audit_authorization_denied hs auth action resource err)"
  "keeps R (audit_compliance_decision hs a action resource payment result)"
  "keeps R (audit_compliance_case_event a t c p m)"
  "keeps R (audit_institution_event a t i m md)"
  by (simp_all add: audit_authorization_decision_def audit_authorization_allowed_def
      audit_authorization_denied_def audit_compliance_decision_def audit_compliance_case_event_def
      audit_institution_event_def Let_def)

lemma keeps_authenticate [intro!, simp]: "keeps R (authenticate_request app hs action resource)"
  unfolding authenticate_request_def by (cases "authenticate (app_auth app) hs") auto

lemma keeps_or_denied [intro!]:
  assumes "keeps R h"
  shows "keeps R (or_denied hs auth action resource h)"
proof (rule keepsI)
  fix s r s'
  assume run: "or_denied hs auth action resource h s = (r, s')"
  obtain x t where h: "h s = (x, t)" by (rule prod.exhaust)
  have "R s t" using assms h by (rule keepsD)
  moreover have "R t s'"
  proof (cases x)
    case (Inl err)
    have "keeps R (h_bind (audit_authorization_denied hs (Some auth) action resource err)
        (\<lambda>_. h_fail err :: 'a handler))" for err :: api_error by auto
    with run h Inl show ?thesis by (auto simp: or_denied_def dest: keepsD)
  next
    case (Inr y)
    with run h show ?thesis by (simp add: or_denied_def R_refl)
  qed
  ultimately show "R s s'" by (rule R_trans)
qed

lemma keeps_authorize [intro!, simp]:
  "keeps R (ensure_account_exists i)" "keeps R (ensure_institution_can_operate i)"
  "keeps R (authorize_account_access a i action)" "keeps R (authorize_account_control a i)"
  "keeps R (authorize_account_read a i)" "keeps R (authorize_payment_read a p)"
  "keeps R (authorize_admin_request app hs action resource)"
  "keeps R (authorized_account_read app hs action resource i)"
  unfolding authorize_admin_request_def authorized_account_read_def authorize_account_control_def
    authorize_account_read_def authorize_account_access_def authorize_payment_read_def
    ensure_institution_can_operate_def ensure_account_exists_def
  by auto

lemma keeps_compliance [intro!, simp]:
  "keeps R (enforce_payment_compliance app hs a action resource r)"
  unfolding enforce_payment_compliance_def Let_def by auto

lemma keeps_read_payment [intro!, simp]: "keeps R (read_authorized_payment app hs i action)"
  unfolding read_authorized_payment_def Let_def by auto

text \<open>The routes that only read.\<close>

lemma env_le_messages [simp]:
  "env_le w (snd (pacs002_status_from_payment ch w p))"
  "env_le w (snd (camt053_statement_from_journal_entries ch w i a b es))"
  by (simp_all add: pacs002_status_from_payment_def camt053_statement_from_journal_entries_def
      utc_now_def case_prod_unfold Let_def)

lemma keeps_reading_routes:
  "keeps R (api_get_payment app hs i)"
  "keeps R (get_pacs002_status app hs i)"
  "keeps R (get_camt053_statement app hs i cq)"
  "keeps R (get_institutions app hs)"
  "keeps R (api_get_institution app hs i)"
  "keeps R (get_compliance_cases app hs q)"
  "keeps R (api_get_compliance_case app hs i)"
  "keeps R (get_accounts app hs)"
  "keeps R (get_balance app hs i a)"
  "keeps R (get_issued app hs a)"
  "keeps R (get_pending_transactions app hs q)"
  "keeps R (get_latest_block app hs)"
  "keeps R (get_blocks app hs q)"
  "keeps R (get_audit_events app hs aq)"
  "keeps R (get_validators app hs)"
  "keeps R (get_settlement_summary_report app hs rq)"
  "keeps R (get_compliance_decision_report app hs rq)"
  "keeps R (get_validator_finality_report app hs rq)"
  unfolding api_get_payment_def get_pacs002_status_def get_camt053_statement_def
    get_institutions_def api_get_institution_def institution_profile_def get_compliance_cases_def
    api_get_compliance_case_def get_accounts_def get_balance_def get_issued_def
    get_pending_transactions_def get_latest_block_def get_blocks_def get_audit_events_def
    get_validators_def get_settlement_summary_report_def get_compliance_decision_report_def
    get_validator_finality_report_def Let_def
  by (auto intro: keeps_draw)

end

section \<open>The operations of the node\<close>

locale service_contract = audited_relation +
  assumes R_submit: "submit_payment pf w node s r a x c = (res, node', w') \<Longrightarrow> R (node, w) (node', w')"
    and R_hold: "node_hold_payment_for_review pf w node s r a x c co = (hres, node', w') \<Longrightarrow>
      R (node, w) (node', w')"
    and R_mint: "mint_sandbox pf w node t r a x = (res, node', w') \<Longrightarrow> R (node, w) (node', w')"
    and R_approve: "node_approve_compliance_case w node i rv rs = (cres, node', w') \<Longrightarrow>
      R (node, w) (node', w')"
    and R_reject: "node_reject_compliance_case w node i rv rs = (cres, node', w') \<Longrightarrow>
      R (node, w) (node', w')"
    and R_suspend: "node_suspend_institution w node i = (ires, node', w') \<Longrightarrow> R (node, w) (node', w')"
    and R_institution: "inst_status inst = InstRequested \<Longrightarrow>
      node_upsert_institution node inst = (inst', node') \<Longrightarrow> R (node, w) (node', w)"
    and R_credential: "node_add_institution_credential node cr = (crres, node') \<Longrightarrow>
      R (node, w) (node', w)"
    and R_limit: "node_upsert_institution_limit node lm = (lres, node') \<Longrightarrow> R (node, w) (node', w)"
begin

lemma keeps_call:
  "(\<And>node w r node' w'. f w node = (r, node', w') \<Longrightarrow> R (node, w) (node', w')) \<Longrightarrow> keeps R (h_call f)"
  by (rule keepsI) (auto simp: h_call_def split: prod.splits)

lemma keeps_calls [intro!, simp]:
  "keeps R (h_call (\<lambda>w node. submit_payment pf w node s r a x c))"
  "keeps R (h_call (\<lambda>w node. node_hold_payment_for_review pf w node s r a x c co))"
  "keeps R (h_call (\<lambda>w node. mint_sandbox pf w node t r a x))"
  "keeps R (h_call (\<lambda>w node. node_approve_compliance_case w node i rv rs))"
  "keeps R (h_call (\<lambda>w node. node_reject_compliance_case w node i rv rs))"
  "keeps R (h_call (\<lambda>w node. node_suspend_institution w node i))"
  "keeps R (h_call (\<lambda>w node. case node_add_institution_credential node cr of (c, node) \<Rightarrow> (c, node, w)))"
  "keeps R (h_call (\<lambda>w node. case node_upsert_institution_limit node lm of (l, node) \<Rightarrow> (l, node, w)))"
  by (rule keeps_call, erule R_submit, rule keeps_call, erule R_hold, rule keeps_call, erule R_mint,
      rule keeps_call, erule R_approve, rule keeps_call, erule R_reject, rule keeps_call,
      erule R_suspend,
      (rule keeps_call, auto split: prod.splits intro: R_credential),
      (rule keeps_call, auto split: prod.splits intro: R_limit))

text \<open>The only institutions the service writes, apart from suspending one, are new requests.\<close>

lemma keeps_call_institution [intro]:
  "inst_status inst = InstRequested \<Longrightarrow>
     keeps R (h_call (\<lambda>w node. case node_upsert_institution node inst of (j, node) \<Rightarrow> (Inr j, node, w)))"
  by (rule keeps_call) (auto split: prod.splits intro: R_institution)

lemma keeps_draw_bind:
  assumes "\<And>w. env_le w (snd (f w))" "\<And>w. P (fst (f w))" "\<And>x. P x \<Longrightarrow> keeps R (k x)"
  shows "keeps R (h_bind (h_draw f) k)"
proof (rule keepsI)
  fix s r s'
  assume run: "h_bind (h_draw f) k s = (r, s')"
  obtain node w where s: "s = (node, w)" by force
  obtain x v where x: "f w = (x, v)" by force
  have "R s (node, v)" using assms(1) [of w] x s by (auto intro: R_env)
  moreover have "R (node, v) s'"
    using run x s assms(2) [of w] by (auto simp: h_bind_def h_draw_def intro: keepsD [OF assms(3)])
  ultimately show "R s s'" by (rule R_trans)
qed

lemma keeps_create_institution: "keeps R (create_institution app hs ir)"
proof -
  have "keeps R (h_bind (h_draw (\<lambda>w. institution_new w d)) k)"
    if "idef_status d = InstRequested" "\<And>inst. inst_status inst = InstRequested \<Longrightarrow> keeps R (k inst)"
    for d :: institution_definition and k :: "_ \<Rightarrow> (nat \<times> institution) handler"
    by (rule keeps_draw_bind [of _ "\<lambda>inst. inst_status inst = InstRequested"])
      (use that in \<open>simp_all add: institution_new_def utc_now_def\<close>)
  note requested = this
  show ?thesis
    unfolding create_institution_def
    by (rule keeps_bind [OF keeps_lift], rule keeps_bind [OF keeps_authorize(7)], rule requested)
      (auto intro!: keeps_call_institution)
qed

lemma keeps_submit [intro!, simp]: "keeps R (submit_validated_payment app hs r action)"
  unfolding submit_validated_payment_def settle_or_hold_payment_def Let_def by auto

lemma keeps_writing_routes:
  "keeps R (create_payment app hs pr)"
  "keeps R (create_pacs008_payment xml app hs body)"
  "keeps R (sandbox_mint app hs mr)"
  "keeps R (create_institution_credential app hs i cr)"
  "keeps R (api_suspend_institution app hs i)"
  "keeps R (set_institution_limit app hs i lr)"
  "keeps R (api_approve_compliance_case app hs i rr)"
  "keeps R (api_reject_compliance_case app hs i rr)"
  unfolding create_payment_def create_pacs008_payment_def sandbox_mint_def
    create_institution_credential_def api_suspend_institution_def set_institution_limit_def
    api_approve_compliance_case_def api_reject_compliance_case_def Let_def
  by (auto intro!: keeps_draw)

lemma respond_keeps:
  "keeps R h \<Longrightarrow> R s (snd (respond body h s))"
  "keeps R h' \<Longrightarrow> R s (snd (respond_created body h' s))"
  by (auto simp: respond_def respond_created_def split: prod.splits sum.splits dest: keepsD)

lemma serve_keeps: "serve xml app hs req s = (answer, s') \<Longrightarrow> R s s'"
proof -
  have "R s (snd (serve xml app hs req s))"
    by (cases req) (simp_all add: R_refl respond_keeps keeps_reading_routes keeps_writing_routes
        keeps_create_institution)
  then show "serve xml app hs req s = (answer, s') \<Longrightarrow> R s s'" by simp
qed

lemma reachable_keeps: "api_reachable xml app s0 s \<Longrightarrow> R s0 s"
  by (induction rule: api_reachable.induct) (auto intro: R_refl R_trans serve_keeps)

end

section \<open>The relations\<close>

interpretation moves: service_contract node_moves
  by unfold_locales
    (auto intro: node_moves_refl node_moves_trans node_moves_env registry_moves_node
      submit_payment_moves_node hold_payment_moves_node mint_sandbox_moves_node approve_moves_node
      reject_moves_node suspend_moves_node)

text \<open>The audit log only grows.\<close>

definition audit_grows :: "service \<Rightarrow> service \<Rightarrow> bool" where
  "audit_grows s s' \<longleftrightarrow>
     prefix (led_audit_events (node_ledger (fst s))) (led_audit_events (node_ledger (fst s')))"

lemma audit_growsI:
  "led_audit_events (node_ledger node') = led_audit_events (node_ledger node) @ es \<Longrightarrow>
     audit_grows (node, w) (node', w')"
  by (simp add: audit_grows_def)

lemma audit_grows_same:
  "led_audit_events (node_ledger node') = led_audit_events (node_ledger node) \<Longrightarrow>
     audit_grows (node, w) (node', w')"
  by (simp add: audit_grows_def)

lemma produce_audit:
  "produce_and_apply_locked pf v node txs = (r, node', v') \<Longrightarrow> audit_grows (node, w) (node', w')"
  by (auto simp: produce_and_apply_locked_def Let_def audit_grows_def
      split: if_splits sum.splits prod.splits elim!: apply_block_ok)

lemma ledger_frame_audit:
  "hold_payment_for_review w p co l = Inr (hr, l', w') \<Longrightarrow> led_audit_events l' = led_audit_events l"
  "approve_compliance_case w i rv rs l = Inr (ar, l', w') \<Longrightarrow> led_audit_events l' = led_audit_events l"
  "reject_compliance_case w i rv rs l = Inr (ar, l', w') \<Longrightarrow> led_audit_events l' = led_audit_events l"
  "suspend_institution w i l = Inr (inst, l', w') \<Longrightarrow> led_audit_events l' = led_audit_events l"
  "add_institution_credential cr l = Inr (c, l') \<Longrightarrow> led_audit_events l' = led_audit_events l"
  "upsert_institution_limit lm l = Inr (m, l') \<Longrightarrow> led_audit_events l' = led_audit_events l"
  by (auto simp: hold_payment_for_review_def approve_compliance_case_def reject_compliance_case_def
      suspend_institution_def add_institution_credential_def upsert_institution_limit_def
      res_simps case_prod_unfold Let_def insert_payment_and_case_def upsert_institution_def)

interpretation audit: service_contract audit_grows
proof unfold_locales
  fix s t u assume "audit_grows s t" "audit_grows t u"
  then show "audit_grows s u" by (auto simp: audit_grows_def intro: prefix_order.trans)
qed (auto simp: audit_grows_def node_record_audit_event_def record_audit_event_def submit_payment_def
    node_hold_payment_for_review_def mint_sandbox_def node_approve_compliance_case_def
    node_reject_compliance_case_def node_suspend_institution_def node_upsert_institution_def
    upsert_institution_def node_add_institution_credential_def node_upsert_institution_limit_def
    locked_def Let_def ledger_frame_audit split: prod.splits sum.splits option.splits
    dest!: produce_audit)

text \<open>Nothing but the audit log and the environment changes: what a request that is turned away,
  or only reads, may do.\<close>

definition only_audits :: "service \<Rightarrow> service \<Rightarrow> bool" where
  "only_audits s s' \<longleftrightarrow> (\<exists>es. fst s' =
     (fst s)\<lparr>node_ledger := (node_ledger (fst s))
       \<lparr>led_audit_events := led_audit_events (node_ledger (fst s)) @ es\<rparr>\<rparr>)"

interpretation quiet: audited_relation only_audits
proof unfold_locales
  show "only_audits s s" for s by (auto simp: only_audits_def intro!: exI [of _ "[]"])
next
  fix s t u assume "only_audits s t" "only_audits t u"
  then obtain es es' where
    "fst t = (fst s)\<lparr>node_ledger := (node_ledger (fst s))
       \<lparr>led_audit_events := led_audit_events (node_ledger (fst s)) @ es\<rparr>\<rparr>"
    "fst u = (fst t)\<lparr>node_ledger := (node_ledger (fst t))
       \<lparr>led_audit_events := led_audit_events (node_ledger (fst t)) @ es'\<rparr>\<rparr>"
    unfolding only_audits_def by blast
  then show "only_audits s u" unfolding only_audits_def by (intro exI [of _ "es @ es'"]) simp
qed (auto simp: only_audits_def node_record_audit_event_def record_audit_event_def
      intro: exI [of _ "[]"])

end
