(* ===== verification/Kani_Api_Props.thy ===== *)
theory Kani_Api_Props
  imports Kani_Api_Contract
begin

text \<open>
  Properties of the HTTP API: who may do what, what a request changes, and that the running
  service stays within the reachable states of the ledger.
\<close>

section \<open>The service refines the ledger\<close>

lemma sandbox_constructors_env [simp]:
  "env_le w (snd (institution_sandbox_approved w i n c))" "env_le w (snd (account_new w i ty inst))"
  by (simp_all add: institution_sandbox_approved_def account_new_def utc_now_def)

lemma sandbox_institutions_cases:
  "sandbox_institutions w is l = (l', w') \<Longrightarrow> led_compliance_cases l' = led_compliance_cases l \<and>
     led_payments l' = led_payments l \<and> env_le w w'"
proof (induction w "is" l rule: sandbox_institutions.induct)
  case (2 w i legal_name "is" l)
  obtain inst w1 where i: "institution_sandbox_approved w i legal_name i = (inst, w1)" by force
  have "env_le w w1" using sandbox_constructors_env(1) [of w i legal_name i] i by simp
  with 2 i show ?case by (auto simp: upsert_institution_def intro: env_le_trans)
qed simp

lemma sandbox_accounts_cases:
  "sandbox_accounts w as l = (l', w') \<Longrightarrow> led_compliance_cases l' = led_compliance_cases l \<and>
     led_payments l' = led_payments l \<and> env_le w w'"
proof (induction w "as" l rule: sandbox_accounts.induct)
  case (2 w a ty i "as" l)
  obtain x w1 where x: "account_new w a ty (Some i) = (x, w1)" by force
  have "env_le w w1" using sandbox_constructors_env(2) [of w a ty "Some i"] x by simp
  with 2 x show ?case by (auto simp: upsert_account_def intro: env_le_trans)
qed simp

lemma ledger_sandbox_cases:
  "ledger_sandbox w = (l, w') \<Longrightarrow>
     led_compliance_cases l = [] \<and> led_payments l = [] \<and> env_le w w'"
  unfolding ledger_sandbox_def
  by (auto simp: Let_def ensure_balance_row_def ledger_empty_def split: prod.splits
      simp del: sandbox_institutions.simps sandbox_accounts.simps
      dest!: sandbox_institutions_cases sandbox_accounts_cases intro: env_le_trans)

text \<open>A node as it is started holds a reachable ledger without cases.\<close>

lemma node_sandbox_default_start:
  assumes "node_sandbox_default w = Inr s" "inj (uuids w)"
  shows "ledger_reachable (node_ledger (fst s)) \<and> fresh_ids s \<and>
    led_payments (node_ledger (fst s)) = [] \<and> led_compliance_cases (node_ledger (fst s)) = []"
proof -
  obtain l w1 where l: "ledger_sandbox w = (l, w1)" by force
  with assms(1) obtain e w2 where e: "build_engine w1 config_phase1_poa = Inr (e, w2)"
    and s: "s = (node_new l e hybrid_pqc_v1, w2)"
    by (auto simp: node_sandbox_default_def res_simps)
  have "uuids w2 = uuids w1"
    using e by (auto simp: build_engine_def config_phase1_poa_def poa_new_phase1_def res_simps Let_def
        utc_now_def new_uuid_def split: if_splits)
  then show ?thesis
    using sandbox_reachable [of w] ledger_sandbox_cases [OF l] assms(2) l
    by (auto simp: s node_new_def fresh_ids_def cases_drawn_def env_le_def)
qed

lemma service_runs:
  assumes "node_sandbox_default w = Inr s0" "inj (uuids w)" "api_reachable xml app s0 s"
  shows "ledger_step\<^sup>*\<^sup>* (node_ledger (fst s0)) (node_ledger (fst s)) \<and>
    ledger_reachable (node_ledger (fst s)) \<and>
    node_consensus (fst s) = node_consensus (fst s0) \<and>
    node_crypto_profile (fst s) = node_crypto_profile (fst s0)"
proof -
  have start: "ledger_reachable (node_ledger (fst s0))" "fresh_ids s0"
    using node_sandbox_default_start [OF assms(1,2)] by simp_all
  have moves: "node_moves s0 s" by (rule moves.reachable_keeps [OF assms(3)])
  have "ledger_reachable (node_ledger (fst s))"
    using node_moves_reachable [OF moves start(2,1)] by simp
  with moves start(2) show ?thesis by (simp add: node_moves_def)
qed

text \<open>
  Claim C2. The service refines the ledger. Whatever requests a freshly started service has
  served, in whatever order and with whatever credentials, its ledger was reached by a sequence
  of ledger operations, so every invariant of the reachable ledgers holds of it; the consensus
  engine and the crypto profile are the ones it was started with. The identifiers
  \<open>Uuid::new_v4\<close> returns are assumed to be distinct.
\<close>

theorem service_refines_ledger:
  assumes "node_sandbox_default w = Inr s0" "inj (uuids w)" "api_reachable xml app s0 s"
  shows "ledger_step\<^sup>*\<^sup>* (node_ledger (fst s0)) (node_ledger (fst s)) \<and>
    ledger_reachable (node_ledger (fst s)) \<and>
    node_consensus (fst s) = node_consensus (fst s0) \<and>
    node_crypto_profile (fst s) = node_crypto_profile (fst s0)"
  using service_runs [OF assms] .

section \<open>Authentication\<close>

lemma required_header_ok:
  "required_header hs name = Inr v \<longleftrightarrow> v \<noteq> [] \<and> (\<exists>t. hs name = Some (HeaderText t) \<and> trim t = v)"
  by (auto simp: required_header_def Let_def split: option.splits header_value.splits)

lemma find_distinct_key:
  assumes "distinct (map f xs)"
  shows "List.find (\<lambda>x. f x = k \<and> P x) xs = Some x \<longleftrightarrow> x \<in> set xs \<and> f x = k \<and> P x"
  using assms by (induction xs) (auto simp: image_iff)

text \<open>
  Claim C35. Authentication admits exactly the holders of a configured credential. When every
  institution has one credential, \<open>authenticate\<close> succeeds with an institution and a role
  exactly when both headers are readable and, trimmed and not empty, name a credential of that
  institution with that role; every failure is an \<open>Unauthorized\<close> error.
\<close>

theorem authenticate_exact:
  assumes "distinct (map sc_institution_id credentials)"
  shows "(authenticate credentials hs = Inr auth \<longleftrightarrow>
      (\<exists>i k c. hs INSTITUTION_ID_HEADER = Some (HeaderText i) \<and> hs API_KEY_HEADER = Some (HeaderText k) \<and>
         trim i \<noteq> [] \<and> trim k \<noteq> [] \<and> c \<in> set credentials \<and>
         sc_institution_id c = trim i \<and> sc_api_key c = trim k \<and>
         auth = \<lparr>auth_institution_id = trim i, auth_is_admin = (sc_role c = RoleAdmin)\<rparr>)) \<and>
    (\<forall>err. authenticate credentials hs = Inl err \<longrightarrow> status_code err = 401)"
proof
  have "authenticate credentials hs = Inr auth \<longleftrightarrow>
      (\<exists>i k c. required_header hs INSTITUTION_ID_HEADER = Inr i \<and>
         required_header hs API_KEY_HEADER = Inr k \<and>
         List.find (\<lambda>c. sc_institution_id c = i \<and> sc_api_key c = k) credentials = Some c \<and>
         auth = \<lparr>auth_institution_id = i, auth_is_admin = (sc_role c = RoleAdmin)\<rparr>)"
    unfolding authenticate_def
    by (cases "required_header hs INSTITUTION_ID_HEADER"; cases "required_header hs API_KEY_HEADER")
      (auto split: option.split)
  then show "authenticate credentials hs = Inr auth \<longleftrightarrow>
      (\<exists>i k c. hs INSTITUTION_ID_HEADER = Some (HeaderText i) \<and> hs API_KEY_HEADER = Some (HeaderText k) \<and>
         trim i \<noteq> [] \<and> trim k \<noteq> [] \<and> c \<in> set credentials \<and>
         sc_institution_id c = trim i \<and> sc_api_key c = trim k \<and>
         auth = \<lparr>auth_institution_id = trim i, auth_is_admin = (sc_role c = RoleAdmin)\<rparr>)"
    unfolding find_distinct_key [OF assms] required_header_ok by blast
  show "\<forall>err. authenticate credentials hs = Inl err \<longrightarrow> status_code err = 401"
    by (auto simp: authenticate_def required_header_def res_simps Let_def
        split: option.splits header_value.splits if_splits)
qed

section \<open>Requests that are turned away\<close>

definition turned_away :: "'a handler \<Rightarrow> bool" where
  "turned_away h \<longleftrightarrow> (\<forall>s. \<exists>err s'. h s = (Inl err, s') \<and> only_audits s s')"

lemma turned_awayE:
  assumes "turned_away h"
  obtains err s' where "h s = (Inl err, s')" "only_audits s s'"
  using assms unfolding turned_away_def by blast

lemma turned_away_fail [simp]: "turned_away (h_fail e)"
  by (simp add: turned_away_def h_fail_def quiet.R_refl)

lemma turned_away_bind [intro]: "turned_away h \<Longrightarrow> turned_away (h_bind h k)"
proof -
  assume h: "turned_away h"
  show "turned_away (h_bind h k)"
    unfolding turned_away_def
  proof
    fix s
    show "\<exists>err s'. h_bind h k s = (Inl err, s') \<and> only_audits s s'"
      by (rule turned_awayE [OF h, of s]) (simp add: h_bind_def)
  qed
qed

lemma turned_away_after:
  assumes "keeps only_audits h" "\<And>x. turned_away (k x)"
  shows "turned_away (h_bind h k)"
  unfolding turned_away_def
proof
  fix s
  obtain r t where h: "h s = (r, t)" by (rule prod.exhaust)
  have st: "only_audits s t" using assms(1) h by (rule keepsD)
  show "\<exists>err s'. h_bind h k s = (Inl err, s') \<and> only_audits s s'"
  proof (cases r)
    case (Inl e)
    with h st show ?thesis by (simp add: h_bind_def)
  next
    case (Inr x)
    obtain err s' where "k x t = (Inl err, s')" "only_audits t s'"
      by (rule turned_awayE [OF assms(2)])
    with h Inr st show ?thesis by (auto simp: h_bind_def intro: quiet.R_trans)
  qed
qed

lemma turned_away_lift [intro]: "(\<And>x. turned_away (k x)) \<Longrightarrow> turned_away (h_bind (h_lift r) k)"
  by (rule turned_away_after) simp_all

lemma turned_away_or_denied:
  assumes "turned_away h"
  shows "turned_away (or_denied hs auth action resource h)"
  unfolding turned_away_def
proof
  fix s
  obtain err t where h: "h s = (Inl err, t)" "only_audits s t"
    by (rule turned_awayE [OF assms])
  have "turned_away (h_bind (audit_authorization_denied hs (Some auth) action resource err)
      (\<lambda>_. h_fail err :: 'a handler))"
    by (rule turned_away_after) simp_all
  then obtain err' s' where "h_bind (audit_authorization_denied hs (Some auth) action resource err)
      (\<lambda>_. h_fail err :: 'a handler) t = (Inl err', s')" "only_audits t s'"
    by (rule turned_awayE)
  with h show "\<exists>err s'. or_denied hs auth action resource h s = (Inl err, s') \<and> only_audits s s'"
    unfolding or_denied_def by (auto intro: quiet.R_trans)
qed

lemma authenticate_turned_away:
  assumes "authenticate (app_auth app) hs = Inl err"
  shows "turned_away (authenticate_request app hs action resource)"
  unfolding authenticate_request_def using assms by (simp add: turned_away_after)

lemma authorize_admin_turned_away:
  assumes "\<not> (\<exists>auth. authenticate (app_auth app) hs = Inr auth \<and> auth_is_admin auth)"
  shows "turned_away (authorize_admin_request app hs action resource)"
proof (cases "authenticate (app_auth app) hs")
  case (Inl err)
  then show ?thesis
    unfolding authorize_admin_request_def by (intro turned_away_bind authenticate_turned_away)
next
  case (Inr auth)
  have lift: "turned_away (h_lift (Inl e))" for e
    by (simp add: turned_away_def h_lift_def quiet.R_refl)
  have "authenticate_request app hs action resource = h_return auth"
    using Inr by (simp add: authenticate_request_def)
  moreover have "turned_away (or_denied hs auth action resource (h_lift (authorize_admin auth)))"
    using Inr assms lift by (intro turned_away_or_denied) (auto simp: authorize_admin_def)
  ultimately show ?thesis
    unfolding authorize_admin_request_def by (auto intro: turned_away_bind)
qed

text \<open>The routes for administrators, and the ones that need no credential.\<close>

fun admin_route :: "api_request \<Rightarrow> bool" where
  "admin_route GetInstitutions = True"
| "admin_route (PostInstitution r) = True"
| "admin_route (GetInstitution i) = True"
| "admin_route (PostInstitutionCredential i r) = True"
| "admin_route (PostSuspendInstitution i) = True"
| "admin_route (PostInstitutionLimit i r) = True"
| "admin_route (GetComplianceCases q) = True"
| "admin_route (GetComplianceCase i) = True"
| "admin_route (PostApproveCase i r) = True"
| "admin_route (PostRejectCase i r) = True"
| "admin_route GetAccounts = True"
| "admin_route (GetPendingTransactions q) = True"
| "admin_route (GetIssued a) = True"
| "admin_route (GetBlocks q) = True"
| "admin_route GetLatestBlock = True"
| "admin_route (GetAuditEvents q) = True"
| "admin_route (GetSettlementSummary q) = True"
| "admin_route (GetComplianceDecisions q) = True"
| "admin_route (GetValidatorFinality q) = True"
| "admin_route GetValidators = True"
| "admin_route _ = False"

definition public_route :: "api_request \<Rightarrow> bool" where
  "public_route req \<longleftrightarrow> req = GetHealth \<or> req = GetOpenApi"

lemmas admin_route_defs =
  get_institutions_def create_institution_def api_get_institution_def
  create_institution_credential_def api_suspend_institution_def set_institution_limit_def
  get_compliance_cases_def api_get_compliance_case_def api_approve_compliance_case_def
  api_reject_compliance_case_def get_accounts_def get_pending_transactions_def get_issued_def
  get_blocks_def get_latest_block_def get_audit_events_def get_settlement_summary_report_def
  get_compliance_decision_report_def get_validator_finality_report_def get_validators_def

lemmas institution_route_defs =
  create_payment_def create_pacs008_payment_def submit_validated_payment_def api_get_payment_def
  get_pacs002_status_def read_authorized_payment_def get_camt053_statement_def get_balance_def
  authorized_account_read_def sandbox_mint_def

definition refused :: "service \<Rightarrow> api_response \<Rightarrow> bool" where
  "refused s answer \<longleftrightarrow>
     (\<exists>err s'. answer = ((status_code err, ErrorBody (api_error_message err)), s') \<and> only_audits s s')"

lemma respond_refused:
  assumes "turned_away h"
  shows "refused s (respond body h s)"
  by (rule turned_awayE [OF assms, of s]) (auto simp: respond_def refused_def)

lemma respond_created_refused:
  assumes "turned_away h"
  shows "refused s (respond_created body h s)"
  by (rule turned_awayE [OF assms, of s]) (auto simp: respond_created_def refused_def)

lemma admin_handlers_turned_away:
  assumes "\<not> (\<exists>auth. authenticate (app_auth app) hs = Inr auth \<and> auth_is_admin auth)"
  shows "turned_away (get_institutions app hs)" "turned_away (create_institution app hs ir)"
    "turned_away (api_get_institution app hs i)"
    "turned_away (create_institution_credential app hs i cr)"
    "turned_away (api_suspend_institution app hs i)" "turned_away (set_institution_limit app hs i lr)"
    "turned_away (get_compliance_cases app hs q)" "turned_away (api_get_compliance_case app hs i)"
    "turned_away (api_approve_compliance_case app hs i rr)"
    "turned_away (api_reject_compliance_case app hs i rr)" "turned_away (get_accounts app hs)"
    "turned_away (get_pending_transactions app hs q)" "turned_away (get_issued app hs a)"
    "turned_away (get_blocks app hs q)" "turned_away (get_latest_block app hs)"
    "turned_away (get_audit_events app hs aq)" "turned_away (get_settlement_summary_report app hs rq)"
    "turned_away (get_compliance_decision_report app hs rq)"
    "turned_away (get_validator_finality_report app hs rq)" "turned_away (get_validators app hs)"
  unfolding admin_route_defs
  by ((rule turned_away_lift | rule turned_away_bind | rule authorize_admin_turned_away [OF assms])+)

lemma institution_handlers_turned_away:
  assumes "authenticate (app_auth app) hs = Inl err"
  shows "turned_away (submit_validated_payment app hs r action)"
    "turned_away (create_payment app hs pr)"
    "turned_away (create_pacs008_payment xml app hs body)"
    "turned_away (api_get_payment app hs i)" "turned_away (get_pacs002_status app hs i)"
    "turned_away (get_camt053_statement app hs i cq)" "turned_away (get_balance app hs i a)"
    "turned_away (sandbox_mint app hs mr)"
  unfolding institution_route_defs Let_def
  by ((rule turned_away_lift | rule turned_away_bind | rule authenticate_turned_away [OF assms])+)

text \<open>
  Claim C24. Without the right credential a request changes nothing but the audit log. Every
  route but the health check and the API description answers a request whose headers do not
  authenticate, and every administrator's route a request of an institution that is not an
  administrator, with an error, and leaves the node as it was except for recorded audit events.
\<close>

theorem routes_guarded:
  assumes "\<not> public_route req"
    and "\<not> (\<exists>auth. authenticate (app_auth app) hs = Inr auth \<and> (admin_route req \<longrightarrow> auth_is_admin auth))"
  shows "\<exists>err s'. serve xml app hs req s = ((status_code err, ErrorBody (api_error_message err)), s') \<and>
    only_audits s s'"
proof -
  have "refused s (serve xml app hs req s)"
  proof (cases "admin_route req")
    case True
    with assms(2) have "\<not> (\<exists>auth. authenticate (app_auth app) hs = Inr auth \<and> auth_is_admin auth)" by simp
    note away = admin_handlers_turned_away [OF this]
    from True show ?thesis
      by (cases req) (simp_all add: respond_refused respond_created_refused away)
  next
    case False
    with assms(2) obtain err where "authenticate (app_auth app) hs = Inl err"
      by (cases "authenticate (app_auth app) hs") auto
    note away = institution_handlers_turned_away [OF this]
    from False assms(1) show ?thesis
      by (cases req) (simp_all add: public_route_def respond_refused respond_created_refused away)
  qed
  then show ?thesis by (simp add: refused_def)
qed

section \<open>Successful handlers, taken apart\<close>

lemma h_read_ok: "h_read f (node, w) = (Inr x, s') \<longleftrightarrow> f node = Inr x \<and> s' = (node, w)"
  by (auto simp: h_read_def)

lemma ledger_read_ok:
  "ledger_read f (node, w) = (Inr x, s') \<longleftrightarrow> f (node_ledger node) = Inr x \<and> s' = (node, w)"
  by (auto simp: ledger_read_def h_read_ok res_simps)

lemma h_call_ok:
  "h_call f (node, w) = (Inr x, node', w') \<longleftrightarrow> f w node = (Inr x, node', w')"
  by (cases "f w node") (auto simp: h_call_def res_simps)

lemma or_denied_ok: "or_denied hs auth action resource h s = (Inr x, s') \<longleftrightarrow> h s = (Inr x, s')"
  by (auto simp: or_denied_def h_bind_def split: prod.splits sum.splits)

lemma authenticate_request_ok:
  "authenticate_request app hs action resource s = (Inr auth, s') \<longleftrightarrow>
     authenticate (app_auth app) hs = Inr auth \<and> s' = s"
  by (auto simp: authenticate_request_def h_bind_def split: sum.splits prod.splits)

text \<open>Who may act for an account.\<close>

definition controls :: "ledger \<Rightarrow> authenticated_institution \<Rightarrow> string \<Rightarrow> account \<Rightarrow> bool" where
  "controls l auth i a \<longleftrightarrow> a \<in> set (accounts l) \<and> acc_id a = i \<and>
     acc_institution_id a = Some (auth_institution_id auth) \<and>
     (\<exists>inst. get_institution l (auth_institution_id auth) = Inr inst \<and> inst_status inst = InstApproved)"

lemma authorize_account_access_ok:
  "authorize_account_access auth i action (node, w) = (Inr a, s') \<Longrightarrow>
     s' = (node, w) \<and> controls (node_ledger node) auth i a"
  unfolding authorize_account_access_def ensure_account_exists_def ensure_institution_can_operate_def
  by (auto elim!: h_bind_okE simp: h_read_ok ledger_read_ok ok_or_eq_Inr controls_def
      dest!: find_Some_in split: if_splits)

lemma ensure_account_exists_ok:
  "ensure_account_exists i s = (Inr a, s') \<Longrightarrow> s' = s"
  by (cases s) (auto simp: ensure_account_exists_def h_read_ok)

lemma audit_ok:
  "audit_authorization_allowed hs auth action resource s = (r, s') \<Longrightarrow> only_audits s s'"
  "audit_compliance_decision hs auth action resource payment result s = (r, s') \<Longrightarrow> only_audits s s'"
  "audit_compliance_case_event auth et c p m s = (r, s') \<Longrightarrow> only_audits s s'"
  by (rule keepsD [OF quiet.keeps_audits(2)], assumption, rule keepsD [OF quiet.keeps_audits(4)],
      assumption, rule keepsD [OF quiet.keeps_audits(5)], assumption)

lemma enforce_payment_compliance_ok:
  assumes "enforce_payment_compliance app hs auth action resource r s = (Inr held, s')"
  shows "only_audits s s' \<and> admissible (app_policy app) (compliance_payment_of r) \<and>
    (held = None \<longleftrightarrow> vp_amount r \<le> pol_max_payment_amount (app_policy app)) \<and>
    (\<forall>result. held = Some result \<longrightarrow>
       result = screen_sandbox_payment_with_policy (app_policy app) (compliance_payment_of r))"
proof -
  let ?d = "cr_decision (screen_sandbox_payment_with_policy (app_policy app) (compliance_payment_of r))"
  have amount: "cpay_amount (compliance_payment_of r) = vp_amount r"
    by (simp add: compliance_payment_of_def)
  consider "?d = Allow" | "?d = Review" | "?d = Reject" by (cases ?d) auto
  then show ?thesis
  proof cases
    case 1
    with assms show ?thesis
      using 1 [unfolded screen_allow_iff amount]
      by (auto simp: enforce_payment_compliance_def Let_def elim!: h_bind_okE dest: audit_ok)
  next
    case 2
    with assms show ?thesis
      using 2 [unfolded screen_review_iff amount]
      by (auto simp: enforce_payment_compliance_def Let_def elim!: h_bind_okE dest: audit_ok)
  next
    case 3
    with assms show ?thesis
      by (auto simp: enforce_payment_compliance_def Let_def elim!: h_bind_okE)
  qed
qed

text \<open>The node operation an accepted payment request ends in.\<close>

definition review_case ::
  "app_state \<Rightarrow> authenticated_institution \<Rightarrow> validated_payment_request \<Rightarrow> compliance_case_open" where
  "review_case app auth r =
     (let result = screen_sandbox_payment_with_policy (app_policy app) (compliance_payment_of r) in
      \<lparr>copen_payment_id = [], copen_policy_version = SANDBOX_COMPLIANCE_POLICY_VERSION,
       copen_rule_id = cr_rule_id result, copen_reason = cr_reason result,
       copen_opened_by_institution = auth_institution_id auth\<rparr>)"

definition settles_or_holds ::
  "app_state \<Rightarrow> authenticated_institution \<Rightarrow> validated_payment_request \<Rightarrow> string option
    \<Rightarrow> service \<Rightarrow> payment_record \<Rightarrow> service \<Rightarrow> bool" where
  "settles_or_holds app auth r cri s p s' \<longleftrightarrow>
     (if vp_amount r \<le> pol_max_payment_amount (app_policy app)
      then submit_payment (app_platform app) (snd s) (fst s) (vp_from r) (vp_to r) (vp_asset r)
             (vp_amount r) cri = (Inr p, s')
      else \<exists>c t. node_hold_payment_for_review (app_platform app) (snd s) (fst s) (vp_from r)
             (vp_to r) (vp_asset r) (vp_amount r) cri (review_case app auth r) = (Inr (p, c), t) \<and>
           only_audits t s')"

lemma settle_or_hold_payment_ok:
  assumes "settle_or_hold_payment app auth r cri held s = (Inr resp, s')"
    and "held = None \<longleftrightarrow> vp_amount r \<le> pol_max_payment_amount (app_policy app)"
    and "\<forall>result. held = Some result \<longrightarrow>
       result = screen_sandbox_payment_with_policy (app_policy app) (compliance_payment_of r)"
  shows "\<exists>p. settles_or_holds app auth r cri s p s' \<and> resp = payment_response_from p"
proof (cases held)
  case None
  with assms show ?thesis
    by (cases s) (auto simp: settle_or_hold_payment_def settles_or_holds_def h_call_ok elim!: h_bind_okE)
next
  case (Some result)
  obtain node w where s: "s = (node, w)" by force
  from assms(1) Some obtain p c t u where
    hold: "h_call (\<lambda>w node. node_hold_payment_for_review (app_platform app) w node (vp_from r)
        (vp_to r) (vp_asset r) (vp_amount r) cri (review_case app auth r)) s = (Inr (p, c), t)"
    and ev: "audit_compliance_case_event auth ''COMPLIANCE_CASE_OPENED'' c (Some p)
        (''compliance case '' @ case_id c @ '' opened for payment '' @ tx_id (pay_transaction p)) t
        = (u, s')"
    and resp: "resp = payment_response_from p"
    using assms(3) unfolding settle_or_hold_payment_def review_case_def Let_def
    by (auto elim!: h_bind_okE)
  obtain tn tw where t: "t = (tn, tw)" by force
  show ?thesis
    using assms(2) Some hold audit_ok(3) [OF ev] resp
    by (auto simp: settles_or_holds_def s t h_call_ok)
qed

lemma submit_validated_payment_okE:
  assumes "submit_validated_payment app hs r action (node, w) = (Inr resp, s')"
  obtains auth a cri s1 p where "authenticate (app_auth app) hs = Inr auth"
    and "controls (node_ledger node) auth (vp_from r) a"
    and "admissible (app_policy app) (compliance_payment_of r)"
    and "normalized_client_reference_id (vp_client_reference_id r) (vp_idempotency_key r) = Inr cri"
    and "only_audits (node, w) s1" and "settles_or_holds app auth r cri s1 p s'"
    and "resp = payment_response_from p"
proof -
  let ?res = "''account:'' @ vp_from r"
  note run = assms [unfolded submit_validated_payment_def Let_def]
  obtain auth s0 where auth: "authenticate_request app hs action ?res (node, w) = (Inr auth, s0)"
    and run: "h_bind (or_denied hs auth action ?res (authorize_account_control auth (vp_from r)))
      (\<lambda>_. h_bind (audit_authorization_allowed hs auth action ?res) (\<lambda>_.
        h_bind (ensure_account_exists (vp_to r)) (\<lambda>_.
        h_bind (h_lift (normalized_client_reference_id (vp_client_reference_id r)
          (vp_idempotency_key r))) (\<lambda>cri.
        h_bind (enforce_payment_compliance app hs auth action ?res r)
          (settle_or_hold_payment app auth r cri))))) s0 = (Inr resp, s')"
    using run by (rule h_bind_okE)
  obtain a s1 where a: "or_denied hs auth action ?res (authorize_account_control auth (vp_from r)) s0
      = (Inr a, s1)"
    and run: "h_bind (audit_authorization_allowed hs auth action ?res) (\<lambda>_.
        h_bind (ensure_account_exists (vp_to r)) (\<lambda>_.
        h_bind (h_lift (normalized_client_reference_id (vp_client_reference_id r)
          (vp_idempotency_key r))) (\<lambda>cri.
        h_bind (enforce_payment_compliance app hs auth action ?res r)
          (settle_or_hold_payment app auth r cri)))) s1 = (Inr resp, s')"
    using run by (rule h_bind_okE)
  obtain u1 s2 where s2: "audit_authorization_allowed hs auth action ?res s1 = (Inr u1, s2)"
    and run: "h_bind (ensure_account_exists (vp_to r)) (\<lambda>_.
        h_bind (h_lift (normalized_client_reference_id (vp_client_reference_id r)
          (vp_idempotency_key r))) (\<lambda>cri.
        h_bind (enforce_payment_compliance app hs auth action ?res r)
          (settle_or_hold_payment app auth r cri))) s2 = (Inr resp, s')"
    using run by (rule h_bind_okE)
  obtain b cri held s3 where b: "ensure_account_exists (vp_to r) s2 = (Inr b, s2)"
    and cri: "normalized_client_reference_id (vp_client_reference_id r) (vp_idempotency_key r) = Inr cri"
    and held: "enforce_payment_compliance app hs auth action ?res r s2 = (Inr held, s3)"
    and rest: "settle_or_hold_payment app auth r cri held s3 = (Inr resp, s')"
    using run by (elim h_bind_okE) (simp add: ensure_account_exists_ok, metis ensure_account_exists_ok)
  have auth: "authenticate (app_auth app) hs = Inr auth" "s0 = (node, w)"
    using auth by (simp_all add: authenticate_request_ok)
  have a: "authorize_account_control auth (vp_from r) (node, w) = (Inr a, s1)"
    using a auth(2) by (simp add: or_denied_ok)
  have own: "s1 = (node, w)" "controls (node_ledger node) auth (vp_from r) a"
    using authorize_account_access_ok a unfolding authorize_account_control_def by blast+
  note gate = enforce_payment_compliance_ok [OF held]
  have "only_audits (node, w) s3"
    using audit_ok(1) [OF s2] gate own(1) by (blast intro: quiet.R_trans)
  moreover obtain p where "settles_or_holds app auth r cri s3 p s'" "resp = payment_response_from p"
    using settle_or_hold_payment_ok [OF rest] gate by blast
  ultimately show thesis using that auth own(2) gate cri by blast
qed

section \<open>Failed payments\<close>

text \<open>A handler that, when it fails, has only recorded audit events.\<close>

definition fails_quietly :: "'a handler \<Rightarrow> bool" where
  "fails_quietly h \<longleftrightarrow> (\<forall>s e s'. h s = (Inl e, s') \<longrightarrow> only_audits s s')"

lemma fails_quietly_keeps [intro]: "keeps only_audits h \<Longrightarrow> fails_quietly h"
  by (auto simp: fails_quietly_def dest: keepsD)

lemma fails_quietly_after:
  assumes "keeps only_audits h" "\<And>x. fails_quietly (k x)"
  shows "fails_quietly (h_bind h k)"
  unfolding fails_quietly_def
proof (intro allI impI)
  fix s e s'
  assume run: "h_bind h k s = (Inl e, s')"
  obtain r t where h: "h s = (r, t)" by (rule prod.exhaust)
  have st: "only_audits s t" using assms(1) h by (rule keepsD)
  show "only_audits s s'"
  proof (cases r)
    case (Inl err)
    with run h st show ?thesis by (simp add: h_bind_def)
  next
    case (Inr x)
    with run h have "k x t = (Inl e, s')" by (simp add: h_bind_def)
    with assms(2) have "only_audits t s'" unfolding fails_quietly_def by blast
    with st show ?thesis by (rule quiet.R_trans)
  qed
qed

lemma fails_quietly_last:
  assumes "fails_quietly h" "\<And>x s. \<exists>y. fst (k x s) = Inr y"
  shows "fails_quietly (h_bind h k)"
  unfolding fails_quietly_def
proof (intro allI impI)
  fix s e s'
  assume run: "h_bind h k s = (Inl e, s')"
  obtain r t where h: "h s = (r, t)" by (rule prod.exhaust)
  have "r = Inl e \<and> s' = t"
  proof (cases r)
    case (Inl err)
    with run h show ?thesis by (simp add: h_bind_def)
  next
    case (Inr x)
    with run h have "fst (k x t) = Inl e" by (simp add: h_bind_def)
    moreover obtain y where "fst (k x t) = Inr y" using assms(2) by blast
    ultimately show ?thesis by simp
  qed
  with h have "h s = (Inl e, s')" by simp
  with assms(1) show "only_audits s s'" unfolding fails_quietly_def by blast
qed

lemma record_event_ok [simp]: "fst (record_event t m bh ti md s) = Inr ()"
  by (cases s) (simp add: record_event_def Let_def case_prod_unfold)

lemma produce_error_same:
  assumes "produce_and_apply_locked pf w node txs = (Inl e, node', w')"
  shows "node' = node"
proof (rule ccontr)
  assume "node' \<noteq> node"
  with assms obtain b w1 l' where b: "build_block pf w node (node_ledger node) txs = Inr (b, w1)"
    and ab: "apply_block w1 b (node_ledger node) = (Inr [], l', w')" and txs: "txs \<noteq> []"
    by (auto simp: produce_and_apply_locked_def Let_def
        split: if_splits sum.splits prod.splits list.splits)
  obtain work w2 where "apply_txs w1 (node_ledger node) (blk_height b) (blk_hash b) (blk_txs b)
      (working_copy (node_ledger node)) = Inr ([], work, w2)"
    using apply_block_ok [OF ab] by metis
  from apply_txs_records [OF this] txs build_block_txs [OF b] show False by simp
qed

lemma node_error_same:
  "submit_payment pf w node s r a x c = (Inl e, node', w') \<Longrightarrow> node' = node"
  "node_hold_payment_for_review pf w node s r a x c co = (Inl e, node', w') \<Longrightarrow> node' = node"
  "mint_sandbox pf w node t r a x = (Inl e, node', w') \<Longrightarrow> node' = node"
  by (auto simp: submit_payment_def node_hold_payment_for_review_def mint_sandbox_def Let_def
      hold_payment_for_review_def split: prod.splits sum.splits option.splits dest: produce_error_same)

lemma only_audits_env: "only_audits (node, w) (node, w')"
  by (auto simp: only_audits_def intro: exI [of _ "[]"])

lemma h_call_fails_quietly:
  "(\<And>w node e node' w'. f w node = (Inl e, node', w') \<Longrightarrow> node' = node) \<Longrightarrow> fails_quietly (h_call f)"
  by (auto simp: fails_quietly_def h_call_def res_simps split: prod.splits) (metis only_audits_env)

lemma audit_case_always [simp]: "fst (audit_compliance_case_event auth et c p m s) = Inr ()"
  by (simp add: audit_compliance_case_event_def Let_def)

lemma settle_or_hold_fails_quietly: "fails_quietly (settle_or_hold_payment app auth r cri held)"
proof (cases held)
  case None
  show ?thesis
    unfolding settle_or_hold_payment_def None option.case
    by (intro fails_quietly_last h_call_fails_quietly) (auto dest: node_error_same)
next
  case (Some result)
  show ?thesis
    unfolding settle_or_hold_payment_def Some option.case
    by (intro fails_quietly_last h_call_fails_quietly)
      (auto dest: node_error_same intro!: h_bind_ok split: prod.split)
qed

lemma submit_fails_quietly: "fails_quietly (submit_validated_payment app hs r action)"
  unfolding submit_validated_payment_def Let_def
  by (intro fails_quietly_after settle_or_hold_fails_quietly) auto

text \<open>
  Claim C8. A payment is accepted only from who controls the account, and only after screening.
  When a payment request succeeds, its headers authenticate an approved institution that holds
  the debited account and the screening found it admissible; the service then has settled it
  with \<open>submit_payment\<close> if it is within the limit and has otherwise held it for review. When
  it fails, nothing but the audit log has changed: no money moved and no key was used up.
\<close>

theorem payment_gate:
  shows "case submit_validated_payment app hs r action (node, w) of
      (Inl err, s') \<Rightarrow> only_audits (node, w) s'
    | (Inr resp, s') \<Rightarrow> \<exists>auth a cri s1 p.
        authenticate (app_auth app) hs = Inr auth \<and>
        controls (node_ledger node) auth (vp_from r) a \<and>
        admissible (app_policy app) (compliance_payment_of r) \<and>
        normalized_client_reference_id (vp_client_reference_id r) (vp_idempotency_key r) = Inr cri \<and>
        only_audits (node, w) s1 \<and> settles_or_holds app auth r cri s1 p s' \<and>
        resp = payment_response_from p"
proof -
  obtain res s' where run: "submit_validated_payment app hs r action (node, w) = (res, s')"
    by (rule prod.exhaust)
  show ?thesis
  proof (cases res)
    case (Inl err)
    with run submit_fails_quietly show ?thesis unfolding fails_quietly_def by force
  next
    case (Inr resp)
    show ?thesis
      unfolding run Inr prod.case sum.case
      by (rule submit_validated_payment_okE [OF run [unfolded Inr]]) blast
  qed
qed

section \<open>Suspension\<close>

text \<open>An institution that exists and is not approved: the service never approves one.\<close>

definition locked_out :: "string \<Rightarrow> ledger \<Rightarrow> bool" where
  "locked_out i l \<longleftrightarrow> (\<forall>inst. get_institution l i = Inr inst \<longrightarrow> inst_status inst \<noteq> InstApproved)"

definition stays_locked_out :: "string \<Rightarrow> service \<Rightarrow> service \<Rightarrow> bool" where
  "stays_locked_out i s s' \<longleftrightarrow>
     (locked_out i (node_ledger (fst s)) \<longrightarrow> locked_out i (node_ledger (fst s')))"

lemma produce_institutions:
  "produce_and_apply_locked pf w node txs = (r, node', w') \<Longrightarrow>
     led_institutions (node_ledger node') = led_institutions (node_ledger node)"
  by (auto simp: produce_and_apply_locked_def Let_def commit_working_def
      split: if_splits sum.splits prod.splits list.splits elim!: apply_block_ok)

lemma submit_institutions:
  "submit_payment pf w node s r a x c = (res, node', w') \<Longrightarrow>
     led_institutions (node_ledger node') = led_institutions (node_ledger node)"
  "node_hold_payment_for_review pf w node s r a x c co = (hres, node', w') \<Longrightarrow>
     led_institutions (node_ledger node') = led_institutions (node_ledger node)"
  "mint_sandbox pf w node t r a x = (res, node', w') \<Longrightarrow>
     led_institutions (node_ledger node') = led_institutions (node_ledger node)"
  by (auto simp: submit_payment_def node_hold_payment_for_review_def mint_sandbox_def Let_def
      hold_payment_for_review_def insert_payment_and_case_def
      split: prod.splits sum.splits option.splits dest: produce_institutions)

lemma decide_institutions:
  "node_approve_compliance_case w node i rv rs = (cres, node', w') \<Longrightarrow>
     led_institutions (node_ledger node') = led_institutions (node_ledger node)"
  "node_reject_compliance_case w node i rv rs = (cres, node', w') \<Longrightarrow>
     led_institutions (node_ledger node') = led_institutions (node_ledger node)"
  by (auto simp: node_approve_compliance_case_def node_reject_compliance_case_def locked_def
      insert_payment_and_case_def split: sum.splits prod.splits
      elim!: approve_compliance_case_okE reject_compliance_case_okE)

lemma registry_institutions:
  "node_add_institution_credential node cr = (crres, node') \<Longrightarrow>
     led_institutions (node_ledger node') = led_institutions (node_ledger node)"
  "node_upsert_institution_limit node lm = (lres, node') \<Longrightarrow>
     led_institutions (node_ledger node') = led_institutions (node_ledger node)"
  "led_institutions (node_ledger (node_record_audit_event node e)) = led_institutions (node_ledger node)"
  by (auto simp: node_add_institution_credential_def node_upsert_institution_limit_def
      add_institution_credential_def upsert_institution_limit_def res_simps
      node_record_audit_event_def record_audit_event_def split: sum.splits prod.splits)

lemma stays_locked_out_same:
  "led_institutions (node_ledger node') = led_institutions (node_ledger node) \<Longrightarrow>
     stays_locked_out i (node, w) (node', w')"
  by (simp add: stays_locked_out_def locked_out_def get_institution_def)

lemma stays_locked_out_insert:
  "node_ledger node' = upsert_institution inst (node_ledger node) \<Longrightarrow> inst_status inst \<noteq> InstApproved \<Longrightarrow>
     stays_locked_out i (node, w) (node', w')"
  by (auto simp: stays_locked_out_def locked_out_def get_institution_def upsert_institution_def
      map_simps res_simps)

lemma suspend_institution_ok:
  "suspend_institution w j l = Inr (inst, l', w') \<Longrightarrow>
     inst_status inst = InstSuspended \<and> l' = upsert_institution inst l \<and>
     (\<exists>old. get_institution l j = Inr old \<and> inst_id inst = inst_id old)"
  by (auto simp: suspend_institution_def institution_suspended_def utc_now_def res_simps Let_def)

lemma suspend_locks_out:
  assumes "node_suspend_institution w node j = (res, node', w')"
  shows "stays_locked_out i (node, w) (node', w')"
proof (cases "suspend_institution w j (node_ledger node)")
  case (Inl e)
  with assms show ?thesis
    by (simp add: node_suspend_institution_def locked_def stays_locked_out_same)
next
  case (Inr x)
  obtain inst l' v where x: "x = (inst, l', v)" by (rule prod_cases3)
  have "inst_status inst = InstSuspended" "l' = upsert_institution inst (node_ledger node)"
    using suspend_institution_ok [OF Inr [unfolded x]] by simp_all
  with assms Inr x show ?thesis
    by (intro stays_locked_out_insert [of _ inst])
      (auto simp: node_suspend_institution_def locked_def)
qed

lemma request_locks_out:
  assumes "inst_status inst = InstRequested" "node_upsert_institution node inst = (inst', node')"
  shows "stays_locked_out i (node, w) (node', w)"
  by (rule stays_locked_out_insert [of _ inst]) (use assms in \<open>auto simp: node_upsert_institution_def\<close>)

interpretation lockout: service_contract "stays_locked_out i" for i
proof unfold_locales
  show "stays_locked_out i s s" for s by (simp add: stays_locked_out_def)
  show "stays_locked_out i s u" if "stays_locked_out i s t" "stays_locked_out i t u" for s t u
    using that by (simp add: stays_locked_out_def)
qed (erule request_locks_out suspend_locks_out | rule stays_locked_out_same |
      erule submit_institutions decide_institutions registry_institutions(1,2) |
      simp add: registry_institutions(3))+

text \<open>A handler that succeeds only for who controls an account.\<close>

lemma authorized_account_read_okE:
  assumes "authorized_account_read app hs action resource i (node, w) = (Inr u, s')"
  obtains auth a where "authenticate (app_auth app) hs = Inr auth" "controls (node_ledger node) auth i a"
  using assms unfolding authorized_account_read_def
  by (elim h_bind_okE)
    (auto simp: authenticate_request_ok or_denied_ok authorize_account_read_def
      dest!: authorize_account_access_ok)

lemma controlling_handlers:
  assumes "authenticate (app_auth app) hs = Inr auth" "\<And>i a. \<not> controls (node_ledger node) auth i a"
  shows "fst (submit_validated_payment app hs r action (node, w)) \<noteq> Inr resp"
    "fst (create_payment app hs pr (node, w)) \<noteq> Inr presp"
    "fst (create_pacs008_payment xml app hs body (node, w)) \<noteq> Inr isoresp"
    "fst (sandbox_mint app hs mr (node, w)) \<noteq> Inr presp"
    "fst (get_balance app hs i asset (node, w)) \<noteq> Inr bresp"
    "fst (get_camt053_statement app hs i cq (node, w)) \<noteq> Inr xmltext"
proof -
  have submit: "submit_validated_payment app hs r action (node, w) \<noteq> (Inr resp, s')" for r action resp s'
    by (rule notI, erule submit_validated_payment_okE) (use assms in auto)
  then show "fst (submit_validated_payment app hs r action (node, w)) \<noteq> Inr resp"
    by (metis prod.collapse)
  show "fst (create_payment app hs pr (node, w)) \<noteq> Inr presp"
  proof
    assume "fst (create_payment app hs pr (node, w)) = Inr presp"
    then obtain s' where "create_payment app hs pr (node, w) = (Inr presp, s')" by (metis prod.collapse)
    then show False unfolding create_payment_def by (elim h_bind_okE) (auto simp: submit)
  qed
  show "fst (create_pacs008_payment xml app hs body (node, w)) \<noteq> Inr isoresp"
  proof
    assume "fst (create_pacs008_payment xml app hs body (node, w)) = Inr isoresp"
    then obtain s' where "create_pacs008_payment xml app hs body (node, w) = (Inr isoresp, s')"
      by (metis prod.collapse)
    then show False unfolding create_pacs008_payment_def by (elim h_bind_okE) (auto simp: submit)
  qed
  show "fst (sandbox_mint app hs mr (node, w)) \<noteq> Inr presp"
  proof
    assume "fst (sandbox_mint app hs mr (node, w)) = Inr presp"
    then obtain s' where "sandbox_mint app hs mr (node, w) = (Inr presp, s')" by (metis prod.collapse)
    then show False
      using assms(2) unfolding sandbox_mint_def Let_def
      by (elim h_bind_okE) (simp add: authenticate_request_ok assms(1) or_denied_ok,
        clarsimp simp: authorize_account_control_def dest!: authorize_account_access_ok)
  qed
  have read: "authorized_account_read app hs action resource j (node, w) \<noteq> (Inr u, s')"
    for action resource j u s'
    by (rule notI, erule authorized_account_read_okE) (use assms in auto)
  show "fst (get_balance app hs i asset (node, w)) \<noteq> Inr bresp"
  proof
    assume "fst (get_balance app hs i asset (node, w)) = Inr bresp"
    then obtain s' where "get_balance app hs i asset (node, w) = (Inr bresp, s')" by (metis prod.collapse)
    then show False unfolding get_balance_def by (elim h_bind_okE) (auto simp: read)
  qed
  show "fst (get_camt053_statement app hs i cq (node, w)) \<noteq> Inr xmltext"
  proof
    assume "fst (get_camt053_statement app hs i cq (node, w)) = Inr xmltext"
    then obtain s' where "get_camt053_statement app hs i cq (node, w) = (Inr xmltext, s')"
      by (metis prod.collapse)
    then show False unfolding get_camt053_statement_def Let_def
      by (elim h_bind_okE) (auto simp: read)
  qed
qed

lemma only_audits_reachable:
  assumes "only_audits s s'" "ledger_reachable (node_ledger (fst s))"
  shows "ledger_reachable (node_ledger (fst s'))"
proof -
  obtain es where "node_ledger (fst s') = (node_ledger (fst s))
      \<lparr>led_audit_events := led_audit_events (node_ledger (fst s)) @ es\<rparr>"
    using assms(1) by (auto simp: only_audits_def)
  moreover have "ledger_reachable (l\<lparr>led_audit_events := led_audit_events l @ es\<rparr>)"
    if "ledger_reachable l" for l es
    using that
  proof (induction es rule: rev_induct)
    case (snoc e es)
    then show ?case
      using reach_step [OF snoc.IH [OF snoc.prems] step_audit [of _ e]]
      by (simp add: record_audit_event_def)
  qed simp
  ultimately show ?thesis using assms(2) by simp
qed

lemma node_suspend_locks:
  assumes "node_suspend_institution w node i = (Inr inst, node', w')" "ledger_reachable (node_ledger node)"
  shows "locked_out i (node_ledger node')"
proof -
  have keyed: "keyed inst_id (led_institutions (node_ledger node))"
    using ledger_inv_keyed [OF ledger_inv_reachable [OF assms(2)]] by (simp add: maps_keyed_def)
  obtain l' where "suspend_institution w i (node_ledger node) = Inr (inst, l', w')"
    and "node' = node\<lparr>node_ledger := l'\<rparr>"
    using assms(1) by (auto simp: node_suspend_institution_def locked_def split: sum.splits prod.splits)
  with suspend_institution_ok [OF this(1)] keyed show ?thesis
    by (auto simp: locked_out_def get_institution_def upsert_institution_def map_simps res_simps
        dest: keyed_get)
qed

lemma api_suspend_institution_ok:
  assumes "api_suspend_institution app hs j (node, w) = (Inr inst, s')"
    and "ledger_reachable (node_ledger node)"
  shows "\<exists>i. normalize_institution_id j = Inr i \<and> locked_out i (node_ledger (fst s'))"
  using assms(1) unfolding api_suspend_institution_def
proof (elim h_bind_okE, goal_cases)
  case (1 i s0 auth s1 inst' s2 u s3)
  obtain n1 w1 n2 w2 where s: "s1 = (n1, w1)" "s2 = (n2, w2)" by force
  have "only_audits (node, w) s1"
    using keepsD [OF quiet.keeps_authorize(7) 1(2)] 1(1) by simp
  then have "ledger_reachable (node_ledger n1)"
    using only_audits_reachable assms(2) by (fastforce simp: s)
  with 1(3) have "locked_out i (node_ledger (fst s2))"
    by (auto simp: s h_call_ok dest: node_suspend_locks)
  moreover have "stays_locked_out i s2 s3" using 1(4) by (rule keepsD [OF lockout.keeps_audits(6)])
  ultimately show ?case using 1(1,5) by (auto simp: stays_locked_out_def)
qed

text \<open>The routes that move money or read an account, when the caller controls no account.\<close>

lemma account_routes_fail_quietly:
  "fails_quietly (create_payment app hs pr)" "fails_quietly (create_pacs008_payment xml app hs body)"
  "fails_quietly (sandbox_mint app hs mr)"
proof -
  show "fails_quietly (create_payment app hs pr)" "fails_quietly (create_pacs008_payment xml app hs body)"
    unfolding create_payment_def create_pacs008_payment_def
    by (intro fails_quietly_after fails_quietly_last submit_fails_quietly; simp add: h_return_def)+
  have mint: "fails_quietly (h_call (\<lambda>w node. mint_sandbox pf w node t r a x))" for pf t r a x
    by (rule h_call_fails_quietly) (rule node_error_same(3))
  have done_ok: "\<exists>y. fst (h_return x s) = Inr y" for x :: "nat \<times> payment_response" and s
    by (simp add: h_return_def)
  show "fails_quietly (sandbox_mint app hs mr)"
    unfolding sandbox_mint_def Let_def
    by (intro fails_quietly_last [OF mint] fails_quietly_after) (auto simp: done_ok)
qed

lemma failed_quietly:
  assumes "fails_quietly h" "\<And>x. fst (h s) \<noteq> Inr x"
  obtains e s' where "h s = (Inl e, s')" "only_audits s s'"
proof -
  obtain r s' where h: "h s = (r, s')" by (rule prod.exhaust)
  then obtain e where "r = Inl e" using assms(2) by (cases r) auto
  with h assms(1) show thesis using that unfolding fails_quietly_def by blast
qed

lemma respond_fails: "fails_quietly h \<Longrightarrow> (\<And>x. fst (h s) \<noteq> Inr x) \<Longrightarrow> refused s (respond body h s)"
  by (erule failed_quietly [of h s]) (auto simp: respond_def refused_def)

lemma respond_created_fails:
  "fails_quietly h \<Longrightarrow> (\<And>x. fst (h s) \<noteq> Inr x) \<Longrightarrow> refused s (respond_created body h s)"
  by (erule failed_quietly [of h s]) (auto simp: respond_created_def refused_def)

lemma respond_quietly: "keeps only_audits h \<Longrightarrow> only_audits s (snd (respond body h s))"
  by (auto simp: respond_def split: prod.split sum.split dest: keepsD)

definition payment_read_route :: "api_request \<Rightarrow> bool" where
  "payment_read_route req \<longleftrightarrow> (\<exists>i. req = GetPayment i \<or> req = GetPacs002 i)"

lemma locked_out_serve:
  assumes auth: "authenticate (app_auth app) hs = Inr auth" "\<not> auth_is_admin auth"
    and none: "\<And>i a. \<not> controls (node_ledger (fst s)) auth i a"
    and req: "\<not> public_route req" "\<not> payment_read_route req"
  shows "refused s (serve xml app hs req s)"
proof (cases "admin_route req")
  case True
  have "\<not> (\<exists>auth. authenticate (app_auth app) hs = Inr auth \<and> auth_is_admin auth)" using auth by simp
  note away = admin_handlers_turned_away [OF this]
  from True show ?thesis by (cases req) (simp_all add: respond_refused respond_created_refused away)
next
  case False
  obtain node w where s: "s = (node, w)" by (rule prod.exhaust)
  note fail = controlling_handlers [where node = node and w = w, OF auth(1) none [unfolded s fst_conv], folded s]
  show ?thesis
    using False req
    by (cases req) (simp_all add: public_route_def payment_read_route_def fail
        respond_fails respond_created_fails account_routes_fail_quietly
        fails_quietly_keeps quiet.keeps_reading_routes)
qed

lemma payment_read_serve:
  assumes "payment_read_route req"
  shows "only_audits s (snd (serve xml app hs req s))"
  using assms by (auto simp: payment_read_route_def respond_quietly quiet.keeps_reading_routes)

lemma record_event_never: "record_event t m bh ti md s \<noteq> (Inl e, s')"
  by (metis fst_conv record_event_ok sum.distinct(1))

lemma own_payment_read:
  assumes "authenticate (app_auth app) hs = Inr auth" "get_payment (node_ledger (fst s)) i = Inr p"
    and "account_belongs_to_institution (accounts (node_ledger (fst s))) (tx_from (pay_transaction p))
        (auth_institution_id auth) \<or>
      account_belongs_to_institution (accounts (node_ledger (fst s))) (tx_to (pay_transaction p))
        (auth_institution_id auth)"
  shows "fst (api_get_payment app hs i s) = Inr (payment_response_from p)"
  using assms
  by (cases s) (auto simp: api_get_payment_def read_authorized_payment_def authenticate_request_def
      audit_authorization_allowed_def audit_authorization_decision_def authorize_payment_read_def or_denied_def Let_def
      h_bind_def h_read_def h_lift_def h_return_def record_event_never split: prod.splits sum.splits)

text \<open>
  Claim C25. A suspended institution moves nothing. Once an administrator has suspended an
  institution in the service over the in-memory ledger, its credentials settle no payment, mint
  nothing and read no balance or statement, however the service is used afterwards: no route makes
  an institution approved. If they are not administrator's credentials, every request with them
  but the two public ones and the two that read a single payment is answered with an error, and no
  request with them changes anything but the audit log. What they can still do is read the
  payments from and to the institution's accounts, which the suspension does not stop.
\<close>

theorem suspension_final:
  assumes "ledger_reachable (node_ledger node)"
    and "api_suspend_institution app hs j (node, w) = (Inr inst, s1)"
    and "api_reachable xml app s1 s2"
    and "authenticate (app_auth app) hs' = Inr auth"
    and "normalize_institution_id j = Inr (auth_institution_id auth)"
  shows "(\<nexists>resp. fst (create_payment app hs' pr s2) = Inr resp) \<and>
    (\<nexists>resp. fst (create_pacs008_payment xml app hs' body s2) = Inr resp) \<and>
    (\<nexists>resp. fst (sandbox_mint app hs' mr s2) = Inr resp) \<and>
    (\<nexists>resp. fst (get_balance app hs' i asset s2) = Inr resp) \<and>
    (\<nexists>resp. fst (get_camt053_statement app hs' i cq s2) = Inr resp) \<and>
    (\<not> auth_is_admin auth \<longrightarrow>
      only_audits s2 (snd (serve xml app hs' req s2)) \<and>
      (public_route req \<or> payment_read_route req \<or>
        (\<exists>err. fst (serve xml app hs' req s2) = (status_code err, ErrorBody (api_error_message err))))) \<and>
    (\<forall>p. get_payment (node_ledger (fst s2)) k = Inr p \<longrightarrow>
      account_belongs_to_institution (accounts (node_ledger (fst s2))) (tx_from (pay_transaction p))
        (auth_institution_id auth) \<or>
      account_belongs_to_institution (accounts (node_ledger (fst s2))) (tx_to (pay_transaction p))
        (auth_institution_id auth) \<longrightarrow>
      fst (api_get_payment app hs' k s2) = Inr (payment_response_from p))"
proof -
  have "locked_out (auth_institution_id auth) (node_ledger (fst s1))"
    using api_suspend_institution_ok [OF assms(2,1)] assms(5) by simp
  then have "locked_out (auth_institution_id auth) (node_ledger (fst s2))"
    using lockout.reachable_keeps [OF assms(3)] by (simp add: stays_locked_out_def)
  then have none: "\<not> controls (node_ledger (fst s2)) auth k a" for k a
    by (auto simp: locked_out_def controls_def)
  note fail = controlling_handlers [where node = "fst s2" and w = "snd s2", OF assms(4) none, unfolded prod.collapse]
  have serve: "only_audits s2 (snd (serve xml app hs' req s2)) \<and>
      (public_route req \<or> payment_read_route req \<or>
        (\<exists>err. fst (serve xml app hs' req s2) = (status_code err, ErrorBody (api_error_message err))))"
    if "\<not> auth_is_admin auth"
  proof (cases "public_route req \<or> payment_read_route req")
    case True
    then show ?thesis
      using payment_read_serve [of req s2 xml app hs'] quiet.R_refl [of s2] by (auto simp: public_route_def)
  next
    case False
    with locked_out_serve [OF assms(4) that none, of req xml] obtain err s' where
      "serve xml app hs' req s2 = ((status_code err, ErrorBody (api_error_message err)), s')" "only_audits s2 s'"
      unfolding refused_def by blast
    then show ?thesis by auto
  qed
  show ?thesis
    by (intro conjI impI allI) (use fail in blast, use fail in blast, use fail in blast, use fail in blast,
      use fail in blast, use serve in blast, use serve in blast, erule (1) own_payment_read [OF assms(4)])
qed

section \<open>The audit trail\<close>

lemma record_event_appends:
  "\<exists>e w'. record_event t m bh ti md (node, w) =
      (Inr (), node\<lparr>node_ledger := (node_ledger node)
         \<lparr>led_audit_events := led_audit_events (node_ledger node) @ [e]\<rparr>\<rparr>, w') \<and>
    ae_event_type e = t \<and> ae_metadata e = md"
proof -
  obtain e v where e: "audit_event_new w t m bh ti = (e, v)" by force
  then have "ae_event_type e = t"
    by (auto simp: audit_event_new_def new_uuid_def utc_now_def)
  with e show ?thesis
    by (intro exI [of _ "audit_event_with_metadata md e"] exI [of _ v])
      (simp add: record_event_def node_record_audit_event_def record_audit_event_def
        audit_event_with_metadata_def)
qed

text \<open>
  Claim C27. The audit log is append-only and complete. No request, whatever its outcome, removes
  or changes a recorded event; and a request that fails to authenticate where a route
  authenticates appends exactly one event, a denied authorization decision, and changes nothing
  else.
\<close>

theorem audit_trail:
  shows "(api_reachable xml app s0 s \<longrightarrow>
      prefix (led_audit_events (node_ledger (fst s0))) (led_audit_events (node_ledger (fst s)))) \<and>
    (authenticate (app_auth app) hs = Inl err \<longrightarrow>
      (\<exists>e w'. authenticate_request app hs action resource (node, w) =
         (Inl err, node\<lparr>node_ledger := (node_ledger node)
            \<lparr>led_audit_events := led_audit_events (node_ledger node) @ [e]\<rparr>\<rparr>, w') \<and>
       ae_event_type e = ''API_AUTHORIZATION_DECISION'' \<and>
       bt_get (ae_metadata e) ''decision'' = Some ''DENIED'' \<and>
       bt_get (ae_metadata e) ''resource'' = Some resource))"
proof (intro conjI impI)
  assume "api_reachable xml app s0 s"
  then show "prefix (led_audit_events (node_ledger (fst s0))) (led_audit_events (node_ledger (fst s)))"
    using audit.reachable_keeps by (simp add: audit_grows_def)
next
  assume "authenticate (app_auth app) hs = Inl err"
  then show "\<exists>e w'. authenticate_request app hs action resource (node, w) =
         (Inl err, node\<lparr>node_ledger := (node_ledger node)
            \<lparr>led_audit_events := led_audit_events (node_ledger node) @ [e]\<rparr>\<rparr>, w') \<and>
       ae_event_type e = ''API_AUTHORIZATION_DECISION'' \<and>
       bt_get (ae_metadata e) ''decision'' = Some ''DENIED'' \<and>
       bt_get (ae_metadata e) ''resource'' = Some resource"
  proof -
    let ?i = "case institution_hint hs of None \<Rightarrow> ''UNKNOWN'' | Some i \<Rightarrow> i"
    let ?md = "bt_from [(''action'', action), (''decision'', ''DENIED''), (''institution_id'', ?i),
        (''reason'', api_error_message err), (''resource'', resource), (''role'', ''UNKNOWN''),
        (''status_code'', nat_to_dec (status_code err))]"
    have "\<exists>m. audit_authorization_denied hs None action resource err =
        record_event ''API_AUTHORIZATION_DECISION'' m None None ?md"
      unfolding audit_authorization_denied_def audit_authorization_decision_def Let_def option.case
      by blast
    then obtain m where m: "audit_authorization_denied hs None action resource err =
        record_event ''API_AUTHORIZATION_DECISION'' m None None ?md" by blast
    have md: "bt_get ?md ''decision'' = Some ''DENIED''" "bt_get ?md ''resource'' = Some resource"
      by (simp_all add: bt_from_def bt_get_def)
    obtain e w' where e: "record_event ''API_AUTHORIZATION_DECISION'' m None None ?md (node, w) =
        (Inr (), node\<lparr>node_ledger := (node_ledger node)
          \<lparr>led_audit_events := led_audit_events (node_ledger node) @ [e]\<rparr>\<rparr>, w')"
      "ae_event_type e = ''API_AUTHORIZATION_DECISION''" "ae_metadata e = ?md"
      using record_event_appends by blast
    show ?thesis
      unfolding authenticate_request_def \<open>authenticate (app_auth app) hs = Inl err\<close> sum.case m
        h_bind_def e(1) prod.case h_fail_def
      using e(2,3) md by (intro exI [of _ e] exI [of _ w']) simp
  qed
qed

end
