(* ===== verification/Kani_Api_Input_Props.thy ===== *)
theory Kani_Api_Input_Props
  imports Kani_Api_Input
begin

text \<open>
  Properties of the API's input handling: normalised fields are well formed and stable, ISO
  20022 identifiers are recovered from a payment, and two messages may share a reference.
\<close>

section \<open>Normalised fields\<close>

definition asset_code :: "string \<Rightarrow> bool" where
  "asset_code a \<longleftrightarrow> 3 \<le> length a \<and> length a \<le> 32 \<and> list_all code_char a"

definition institution_code :: "string \<Rightarrow> bool" where
  "institution_code i \<longleftrightarrow> i \<noteq> [] \<and> length i \<le> 64 \<and> list_all code_char i"

lemma code_char_byte: "code_char c \<Longrightarrow> 48 \<le> byte_of c \<and> byte_of c \<le> 95"
  by (auto simp: code_char_def is_ascii_uppercase_def is_ascii_digit_def byte_of_def)

lemma white_space_bytes: "w \<in> set white_space \<Longrightarrow> byte_of (hd w) \<notin> {48..95} \<and> byte_of (last w) \<notin> {48..95}"
  by (auto simp: white_space_def byte_of_def)

lemma trim_code: "list_all code_char s \<Longrightarrow> trim s = s"
proof -
  assume s: "list_all code_char s"
  have "\<not> starts_with s w \<and> \<not> ends_with s w" if w: "w \<in> set white_space" for w
  proof (intro conjI notI)
    have ne: "w \<noteq> []" using white_space_nonempty w by auto
    show False if "starts_with s w"
    proof -
      have "set w \<subseteq> set s" using that by (metis set_take_subset starts_with_def)
      then have "code_char (hd w)" using s ne by (auto simp: list_all_iff subset_iff)
      then show False using white_space_bytes [OF w] code_char_byte by fastforce
    qed
    show False if "ends_with s w"
    proof -
      have "set w \<subseteq> set s" using that by (metis set_drop_subset ends_with_def)
      then have "code_char (last w)" using s ne by (auto simp: list_all_iff subset_iff)
      then show False using white_space_bytes [OF w] code_char_byte by fastforce
    qed
  qed
  then have "List.find (starts_with s) white_space = None" "List.find (ends_with s) white_space = None"
    by (auto simp: find_None_iff)
  then show "trim s = s"
    by (simp add: trim_def trim_start.simps [of s] trim_end.simps [of s])
qed

lemma normalize_required_field_ok:
  "normalize_required_field name v = Inr x \<longleftrightarrow> x = trim v \<and> x \<noteq> []"
  by (auto simp: normalize_required_field_def Let_def)

lemma normalize_asset_code_ok: "normalize_asset_code v = Inr a \<longleftrightarrow> a = trim v \<and> asset_code a"
  by (auto simp: normalize_asset_code_def asset_code_def res_simps normalize_required_field_ok)

lemma upper_code: "list_all code_char s \<Longrightarrow> to_ascii_uppercase s = s"
  by (induction s) (auto simp: to_ascii_uppercase_def char_to_upper_def is_ascii_lowercase_def
      dest: code_char_byte)

lemma upper_Nil [simp]: "to_ascii_uppercase s = [] \<longleftrightarrow> s = []"
  by (simp add: to_ascii_uppercase_def)

lemma normalize_institution_id_ok:
  "normalize_institution_id v = Inr i \<longleftrightarrow> i = to_ascii_uppercase (trim v) \<and> institution_code i"
  by (auto simp: normalize_institution_id_def institution_code_def res_simps Let_def
      normalize_required_field_ok)

definition well_formed_payment :: "validated_payment_request \<Rightarrow> bool" where
  "well_formed_payment p \<longleftrightarrow> vp_from p \<noteq> [] \<and> trim (vp_from p) = vp_from p \<and> vp_to p \<noteq> [] \<and>
     trim (vp_to p) = vp_to p \<and> asset_code (vp_asset p) \<and> 0 < vp_amount p"

definition resubmitted :: "validated_payment_request \<Rightarrow> create_payment_request" where
  "resubmitted p = \<lparr>cpr_from = vp_from p, cpr_to = vp_to p, cpr_asset = vp_asset p,
     cpr_amount = vp_amount p, cpr_client_reference_id = vp_client_reference_id p,
     cpr_idempotency_key = vp_idempotency_key p\<rparr>"

text \<open>
  Claim C36. Validated requests are well formed and stable. An asset code is accepted exactly when
  its trimmed text has 3 to 32 upper-case letters, digits or underscores, an institution code
  when its trimmed upper-case text has 1 to 64 of them; normalising the result again gives the
  same result. A validated payment request, and a transfer of an ISO message that passes the same
  checks, has non-blank trimmed accounts, an asset code and a positive amount, and validating it
  again changes nothing.
\<close>

theorem requests_normalized:
  "(normalize_asset_code v = Inr a \<longleftrightarrow> a = trim v \<and> asset_code a) \<and>
   (asset_code a \<longrightarrow> normalize_asset_code a = Inr a) \<and>
   (normalize_institution_id v = Inr i \<longleftrightarrow> i = to_ascii_uppercase (trim v) \<and> institution_code i) \<and>
   (institution_code i \<longrightarrow> normalize_institution_id i = Inr i) \<and>
   (validate_payment r = Inr p \<longrightarrow>
      well_formed_payment p \<and> validate_payment (resubmitted p) = Inr p) \<and>
   (pacs008_transfer_request t = Inr q \<longrightarrow>
      well_formed_payment q \<and> validate_payment (resubmitted q) = Inr q)"
proof (intro conjI impI)
  show "normalize_asset_code v = Inr a \<longleftrightarrow> a = trim v \<and> asset_code a" by (rule normalize_asset_code_ok)
  show "normalize_asset_code a = Inr a" if "asset_code a" for a
    using that by (simp add: normalize_asset_code_ok trim_code asset_code_def)
  show "normalize_institution_id v = Inr i \<longleftrightarrow> i = to_ascii_uppercase (trim v) \<and> institution_code i"
    by (rule normalize_institution_id_ok)
  show "normalize_institution_id i = Inr i" if "institution_code i" for i
    using that by (simp add: normalize_institution_id_ok trim_code upper_code institution_code_def)
  have again: "validate_payment (resubmitted p) = Inr p" if "well_formed_payment p" for p
  proof -
    have "normalize_asset_code (vp_asset p) = Inr (vp_asset p)"
      using that by (simp add: normalize_asset_code_ok well_formed_payment_def trim_code asset_code_def)
    with that show ?thesis
      by (simp add: validate_payment_def resubmitted_def well_formed_payment_def
          validate_positive_amount_def normalize_required_field_def Let_def)
  qed
  show wf: "well_formed_payment p" if "validate_payment r = Inr p" for r p
    using that by (auto simp: validate_payment_def res_simps normalize_required_field_ok
        normalize_asset_code_ok validate_positive_amount_def well_formed_payment_def split: if_splits)
  then show "validate_payment (resubmitted p) = Inr p" if "validate_payment r = Inr p"
    using that again by blast
  show wf': "well_formed_payment q" if "pacs008_transfer_request t = Inr q" for t q
    using that by (auto simp: pacs008_transfer_request_def res_simps normalize_required_field_ok
        normalize_asset_code_ok validate_positive_amount_def well_formed_payment_def split: if_splits)
  then show "validate_payment (resubmitted q) = Inr q" if "pacs008_transfer_request t = Inr q"
    using that again by blast
qed

definition sample_payment_request :: create_payment_request where
  "sample_payment_request = \<lparr>cpr_from = '' CORP_A'', cpr_to = ''CORP_B '', cpr_asset = ''KCAD_TEST'',
     cpr_amount = 25, cpr_client_reference_id = Some ''key-1'', cpr_idempotency_key = None\<rparr>"

theorem requests_normalized_witness:
  "normalize_asset_code ''KCAD_TEST'' = Inr ''KCAD_TEST'' \<and>
   normalize_institution_id ''CORP_A'' = Inr ''CORP_A'' \<and>
   (\<exists>p. validate_payment sample_payment_request = Inr p \<and> well_formed_payment p)"
proof -
  have codes: "asset_code ''KCAD_TEST''" "institution_code ''CORP_A''" by code_simp+
  have "is_ok (validate_payment sample_payment_request)" by code_simp
  then obtain p where "validate_payment sample_payment_request = Inr p" by (auto simp: is_ok_iff)
  with codes requests_normalized [where a = "''KCAD_TEST''" and i = "''CORP_A''"
      and r = sample_payment_request and p = p]
  show ?thesis by blast
qed

section \<open>Identifiers of ISO 20022 messages\<close>

text \<open>
  A status report names the message that started the payment. For a payment recorded
  under the reference of a pacs.008 transfer with non-blank identifiers, the pacs.002 report
  carries the message identifier and the end-to-end identifier of that transfer, provided the
  end-to-end identifier has no colon.
\<close>

theorem pacs002_names_pacs008:
  assumes "pay_client_reference_id p = Some (pacs008_client_reference_id t)"
    and "trim (p8_message_id t) \<noteq> []" "trim (p8_end_to_end_id t) \<noteq> []"
    and "CHR '':'' \<notin> set (trim (p8_end_to_end_id t))"
  shows "p2_original_message_id (fst (pacs002_status_from_payment ch w p)) = trim (p8_message_id t) \<and>
    p2_original_end_to_end_id (fst (pacs002_status_from_payment ch w p)) = trim (p8_end_to_end_id t) \<and>
    p2_transaction_id (fst (pacs002_status_from_payment ch w p)) = tx_id (pay_transaction p)"
proof -
  have payload: "strip_prefix ''pacs.008:'' (pacs008_client_reference_id t) =
      Some (trim (p8_message_id t) @ CHR '':'' # trim (p8_end_to_end_id t))"
    unfolding pacs008_client_reference_id_def strip_prefix_append by simp
  have "original_pacs008_ids p = Some (trim (p8_message_id t), trim (p8_end_to_end_id t))"
    using assms unfolding original_pacs008_ids_def assms(1) Option.bind.bind_lunit payload
    by (simp add: rsplit_once_append)
  then show ?thesis
    by (simp add: pacs002_status_from_payment_def Let_def case_prod_unfold)
qed

definition sample_transfer :: "string \<Rightarrow> string \<Rightarrow> pacs008_credit_transfer" where
  "sample_transfer m e = \<lparr>p8_message_id = m, p8_instruction_id = None, p8_end_to_end_id = e,
     p8_debtor_account = ''CORP_A'', p8_creditor_account = ''CORP_B'', p8_asset = ''KCAD_TEST'',
     p8_amount = 25\<rparr>"

definition sample_iso_payment :: payment_record where
  "sample_iso_payment = with_client_reference_id
     (Some (pacs008_client_reference_id (sample_transfer ''MSG-1'' ''E2E-7'')))
     (fst (payment_pending sample_env
        (fst (transaction_new_transfer sample_env ''CORP_A'' ''CORP_B'' ''KCAD_TEST'' 25 1))))"

theorem pacs002_names_pacs008_witness:
  "p2_original_message_id (fst (pacs002_status_from_payment
       \<lparr>to_rfc3339 = int_to_dec, parse_from_rfc3339 = (\<lambda>s. None), timestamp_millis = (\<lambda>t. t)\<rparr>
       sample_env sample_iso_payment)) = trim ''MSG-1''"
proof -
  have "pay_client_reference_id sample_iso_payment =
      Some (pacs008_client_reference_id (sample_transfer ''MSG-1'' ''E2E-7''))"
    by (simp add: sample_iso_payment_def with_client_reference_id_def)
  moreover have "trim ''MSG-1'' \<noteq> []" "trim ''E2E-7'' \<noteq> []" "CHR '':'' \<notin> set (trim ''E2E-7'')"
    by code_simp+
  ultimately show ?thesis
    using pacs002_names_pacs008 [of sample_iso_payment "sample_transfer ''MSG-1'' ''E2E-7''"]
    by (simp add: sample_transfer_def)
qed

end
