(* ===== verification/Kani_Api_Pages.thy ===== *)
theory Kani_Api_Pages
  imports Kani_Api_Props Kani_Api_Input_Props
begin

text \<open>
  Reading a collection page by page: a page is cut from one element more than was asked for,
  and following \<open>next_offset\<close> reads the whole chain.
\<close>

section \<open>One page\<close>

lemma i64_add_small: "0 \<le> x \<Longrightarrow> x < 2 ^ 62 \<Longrightarrow> 0 \<le> y \<Longrightarrow> y < 2 ^ 62 \<Longrightarrow> i64_wrap (x + y) = x + y"
  by (rule i64_wrap_id) simp_all

lemma i64_as_usize_nonneg: "0 \<le> n \<Longrightarrow> n < 2 ^ 63 \<Longrightarrow> i64_as_usize n = nat n"
  by (simp add: i64_as_usize_def)

lemma from_limit_plus_one_page:
  assumes "0 < limit" "limit < 2 ^ 62" "0 \<le> offset" "offset < 2 ^ 62"
  shows "from_limit_plus_one (page (clamp_usize offset) (clamp_usize (i64_wrap (limit + 1))) xs) limit offset =
    \<lparr>pg_items = page (nat offset) (nat limit) xs, pg_limit = limit, pg_offset = offset,
     pg_count = min (nat limit) (length xs - nat offset),
     pg_next_offset = (if nat offset + nat limit < length xs then Some (offset + limit) else None)\<rparr>"
proof -
  have clamps: "clamp_usize offset = nat offset" "clamp_usize (i64_wrap (limit + 1)) = nat limit + 1"
    using assms i64_add_small [of limit 1] by (simp_all add: clamp_usize_def nat_add_distrib)
  have requested: "i64_as_usize limit = nat limit" using assms by (intro i64_as_usize_nonneg) simp_all
  let ?items = "page (nat offset) (nat limit + 1) xs"
  have len: "length ?items = min (nat limit + 1) (length xs - nat offset)" by (rule length_page)
  have more: "nat limit < length ?items \<longleftrightarrow> nat offset + nat limit < length xs"
    unfolding len by auto
  have cut: "take (nat limit) ?items = page (nat offset) (nat limit) xs"
    by (simp add: page_def min_def)
  have "offset + limit = i64_wrap (offset + limit)" using assms i64_add_small [of offset limit] by simp
  moreover have "page (nat offset) (nat limit) xs = ?items" if "\<not> nat limit < length ?items"
    using that cut by simp
  ultimately show ?thesis
    using more cut len
    by (simp add: from_limit_plus_one_def clamps requested Let_def length_page del: of_nat_Suc)
qed

lemma validated_page_ok:
  "validated_page limit offset d m = Inr (l, k) \<longleftrightarrow>
     l = (case limit of None \<Rightarrow> d | Some n \<Rightarrow> n) \<and> k = (case offset of None \<Rightarrow> 0 | Some n \<Rightarrow> n) \<and>
     0 < l \<and> l \<le> m \<and> 0 \<le> k"
  by (auto simp: validated_page_def Let_def)

section \<open>Reading the chain\<close>

lemma authorize_admin_request_ok:
  assumes "authenticate (app_auth app) hs = Inr auth" "auth_is_admin auth"
  shows "\<exists>s'. authorize_admin_request app hs action resource s = (Inr auth, s') \<and> only_audits s s'"
proof -
  obtain u s' where audit: "audit_authorization_allowed hs auth action resource s = (u, s')"
    by (rule prod.exhaust)
  then have "u = Inr ()"
    by (cases s) (auto simp: audit_authorization_allowed_def audit_authorization_decision_def
        record_event_def Let_def case_prod_unfold)
  with audit assms have "authorize_admin_request app hs action resource s = (Inr auth, s')"
    by (simp add: authorize_admin_request_def authenticate_request_def or_denied_def authorize_admin_def
        h_lift_def h_return_def h_bind_def)
  then show ?thesis using audit_ok(1) [OF audit] by blast
qed

lemma only_audits_blocks:
  "only_audits s s' \<Longrightarrow> led_blocks (node_ledger (fst s')) = led_blocks (node_ledger (fst s))"
  by (auto simp: only_audits_def)

lemma get_blocks_page:
  assumes auth: "authenticate (app_auth app) hs = Inr auth" "auth_is_admin auth"
    and q: "0 < limit" "limit \<le> MAX_BLOCK_LIMIT" "0 \<le> offset" "offset < 2 ^ 62"
  shows "\<exists>s'. get_blocks app hs \<lparr>q_limit = Some limit, q_offset = Some offset\<rparr> s =
      (Inr \<lparr>pg_items = page (nat offset) (nat limit) (led_blocks (node_ledger (fst s))),
            pg_limit = limit, pg_offset = offset,
            pg_count = min (nat limit) (length (led_blocks (node_ledger (fst s))) - nat offset),
            pg_next_offset = (if nat offset + nat limit < length (led_blocks (node_ledger (fst s)))
              then Some (offset + limit) else None)\<rparr>, s') \<and> only_audits s s'"
proof -
  obtain s1 where s1: "authorize_admin_request app hs ''read_blocks'' ''network:blocks'' s = (Inr auth, s1)"
    and quiet: "only_audits s s1"
    using authorize_admin_request_ok [OF auth] by blast
  obtain node w where n: "s1 = (node, w)" by force
  have f: "block_filter_from \<lparr>q_limit = Some limit, q_offset = Some offset\<rparr> =
      Inr \<lparr>bf_limit = limit, bf_offset = offset\<rparr>"
    using q validated_page_ok [of "Some limit" "Some offset" DEFAULT_BLOCK_LIMIT MAX_BLOCK_LIMIT
        limit offset] by (simp add: block_filter_from_def)
  have small: "limit < 2 ^ 62" using q by (simp add: limit_defs)
  note blocks = only_audits_blocks [OF quiet, unfolded n fst_conv]
  have "get_blocks app hs \<lparr>q_limit = Some limit, q_offset = Some offset\<rparr> s =
      (Inr (from_limit_plus_one (page (clamp_usize offset) (clamp_usize (i64_wrap (limit + 1)))
         (led_blocks (node_ledger (fst s)))) limit offset), s1)"
    by (simp add: get_blocks_def h_bind_def s1 n h_lift_def f h_read_def h_return_def node_blocks_def
        block_filter_search_def block_search_apply_def blocks)
  with quiet show ?thesis
    unfolding from_limit_plus_one_page [OF q(1) small q(3,4)] by blast
qed

text \<open>A client that follows \<open>next_offset\<close> to the end; the fuel bounds its requests.\<close>

fun read_blocks ::
  "nat \<Rightarrow> app_state \<Rightarrow> header_map \<Rightarrow> i64 \<Rightarrow> i64 \<Rightarrow> service \<Rightarrow> block list option" where
  "read_blocks 0 app hs limit offset s = None"
| "read_blocks (Suc n) app hs limit offset s =
     (case get_blocks app hs \<lparr>q_limit = Some limit, q_offset = Some offset\<rparr> s of
        (Inl err, s') \<Rightarrow> None
      | (Inr p, s') \<Rightarrow>
          (case pg_next_offset p of
             None \<Rightarrow> Some (pg_items p)
           | Some offset' \<Rightarrow>
               map_option (\<lambda>bs. pg_items p @ bs) (read_blocks n app hs limit offset' s')))"

lemma read_blocks_from:
  assumes auth: "authenticate (app_auth app) hs = Inr auth" "auth_is_admin auth"
    and limit: "0 < limit" "limit \<le> MAX_BLOCK_LIMIT"
    and len: "length (led_blocks (node_ledger (fst s))) < 2 ^ 61"
  shows "0 \<le> offset \<Longrightarrow> offset < 2 ^ 62 \<Longrightarrow> length (led_blocks (node_ledger (fst s))) - nat offset < n \<Longrightarrow>
    read_blocks n app hs limit offset s = Some (drop (nat offset) (led_blocks (node_ledger (fst s))))"
  using len
proof (induction n arbitrary: offset s)
  case 0
  then show ?case by simp
next
  case (Suc n)
  let ?bs = "led_blocks (node_ledger (fst s))"
  obtain s' where page: "get_blocks app hs \<lparr>q_limit = Some limit, q_offset = Some offset\<rparr> s =
      (Inr \<lparr>pg_items = page (nat offset) (nat limit) ?bs, pg_limit = limit, pg_offset = offset,
            pg_count = min (nat limit) (length ?bs - nat offset),
            pg_next_offset = (if nat offset + nat limit < length ?bs
              then Some (offset + limit) else None)\<rparr>, s')"
    and quiet: "only_audits s s'"
    using get_blocks_page [OF auth limit Suc.prems(1,2)] by blast
  show ?case
  proof (cases "nat offset + nat limit < length ?bs")
    case True
    have bs': "led_blocks (node_ledger (fst s')) = ?bs" using quiet by (rule only_audits_blocks)
    have off: "nat (offset + limit) = nat offset + nat limit"
      using limit Suc.prems(1) by (simp add: nat_add_distrib)
    have "int (nat offset + nat limit) < int (2 ^ 61)"
      using True Suc.prems(4) by (simp only: of_nat_less_iff)
    then have "offset + limit < 2 ^ 62" using limit Suc.prems(1) by simp
    then have rest: "read_blocks n app hs limit (offset + limit) s' = Some (drop (nat offset + nat limit) ?bs)"
      using Suc.IH [of "offset + limit" s'] limit Suc.prems True by (simp add: bs' off)
    have split: "drop (nat offset) ?bs =
        page (nat offset) (nat limit) ?bs @ drop (nat offset + nat limit) ?bs"
      using append_take_drop_id [of "nat limit" "drop (nat offset) ?bs", symmetric]
      by (simp add: page_def add.commute)
    show ?thesis by (simp add: page True rest split)
  next
    case False
    then show ?thesis by (simp add: page) (simp add: page_def)
  qed
qed

text \<open>
  Claim C37. Reading the chain page by page terminates and misses nothing. Whatever page size
  from 1 to the maximum an administrator uses, following \<open>next_offset\<close> from the start takes at
  most one request more than there are blocks and returns every block once, in chain order.
\<close>

theorem paging_reads_chain:
  assumes "authenticate (app_auth app) hs = Inr auth" "auth_is_admin auth"
    and "0 < limit" "limit \<le> MAX_BLOCK_LIMIT"
    and "length (led_blocks (node_ledger (fst s))) < 2 ^ 61"
  shows "read_blocks (Suc (length (led_blocks (node_ledger (fst s))))) app hs limit 0 s =
    Some (led_blocks (node_ledger (fst s)))"
  using read_blocks_from [OF assms, of 0 "Suc (length (led_blocks (node_ledger (fst s))))"] by simp

section \<open>An example service\<close>

definition sample_credentials :: sandbox_auth_config where
  "sample_credentials = auth_config_new_with_admins
     [(''CORP_A'', ''key-a''), (''CORP_B'', ''key-b'')] [(''KANI_ADMIN'', ''key-admin'')]"

definition sample_chrono :: chrono_api where
  "sample_chrono = \<lparr>to_rfc3339 = int_to_dec, parse_from_rfc3339 = parse_i128, timestamp_millis = (\<lambda>t. t)\<rparr>"

definition sample_app :: app_state where
  "sample_app = app_with_auth sample_credentials sample_platform sample_chrono"

definition sample_headers :: "string \<Rightarrow> string \<Rightarrow> header_map" where
  "sample_headers i k = (\<lambda>name. if name = INSTITUTION_ID_HEADER then Some (HeaderText i)
     else if name = API_KEY_HEADER then Some (HeaderText k) else None)"

lemma sample_authenticates:
  "authenticate (app_auth sample_app) (sample_headers ''KANI_ADMIN'' ''key-admin'') =
     Inr \<lparr>auth_institution_id = ''KANI_ADMIN'', auth_is_admin = True\<rparr>"
  "authenticate (app_auth sample_app) (sample_headers ''CORP_A'' ''key-a'') =
     Inr \<lparr>auth_institution_id = ''CORP_A'', auth_is_admin = False\<rparr>"
  by code_simp+

theorem paging_reads_chain_witness:
  "read_blocks (Suc (length (led_blocks (node_ledger sample_node)))) sample_app
     (sample_headers ''KANI_ADMIN'' ''key-admin'') 1 0 (sample_node, sample_env) =
   Some (led_blocks (node_ledger sample_node))"
proof -
  have "length (led_blocks (node_ledger (fst (sample_node, sample_env)))) < 2 ^ 61"
    by (simp add: sample_node_ledger sample_ledger_values)
  with paging_reads_chain [OF sample_authenticates(1), of 1 "(sample_node, sample_env)"]
  show ?thesis by (simp add: limit_defs del: read_blocks.simps)
qed

end
