(* ===== verification/Kani_Api_Report_Props.thy ===== *)
theory Kani_Api_Report_Props
  imports Kani_Api_Pages Kani_Api_Reports
begin

text \<open>
  The administrator's reports against direct definitions of what they count: the folds over
  the ordered maps equal lengths and sums over the scanned blocks, and a settlement report over
  the whole chain agrees with the issued amounts the ledger keeps.
\<close>

section \<open>Counting maps\<close>

definition amount_of :: "i128 btree_map \<Rightarrow> string \<Rightarrow> i128" where
  "amount_of m s = (case bt_get m s of None \<Rightarrow> 0 | Some n \<Rightarrow> n)"

lemma amount_of_add:
  "amount_of (add_amount a n m) s = (if s = a then i128_add (amount_of m s) n else amount_of m s)"
  by (simp add: amount_of_def add_amount_def bt_entry_or_def map_simps)

lemma count_of_increment:
  "count_of (increment_count k m) s = count_of m s + (if s = k then 1 else 0)"
  by (simp add: count_of_def increment_count_def bt_entry_or_def map_simps)

lemma count_of_increments:
  "count_of (fold increment_count ks m) s = count_of m s + count_list ks s"
  by (induction ks arbitrary: m) (simp_all add: count_of_increment)

lemma empty_counts [simp]: "amount_of [] s = 0" "count_of [] s = 0"
  by (simp_all add: amount_of_def count_of_def bt_get_def)

section \<open>Settlement summary\<close>

definition kind_count :: "transaction_kind \<Rightarrow> transaction list \<Rightarrow> nat" where
  "kind_count k txs = length (filter (\<lambda>tx. tx_kind tx = k) txs)"

definition kind_amount :: "transaction_kind \<Rightarrow> transaction list \<Rightarrow> string \<Rightarrow> int" where
  "kind_amount k txs s = (\<Sum>tx\<leftarrow>txs. if tx_kind tx = k \<and> tx_asset tx = s then tx_amount tx else 0)"

lemma kind_sums [simp]:
  "kind_count k [] = 0" "kind_amount k [] s = 0"
  "kind_count k (tx # txs) = (if tx_kind tx = k then 1 else 0) + kind_count k txs"
  "kind_amount k (tx # txs) s =
     (if tx_kind tx = k \<and> tx_asset tx = s then tx_amount tx else 0) + kind_amount k txs s"
  by (simp_all add: kind_count_def kind_amount_def)

lemma kind_counts_total:
  "kind_count Mint txs + kind_count Burn txs + kind_count Transfer txs = length txs"
proof (induction txs)
  case (Cons tx txs)
  then show ?case by (cases "tx_kind tx") simp_all
qed simp

lemma kind_amount_issued: "kind_amount Mint txs s - kind_amount Burn txs s = chain_issued txs s"
proof (induction txs)
  case (Cons tx txs)
  then show ?case by (cases "tx_kind tx") (simp_all add: chain_issued_def tx_issue_def)
qed simp

lemma amount_of_add_wrap:
  "i128_wrap (amount_of (add_amount a n m) s + x) =
     i128_wrap (amount_of m s + ((if a = s then n else 0) + x))"
  by (simp add: amount_of_add i128_add_def add.assoc)

lemma amount_of_add_range [intro]:
  "in_i128 (amount_of m s) \<Longrightarrow> in_i128 (amount_of (add_amount a n m) s)"
  by (simp add: amount_of_add i128_add_def)

lemma tally_counts:
  "st_mint_count (fold settlement_tally_add txs t) = st_mint_count t + kind_count Mint txs"
  "st_burn_count (fold settlement_tally_add txs t) = st_burn_count t + kind_count Burn txs"
  "st_transfer_count (fold settlement_tally_add txs t) = st_transfer_count t + kind_count Transfer txs"
  by (induction txs arbitrary: t)
    (simp_all add: settlement_tally_add_def split: transaction_kind.split)

lemma tally_amounts:
  "i128_wrap (amount_of (st_minted (fold settlement_tally_add txs t)) s) =
     i128_wrap (amount_of (st_minted t) s + kind_amount Mint txs s)"
  "i128_wrap (amount_of (st_burned (fold settlement_tally_add txs t)) s) =
     i128_wrap (amount_of (st_burned t) s + kind_amount Burn txs s)"
  "i128_wrap (amount_of (st_gross_transfer (fold settlement_tally_add txs t)) s) =
     i128_wrap (amount_of (st_gross_transfer t) s + kind_amount Transfer txs s)"
  by (induction txs arbitrary: t)
    (simp_all add: settlement_tally_add_def amount_of_add_wrap split: transaction_kind.split)

definition tally_in_range :: "string \<Rightarrow> settlement_tally \<Rightarrow> bool" where
  "tally_in_range s t \<longleftrightarrow> in_i128 (amount_of (st_minted t) s) \<and> in_i128 (amount_of (st_burned t) s) \<and>
     in_i128 (amount_of (st_gross_transfer t) s)"

lemma tally_range: "tally_in_range s t \<Longrightarrow> tally_in_range s (fold settlement_tally_add txs t)"
proof (induction txs arbitrary: t)
  case (Cons tx txs)
  have "tally_in_range s (settlement_tally_add tx t)"
    using Cons.prems by (auto simp: tally_in_range_def settlement_tally_add_def split: transaction_kind.split)
  with Cons.IH show ?case by simp
qed simp

lemma in_i128_0 [simp]: "in_i128 0"
  by (simp add: in_i128_def i128_MIN_def i128_MAX_def)

lemma settlement_tally_exact:
  "st_mint_count (settlement_tally_of bs) = kind_count Mint (concat (map blk_txs bs))"
  "st_burn_count (settlement_tally_of bs) = kind_count Burn (concat (map blk_txs bs))"
  "st_transfer_count (settlement_tally_of bs) = kind_count Transfer (concat (map blk_txs bs))"
  "amount_of (st_minted (settlement_tally_of bs)) s = i128_wrap (kind_amount Mint (concat (map blk_txs bs)) s)"
  "amount_of (st_burned (settlement_tally_of bs)) s = i128_wrap (kind_amount Burn (concat (map blk_txs bs)) s)"
  "amount_of (st_gross_transfer (settlement_tally_of bs)) s =
     i128_wrap (kind_amount Transfer (concat (map blk_txs bs)) s)"
proof -
  have "tally_in_range s settlement_tally_empty"
    by (simp add: tally_in_range_def settlement_tally_empty_def)
  note tally_range [OF this, of "concat (map blk_txs bs)", unfolded tally_in_range_def]
  then have wrap: "i128_wrap (amount_of (st_minted (settlement_tally_of bs)) s) = amount_of (st_minted (settlement_tally_of bs)) s"
    "i128_wrap (amount_of (st_burned (settlement_tally_of bs)) s) = amount_of (st_burned (settlement_tally_of bs)) s"
    "i128_wrap (amount_of (st_gross_transfer (settlement_tally_of bs)) s) =
       amount_of (st_gross_transfer (settlement_tally_of bs)) s"
    by (simp_all add: settlement_tally_of_def)
  have start: "amount_of (st_minted settlement_tally_empty) s = 0"
    "amount_of (st_burned settlement_tally_empty) s = 0"
    "amount_of (st_gross_transfer settlement_tally_empty) s = 0"
    by (simp_all add: settlement_tally_empty_def)
  note amounts = tally_amounts [of "concat (map blk_txs bs)" settlement_tally_empty s,
      folded settlement_tally_of_def, unfolded wrap start add_0]
  show "amount_of (st_minted (settlement_tally_of bs)) s = i128_wrap (kind_amount Mint (concat (map blk_txs bs)) s)"
    "amount_of (st_burned (settlement_tally_of bs)) s = i128_wrap (kind_amount Burn (concat (map blk_txs bs)) s)"
    "amount_of (st_gross_transfer (settlement_tally_of bs)) s =
       i128_wrap (kind_amount Transfer (concat (map blk_txs bs)) s)"
    by (rule amounts)+
qed (simp_all add: settlement_tally_of_def tally_counts, simp_all add: settlement_tally_empty_def)

text \<open>
  The settlement summary equals its direct definition. Over any scanned blocks, the
  report's counts are the numbers of their transactions of each kind, which add up to the
  transaction count; and for each asset the reported amounts are the sums of the amounts of the
  mints, burns and transfers of the asset, wrapped to the width of the amounts, 0 standing for an
  asset without an entry.
\<close>

theorem settlement_summary_exact:
  "let r = build_settlement_summary_report ch f blocks; txs = concat (map blk_txs blocks) in
     ssr_block_count r = length blocks \<and> ssr_transaction_count r = length txs \<and>
     ssr_mint_count r = kind_count Mint txs \<and> ssr_burn_count r = kind_count Burn txs \<and>
     ssr_transfer_count r = kind_count Transfer txs \<and>
     amount_of (ssr_minted_amount_by_asset r) s = i128_wrap (kind_amount Mint txs s) \<and>
     amount_of (ssr_burned_amount_by_asset r) s = i128_wrap (kind_amount Burn txs s) \<and>
     amount_of (ssr_gross_transfer_amount_by_asset r) s = i128_wrap (kind_amount Transfer txs s)"
  unfolding build_settlement_summary_report_def Let_def
  by (simp only: settlement_summary_report.simps settlement_tally_exact kind_counts_total simp_thms)

section \<open>The report against the ledger\<close>

lemma authorized_scan:
  assumes "h_bind (authorize_admin_request app hs action resource) (\<lambda>_. k) s = (Inr r, s')"
  obtains t where "only_audits s t" "k t = (Inr r, s')"
  using assms by (rule h_bind_okE) (rule that, erule keepsD [OF quiet.keeps_authorize(7)])

lemma report_page:
  assumes "report_filter_from ch q = Inr f"
  shows "node_blocks node (report_block_search f) =
    page (nat (rf_offset f)) (nat (rf_limit f)) (led_blocks (node_ledger node))"
  using assms by (auto simp: report_filter_from_def validated_page_def res_simps Let_def node_blocks_def
      report_block_search_def block_search_apply_def clamp_usize_def split: if_splits)

lemma settlement_route_ok:
  assumes "get_settlement_summary_report app hs q s = (Inr r, s')"
  shows "only_audits s s'"
    and "\<exists>f. report_filter_from (app_chrono app) q = Inr f \<and>
      r = build_settlement_summary_report (app_chrono app) f (apply_block_window f
        (page (nat (rf_offset f)) (nat (rf_limit f)) (led_blocks (node_ledger (fst s)))))"
proof -
  show "only_audits s s'" using keepsD [OF quiet.keeps_reading_routes(16) assms] .
  from assms [unfolded get_settlement_summary_report_def]
  obtain t where "only_audits s t" and
    rest: "h_bind (h_lift (report_filter_from (app_chrono app) q)) (\<lambda>f.
       h_bind (h_read (\<lambda>node. Inr (node_blocks node (report_block_search f)))) (\<lambda>blocks.
       h_return (build_settlement_summary_report (app_chrono app) f (apply_block_window f blocks)))) t
     = (Inr r, s')"
    by (rule authorized_scan)
  then have bs: "led_blocks (node_ledger (fst t)) = led_blocks (node_ledger (fst s))"
    by (simp add: only_audits_blocks)
  obtain node w where t: "t = (node, w)" by force
  from rest show "\<exists>f. report_filter_from (app_chrono app) q = Inr f \<and>
      r = build_settlement_summary_report (app_chrono app) f (apply_block_window f
        (page (nat (rf_offset f)) (nat (rf_limit f)) (led_blocks (node_ledger (fst s)))))"
    by (auto elim!: h_bind_okE simp: h_read_ok t report_page bs [unfolded t, simplified])
qed

lemma i128_wrap_diff_right: "i128_wrap (x - i128_wrap y) = i128_wrap (x - y)"
  by (intro i128_wrap_cong mod_diff_cong refl i128_wrap_mod)

lemma apply_block_window_all:
  "rf_created_from f = None \<Longrightarrow> rf_created_to f = None \<Longrightarrow> apply_block_window f bs = bs"
  by (simp add: apply_block_window_def)

lemma issued_route_ok:
  assumes "get_issued app hs asset s = (Inr i, s')"
  shows "ir_amount i = ledger_issued (node_ledger (fst s)) (ir_asset i)"
proof -
  obtain name where norm: "normalize_asset_code asset = Inr name"
    and run: "h_bind (authorize_admin_request app hs ''read_issued_supply'' (''asset:'' @ name @ '':issued''))
      (\<lambda>_. h_read (\<lambda>node. Inr \<lparr>ir_asset = name, ir_amount = ledger_issued (node_ledger node) name\<rparr>)) s
      = (Inr i, s')"
    using assms unfolding get_issued_def by (rule h_bind_okE) (rule that, simp_all only: h_lift_ok)
  from run obtain t where "only_audits s t" and
    "h_read (\<lambda>node. Inr \<lparr>ir_asset = name, ir_amount = ledger_issued (node_ledger node) name\<rparr>) t = (Inr i, s')"
    by (rule authorized_scan)
  then show ?thesis by (cases t) (auto simp: h_read_ok only_audits_def ledger_issued_def)
qed

text \<open>
  Claim C13. The settlement report reconciles with the ledger. When the service's ledger is
  reachable and a settlement report without a time window covers the whole chain, the amount the
  issued-supply route then answers for an asset is what the report says was minted less what it
  says was burned, in the arithmetic of the amounts, and the report counts every block.
\<close>

theorem settlement_report_reconciles:
  assumes "ledger_reachable (node_ledger (fst s))"
    and "get_settlement_summary_report app hs q s = (Inr r, s')"
    and "get_issued app hs' asset s' = (Inr i, s'')"
    and "ssr_created_from r = None" "ssr_created_to r = None" "ssr_scan_offset r = 0"
    and "int (length (led_blocks (node_ledger (fst s)))) \<le> ssr_scan_limit r"
  shows "ssr_block_count r = length (led_blocks (node_ledger (fst s))) \<and>
    ir_amount i = i128_sub (amount_of (ssr_minted_amount_by_asset r) (ir_asset i))
                    (amount_of (ssr_burned_amount_by_asset r) (ir_asset i))"
proof -
  let ?l = "node_ledger (fst s)"
  obtain f where r: "r = build_settlement_summary_report (app_chrono app) f (apply_block_window f
        (page (nat (rf_offset f)) (nat (rf_limit f)) (led_blocks ?l)))"
    using settlement_route_ok(2) [OF assms(2)] by blast
  have window: "rf_created_from f = None" "rf_created_to f = None" "rf_offset f = 0"
    and limit: "length (led_blocks ?l) \<le> nat (rf_limit f)"
    using assms(4-7) by (simp_all add: r build_settlement_summary_report_def Let_def)
  have r: "r = build_settlement_summary_report (app_chrono app) f (led_blocks ?l)"
    using limit by (simp add: r apply_block_window_all window page_def)
  have led: "led_issued (node_ledger (fst s')) = led_issued ?l"
    using settlement_route_ok(1) [OF assms(2)] by (auto simp: only_audits_def)
  have "ir_amount i = ledger_issued ?l (ir_asset i)"
    using issued_route_ok [OF assms(3)] led by (simp add: ledger_issued_def)
  also have "\<dots> = i128_wrap (chain_issued (chain_txs ?l) (ir_asset i))"
    using reachable_follows [OF assms(1)] by (simp add: follows_def issued_follows_def ledger_issued_def)
  also have "\<dots> = i128_sub (amount_of (ssr_minted_amount_by_asset r) (ir_asset i))
      (amount_of (ssr_burned_amount_by_asset r) (ir_asset i))"
    by (simp add: r build_settlement_summary_report_def Let_def settlement_tally_exact i128_sub_def
        chain_txs_def i128_wrap_diff_right flip: kind_amount_issued)
  finally show ?thesis by (simp add: r build_settlement_summary_report_def Let_def)
qed

definition sample_report_query :: report_query where
  "sample_report_query = \<lparr>rq_created_from = None, rq_created_to = None, rq_limit = None, rq_offset = None\<rparr>"

definition sample_report :: "(api_error + settlement_summary_report) \<times> service" where
  "sample_report = get_settlement_summary_report sample_app (sample_headers ''KANI_ADMIN'' ''key-admin'')
     sample_report_query (sample_node, sample_env)"

definition sample_issued :: "(api_error + issued_response) \<times> service" where
  "sample_issued = get_issued sample_app (sample_headers ''KANI_ADMIN'' ''key-admin'') ''KCAD''
     (snd sample_report)"

lemma sample_report_values:
  "case fst sample_report of Inl e \<Rightarrow> False
   | Inr r \<Rightarrow> ssr_created_from r = None \<and> ssr_created_to r = None \<and> ssr_scan_offset r = 0 \<and>
       1 \<le> ssr_scan_limit r \<and> amount_of (ssr_minted_amount_by_asset r) ''KCAD'' = 1000 \<and>
       amount_of (ssr_burned_amount_by_asset r) ''KCAD'' = 100"
  "case fst sample_issued of Inl e \<Rightarrow> False | Inr i \<Rightarrow> ir_asset i = ''KCAD''"
  by code_simp+

theorem settlement_report_reconciles_witness:
  "case fst sample_issued of Inl e \<Rightarrow> False | Inr i \<Rightarrow> ir_amount i = 900"
proof -
  obtain r s' where r: "sample_report = (Inr r, s')"
    using sample_report_values(1) by (cases "fst sample_report") (auto simp del: split_paired_All
        intro: that [of _ "snd sample_report"] simp: prod_eq_iff)
  obtain i s'' where i: "sample_issued = (Inr i, s'')"
    using sample_report_values(2) by (cases "fst sample_issued") (auto simp del: split_paired_All
        intro: that [of _ "snd sample_issued"] simp: prod_eq_iff)
  have "ir_amount i = i128_sub (amount_of (ssr_minted_amount_by_asset r) (ir_asset i))
      (amount_of (ssr_burned_amount_by_asset r) (ir_asset i))"
    using settlement_report_reconciles [OF _ r [unfolded sample_report_def]
        i [unfolded sample_issued_def r snd_conv]] sample_node_reachable sample_report_values(1)
    by (simp add: r sample_node_ledger sample_ledger_values)
  then show ?thesis using sample_report_values by (simp add: r i i128_sub_def i128_wrap_def)
qed

section \<open>Validator finality\<close>

lemma finality_fold:
  "ft_transaction_count (fold (finality_tally_add n) bs t) =
     ft_transaction_count t + length (concat (map blk_txs bs))"
  "count_of (ft_produced_blocks (fold (finality_tally_add n) bs t)) v =
     count_of (ft_produced_blocks t) v + length (filter (\<lambda>b. blk_validator b = v) bs)"
  "count_of (ft_finality_votes (fold (finality_tally_add n) bs t)) v =
     count_of (ft_finality_votes t) v + count_list (concat (map blk_finalized_by bs)) v"
  "ft_finalized_block_count (fold (finality_tally_add n) bs t) =
     ft_finalized_block_count t + length (filter (\<lambda>b. n \<le> length (blk_finalized_by b)) bs)"
  "ft_blocks_below_threshold (fold (finality_tally_add n) bs t) =
     ft_blocks_below_threshold t + length (filter (\<lambda>b. \<not> n \<le> length (blk_finalized_by b)) bs)"
  by (induction bs arbitrary: t)
    (simp_all add: finality_tally_add_def Let_def count_of_increment count_of_increments)

lemma finality_tally_exact:
  "ft_transaction_count (finality_tally_of n bs) = length (concat (map blk_txs bs))"
  "count_of (ft_produced_blocks (finality_tally_of n bs)) v = length (filter (\<lambda>b. blk_validator b = v) bs)"
  "count_of (ft_finality_votes (finality_tally_of n bs)) v = count_list (concat (map blk_finalized_by bs)) v"
  "ft_finalized_block_count (finality_tally_of n bs) =
     length (filter (\<lambda>b. n \<le> length (blk_finalized_by b)) bs)"
  "ft_finalized_block_count (finality_tally_of n bs) + ft_blocks_below_threshold (finality_tally_of n bs) =
     length bs"
proof -
  show "ft_finalized_block_count (finality_tally_of n bs) + ft_blocks_below_threshold (finality_tally_of n bs) =
     length bs"
    using sum_length_filter_compl [of "\<lambda>b. n \<le> length (blk_finalized_by b)" bs]
    by (simp only: finality_tally_of_def finality_fold) (simp add: finality_tally_empty_def)
qed (simp_all only: finality_tally_of_def finality_fold, simp_all add: finality_tally_empty_def)

lemma required_votes_poa:
  "required_phase1_finality_votes (length (active_validators (poa_validators e))) = poa_finality_threshold e"
  by (simp add: required_phase1_finality_votes_def poa_finality_threshold_def Let_def)

lemma required_votes_bft:
  "bft_finality_threshold e =
     required_phase1_finality_votes (length (active_validators (bft_validators e))) +
     (if 3 dvd length (active_validators (bft_validators e)) then 1 else 0)"
proof -
  have "n * 2 div 3 + 1 = (n * 2 + 2) div 3 + (if 3 dvd n then 1 else 0)" for n :: nat by presburger
  moreover have "required_phase1_finality_votes n = (n * 2 + 2) div 3" for n
    by (simp add: required_phase1_finality_votes_def)
  ultimately show ?thesis by (simp add: bft_finality_threshold_def Let_def)
qed

lemma node_validators_active:
  "length (filter vi_active (node_validators node)) =
     length (active_validators (engine_validators (node_consensus node)))"
  by (simp add: node_validators_def validator_info_from_def active_validators_def filter_map comp_def)

text \<open>
  Claim C38. The finality report counts what it says, and its threshold is the proof-of-authority
  one. Over any scanned blocks of a node, the report's transaction count and each validator's
  produced blocks and votes are the numbers of their occurrences, the blocks are split into those
  with at least the required votes and those below; the required votes are the engine's
  threshold under proof of authority, but under the BFT engine they are one too few whenever 3
  divides the number of active validators, as it does for the default three.
\<close>

theorem finality_report_exact:
  "let r = build_validator_finality_report ch f blocks (node_validators node);
       active = length (active_validators (engine_validators (node_consensus node))) in
     vfrep_active_validator_count r = active \<and> vfrep_block_count r = length blocks \<and>
     vfrep_transaction_count r = length (concat (map blk_txs blocks)) \<and>
     vfrep_finalized_block_count r =
       length (filter (\<lambda>b. vfrep_required_finality_votes r \<le> length (blk_finalized_by b)) blocks) \<and>
     vfrep_finalized_block_count r + vfrep_blocks_below_threshold r = length blocks \<and>
     map (\<lambda>row. (vfr_id row, vfr_produced_blocks row, vfr_finality_votes row)) (vfrep_validators r) =
       map (\<lambda>v. (val_id v, length (filter (\<lambda>b. blk_validator b = val_id v) blocks),
                 count_list (concat (map blk_finalized_by blocks)) (val_id v)))
         (engine_validators (node_consensus node)) \<and>
     engine_finality_threshold (node_consensus node) = vfrep_required_finality_votes r +
       (case node_consensus node of EnginePoa e \<Rightarrow> 0 | EngineBft e \<Rightarrow> if 3 dvd active then 1 else 0)"
proof -
  have rows: "map (\<lambda>row. (vfr_id row, vfr_produced_blocks row, vfr_finality_votes row))
      (map (validator_finality_row_of ch (finality_tally_of n blocks)) (node_validators node)) =
    map (\<lambda>v. (val_id v, length (filter (\<lambda>b. blk_validator b = val_id v) blocks),
                 count_list (concat (map blk_finalized_by blocks)) (val_id v)))
         (engine_validators (node_consensus node))" for n
    by (simp add: node_validators_def validator_info_from_def validator_finality_row_of_def
        finality_tally_exact)
  have engine: "engine_finality_threshold e = required_phase1_finality_votes
        (length (active_validators (engine_validators e))) +
       (case e of EnginePoa e' \<Rightarrow> 0
        | EngineBft e' \<Rightarrow> if 3 dvd length (active_validators (engine_validators e)) then 1 else 0)" for e
    by (cases e) (simp_all add: required_votes_poa required_votes_bft)
  show ?thesis
    unfolding build_validator_finality_report_def Let_def node_validators_active
      validator_finality_report.simps finality_tally_exact rows
    by (intro conjI refl engine finality_tally_exact(5) [unfolded finality_tally_exact(4)])
qed

end
