(* ===== verification/Kani_Api_Settled.thy ===== *)
theory Kani_Api_Settled
  imports Kani_Api_Props
begin

text \<open>
  Settled payments: while the service runs, the record of a finalized payment and the key it was
  submitted under never change. The relation \<open>settled_kept\<close> between service states is one more
  contract every operation of the node fulfils.
\<close>

section \<open>Where a search finds a payment\<close>

lemma find_kept:
  assumes "List.find P (hm_values m) = Some p"
    and "\<forall>q. hm_get m k = Some q \<longrightarrow> q \<noteq> p"
    and "P v \<longrightarrow> (\<exists>q. hm_get m k = Some q \<and> P q)"
  shows "List.find P (hm_values (hm_insert k v m)) = Some p"
  using assms
proof (induction m)
  case Nil
  then show ?case by (simp add: hm_values_def)
next
  case (Cons e m)
  then show ?case
    by (cases e) (auto simp: hm_values_def hm_get_def hm_insert_def split: if_splits)
qed

abbreviation (input) under_key :: "string \<Rightarrow> payment_record \<Rightarrow> bool" where
  "under_key c \<equiv> \<lambda>p. pay_client_reference_id p = Some c"

section \<open>Identifiers\<close>

definition drawn_ids :: "env \<Rightarrow> string set" where
  "drawn_ids w = uuids w ` {..<drawn w}"

lemma drawn_ids_mono: "env_le w w' \<Longrightarrow> drawn_ids w \<subseteq> drawn_ids w'"
  by (auto simp: drawn_ids_def env_le_def)

text \<open>
  Payments are stored under identifiers that were drawn, and a case that is still open concerns
  a payment that is not settled.
\<close>

definition ids_ok :: "env \<Rightarrow> ledger \<Rightarrow> bool" where
  "ids_ok w l \<longleftrightarrow> inj (uuids w) \<and>
     (\<forall>i p. hm_get (led_payments l) i = Some p \<longrightarrow>
        tx_id (pay_transaction p) = i \<and> i \<in> drawn_ids w) \<and>
     (\<forall>i c. hm_get (led_compliance_cases l) i = Some c \<longrightarrow> case_payment_id c \<in> drawn_ids w \<and>
        (\<not> compliance_case_is_terminal (case_status c) \<longrightarrow>
           (\<forall>p. hm_get (led_payments l) (case_payment_id c) = Some p \<longrightarrow> pay_status p \<noteq> Finalized)))"

definition settled_kept :: "service \<Rightarrow> service \<Rightarrow> bool" where
  "settled_kept s s' \<longleftrightarrow> env_le (snd s) (snd s') \<and>
     (ids_ok (snd s) (node_ledger (fst s)) \<longrightarrow> ids_ok (snd s') (node_ledger (fst s')) \<and>
        (\<forall>i p. hm_get (led_payments (node_ledger (fst s))) i = Some p \<and> pay_status p = Finalized \<longrightarrow>
           hm_get (led_payments (node_ledger (fst s'))) i = Some p) \<and>
        (\<forall>c p. get_payment_by_client_reference_id (node_ledger (fst s)) c = Some p \<and>
           pay_status p = Finalized \<longrightarrow>
           get_payment_by_client_reference_id (node_ledger (fst s')) c = Some p))"

lemma settled_kept_refl: "settled_kept s s"
  by (simp add: settled_kept_def)

lemma settled_kept_trans: "settled_kept s t \<Longrightarrow> settled_kept t u \<Longrightarrow> settled_kept s u"
  unfolding settled_kept_def by (auto intro: env_le_trans)

lemma ids_ok_env: "ids_ok w l \<Longrightarrow> env_le w w' \<Longrightarrow> ids_ok w' l"
  using drawn_ids_mono [of w w'] unfolding ids_ok_def by (auto simp: env_le_def)

lemma settled_kept_same:
  assumes "env_le w w'" "led_payments (node_ledger node') = led_payments (node_ledger node)"
    and "led_compliance_cases (node_ledger node') = led_compliance_cases (node_ledger node)"
  shows "settled_kept (node, w) (node', w')"
proof -
  have "ids_ok w' (node_ledger node')" if "ids_ok w (node_ledger node)"
    using ids_ok_env [OF that assms(1)] assms(2,3) by (simp add: ids_ok_def)
  with assms show ?thesis
    by (simp add: settled_kept_def get_payment_by_client_reference_id_def)
qed

lemma ids_ok_case:
  "ids_ok w l \<Longrightarrow> hm_get (led_compliance_cases l) i = Some c \<Longrightarrow> case_payment_id c \<in> drawn_ids w"
  by (simp add: ids_ok_def)

text \<open>An operation that stores one payment: a new one, or one that was not settled.\<close>

definition storable :: "ledger \<Rightarrow> payment_record \<Rightarrow> bool" where
  "storable l p \<longleftrightarrow>
     (\<forall>q. hm_get (led_payments l) (tx_id (pay_transaction p)) = Some q \<longrightarrow> pay_status q \<noteq> Finalized) \<and>
     (\<forall>c. pay_client_reference_id p = Some c \<longrightarrow>
        get_payment_by_client_reference_id l c = None \<or>
        (\<exists>q. hm_get (led_payments l) (tx_id (pay_transaction p)) = Some q \<and>
           pay_client_reference_id q = Some c))"

lemma stored_kept:
  assumes "storable l p" "led_payments l' = hm_insert (tx_id (pay_transaction p)) p (led_payments l)"
  shows "hm_get (led_payments l) i = Some q \<Longrightarrow> pay_status q = Finalized \<Longrightarrow>
      hm_get (led_payments l') i = Some q"
    and "get_payment_by_client_reference_id l c = Some q \<Longrightarrow> pay_status q = Finalized \<Longrightarrow>
      get_payment_by_client_reference_id l' c = Some q"
proof -
  show "hm_get (led_payments l) i = Some q \<Longrightarrow> pay_status q = Finalized \<Longrightarrow>
      hm_get (led_payments l') i = Some q"
    using assms by (auto simp: storable_def map_simps)
  show "get_payment_by_client_reference_id l' c = Some q"
    if "get_payment_by_client_reference_id l c = Some q" "pay_status q = Finalized"
    unfolding get_payment_by_client_reference_id_def assms(2)
    by (rule find_kept)
      (use that assms(1) in \<open>auto simp: storable_def get_payment_by_client_reference_id_def\<close>)
qed

lemma settle_kept:
  assumes env: "env_le w w'" and new: "tx_id (pay_transaction p) \<in> drawn_ids w' - drawn_ids w"
    and key: "\<forall>c. pay_client_reference_id p = Some c \<longrightarrow> get_payment_by_client_reference_id (node_ledger node) c = None"
    and pays: "led_payments (node_ledger node') =
        hm_insert (tx_id (pay_transaction p)) p (led_payments (node_ledger node))"
    and cases: "led_compliance_cases (node_ledger node') = led_compliance_cases (node_ledger node)"
  shows "settled_kept (node, w) (node', w')"
proof -
  have ok: "ids_ok w' (node_ledger node')" and st: "storable (node_ledger node) p"
    if "ids_ok w (node_ledger node)"
  proof -
    have none: "hm_get (led_payments (node_ledger node)) (tx_id (pay_transaction p)) = None"
      using that new by (cases "hm_get (led_payments (node_ledger node)) (tx_id (pay_transaction p))")
        (auto simp: ids_ok_def)
    with key show "storable (node_ledger node) p" by (simp add: storable_def)
    have "case_payment_id c \<noteq> tx_id (pay_transaction p)"
      if "hm_get (led_compliance_cases (node_ledger node)) i = Some c" for i c
      using ids_ok_case [OF \<open>ids_ok w (node_ledger node)\<close> that] new by auto
    with ids_ok_env [OF that env] new show "ids_ok w' (node_ledger node')"
      unfolding ids_ok_def pays cases by (auto simp: map_simps)
  qed
  with env stored_kept [OF st pays] show ?thesis by (auto simp: settled_kept_def)
qed

lemma case_kept:
  assumes env: "env_le w w'" and open': "pay_status p \<noteq> Finalized" "case_payment_id c = tx_id (pay_transaction p)"
    and node': "node_ledger node' = insert_payment_and_case p c (node_ledger node)"
    and st: "ids_ok w (node_ledger node) \<Longrightarrow>
      storable (node_ledger node) p \<and> tx_id (pay_transaction p) \<in> drawn_ids w'"
  shows "settled_kept (node, w) (node', w')"
proof -
  have pays: "led_payments (node_ledger node') =
      hm_insert (tx_id (pay_transaction p)) p (led_payments (node_ledger node))"
    and cases: "led_compliance_cases (node_ledger node') =
      hm_insert (case_id c) c (led_compliance_cases (node_ledger node))"
    by (simp_all add: node' insert_payment_and_case_def)
  have ok: "ids_ok w' (node_ledger node')" if "ids_ok w (node_ledger node)"
    using ids_ok_env [OF that env] st [OF that] open'
    unfolding ids_ok_def pays cases by (auto simp: map_simps)
  with env stored_kept [OF conjunct1 [OF st] pays] show ?thesis by (auto simp: settled_kept_def)
qed

section \<open>The operations of the node\<close>

lemma transaction_new_id:
  assumes "transaction_new w k a b s x n = (tx, w')"
  shows "env_le w w'" "inj (uuids w) \<Longrightarrow> tx_id tx \<in> drawn_ids w' - drawn_ids w" "tx_metadata tx = []"
proof -
  have w': "tx_id tx = uuids w (drawn w)" "uuids w' = uuids w" "drawn w' = Suc (drawn w)"
    using assms by (auto simp: transaction_new_def new_uuid_def utc_now_def)
  show "env_le w w'" using constructors_env(5) [of w k a b s x n] assms by simp
  show "inj (uuids w) \<Longrightarrow> tx_id tx \<in> drawn_ids w' - drawn_ids w"
    unfolding drawn_ids_def w' by (auto dest: injD)
  show "tx_metadata tx = []"
    using assms by (auto simp: transaction_new_def new_uuid_def utc_now_def)
qed

lemma settled_kept_uninj: "\<not> inj (uuids w) \<Longrightarrow> env_le w w' \<Longrightarrow> settled_kept (node, w) (node', w')"
  by (simp add: settled_kept_def ids_ok_def)

lemma produce_kept:
  assumes run: "produce_and_apply_locked pf w1 node [tx] = (res, node', w')"
    and env: "env_le w w1" and new: "tx_id tx \<in> drawn_ids w1 - drawn_ids w"
    and key: "\<forall>c. client_reference_id_from tx = Some c \<longrightarrow>
      get_payment_by_client_reference_id (node_ledger node) c = None"
  shows "settled_kept (node, w) (node', w')"
proof -
  have env': "env_le w w'" using env produce_env [OF run] by (rule env_le_trans)
  show ?thesis
  proof (cases res)
    case (Inl e)
    with run env' show ?thesis by (auto dest: produce_error_same intro: settled_kept_same)
  next
    case (Inr p)
    obtain b w2 l' rs where ab: "apply_block w2 b (node_ledger node) = (Inr (p # rs), l', w')"
      and txs: "blk_txs b = [tx]" and node': "node' = node\<lparr>node_ledger := l'\<rparr>"
      and map: "map pay_transaction (p # rs) = [tx]"
      by (rule produce_okE [OF run [unfolded Inr]])
    have rs: "rs = []" and tx: "pay_transaction p = tx" using map by simp_all
    obtain work w3 es where go: "apply_txs w2 (node_ledger node) (blk_height b) (blk_hash b) [tx]
        (working_copy (node_ledger node)) = Inr ([p], work, w3)"
      and l': "l' = (commit_working work (node_ledger node))
        \<lparr>led_payments := insert_records [p] (led_payments (node_ledger node)),
         led_audit_events := led_audit_events (node_ledger node) @ es,
         led_blocks := led_blocks (node_ledger node) @ [b]\<rparr>"
      by (rule apply_block_ok [OF ab [unfolded rs]]) (simp add: txs)
    have "drawn_ids w1 \<subseteq> drawn_ids w'" using produce_env [OF run] by (rule drawn_ids_mono)
    with new have "tx_id (pay_transaction p) \<in> drawn_ids w' - drawn_ids w" by (auto simp: tx)
    moreover have "\<forall>c. pay_client_reference_id p = Some c \<longrightarrow>
        get_payment_by_client_reference_id (node_ledger node) c = None"
      using key apply_txs_single [OF go] by simp
    moreover have "led_payments l' = hm_insert (tx_id (pay_transaction p)) p (led_payments (node_ledger node))"
      "led_compliance_cases l' = led_compliance_cases (node_ledger node)"
      by (simp_all add: l' insert_records_def commit_working_def)
    ultimately show ?thesis using node' by (intro settle_kept [OF env']) simp_all
  qed
qed

lemma idempotency_metadata:
  "tx_id (with_idempotency_metadata cri fp tx) = tx_id tx"
  "tx_metadata tx = [] \<Longrightarrow> client_reference_id_from (with_idempotency_metadata cri fp tx) = cri"
  by (cases cri; simp add: with_idempotency_metadata_def client_reference_id_from_def map_simps bt_get_def)+

lemma no_earlier_payment:
  "earlier_payment l cri = None \<Longrightarrow> cri = Some c \<Longrightarrow> get_payment_by_client_reference_id l c = None"
  by (simp add: earlier_payment_def)

lemma submit_kept:
  assumes run: "submit_payment pf w node s r a x cri = (res, node', w')"
  shows "settled_kept (node, w) (node', w')"
proof (cases "earlier_payment (node_ledger node) cri")
  case (Some cp)
  with run show ?thesis
    by (auto simp: submit_payment_def Let_def settled_kept_refl split: sum.splits prod.splits)
next
  case None
  let ?fp = "request_fingerprint pf node Transfer s r a x"
  obtain tx w1 where tx: "transaction_new w Transfer s r a x (next_nonce (node_ledger node) s) = (tx, w1)"
    by force
  note new = transaction_new_id [OF tx]
  have go: "produce_and_apply_locked pf w1 node [with_idempotency_metadata cri ?fp tx] = (res, node', w')"
    using run None tx by (simp add: submit_payment_def transaction_new_transfer_def Let_def)
  show ?thesis
  proof (cases "inj (uuids w)")
    case True
    show ?thesis
      by (rule produce_kept [OF go new(1)])
        (use new(2) [OF True] no_earlier_payment [OF None] in \<open>simp_all add: idempotency_metadata new(3)\<close>)
  qed (rule settled_kept_uninj, use env_le_trans [OF new(1) produce_env [OF go]] in simp_all)
qed

lemma mint_kept:
  assumes run: "mint_sandbox pf w node t r a x = (res, node', w')"
  shows "settled_kept (node, w) (node', w')"
proof -
  obtain tx w1 where tx: "transaction_new w Mint t r a x (next_nonce (node_ledger node) t) = (tx, w1)"
    by force
  note new = transaction_new_id [OF tx]
  have go: "produce_and_apply_locked pf w1 node [tx] = (res, node', w')"
    using run tx by (simp add: mint_sandbox_def transaction_new_mint_def Let_def)
  show ?thesis
  proof (cases "inj (uuids w)")
    case True
    show ?thesis
      by (rule produce_kept [OF go new(1) new(2) [OF True]])
        (simp add: client_reference_id_from_def new(3) bt_get_def)
  qed (rule settled_kept_uninj, use env_le_trans [OF new(1) produce_env [OF go]] in simp_all)
qed

lemma hold_kept:
  assumes run: "node_hold_payment_for_review pf w node s r a x cri co = (res, node', w')"
  shows "settled_kept (node, w) (node', w')"
proof (cases "earlier_payment (node_ledger node) cri")
  case (Some cp)
  with run show ?thesis
    by (auto simp: node_hold_payment_for_review_def Let_def settled_kept_refl
        split: sum.splits prod.splits option.splits)
next
  case None
  let ?fp = "request_fingerprint pf node Transfer s r a x"
  obtain tx w1 where tx: "transaction_new w Transfer s r a x (next_nonce (node_ledger node) s) = (tx, w1)"
    by force
  note new = transaction_new_id [OF tx]
  let ?tx = "with_idempotency_metadata cri ?fp tx"
  let ?co = "co\<lparr>copen_payment_id := tx_id ?tx\<rparr>"
  obtain q w2 where q: "payment_held w1 ?tx (copen_reason ?co) = (q, w2)" by force
  let ?p = "with_request_fingerprint (Some ?fp) (with_client_reference_id cri q)"
  obtain c w3 where c: "compliance_case_opened w2 ?co = (c, w3)" by force
  have fields: "pay_transaction ?p = ?tx" "pay_status ?p = Held" "pay_client_reference_id ?p = cri"
    "case_payment_id c = tx_id ?tx"
    using q c by (auto simp: payment_held_def utc_now_def with_request_fingerprint_def
        with_client_reference_id_def compliance_case_opened_def new_uuid_def)
  have node': "node_ledger node' = insert_payment_and_case ?p c (node_ledger node)" and w': "w' = w3"
    using run None tx q c by (auto simp: node_hold_payment_for_review_def transaction_new_transfer_def
        Let_def hold_payment_for_review_def)
  have late: "env_le w1 w'"
    unfolding w' using constructors_env(8,11) q c by (metis env_le_trans snd_conv)
  show ?thesis
  proof (rule case_kept [OF env_le_trans [OF new(1) late] _ _ node'])
    assume ok: "ids_ok w (node_ledger node)"
    then have drawn: "tx_id tx \<in> drawn_ids w1 - drawn_ids w" by (intro new(2)) (simp add: ids_ok_def)
    then have "hm_get (led_payments (node_ledger node)) (tx_id tx) = None"
      using ok by (cases "hm_get (led_payments (node_ledger node)) (tx_id tx)") (auto simp: ids_ok_def)
    then show "storable (node_ledger node) ?p \<and> tx_id (pay_transaction ?p) \<in> drawn_ids w'"
      using drawn drawn_ids_mono [OF late] no_earlier_payment [OF None]
      by (auto simp: storable_def fields idempotency_metadata)
  qed (simp_all add: fields)
qed

lemma decide_kept:
  assumes env: "env_le w w'" and c: "get_compliance_case (node_ledger node) i = Inr c"
    and open': "\<not> compliance_case_is_terminal (case_status c)"
    and p: "get_payment (node_ledger node) (case_payment_id c) = Inr p"
    and p': "pay_transaction p' = pay_transaction p" "pay_status p' \<noteq> Finalized"
      "pay_client_reference_id p' = pay_client_reference_id p"
    and c': "case_payment_id c' = case_payment_id c"
    and node': "node_ledger node' = insert_payment_and_case p' c' (node_ledger node)"
  shows "settled_kept (node, w) (node', w')"
proof -
  have at: "hm_get (led_payments (node_ledger node)) (case_payment_id c) = Some p"
    "hm_get (led_compliance_cases (node_ledger node)) i = Some c"
    using p c by (auto simp: get_payment_def get_compliance_case_def res_simps)
  show ?thesis
  proof (cases "ids_ok w (node_ledger node)")
    case True
    then have here: "tx_id (pay_transaction p) = case_payment_id c" "case_payment_id c \<in> drawn_ids w"
      "pay_status p \<noteq> Finalized"
      using at open' by (auto simp: ids_ok_def)
    show ?thesis
      by (rule case_kept [OF env p'(2) _ node'])
        (use here at p' c' drawn_ids_mono [OF env] in \<open>auto simp: storable_def\<close>)
  qed (use env in \<open>simp add: settled_kept_def\<close>)
qed

lemma approve_kept:
  assumes "node_approve_compliance_case w node i rv rs = (res, node', w')"
  shows "settled_kept (node, w) (node', w')"
proof (cases "approve_compliance_case w i rv rs (node_ledger node)")
  case (Inl e)
  with assms show ?thesis
    by (simp add: node_approve_compliance_case_def locked_def settled_kept_refl)
next
  case (Inr x)
  then obtain c' p' l' where ok: "approve_compliance_case w i rv rs (node_ledger node) = Inr ((c', p'), l', w')"
    and n: "node' = node\<lparr>node_ledger := l'\<rparr>"
    using assms by (cases x) (auto simp: node_approve_compliance_case_def locked_def)
  obtain c p w1 where c: "get_compliance_case (node_ledger node) i = Inr c"
      "\<not> compliance_case_is_terminal (case_status c)"
      "get_payment (node_ledger node) (case_payment_id c) = Inr p"
    and m: "payment_mark_pending w p = (p', w1)" "compliance_case_approved w1 rv rs c = (c', w')"
    and l': "l' = insert_payment_and_case p' c' (node_ledger node)"
    by (rule approve_compliance_case_okE [OF ok])
  have "env_le w w'" using approve_moves_node [OF assms] by (simp add: node_moves_def)
  then show ?thesis
    by (rule decide_kept [OF _ c])
      (use m l' n in \<open>auto simp: payment_mark_pending_def compliance_case_approved_def utc_now_def\<close>)
qed

lemma reject_kept:
  assumes "node_reject_compliance_case w node i rv rs = (res, node', w')"
  shows "settled_kept (node, w) (node', w')"
proof (cases "reject_compliance_case w i rv rs (node_ledger node)")
  case (Inl e)
  with assms show ?thesis
    by (simp add: node_reject_compliance_case_def locked_def settled_kept_refl)
next
  case (Inr x)
  then obtain c' p' l' where ok: "reject_compliance_case w i rv rs (node_ledger node) = Inr ((c', p'), l', w')"
    and n: "node' = node\<lparr>node_ledger := l'\<rparr>"
    using assms by (cases x) (auto simp: node_reject_compliance_case_def locked_def)
  let ?r = "case rs of None \<Rightarrow> ''compliance case rejected'' | Some r \<Rightarrow> r"
  obtain c p w1 where c: "get_compliance_case (node_ledger node) i = Inr c"
      "\<not> compliance_case_is_terminal (case_status c)"
      "get_payment (node_ledger node) (case_payment_id c) = Inr p"
    and m: "payment_mark_rejected w ?r p = (p', w1)" "compliance_case_rejected w1 rv rs c = (c', w')"
    and l': "l' = insert_payment_and_case p' c' (node_ledger node)"
    by (rule reject_compliance_case_okE [OF ok])
  have "env_le w w'" using reject_moves_node [OF assms] by (simp add: node_moves_def)
  then show ?thesis
    by (rule decide_kept [OF _ c])
      (use m l' n in \<open>auto simp: payment_mark_rejected_def compliance_case_rejected_def utc_now_def\<close>)
qed

lemma registry_kept:
  "node_suspend_institution w node i = (ires, node', w') \<Longrightarrow> settled_kept (node, w) (node', w')"
  "node_upsert_institution node inst = (inst', node') \<Longrightarrow> settled_kept (node, w) (node', w)"
  "node_add_institution_credential node cr = (crres, node') \<Longrightarrow> settled_kept (node, w) (node', w)"
  "node_upsert_institution_limit node lm = (lres, node') \<Longrightarrow> settled_kept (node, w) (node', w)"
  "settled_kept (node, w) (node_record_audit_event node e, w)"
proof -
  show "settled_kept (node, w) (node', w')" if "node_suspend_institution w node i = (ires, node', w')"
    using that suspend_moves_node [OF that]
    by (intro settled_kept_same)
      (auto simp: node_moves_def node_suspend_institution_def locked_def suspend_institution_def
        upsert_institution_def res_simps case_prod_unfold Let_def split: sum.splits)
qed (auto intro!: settled_kept_same simp: node_upsert_institution_def upsert_institution_def
    node_add_institution_credential_def add_institution_credential_def node_upsert_institution_limit_def
    upsert_institution_limit_def node_record_audit_event_def record_audit_event_def res_simps
    split: sum.splits)

interpretation settled: service_contract settled_kept
  by unfold_locales
    (auto intro: settled_kept_refl settled_kept_trans settled_kept_same registry_kept
      submit_kept hold_kept mint_kept approve_kept reject_kept)

end
