(* ===== verification/Kani_Api_Example.thy ===== *)
theory Kani_Api_Example
  imports Kani_Api_Pages
begin

text \<open>An example run of the service: the sandbox is started and the treasury issues an asset.\<close>

definition sample_start :: service where
  "sample_start = (case node_sandbox_default sample_env of Inr s \<Rightarrow> s
     | Inl e \<Rightarrow> (node_new ledger_empty sample_engine hybrid_pqc_v1, sample_env))"

lemma sample_start_ok: "node_sandbox_default sample_env = Inr sample_start"
proof -
  have "is_ok (node_sandbox_default sample_env)" by code_simp
  then show ?thesis by (auto simp: sample_start_def is_ok_iff)
qed

lemma sample_env_inj: "inj (uuids sample_env)"
proof (rule injI)
  fix m n assume "uuids sample_env m = uuids sample_env n"
  then have "dec_value (nat_to_dec m) = dec_value (nat_to_dec n)" by (simp add: sample_env_def)
  then show "m = n" by simp
qed

definition sample_mint :: sandbox_mint_request where
  "sample_mint = \<lparr>smr_treasury = ''TREASURY_SANDBOX'', smr_to = ''CORP_A'', smr_asset = ''KCAD_TEST'',
     smr_amount = 1000\<rparr>"

definition treasury_app :: app_state where
  "treasury_app = app_with_auth (auth_config_new_with_admins
     [(''CORP_A'', ''key-a''), (''KANI_TREASURY'', ''key-t'')] [(''KANI_ADMIN'', ''key-admin'')])
     sample_platform sample_chrono"

definition sample_minted :: "(api_error + nat \<times> payment_response) \<times> service" where
  "sample_minted = sandbox_mint treasury_app (sample_headers ''KANI_TREASURY'' ''key-t'') sample_mint sample_start"

lemma sample_minted_ok: "is_ok (fst sample_minted)"
  by code_simp

end
