(* ===== verification/Kani_Api_Retry.thy ===== *)
theory Kani_Api_Retry
  imports Kani_Api_Example Kani_Api_Settled
begin

text \<open>
  Retried payment requests: a request whose key was used by a settled payment answers with that
  payment and moves nothing, and what this means for the keys derived from ISO 20022 messages.
\<close>

section \<open>A used key\<close>

text \<open>The key is used by a payment that the request matches.\<close>

definition key_used ::
  "platform \<Rightarrow> validated_payment_request \<Rightarrow> string \<Rightarrow> payment_record \<Rightarrow> kani_node \<Rightarrow> bool" where
  "key_used pf r c p node \<longleftrightarrow>
     earlier_payment (node_ledger node) (Some c) = Some (c, p) \<and>
     ensure_idempotent_retry p
       (attempt_of pf node (vp_from r) (vp_to r) (vp_asset r) (vp_amount r) c) = Inr ()"

lemma submit_uses_key:
  assumes "ledger_reachable (node_ledger node)"
    and "submit_payment pf w node (vp_from r) (vp_to r) (vp_asset r) (vp_amount r) (Some c) = (Inr p, node', w')"
  shows "key_used pf r c p node'"
proof -
  note k = submit_records_key [OF assms]
  then have "attempt_of pf node' = attempt_of pf node"
    by (intro ext) (simp add: attempt_of_def request_fingerprint_def)
  with k show ?thesis by (simp add: key_used_def)
qed

lemma key_used_quiet:
  assumes "key_used pf r c p (fst s)" "only_audits s s'"
  shows "key_used pf r c p (fst s')"
  using assms by (auto simp: key_used_def only_audits_def earlier_payment_def
      get_payment_by_client_reference_id_def attempt_of_def request_fingerprint_def)

lemma submit_key_used:
  "key_used pf r c p node \<Longrightarrow>
   submit_payment pf w node (vp_from r) (vp_to r) (vp_asset r) (vp_amount r) (Some c) = (Inr p, node, w)"
  by (simp add: key_used_def submit_payment_def attempt_of_def Let_def)

text \<open>The key of a request, when its two optional fields name one.\<close>

definition request_key :: "validated_payment_request \<Rightarrow> string \<Rightarrow> bool" where
  "request_key r c \<longleftrightarrow>
     normalized_client_reference_id (vp_client_reference_id r) (vp_idempotency_key r) = Inr (Some c)"

lemma submitted_within_limit:
  assumes "submit_validated_payment app hs r action s = (Inr resp, s')" "request_key r c"
    and "vp_amount r \<le> pol_max_payment_amount (app_policy app)"
  obtains s1 p where "only_audits s s1" "resp = payment_response_from p"
    and "submit_payment (app_platform app) (snd s1) (fst s1) (vp_from r) (vp_to r) (vp_asset r)
      (vp_amount r) (Some c) = (Inr p, s')"
proof -
  obtain node w where s: "s = (node, w)" by force
  show thesis
    by (rule submit_validated_payment_okE [OF assms(1) [unfolded s]])
      (rule that, use assms s in \<open>auto simp: settles_or_holds_def request_key_def\<close>)
qed

lemma submitted_key_used:
  assumes "ledger_reachable (node_ledger (fst s))" "request_key r c"
    and "vp_amount r \<le> pol_max_payment_amount (app_policy app)"
    and "submit_validated_payment app hs r action s = (Inr resp, s')"
  shows "\<exists>p. resp = payment_response_from p \<and> key_used (app_platform app) r c p (fst s')"
proof -
  obtain s1 p where quiet: "only_audits s s1" and "resp = payment_response_from p"
    and "submit_payment (app_platform app) (snd s1) (fst s1) (vp_from r) (vp_to r) (vp_asset r)
      (vp_amount r) (Some c) = (Inr p, s')"
    using submitted_within_limit [OF assms(4,2,3)] .
  moreover from this have "key_used (app_platform app) r c p (fst s')"
    using submit_uses_key [OF only_audits_reachable [OF quiet assms(1)]] by (metis prod.collapse)
  ultimately show ?thesis by blast
qed

lemma retry_quiet:
  assumes "key_used (app_platform app) r c p (fst s)" "request_key r c"
    and "vp_amount r \<le> pol_max_payment_amount (app_policy app)"
    and "submit_validated_payment app hs r action s = (res, s')"
  shows "only_audits s s' \<and> (\<forall>resp. res = Inr resp \<longrightarrow> resp = payment_response_from p)"
proof (cases res)
  case (Inl err)
  with submit_fails_quietly assms(4) show ?thesis unfolding fails_quietly_def by blast
next
  case (Inr resp)
  obtain s1 q where quiet: "only_audits s s1" and resp: "resp = payment_response_from q"
    and run: "submit_payment (app_platform app) (snd s1) (fst s1) (vp_from r) (vp_to r) (vp_asset r)
      (vp_amount r) (Some c) = (Inr q, s')"
    using submitted_within_limit [OF assms(4) [unfolded Inr] assms(2,3)] .
  have "q = p" "s' = s1"
    using run submit_key_used [OF key_used_quiet [OF assms(1) quiet]] by (auto simp: prod_eq_iff)
  with quiet resp Inr show ?thesis by simp
qed

section \<open>Later requests\<close>

text \<open>A started service: distinct identifiers, nothing settled yet.\<close>

lemma started_ids_ok:
  assumes "node_sandbox_default w = Inr s0" "inj (uuids w)" "api_reachable xml app s0 s"
  shows "ids_ok (snd s) (node_ledger (fst s))"
proof -
  note start = node_sandbox_default_start [OF assms(1,2)]
  then have "ids_ok (snd s0) (node_ledger (fst s0))" by (simp add: ids_ok_def fresh_ids_def)
  with settled.reachable_keeps [OF assms(3)] show ?thesis by (simp add: settled_kept_def)
qed

lemma key_used_kept:
  assumes "key_used pf r c p (fst s)" "pay_status p = Finalized"
    and "settled_kept s s'" "ids_ok (snd s) (node_ledger (fst s))"
    and "node_crypto_profile (fst s') = node_crypto_profile (fst s)"
  shows "key_used pf r c p (fst s')"
proof -
  have "get_payment_by_client_reference_id (node_ledger (fst s)) c = Some p"
    using assms(1) by (auto simp: key_used_def earlier_payment_def)
  then have "get_payment_by_client_reference_id (node_ledger (fst s')) c = Some p"
    using assms(2-4) by (auto simp: settled_kept_def)
  with assms(1,5) show ?thesis
    by (simp add: key_used_def earlier_payment_def attempt_of_def request_fingerprint_def)
qed

text \<open>
  Claim C12. Settlement is final. Once a payment is finalized in a running service, no sequence of
  requests, decisions of reviewers and failures included, changes its record, and looking it up
  by its identifier or by its client reference keeps returning it.
\<close>

theorem finalized_payment_final:
  assumes "node_sandbox_default w = Inr s0" "inj (uuids w)"
    and "api_reachable xml app s0 s" "api_reachable xml app s s'" "pay_status p = Finalized"
  shows "(get_payment (node_ledger (fst s)) i = Inr p \<longrightarrow> get_payment (node_ledger (fst s')) i = Inr p) \<and>
    (get_payment_by_client_reference_id (node_ledger (fst s)) c = Some p \<longrightarrow>
     get_payment_by_client_reference_id (node_ledger (fst s')) c = Some p)"
  using settled.reachable_keeps [OF assms(4)] started_ids_ok [OF assms(1-3)] assms(5)
  by (auto simp: settled_kept_def get_payment_def res_simps)

lemma retry_any_time:
  assumes start: "node_sandbox_default w = Inr s0" "inj (uuids w)" "api_reachable xml app s0 s"
    and first: "submit_validated_payment app hs r action s = (Inr resp, s1)"
    and key: "request_key r c" "vp_amount r \<le> pol_max_payment_amount (app_policy app)"
    and final: "pr_status resp = Finalized"
    and later: "api_reachable xml app s1 s2"
    and again: "submit_validated_payment app hs' r action' s2 = (res, s3)"
  shows "only_audits s2 s3 \<and> (\<forall>resp'. res = Inr resp' \<longrightarrow> resp' = resp)"
proof -
  have reach: "ledger_reachable (node_ledger (fst s))" using service_runs [OF start] by simp
  obtain p where p: "resp = payment_response_from p" "key_used (app_platform app) r c p (fst s1)"
    using submitted_key_used [OF reach key first] by blast
  have fin: "pay_status p = Finalized" using final p(1) by (simp add: payment_response_from_def)
  have "settled_kept s s1" using first by (rule keepsD [OF settled.keeps_submit])
  then have ids: "ids_ok (snd s1) (node_ledger (fst s1))"
    using started_ids_ok [OF start] by (simp add: settled_kept_def)
  have profile: "node_crypto_profile (fst s2) = node_crypto_profile (fst s1)"
    using moves.reachable_keeps [OF later] by (simp add: node_moves_def)
  have "key_used (app_platform app) r c p (fst s2)"
    using key_used_kept [OF p(2) fin settled.reachable_keeps [OF later] ids profile] .
  from retry_quiet [OF this key again] p(1) show ?thesis by simp
qed

text \<open>
  Claim C7. A payment is settled at most once. After a running service answered a payment request
  with a finalized payment, the same request under the same key, at any later time, after any
  other requests and with any credentials, changes nothing but the audit log; if it is accepted,
  the answer is the first one.
\<close>

theorem payment_settled_once:
  assumes "node_sandbox_default w = Inr s0" "inj (uuids w)" "api_reachable xml app s0 s"
    and "submit_validated_payment app hs r action s = (Inr resp, s1)"
    and "request_key r c" "vp_amount r \<le> pol_max_payment_amount (app_policy app)"
    and "pr_status resp = Finalized"
    and "api_reachable xml app s1 s2"
    and "submit_validated_payment app hs' r action' s2 = (res, s3)"
  shows "only_audits s2 s3 \<and> (\<forall>resp'. res = Inr resp' \<longrightarrow> resp' = resp)"
  by (rule retry_any_time [OF assms])

section \<open>Keys of ISO 20022 payments\<close>

lemma trim_start_words: "\<exists>ws. set ws \<subseteq> set white_space \<and> s = concat ws @ trim_start s"
proof (induction s rule: trim_start.induct)
  case (1 s)
  show ?case
  proof (cases "List.find (starts_with s) white_space")
    case None
    then show ?thesis by (intro exI [of _ "[]"]) (simp add: trim_start.simps [of s])
  next
    case (Some v)
    then have v: "v \<in> set white_space" "s = v @ drop (length v) s"
      using find_Some_in [OF Some] by (simp_all add: starts_with_def) (metis append_take_drop_id)
    obtain ws where ws: "set ws \<subseteq> set white_space"
      "drop (length v) s = concat ws @ trim_start (drop (length v) s)"
      using 1 [OF Some] by blast
    have "trim_start s = trim_start (drop (length v) s)" by (simp add: trim_start.simps [of s] Some)
    then have "s = concat (v # ws) @ trim_start s"
      using v(2) ws(2) by (metis append.assoc concat.simps(2))
    with v(1) ws(1) show ?thesis by (intro exI [of _ "v # ws"]) simp
  qed
qed

lemma trim_end_words: "\<exists>ws. set ws \<subseteq> set white_space \<and> s = trim_end s @ concat ws"
proof (induction s rule: trim_end.induct)
  case (1 s)
  show ?case
  proof (cases "List.find (ends_with s) white_space")
    case None
    then show ?thesis by (intro exI [of _ "[]"]) (simp add: trim_end.simps [of s])
  next
    case (Some v)
    let ?s = "take (length s - length v) s"
    have v: "v \<in> set white_space" "s = ?s @ v"
      using find_Some_in [OF Some] by (simp_all add: ends_with_def) (metis append_take_drop_id)
    obtain ws where ws: "set ws \<subseteq> set white_space" "?s = trim_end ?s @ concat ws"
      using 1 [OF Some] by blast
    have "trim_end s = trim_end ?s" by (simp add: trim_end.simps [of s] Some)
    then have "s = trim_end s @ concat (ws @ [v])"
      using v(2) ws(2) by (metis append.assoc concat.simps concat_append append_Nil2)
    with v(1) ws(1) show ?thesis by (intro exI [of _ "ws @ [v]"]) simp
  qed
qed

text \<open>A text with a printable ASCII character is not blank.\<close>

lemma trim_nonempty: "c \<in> set s \<Longrightarrow> \<forall>v \<in> set white_space. c \<notin> set v \<Longrightarrow> trim s \<noteq> []"
proof
  assume c: "c \<in> set s" "\<forall>v \<in> set white_space. c \<notin> set v" and "trim s = []"
  obtain vs ws where "set vs \<subseteq> set white_space" "s = concat vs @ trim_start s"
    "set ws \<subseteq> set white_space" "trim_start s = trim_end (trim_start s) @ concat ws"
    using trim_start_words [of s] trim_end_words [of "trim_start s"] by blast
  then have "s = concat (vs @ ws)" "set (vs @ ws) \<subseteq> set white_space"
    using \<open>trim s = []\<close> by (simp_all add: trim_def)
  then have "\<exists>v \<in> set white_space. c \<in> set v" using c(1) by (metis UN_iff set_concat subset_iff)
  with c(2) show False by blast
qed

lemma pacs008_reference_key:
  assumes "pacs008_transfer_request t = Inr r"
  shows "request_key r (trim (pacs008_client_reference_id t))"
proof -
  have "\<forall>v \<in> set white_space. CHR ''p'' \<notin> set v" by (simp add: white_space_def)
  moreover have "CHR ''p'' \<in> set (pacs008_client_reference_id t)"
    by (simp add: pacs008_client_reference_id_def)
  ultimately have "trim (pacs008_client_reference_id t) \<noteq> []" by (intro trim_nonempty)
  moreover have "vp_client_reference_id r = Some (pacs008_client_reference_id t)" "vp_idempotency_key r = None"
    using assms by (auto simp: pacs008_transfer_request_def res_simps)
  ultimately show ?thesis
    by (simp add: request_key_def normalized_client_reference_id_def normalize_optional_id_def non_blank_def)
qed

text \<open>
  Two transfers whose identifiers differ only in where the colon stands give one request.
\<close>

lemma pacs008_shifted_request:
  assumes "pacs008_transfer_request t = Inr r"
    and "trim (p8_message_id t) = m @ '':'' @ x" "trim (p8_end_to_end_id t) = e"
    and "trim m = m" "trim (x @ '':'' @ e) = x @ '':'' @ e"
  shows "pacs008_transfer_request (t\<lparr>p8_message_id := m, p8_end_to_end_id := x @ '':'' @ e\<rparr>) = Inr r"
proof -
  have "pacs008_client_reference_id (t\<lparr>p8_message_id := m, p8_end_to_end_id := x @ '':'' @ e\<rparr>) =
      pacs008_client_reference_id t"
    using assms(2-5) by (simp add: pacs008_client_reference_id_def)
  with assms(1) show ?thesis by (simp add: pacs008_transfer_request_def)
qed

text \<open>
  Claim C26. A transfer can be swallowed. The key of an ISO 20022 payment joins the message
  identifier and the end-to-end identifier with a colon that either may contain. After the
  service settled a transfer with message identifier \<open>m:x\<close> and end-to-end identifier \<open>e\<close>, another
  transfer of the same amount between the same accounts, with message identifier \<open>m\<close> and
  end-to-end identifier \<open>x:e\<close>, is never settled: whenever it is submitted nothing but the audit
  log changes, and if it is accepted the answer is the first transfer's payment.
\<close>

theorem pacs008_transfer_swallowed:
  assumes "node_sandbox_default w = Inr s0" "inj (uuids w)" "api_reachable xml app s0 s"
    and "pacs008_transfer_request t = Inr r" "p8_amount t \<le> pol_max_payment_amount (app_policy app)"
    and "trim (p8_message_id t) = m @ '':'' @ x" "trim (p8_end_to_end_id t) = e"
    and "trim m = m" "trim (x @ '':'' @ e) = x @ '':'' @ e"
    and "submit_validated_payment app hs r action s = (Inr resp, s1)" "pr_status resp = Finalized"
    and "api_reachable xml app s1 s2"
    and "pacs008_transfer_request (t\<lparr>p8_message_id := m, p8_end_to_end_id := x @ '':'' @ e\<rparr>) = Inr r'"
    and "submit_validated_payment app hs' r' action' s2 = (res, s3)"
  shows "only_audits s2 s3 \<and> (\<forall>resp'. res = Inr resp' \<longrightarrow> resp' = resp)"
proof -
  have "r' = r" using pacs008_shifted_request [OF assms(4,6-9)] assms(13) by simp
  moreover have "vp_amount r = p8_amount t"
    using assms(4) by (auto simp: pacs008_transfer_request_def validate_positive_amount_def res_simps split: if_splits)
  ultimately show ?thesis
    using retry_any_time [OF assms(1-3,10) pacs008_reference_key [OF assms(4)] _ assms(11,12)] assms(5,14)
    by simp
qed

end
