(* ===== verification/Kani_Api_Witnesses.thy ===== *)
theory Kani_Api_Witnesses
  imports Kani_Api_Retry
begin

text \<open>
  The theorems about the service at a concrete run: the sandbox is started, the treasury issues
  an asset to a corporation, which then pays another one.
\<close>

section \<open>The run\<close>

definition sample_request :: "string \<Rightarrow> string \<Rightarrow> validated_payment_request" where
  "sample_request m e = (case pacs008_transfer_request (sample_transfer m e) of
     Inr r \<Rightarrow> r | Inl err \<Rightarrow> \<lparr>vp_from = [], vp_to = [], vp_asset = [], vp_amount = 0,
       vp_client_reference_id = None, vp_idempotency_key = None\<rparr>)"

definition sample_submitted :: "string \<Rightarrow> string \<Rightarrow> service \<Rightarrow> (api_error + payment_response) \<times> service" where
  "sample_submitted m e s = submit_validated_payment treasury_app (sample_headers ''CORP_A'' ''key-a'')
     (sample_request m e) ''submit_iso20022_pacs008'' s"

lemma sample_first:
  "case sample_submitted ''a:b'' ''c'' (snd sample_minted) of
     (Inl err, s1) \<Rightarrow> False | (Inr resp, s1) \<Rightarrow> pr_status resp = Finalized"
  by code_simp

lemma sample_second:
  "is_ok (fst (sample_submitted ''a'' ''b:c'' (snd (sample_submitted ''a:b'' ''c'' (snd sample_minted)))))"
  by code_simp

lemma respond_state [simp]:
  "snd (respond body h s) = snd (h s)" "snd (respond_created body hc s) = snd (hc s)"
  by (auto simp: respond_def respond_created_def split: prod.split sum.split)

lemma served_reachable: "api_reachable xml app s0 s \<Longrightarrow> api_reachable xml app s0 (snd (serve xml app hs req s))"
  by (metis api_serve prod.collapse)

lemma sample_minted_reachable: "api_reachable sample_api treasury_app sample_start (snd sample_minted)"
  using served_reachable [OF api_start, of sample_api treasury_app sample_start
      "sample_headers ''KANI_TREASURY'' ''key-t''" "PostMint sample_mint"]
  by (simp add: sample_minted_def)

definition sample_paid :: service where
  "sample_paid = snd (serve sample_api treasury_app (sample_headers ''CORP_A'' ''key-a'')
     (PostPayment sample_payment_request) (snd sample_minted))"

lemma sample_minted_record:
  "case fst sample_minted of Inl err \<Rightarrow> False
   | Inr (code, resp) \<Rightarrow> (case get_payment (node_ledger (fst (snd sample_minted))) (pr_payment_id resp) of
       Inl err \<Rightarrow> False | Inr p \<Rightarrow> pay_status p = Finalized)"
  by code_simp

section \<open>The theorems\<close>

theorem service_refines_ledger_witness:
  "ledger_reachable (node_ledger (fst (snd sample_minted))) \<and>
   node_consensus (fst (snd sample_minted)) = node_consensus (fst sample_start)"
  using service_refines_ledger [OF sample_start_ok sample_env_inj sample_minted_reachable] by simp

theorem finalized_payment_final_witness:
  "\<exists>i p. get_payment (node_ledger (fst (snd sample_minted))) i = Inr p \<and>
     get_payment (node_ledger (fst sample_paid)) i = Inr p"
proof -
  have "\<exists>i p. get_payment (node_ledger (fst (snd sample_minted))) i = Inr p \<and> pay_status p = Finalized"
    using sample_minted_record by (simp only: case_prod_unfold split: sum.split_asm) blast+
  then obtain i p where p: "get_payment (node_ledger (fst (snd sample_minted))) i = Inr p"
    "pay_status p = Finalized" by blast
  have "api_reachable sample_api treasury_app (snd sample_minted) sample_paid"
    unfolding sample_paid_def by (rule served_reachable [OF api_start])
  then have "get_payment (node_ledger (fst sample_paid)) i = Inr p"
    using finalized_payment_final [OF sample_start_ok sample_env_inj sample_minted_reachable _ p(2)] p(1)
    by blast
  with p(1) show ?thesis by blast
qed

lemma sample_first_settled:
  obtains resp s1 where "sample_submitted ''a:b'' ''c'' (snd sample_minted) = (Inr resp, s1)"
    "pr_status resp = Finalized"
  using sample_first by (auto split: prod.splits sum.splits)

lemma sample_transfer_request: "pacs008_transfer_request (sample_transfer ''a:b'' ''c'') = Inr (sample_request ''a:b'' ''c'')"
  "vp_amount (sample_request ''a:b'' ''c'') \<le> pol_max_payment_amount (app_policy treasury_app)"
  "p8_amount (sample_transfer ''a:b'' ''c'') \<le> pol_max_payment_amount (app_policy treasury_app)"
  "sample_request ''a'' ''b:c'' = sample_request ''a:b'' ''c''"
  by code_simp+

theorem payment_settled_once_witness:
  "case sample_submitted ''a:b'' ''c'' (snd (sample_submitted ''a:b'' ''c'' (snd sample_minted))) of
     (Inl err, s3) \<Rightarrow> False
   | (Inr resp, s3) \<Rightarrow> Inr resp = fst (sample_submitted ''a:b'' ''c'' (snd sample_minted)) \<and>
       only_audits (snd (sample_submitted ''a:b'' ''c'' (snd sample_minted))) s3"
proof -
  obtain resp s1 where first: "sample_submitted ''a:b'' ''c'' (snd sample_minted) = (Inr resp, s1)"
    and final: "pr_status resp = Finalized" by (rule sample_first_settled)
  obtain resp' s3 where again: "sample_submitted ''a:b'' ''c'' s1 = (Inr resp', s3)"
    using sample_second first
    by (cases "sample_submitted ''a'' ''b:c'' s1")
      (auto simp: is_ok_iff sample_submitted_def sample_transfer_request(4))
  show ?thesis
    using payment_settled_once [OF sample_start_ok sample_env_inj sample_minted_reachable
        first [unfolded sample_submitted_def] pacs008_reference_key [OF sample_transfer_request(1)]
        sample_transfer_request(2) final api_start again [unfolded sample_submitted_def]]
    by (simp add: first again)
qed

theorem pacs008_transfer_swallowed_witness:
  "case sample_submitted ''a'' ''b:c'' (snd (sample_submitted ''a:b'' ''c'' (snd sample_minted))) of
     (Inl err, s3) \<Rightarrow> False
   | (Inr resp, s3) \<Rightarrow> Inr resp = fst (sample_submitted ''a:b'' ''c'' (snd sample_minted)) \<and>
       only_audits (snd (sample_submitted ''a:b'' ''c'' (snd sample_minted))) s3"
proof -
  obtain resp s1 where first: "sample_submitted ''a:b'' ''c'' (snd sample_minted) = (Inr resp, s1)"
    and final: "pr_status resp = Finalized" by (rule sample_first_settled)
  obtain resp' s3 where again: "sample_submitted ''a'' ''b:c'' s1 = (Inr resp', s3)"
    using sample_second first by (cases "sample_submitted ''a'' ''b:c'' s1") (auto simp: is_ok_iff)
  have shift: "pacs008_transfer_request
      ((sample_transfer ''a:b'' ''c'')\<lparr>p8_message_id := ''a'', p8_end_to_end_id := ''b'' @ '':'' @ ''c''\<rparr>) =
      Inr (sample_request ''a'' ''b:c'')"
    by code_simp
  have ids: "trim (p8_message_id (sample_transfer ''a:b'' ''c'')) = ''a'' @ '':'' @ ''b''"
    "trim (p8_end_to_end_id (sample_transfer ''a:b'' ''c'')) = ''c''" "trim ''a'' = ''a''"
    "trim (''b'' @ '':'' @ ''c'') = ''b'' @ '':'' @ ''c''"
    by code_simp+
  show ?thesis
    using pacs008_transfer_swallowed [OF sample_start_ok sample_env_inj sample_minted_reachable
        sample_transfer_request(1,3) ids first [unfolded sample_submitted_def] final api_start shift
        again [unfolded sample_submitted_def]]
    by (simp add: first again)
qed

theorem authenticate_exact_witness:
  "authenticate sample_credentials (sample_headers ''KANI_ADMIN'' ''key-admin'') =
     Inr \<lparr>auth_institution_id = ''KANI_ADMIN'', auth_is_admin = True\<rparr> \<and>
   (\<exists>c \<in> set sample_credentials. sc_institution_id c = trim ''KANI_ADMIN'' \<and> sc_role c = RoleAdmin)"
proof -
  have distinct: "distinct (map sc_institution_id sample_credentials)" by code_simp
  have ok: "authenticate sample_credentials (sample_headers ''KANI_ADMIN'' ''key-admin'') =
     Inr \<lparr>auth_institution_id = ''KANI_ADMIN'', auth_is_admin = True\<rparr>"
    using sample_authenticates(1) by (simp add: sample_app_def app_with_auth_def)
  have "sample_headers ''KANI_ADMIN'' ''key-admin'' INSTITUTION_ID_HEADER = Some (HeaderText ''KANI_ADMIN'')"
    by (simp add: sample_headers_def)
  with ok authenticate_exact [OF distinct, of "sample_headers ''KANI_ADMIN'' ''key-admin''"
      "\<lparr>auth_institution_id = ''KANI_ADMIN'', auth_is_admin = True\<rparr>"]
  show ?thesis by auto
qed

theorem routes_guarded_witness:
  "\<exists>err s'. serve sample_api sample_app (sample_headers ''CORP_A'' ''key-a'')
       (PostSuspendInstitution ''CORP_B'') sample_start =
       ((status_code err, ErrorBody (api_error_message err)), s') \<and> only_audits sample_start s'"
  by (rule routes_guarded) (simp_all add: public_route_def sample_authenticates)

definition sample_suspended :: "(api_error + institution) \<times> service" where
  "sample_suspended = api_suspend_institution treasury_app (sample_headers ''KANI_ADMIN'' ''key-admin'')
     ''CORP_A'' (snd sample_minted)"

lemma sample_suspended_ok: "is_ok (fst sample_suspended)"
  by code_simp

text \<open>The payment the treasury made to the institution before it was suspended.\<close>

definition sample_credit :: payment_record where
  "sample_credit = snd (hd (led_payments (node_ledger (fst (snd sample_suspended)))))"

lemma sample_credit:
  "(let l = node_ledger (fst (snd sample_suspended)); i = tx_id (pay_transaction sample_credit) in
     (case get_payment l i of Inr p \<Rightarrow> p = sample_credit | Inl e \<Rightarrow> False) \<and>
     account_belongs_to_institution (accounts l) (tx_to (pay_transaction sample_credit)) ''CORP_A'')"
  by code_simp

theorem suspension_final_witness:
  "(\<nexists>resp. fst (create_payment treasury_app (sample_headers ''CORP_A'' ''key-a'') sample_payment_request
     (snd sample_suspended)) = Inr resp) \<and>
   only_audits (snd sample_suspended) (snd (serve sample_api treasury_app (sample_headers ''CORP_A'' ''key-a'')
     (PostPayment sample_payment_request) (snd sample_suspended))) \<and>
   fst (api_get_payment treasury_app (sample_headers ''CORP_A'' ''key-a'')
     (tx_id (pay_transaction sample_credit)) (snd sample_suspended)) = Inr (payment_response_from sample_credit)"
proof -
  obtain inst s1 where run: "sample_suspended = (Inr inst, s1)"
    using sample_suspended_ok by (metis is_ok_iff prod.collapse)
  obtain node w where s: "snd sample_minted = (node, w)" by force
  have reach: "ledger_reachable (node_ledger node)"
    using service_runs [OF sample_start_ok sample_env_inj sample_minted_reachable] s by simp
  have auth: "authenticate (app_auth treasury_app) (sample_headers ''CORP_A'' ''key-a'') =
      Inr \<lparr>auth_institution_id = ''CORP_A'', auth_is_admin = False\<rparr>"
    and code: "normalize_institution_id ''CORP_A'' = Inr ''CORP_A''"
    by code_simp+
  have own: "get_payment (node_ledger (fst s1)) (tx_id (pay_transaction sample_credit)) = Inr sample_credit"
    "account_belongs_to_institution (accounts (node_ledger (fst s1))) (tx_to (pay_transaction sample_credit)) ''CORP_A''"
    using sample_credit by (auto simp: run Let_def split: sum.splits)
  from suspension_final [OF reach run [unfolded sample_suspended_def s] api_start [of sample_api] auth,
      where pr = sample_payment_request and req = "PostPayment sample_payment_request"
      and k = "tx_id (pay_transaction sample_credit)"] code own
  show ?thesis by (simp add: run del: serve.simps)
qed

theorem audit_trail_witness:
  "prefix (led_audit_events (node_ledger (fst sample_start)))
     (led_audit_events (node_ledger (fst (snd sample_minted)))) \<and>
   led_audit_events (node_ledger (fst (snd (authenticate_request sample_app
     (sample_headers ''CORP_A'' ''wrong'') ''read_blocks'' ''network:blocks'' sample_start)))) \<noteq> []"
proof
  show "prefix (led_audit_events (node_ledger (fst sample_start)))
     (led_audit_events (node_ledger (fst (snd sample_minted))))"
    using audit_trail sample_minted_reachable by blast
  obtain node w where s: "sample_start = (node, w)" by force
  have "\<not> is_ok (authenticate (app_auth sample_app) (sample_headers ''CORP_A'' ''wrong''))" by code_simp
  then obtain err where "authenticate (app_auth sample_app) (sample_headers ''CORP_A'' ''wrong'') = Inl err"
    by (cases "authenticate (app_auth sample_app) (sample_headers ''CORP_A'' ''wrong'')") (auto simp: is_ok_iff)
  with audit_trail [where app = sample_app and hs = "sample_headers ''CORP_A'' ''wrong''"
      and action = "''read_blocks''" and resource = "''network:blocks''" and node = node and w = w]
  show "led_audit_events (node_ledger (fst (snd (authenticate_request sample_app
     (sample_headers ''CORP_A'' ''wrong'') ''read_blocks'' ''network:blocks'' sample_start)))) \<noteq> []"
    unfolding s by fastforce
qed

end
