(* ===== verification/Kani_Pg_Tables.thy ===== *)
theory Kani_Pg_Tables
  imports Kani_Ledger
begin

text \<open>
  The tables of \<open>src/migrations\<close> and the rows \<open>crates/kani-ledger/src/lib.rs\<close> binds and reads.

  A table is the list of its rows in insertion order; every query that returns several rows
  orders them itself. An enumerated column holds the text of its codec, a \<open>NUMERIC(38, 0)\<close> column
  an integer; a \<open>JSONB\<close> column holds the string list or the string map \<open>serde_json\<close> writes and
  reads back. PostgreSQL is a parameter where it does more than store a value: the cast of a text
  to \<open>uuid\<close>, the precision of \<open>timestamptz\<close>, the collation of text, and \<open>lower\<close>. A statement that
  breaks a constraint fails with the condition name of its SQLSTATE; a lost connection is not
  modelled.
\<close>

section \<open>Statements\<close>

record postgres_api =
  pg_uuid :: "string \<Rightarrow> string option"
  pg_time :: "timestamp \<Rightarrow> timestamp"
  pg_collate :: "string \<Rightarrow> string"
  pg_lower :: "string \<Rightarrow> string"

definition uuid_cast :: "postgres_api \<Rightarrow> string \<Rightarrow> ledger_storage_error + string" where
  "uuid_cast pg text = ok_or (Sqlx ''invalid_text_representation'') (pg_uuid pg text)"

definition uuid_cast_opt :: "postgres_api \<Rightarrow> string option \<Rightarrow> ledger_storage_error + string option" where
  "uuid_cast_opt pg v =
     (case v of None \<Rightarrow> Inr None | Some text \<Rightarrow> and_then (uuid_cast pg text) (\<lambda>i. Inr (Some i)))"

text \<open>\<open>CAST(x.to_string() AS NUMERIC(38, 0))\<close>.\<close>

definition numeric_cast :: "i128 \<Rightarrow> ledger_storage_error + int" where
  "numeric_cast x =
     (if \<bar>x\<bar> < 10 ^ 38 then Inr x else Inl (Sqlx ''numeric_value_out_of_range''))"

datatype 'r conflict_action = DoNothing | DoUpdate "'r \<Rightarrow> 'r"

text \<open>
  \<open>INSERT ... ON CONFLICT\<close>: the row's \<open>CHECK\<close> constraints, the row the conflict target names (if
  any) and the action on it, the unique keys of the other rows (\<open>clash\<close>), and the foreign keys.
  The result counts the affected rows.
\<close>

definition sql_insert ::
  "('r \<Rightarrow> bool) \<Rightarrow> ('r \<Rightarrow> 'r \<Rightarrow> bool) \<Rightarrow> ('r \<Rightarrow> bool) \<Rightarrow> ('r \<Rightarrow> bool) \<Rightarrow> 'r conflict_action \<Rightarrow> 'r \<Rightarrow> 'r list
    \<Rightarrow> ledger_storage_error + nat \<times> 'r list" where
  "sql_insert check clash refs arbiter action row rows =
     (if \<not> check row then Inl (Sqlx ''check_violation'')
      else case List.find arbiter rows of
        Some old \<Rightarrow>
          (case action of
             DoNothing \<Rightarrow> Inr (0, rows)
           | DoUpdate upd \<Rightarrow>
               if \<not> check (upd old) then Inl (Sqlx ''check_violation'')
               else if list_ex (\<lambda>r. \<not> arbiter r \<and> clash (upd old) r) rows
               then Inl (Sqlx ''unique_violation'')
               else if \<not> refs (upd old) then Inl (Sqlx ''foreign_key_violation'')
               else Inr (1, map (\<lambda>r. if arbiter r then upd r else r) rows))
      | None \<Rightarrow>
          if list_ex (clash row) rows then Inl (Sqlx ''unique_violation'')
          else if \<not> refs row then Inl (Sqlx ''foreign_key_violation'')
          else Inr (1, rows @ [row]))"

definition sql_update :: "('r \<Rightarrow> bool) \<Rightarrow> ('r \<Rightarrow> 'r) \<Rightarrow> 'r list \<Rightarrow> 'r list" where
  "sql_update p upd rows = map (\<lambda>r. if p r then upd r else r) rows"

text \<open>\<open>ORDER BY created_at, id\<close>: both sorts are stable.\<close>

definition order_by_time :: "('r \<Rightarrow> timestamp) \<Rightarrow> ('r \<Rightarrow> string) \<Rightarrow> 'r list \<Rightarrow> 'r list" where
  "order_by_time created i rows = sort_key created (sort_key i rows)"

text \<open>\<open>LIMIT limit OFFSET offset\<close>.\<close>

definition sql_page :: "i64 \<Rightarrow> i64 \<Rightarrow> 'r list \<Rightarrow> ledger_storage_error + 'r list" where
  "sql_page limit offset rows =
     (if limit < 0 then Inl (Sqlx ''invalid_row_count_in_limit_clause'')
      else if offset < 0 then Inl (Sqlx ''invalid_row_count_in_result_offset_clause'')
      else Inr (page (nat offset) (nat limit) rows))"

text \<open>The format \<open>^[A-Z0-9_]{3,32}$\<close> of the asset columns.\<close>

definition asset_column_ok :: "string \<Rightarrow> bool" where
  "asset_column_ok s \<longleftrightarrow> 3 \<le> length s \<and> length s \<le> 32 \<and>
     list_all (\<lambda>c. is_ascii_uppercase c \<or> is_ascii_digit c \<or> c = CHR ''_'') s"

section \<open>Rows\<close>

record account_row =
  ar_id :: string
  ar_account_type :: string
  ar_institution_id :: "string option"
  ar_created_at :: timestamp

record institution_row =
  ir_id :: string
  ir_legal_name :: string
  ir_institution_code :: string
  ir_jurisdiction :: string
  ir_status :: string
  ir_risk_tier :: string
  ir_allowed_assets :: "string list"
  ir_roles :: "string list"
  ir_created_at :: timestamp
  ir_approved_at :: "timestamp option"
  ir_suspended_at :: "timestamp option"
  ir_updated_at :: timestamp

record credential_row =
  cr_id :: string
  cr_institution_id :: string
  cr_credential_type :: string
  cr_label :: string
  cr_fingerprint :: string
  cr_issuer :: "string option"
  cr_subject :: "string option"
  cr_expires_at :: "timestamp option"
  cr_status :: string
  cr_created_at :: timestamp
  cr_revoked_at :: "timestamp option"
  cr_revocation_reason :: "string option"

record limit_row =
  lr_institution_id :: string
  lr_asset :: string
  lr_daily_limit :: int
  lr_per_transaction_limit :: int
  lr_updated_at :: timestamp

record balance_table_row =
  bl_account_id :: string
  bl_asset :: string
  bl_amount :: int
  bl_updated_at :: timestamp

record block_row =
  bkr_height :: i64
  bkr_prev_hash :: string
  bkr_hash :: string
  bkr_validator :: string
  bkr_signature :: string
  bkr_finalized_by :: "string list"
  bkr_created_at :: timestamp

record transaction_row =
  tr_id :: string
  tr_block_height :: "i64 option"
  tr_from_account :: string
  tr_to_account :: string
  tr_asset :: string
  tr_amount :: int
  tr_nonce :: i64
  tr_kind :: string
  tr_status :: string
  tr_signatures :: "string list"
  tr_metadata :: "string btree_map"
  tr_failure_reason :: "string option"
  tr_client_reference_id :: "string option"
  tr_request_fingerprint :: "string option"
  tr_created_at :: timestamp
  tr_updated_at :: timestamp

record case_row =
  kr_id :: string
  kr_payment_id :: string
  kr_status :: string
  kr_policy_version :: string
  kr_rule_id :: string
  kr_reason :: string
  kr_opened_by_institution :: string
  kr_assigned_to :: "string option"
  kr_reviewer :: "string option"
  kr_resolution_reason :: "string option"
  kr_created_at :: timestamp
  kr_updated_at :: timestamp
  kr_resolved_at :: "timestamp option"

record journal_row =
  jr_id :: string
  jr_transaction_id :: string
  jr_account_id :: string
  jr_asset :: string
  jr_amount :: int
  jr_direction :: string
  jr_block_height :: i64
  jr_created_at :: timestamp

record audit_row =
  er_id :: string
  er_event_type :: string
  er_message :: string
  er_metadata :: "string btree_map"
  er_block_height :: "i64 option"
  er_transaction_id :: "string option"
  er_created_at :: timestamp

record validator_status_row =
  vr_validator_id :: string
  vr_last_seen_at :: timestamp
  vr_last_finalized_height :: "i64 option"
  vr_last_finalized_hash :: "string option"
  vr_last_finalized_at :: "timestamp option"

text \<open>The database; \<open>db_lock\<close> tells whether a session holds the advisory lock of block production.\<close>

record database =
  db_accounts :: "account_row list"
  db_institutions :: "institution_row list"
  db_credentials :: "credential_row list"
  db_limits :: "limit_row list"
  db_balances :: "balance_table_row list"
  db_blocks :: "block_row list"
  db_transactions :: "transaction_row list"
  db_cases :: "case_row list"
  db_journal :: "journal_row list"
  db_audit :: "audit_row list"
  db_validators :: "validator_status_row list"
  db_lock :: bool

definition database_empty :: database where
  "database_empty = \<lparr>db_accounts = [], db_institutions = [], db_credentials = [], db_limits = [],
     db_balances = [], db_blocks = [], db_transactions = [], db_cases = [], db_journal = [],
     db_audit = [], db_validators = [], db_lock = False\<rparr>"

section \<open>Reading rows\<close>

definition account_from_row :: "account_row \<Rightarrow> ledger_storage_error + account" where
  "account_from_row r =
     and_then (account_type_from_db (ar_account_type r)) (\<lambda>account_type.
     Inr \<lparr>acc_id = ar_id r, acc_type = account_type, acc_institution_id = ar_institution_id r,
          acc_created_at = ar_created_at r\<rparr>)"

definition audit_event_from_row :: "audit_row \<Rightarrow> ledger_storage_error + audit_event" where
  "audit_event_from_row r =
     Inr \<lparr>ae_id = er_id r, ae_event_type = er_event_type r, ae_message = er_message r,
          ae_metadata = er_metadata r, ae_block_height = er_block_height r,
          ae_transaction_id = er_transaction_id r, ae_created_at = er_created_at r\<rparr>"

definition journal_entry_from_row :: "journal_row \<Rightarrow> ledger_storage_error + journal_entry" where
  "journal_entry_from_row r =
     and_then (parse_amount (int_to_dec (jr_amount r))) (\<lambda>amount.
     and_then (journal_direction_from_db (jr_direction r)) (\<lambda>direction.
     Inr \<lparr>je_id = jr_id r, je_transaction_id = jr_transaction_id r, je_account_id = jr_account_id r,
          je_asset = jr_asset r, je_amount = amount, je_direction = direction,
          je_block_height = jr_block_height r, je_created_at = jr_created_at r\<rparr>))"

definition institution_from_row :: "institution_row \<Rightarrow> ledger_storage_error + institution" where
  "institution_from_row r =
     and_then (institution_status_from_db (ir_status r)) (\<lambda>status.
     and_then (institution_risk_tier_from_db (ir_risk_tier r)) (\<lambda>risk_tier.
     and_then (collect_results (map institution_role_from_db (ir_roles r))) (\<lambda>roles.
     Inr \<lparr>inst_id = ir_id r, inst_legal_name = ir_legal_name r,
          inst_institution_code = ir_institution_code r, inst_jurisdiction = ir_jurisdiction r,
          inst_status = status, inst_risk_tier = risk_tier,
          inst_allowed_assets = ir_allowed_assets r, inst_roles = roles,
          inst_created_at = ir_created_at r, inst_approved_at = ir_approved_at r,
          inst_suspended_at = ir_suspended_at r, inst_updated_at = ir_updated_at r\<rparr>)))"

definition institution_credential_from_row ::
  "credential_row \<Rightarrow> ledger_storage_error + institution_credential" where
  "institution_credential_from_row r =
     and_then (institution_credential_type_from_db (cr_credential_type r)) (\<lambda>credential_type.
     and_then (institution_credential_status_from_db (cr_status r)) (\<lambda>status.
     Inr \<lparr>cred_id = cr_id r, cred_institution_id = cr_institution_id r,
          cred_type = credential_type, cred_label = cr_label r,
          cred_fingerprint = cr_fingerprint r, cred_issuer = cr_issuer r,
          cred_subject = cr_subject r, cred_expires_at = cr_expires_at r, cred_status = status,
          cred_created_at = cr_created_at r, cred_revoked_at = cr_revoked_at r,
          cred_revocation_reason = cr_revocation_reason r\<rparr>))"

definition institution_limit_from_row :: "limit_row \<Rightarrow> ledger_storage_error + institution_limit" where
  "institution_limit_from_row r =
     and_then (parse_amount (int_to_dec (lr_daily_limit r))) (\<lambda>daily_limit.
     and_then (parse_amount (int_to_dec (lr_per_transaction_limit r))) (\<lambda>per_transaction_limit.
     Inr \<lparr>lim_institution_id = lr_institution_id r, lim_asset = lr_asset r,
          lim_daily_limit = daily_limit, lim_per_transaction_limit = per_transaction_limit,
          lim_updated_at = lr_updated_at r\<rparr>))"

definition balance_from_row :: "balance_table_row \<Rightarrow> ledger_storage_error + balance_row" where
  "balance_from_row r =
     and_then (parse_amount (int_to_dec (bl_amount r))) (\<lambda>amount.
     Inr \<lparr>bal_account_id = bl_account_id r, bal_asset = bl_asset r, bal_amount = amount\<rparr>)"

definition block_from_row :: "block_row \<Rightarrow> transaction list \<Rightarrow> ledger_storage_error + block" where
  "block_from_row r txs =
     Inr \<lparr>blk_height = bkr_height r, blk_prev_hash = bkr_prev_hash r, blk_txs = txs,
          blk_validator = bkr_validator r, blk_signature = bkr_signature r, blk_hash = bkr_hash r,
          blk_finalized_by = bkr_finalized_by r, blk_created_at = bkr_created_at r\<rparr>"

definition transaction_from_row :: "transaction_row \<Rightarrow> ledger_storage_error + transaction" where
  "transaction_from_row r =
     and_then (parse_amount (int_to_dec (tr_amount r))) (\<lambda>amount.
     and_then (transaction_kind_from_db (tr_kind r)) (\<lambda>kind.
     Inr \<lparr>tx_id = tr_id r, tx_from = tr_from_account r, tx_to = tr_to_account r,
          tx_asset = tr_asset r, tx_amount = amount, tx_nonce = tr_nonce r,
          tx_signatures = tr_signatures r, tx_kind = kind, tx_metadata = tr_metadata r,
          tx_created_at = tr_created_at r\<rparr>))"

text \<open>\<open>transactions t LEFT JOIN blocks b ON b.height = t.block_height\<close>: the block's hash.\<close>

definition joined_block_hash :: "block_row list \<Rightarrow> transaction_row \<Rightarrow> string option" where
  "joined_block_hash blocks r =
     Option.bind (tr_block_height r) (\<lambda>h.
     map_option bkr_hash (List.find (\<lambda>b. bkr_height b = h) blocks))"

definition payment_from_row :: "block_row list \<Rightarrow> transaction_row \<Rightarrow> ledger_storage_error + payment_record" where
  "payment_from_row blocks r =
     and_then (transaction_from_row r) (\<lambda>tx.
     and_then (transaction_status_from_db (tr_status r)) (\<lambda>status.
     Inr \<lparr>pay_transaction = tx, pay_status = status, pay_block_height = tr_block_height r,
          pay_block_hash = joined_block_hash blocks r, pay_failure_reason = tr_failure_reason r,
          pay_client_reference_id = tr_client_reference_id r,
          pay_request_fingerprint = tr_request_fingerprint r,
          pay_created_at = tr_created_at r, pay_updated_at = tr_updated_at r\<rparr>))"

definition compliance_case_from_row :: "case_row \<Rightarrow> ledger_storage_error + compliance_case" where
  "compliance_case_from_row r =
     and_then (compliance_case_status_from_db (kr_status r)) (\<lambda>status.
     Inr \<lparr>case_id = kr_id r, case_payment_id = kr_payment_id r, case_status = status,
          case_policy_version = kr_policy_version r, case_rule_id = kr_rule_id r,
          case_reason = kr_reason r, case_opened_by_institution = kr_opened_by_institution r,
          case_assigned_to = kr_assigned_to r, case_reviewer = kr_reviewer r,
          case_resolution_reason = kr_resolution_reason r, case_created_at = kr_created_at r,
          case_updated_at = kr_updated_at r, case_resolved_at = kr_resolved_at r\<rparr>)"

definition validator_status_from_row :: "validator_status_row \<Rightarrow> ledger_storage_error + validator_status" where
  "validator_status_from_row r =
     Inr \<lparr>vst_validator_id = vr_validator_id r, vst_last_seen_at = vr_last_seen_at r,
          vst_last_finalized_height = vr_last_finalized_height r,
          vst_last_finalized_hash = vr_last_finalized_hash r,
          vst_last_finalized_at = vr_last_finalized_at r\<rparr>"

end
