(* ===== verification/Kani_Pg_Store.thy ===== *)
theory Kani_Pg_Store
  imports Kani_Pg_Tables
begin

text \<open>
  \<open>PostgresLedgerStore\<close> of \<open>crates/kani-ledger/src/lib.rs\<close>. An operation is a fallible step on
  the database and the environment; a single statement is atomic, the statements between
  \<open>begin\<close> and \<open>commit\<close> are run together and leave nothing behind when one of them fails.
\<close>

section \<open>Operations\<close>

type_synonym 'a store_op = "database \<times> env \<Rightarrow> (ledger_storage_error + 'a) \<times> database \<times> env"

definition db_query :: "(database \<Rightarrow> ledger_storage_error + 'a) \<Rightarrow> 'a store_op" where
  "db_query f = (\<lambda>(db, w). (f db, db, w))"

text \<open>A statement, or a transaction of several: its result and the database it leaves.\<close>

definition db_execute :: "(database \<Rightarrow> ledger_storage_error + 'a \<times> database) \<Rightarrow> 'a store_op" where
  "db_execute f = (\<lambda>(db, w). case f db of
     Inl e \<Rightarrow> (Inl e, db, w) | Inr (x, db) \<Rightarrow> (Inr x, db, w))"

text \<open>\<open>Utc::now()\<close> and \<open>now()\<close> of the database, and the constructors that draw identifiers.\<close>

definition db_draw :: "(env \<Rightarrow> 'a \<times> env) \<Rightarrow> 'a store_op" where
  "db_draw f = (\<lambda>(db, w). case f w of (x, w) \<Rightarrow> (Inr x, db, w))"

section \<open>Institutions\<close>

definition institution_to_row :: "postgres_api \<Rightarrow> institution \<Rightarrow> institution_row" where
  "institution_to_row pg i =
     \<lparr>ir_id = inst_id i, ir_legal_name = inst_legal_name i,
      ir_institution_code = inst_institution_code i, ir_jurisdiction = inst_jurisdiction i,
      ir_status = institution_status_to_db (inst_status i),
      ir_risk_tier = institution_risk_tier_to_db (inst_risk_tier i),
      ir_allowed_assets = inst_allowed_assets i,
      ir_roles = map institution_role_to_db (inst_roles i),
      ir_created_at = pg_time pg (inst_created_at i),
      ir_approved_at = map_option (pg_time pg) (inst_approved_at i),
      ir_suspended_at = map_option (pg_time pg) (inst_suspended_at i),
      ir_updated_at = pg_time pg (inst_updated_at i)\<rparr>"

text \<open>\<open>ON CONFLICT (id) DO UPDATE\<close> of every column but \<open>created_at\<close>; the institution code is
  unique.\<close>

definition insert_institution_row :: "institution_row \<Rightarrow> database \<Rightarrow> ledger_storage_error + database" where
  "insert_institution_row row db =
     and_then (sql_insert (\<lambda>r. True) (\<lambda>r r'. ir_institution_code r = ir_institution_code r')
                 (\<lambda>r. True) (\<lambda>r. ir_id r = ir_id row)
                 (DoUpdate (\<lambda>old. row\<lparr>ir_created_at := ir_created_at old\<rparr>)) row (db_institutions db))
       (\<lambda>(n, rows). Inr (db\<lparr>db_institutions := rows\<rparr>))"

definition pg_upsert_institution :: "postgres_api \<Rightarrow> institution \<Rightarrow> institution store_op" where
  "pg_upsert_institution pg i =
     db_execute (\<lambda>db. and_then (insert_institution_row (institution_to_row pg i) db) (\<lambda>db.
       Inr (i, db)))"

definition pg_institutions :: "postgres_api \<Rightarrow> institution list store_op" where
  "pg_institutions pg = db_query (\<lambda>db.
     collect_results (map institution_from_row
       (sort_key (\<lambda>r. pg_collate pg (ir_id r)) (db_institutions db))))"

definition pg_get_institution :: "string \<Rightarrow> institution option store_op" where
  "pg_get_institution i = db_query (\<lambda>db.
     (case List.find (\<lambda>r. ir_id r = i) (db_institutions db) of
        None \<Rightarrow> Inr None
      | Some r \<Rightarrow> and_then (institution_from_row r) (\<lambda>x. Inr (Some x))))"

definition suspend_institution_row :: "timestamp \<Rightarrow> institution_row \<Rightarrow> institution_row" where
  "suspend_institution_row now r = r\<lparr>ir_status := ''SUSPENDED'',
     ir_suspended_at := (case ir_suspended_at r of None \<Rightarrow> Some now | Some t \<Rightarrow> Some t),
     ir_updated_at := now\<rparr>"

definition pg_suspend_institution :: "postgres_api \<Rightarrow> string \<Rightarrow> institution option store_op" where
  "pg_suspend_institution pg i =
     h_bind (db_draw utc_now) (\<lambda>now.
     h_bind (db_execute (\<lambda>db.
       let rows = sql_update (\<lambda>r. ir_id r = i) (suspend_institution_row (pg_time pg now))
                    (db_institutions db)
       in Inr (List.find (\<lambda>r. ir_id r = i) rows, db\<lparr>db_institutions := rows\<rparr>))) (\<lambda>row.
     h_lift (case row of
               None \<Rightarrow> Inr None
             | Some r \<Rightarrow> and_then (institution_from_row r) (\<lambda>x. Inr (Some x)))))"

section \<open>Credentials and limits\<close>

definition credential_to_row ::
  "postgres_api \<Rightarrow> institution_credential \<Rightarrow> ledger_storage_error + credential_row" where
  "credential_to_row pg c =
     and_then (uuid_cast pg (cred_id c)) (\<lambda>i.
     Inr \<lparr>cr_id = i, cr_institution_id = cred_institution_id c,
          cr_credential_type = institution_credential_type_to_db (cred_type c),
          cr_label = cred_label c, cr_fingerprint = cred_fingerprint c,
          cr_issuer = cred_issuer c, cr_subject = cred_subject c,
          cr_expires_at = map_option (pg_time pg) (cred_expires_at c),
          cr_status = institution_credential_status_to_db (cred_status c),
          cr_created_at = pg_time pg (cred_created_at c),
          cr_revoked_at = map_option (pg_time pg) (cred_revoked_at c),
          cr_revocation_reason = cred_revocation_reason c\<rparr>)"

text \<open>\<open>UNIQUE (institution_id, credential_type, fingerprint)\<close>.\<close>

definition credential_clash :: "credential_row \<Rightarrow> credential_row \<Rightarrow> bool" where
  "credential_clash r r' \<longleftrightarrow>
     (cr_institution_id r, cr_credential_type r, cr_fingerprint r) =
     (cr_institution_id r', cr_credential_type r', cr_fingerprint r')"

definition institution_exists :: "database \<Rightarrow> string \<Rightarrow> bool" where
  "institution_exists db i = list_ex (\<lambda>r. ir_id r = i) (db_institutions db)"

text \<open>Without a conflict target every unique key of the table is one to clash with.\<close>

definition pg_insert_institution_credential ::
  "postgres_api \<Rightarrow> institution_credential \<Rightarrow> institution_credential store_op" where
  "pg_insert_institution_credential pg c =
     db_execute (\<lambda>db.
       and_then (credential_to_row pg c) (\<lambda>row.
       and_then (sql_insert (\<lambda>r. True) (\<lambda>r r'. cr_id r = cr_id r' \<or> credential_clash r r')
                   (\<lambda>r. institution_exists db (cr_institution_id r)) (\<lambda>r. False) DoNothing row
                   (db_credentials db)) (\<lambda>(n, rows).
       Inr (c, db\<lparr>db_credentials := rows\<rparr>))))"

definition pg_institution_credentials :: "string \<Rightarrow> institution_credential list store_op" where
  "pg_institution_credentials i = db_query (\<lambda>db.
     collect_results (map institution_credential_from_row
       (order_by_time cr_created_at cr_id
          (filter (\<lambda>r. cr_institution_id r = i) (db_credentials db)))))"

definition limit_to_row :: "postgres_api \<Rightarrow> institution_limit \<Rightarrow> ledger_storage_error + limit_row" where
  "limit_to_row pg m =
     and_then (numeric_cast (lim_daily_limit m)) (\<lambda>daily_limit.
     and_then (numeric_cast (lim_per_transaction_limit m)) (\<lambda>per_transaction_limit.
     Inr \<lparr>lr_institution_id = lim_institution_id m, lr_asset = lim_asset m,
          lr_daily_limit = daily_limit, lr_per_transaction_limit = per_transaction_limit,
          lr_updated_at = pg_time pg (lim_updated_at m)\<rparr>))"

definition insert_limit_row :: "limit_row \<Rightarrow> database \<Rightarrow> ledger_storage_error + database" where
  "insert_limit_row row db =
     and_then (sql_insert (\<lambda>r. 0 \<le> lr_daily_limit r \<and> 0 \<le> lr_per_transaction_limit r)
                 (\<lambda>r r'. False) (\<lambda>r. institution_exists db (lr_institution_id r))
                 (\<lambda>r. lr_institution_id r = lr_institution_id row \<and> lr_asset r = lr_asset row)
                 (DoUpdate (\<lambda>old. row)) row (db_limits db))
       (\<lambda>(n, rows). Inr (db\<lparr>db_limits := rows\<rparr>))"

definition pg_upsert_institution_limit :: "postgres_api \<Rightarrow> institution_limit \<Rightarrow> institution_limit store_op" where
  "pg_upsert_institution_limit pg m =
     db_execute (\<lambda>db.
       and_then (limit_to_row pg m) (\<lambda>row.
       and_then (insert_limit_row row db) (\<lambda>db. Inr (m, db))))"

definition pg_institution_limits :: "postgres_api \<Rightarrow> string \<Rightarrow> institution_limit list store_op" where
  "pg_institution_limits pg i = db_query (\<lambda>db.
     collect_results (map institution_limit_from_row
       (sort_key (\<lambda>r. pg_collate pg (lr_asset r))
          (filter (\<lambda>r. lr_institution_id r = i) (db_limits db)))))"

section \<open>The advisory lock\<close>

definition pg_try_acquire_block_production_lock :: "bool store_op" where
  "pg_try_acquire_block_production_lock =
     db_execute (\<lambda>db. if db_lock db then Inr (False, db) else Inr (True, db\<lparr>db_lock := True\<rparr>))"

text \<open>\<open>BlockProductionLock::release\<close> by the session that holds the lock.\<close>

definition pg_release_block_production_lock :: "unit store_op" where
  "pg_release_block_production_lock =
     db_execute (\<lambda>db. if \<not> db_lock db then Inl AdvisoryLockReleaseFailed
       else Inr ((), db\<lparr>db_lock := False\<rparr>))"

section \<open>Payments\<close>

definition account_exists :: "database \<Rightarrow> string \<Rightarrow> bool" where
  "account_exists db i = list_ex (\<lambda>r. ar_id r = i) (db_accounts db)"

definition block_exists :: "database \<Rightarrow> i64 \<Rightarrow> bool" where
  "block_exists db h = list_ex (\<lambda>r. bkr_height r = h) (db_blocks db)"

definition transaction_exists :: "database \<Rightarrow> string \<Rightarrow> bool" where
  "transaction_exists db i = list_ex (\<lambda>r. tr_id r = i) (db_transactions db)"

definition payment_to_row :: "postgres_api \<Rightarrow> payment_record \<Rightarrow> ledger_storage_error + transaction_row" where
  "payment_to_row pg p =
     (let tx = pay_transaction p in
      and_then (uuid_cast pg (tx_id tx)) (\<lambda>i.
      and_then (numeric_cast (tx_amount tx)) (\<lambda>amount.
      Inr \<lparr>tr_id = i, tr_block_height = pay_block_height p, tr_from_account = tx_from tx,
           tr_to_account = tx_to tx, tr_asset = tx_asset tx, tr_amount = amount,
           tr_nonce = tx_nonce tx, tr_kind = transaction_kind_to_db (tx_kind tx),
           tr_status = transaction_status_to_db (pay_status p),
           tr_signatures = tx_signatures tx, tr_metadata = tx_metadata tx,
           tr_failure_reason = pay_failure_reason p,
           tr_client_reference_id = pay_client_reference_id p,
           tr_request_fingerprint = pay_request_fingerprint p,
           tr_created_at = pg_time pg (pay_created_at p),
           tr_updated_at = pg_time pg (pay_updated_at p)\<rparr>)))"

definition transaction_check :: "transaction_row \<Rightarrow> bool" where
  "transaction_check r \<longleftrightarrow> 0 < tr_amount r \<and> asset_column_ok (tr_asset r)"

definition transaction_refs :: "database \<Rightarrow> transaction_row \<Rightarrow> bool" where
  "transaction_refs db r \<longleftrightarrow> account_exists db (tr_from_account r) \<and>
     account_exists db (tr_to_account r) \<and>
     (case tr_block_height r of None \<Rightarrow> True | Some h \<Rightarrow> block_exists db h)"

text \<open>The unique keys of the table: the identifier, the account's nonce, the client reference.\<close>

definition same_nonce :: "transaction_row \<Rightarrow> transaction_row \<Rightarrow> bool" where
  "same_nonce r r' \<longleftrightarrow> tr_from_account r = tr_from_account r' \<and> tr_nonce r = tr_nonce r'"

definition same_reference :: "transaction_row \<Rightarrow> transaction_row \<Rightarrow> bool" where
  "same_reference r r' \<longleftrightarrow> tr_client_reference_id r \<noteq> None \<and>
     tr_client_reference_id r = tr_client_reference_id r'"

text \<open>\<open>ON CONFLICT (client_reference_id) WHERE client_reference_id IS NOT NULL DO NOTHING\<close>.\<close>

definition insert_new_transaction ::
  "transaction_row \<Rightarrow> database \<Rightarrow> ledger_storage_error + nat \<times> database" where
  "insert_new_transaction row db =
     and_then (sql_insert transaction_check (\<lambda>r r'. tr_id r = tr_id r' \<or> same_nonce r r')
                 (transaction_refs db) (same_reference row) DoNothing row (db_transactions db))
       (\<lambda>(n, rows). Inr (n, db\<lparr>db_transactions := rows\<rparr>))"

definition pg_next_nonce_for_account :: "string \<Rightarrow> i64 store_op" where
  "pg_next_nonce_for_account account_id = db_query (\<lambda>db.
     let nonces = map tr_nonce (filter (\<lambda>r. tr_from_account r = account_id) (db_transactions db));
         next_nonce = (if nonces = [] then 0 else fold max (tl nonces) (hd nonces)) + 1
     in if next_nonce < 2 ^ 63 then Inr next_nonce else Inl (Sqlx ''numeric_value_out_of_range''))"

definition pg_payment_by_client_reference_id :: "string \<Rightarrow> payment_record option store_op" where
  "pg_payment_by_client_reference_id c = db_query (\<lambda>db.
     (case List.find (\<lambda>r. tr_client_reference_id r = Some c) (db_transactions db) of
        None \<Rightarrow> Inr None
      | Some r \<Rightarrow> and_then (payment_from_row (db_blocks db) r) (\<lambda>p. Inr (Some p))))"

definition pg_payment :: "postgres_api \<Rightarrow> string \<Rightarrow> payment_record store_op" where
  "pg_payment pg payment_id = db_query (\<lambda>db.
     and_then (uuid_cast pg payment_id) (\<lambda>i.
     case List.find (\<lambda>r. tr_id r = i) (db_transactions db) of
       None \<Rightarrow> Inl (StorageUnknownPayment payment_id)
     | Some r \<Rightarrow> payment_from_row (db_blocks db) r))"

definition payment_matches_transaction :: "payment_record \<Rightarrow> transaction \<Rightarrow> bool" where
  "payment_matches_transaction p tx \<longleftrightarrow>
     tx_kind (pay_transaction p) = tx_kind tx \<and> tx_from (pay_transaction p) = tx_from tx \<and>
     tx_to (pay_transaction p) = tx_to tx \<and> tx_asset (pay_transaction p) = tx_asset tx \<and>
     tx_amount (pay_transaction p) = tx_amount tx"

definition storage_ensure_idempotent_retry ::
  "payment_record \<Rightarrow> transaction \<Rightarrow> string \<Rightarrow> string option \<Rightarrow> ledger_storage_error + unit" where
  "storage_ensure_idempotent_retry p tx client_reference_id fingerprint =
     (let matches = (case (pay_request_fingerprint p, fingerprint) of
            (Some existing, Some attempted) \<Rightarrow> existing = attempted
          | _ \<Rightarrow> payment_matches_transaction p tx)
      in if matches then Inr ()
         else Inl (IdempotencyConflict client_reference_id (tx_id (pay_transaction p))))"

text \<open>The payment an idempotency key was used for, checked against the attempt.\<close>

definition pg_earlier_payment ::
  "string option \<Rightarrow> transaction \<Rightarrow> string option \<Rightarrow> payment_record option store_op" where
  "pg_earlier_payment client_reference_id tx fingerprint =
     (case client_reference_id of
        None \<Rightarrow> h_return None
      | Some c \<Rightarrow>
          h_bind (pg_payment_by_client_reference_id c) (\<lambda>found.
          case found of
            None \<Rightarrow> h_return None
          | Some payment \<Rightarrow>
              h_bind (h_lift (storage_ensure_idempotent_retry payment tx c fingerprint)) (\<lambda>_.
              h_return (Some payment))))"

definition pg_enqueue_pending_transaction ::
  "postgres_api \<Rightarrow> transaction \<Rightarrow> string option \<Rightarrow> string option \<Rightarrow> payment_record store_op" where
  "pg_enqueue_pending_transaction pg tx client_reference_id fingerprint =
     h_bind (pg_earlier_payment client_reference_id tx fingerprint) (\<lambda>found.
     case found of
       Some payment \<Rightarrow> h_return payment
     | None \<Rightarrow>
         h_bind (db_draw (\<lambda>w. payment_pending w tx)) (\<lambda>payment.
         let payment = with_request_fingerprint fingerprint
               (with_client_reference_id client_reference_id payment) in
         h_bind (db_execute (\<lambda>db.
           and_then (payment_to_row pg payment) (\<lambda>row.
           insert_new_transaction (row\<lparr>tr_block_height := None, tr_failure_reason := None\<rparr>) db)))
           (\<lambda>rows_affected.
         if rows_affected = 0
         then h_bind (pg_earlier_payment client_reference_id tx fingerprint) (\<lambda>found.
              h_return (case found of Some earlier \<Rightarrow> earlier | None \<Rightarrow> payment))
         else h_return payment)))"

section \<open>Compliance cases\<close>

definition case_to_row :: "postgres_api \<Rightarrow> compliance_case \<Rightarrow> ledger_storage_error + case_row" where
  "case_to_row pg c =
     and_then (uuid_cast pg (case_id c)) (\<lambda>i.
     and_then (uuid_cast pg (case_payment_id c)) (\<lambda>payment_id.
     Inr \<lparr>kr_id = i, kr_payment_id = payment_id,
          kr_status = compliance_case_status_to_db (case_status c),
          kr_policy_version = case_policy_version c, kr_rule_id = case_rule_id c,
          kr_reason = case_reason c, kr_opened_by_institution = case_opened_by_institution c,
          kr_assigned_to = case_assigned_to c, kr_reviewer = case_reviewer c,
          kr_resolution_reason = case_resolution_reason c,
          kr_created_at = pg_time pg (case_created_at c),
          kr_updated_at = pg_time pg (case_updated_at c),
          kr_resolved_at = map_option (pg_time pg) (case_resolved_at c)\<rparr>))"

definition insert_new_case :: "case_row \<Rightarrow> database \<Rightarrow> ledger_storage_error + database" where
  "insert_new_case row db =
     and_then (sql_insert (\<lambda>r. True) (\<lambda>r r'. kr_id r = kr_id r')
                 (\<lambda>r. transaction_exists db (kr_payment_id r))
                 (\<lambda>r. kr_payment_id r = kr_payment_id row) DoNothing row (db_cases db))
       (\<lambda>(n, rows). Inr (db\<lparr>db_cases := rows\<rparr>))"

definition pg_compliance_cases :: "i64 \<Rightarrow> i64 \<Rightarrow> compliance_case list store_op" where
  "pg_compliance_cases limit offset = db_query (\<lambda>db.
     and_then (sql_page limit offset (order_by_time kr_created_at kr_id (db_cases db))) (\<lambda>rows.
     collect_results (map compliance_case_from_row rows)))"

definition pg_find_case ::
  "postgres_api \<Rightarrow> (case_row \<Rightarrow> string) \<Rightarrow> string \<Rightarrow> compliance_case store_op" where
  "pg_find_case pg key text = db_query (\<lambda>db.
     and_then (uuid_cast pg text) (\<lambda>i.
     case List.find (\<lambda>r. key r = i) (db_cases db) of
       None \<Rightarrow> Inl (StorageUnknownComplianceCase text)
     | Some r \<Rightarrow> compliance_case_from_row r))"

definition pg_compliance_case :: "postgres_api \<Rightarrow> string \<Rightarrow> compliance_case store_op" where
  "pg_compliance_case pg i = pg_find_case pg kr_id i"

definition pg_compliance_case_by_payment_id :: "postgres_api \<Rightarrow> string \<Rightarrow> compliance_case store_op" where
  "pg_compliance_case_by_payment_id pg payment_id = pg_find_case pg kr_payment_id payment_id"

definition pg_hold_payment_for_review ::
  "postgres_api \<Rightarrow> transaction \<Rightarrow> string option \<Rightarrow> string option \<Rightarrow> compliance_case_open
    \<Rightarrow> (payment_record \<times> compliance_case) store_op" where
  "pg_hold_payment_for_review pg tx client_reference_id fingerprint copen =
     h_bind (pg_earlier_payment client_reference_id tx fingerprint) (\<lambda>found.
     case found of
       Some payment \<Rightarrow>
         h_bind (pg_compliance_case_by_payment_id pg (tx_id (pay_transaction payment))) (\<lambda>c.
         h_return (payment, c))
     | None \<Rightarrow>
         h_bind (db_draw (\<lambda>w. payment_held w tx (copen_reason copen))) (\<lambda>payment.
         let payment = with_request_fingerprint fingerprint
               (with_client_reference_id client_reference_id payment) in
         h_bind (db_draw (\<lambda>w. compliance_case_opened w copen)) (\<lambda>c.
         h_bind (db_execute (\<lambda>db.
           and_then (payment_to_row pg payment) (\<lambda>row.
           and_then (insert_new_transaction (row\<lparr>tr_block_height := None\<rparr>) db)
             (\<lambda>(rows_affected, db').
           if rows_affected = 0 then Inr (rows_affected, db)
           else and_then (case_to_row pg c) (\<lambda>case_row.
                and_then (insert_new_case case_row db') (\<lambda>db'. Inr (rows_affected, db'))))))) (\<lambda>rows_affected.
         if rows_affected = 0
         then h_bind (pg_earlier_payment client_reference_id tx fingerprint) (\<lambda>found.
              case found of
                Some earlier \<Rightarrow>
                  h_bind (pg_compliance_case_by_payment_id pg (tx_id (pay_transaction earlier)))
                    (\<lambda>c. h_return (earlier, c))
              | None \<Rightarrow>
                  h_fail (case client_reference_id of
                    Some c \<Rightarrow> IdempotencyConflict c ''unknown''
                  | None \<Rightarrow> StorageUnknownPayment (tx_id tx)))
         else h_return (payment, c)))))"

definition ensure_storage_case_not_terminal :: "compliance_case \<Rightarrow> ledger_storage_error + unit" where
  "ensure_storage_case_not_terminal c =
     (if compliance_case_is_terminal (case_status c)
      then Inl (StorageTerminalComplianceCase (case_id c) (compliance_case_status_to_db (case_status c)))
      else Inr ())"

definition decide_case_row :: "case_row \<Rightarrow> case_row \<Rightarrow> case_row" where
  "decide_case_row row r = r\<lparr>kr_status := kr_status row, kr_assigned_to := kr_assigned_to row,
     kr_reviewer := kr_reviewer row, kr_resolution_reason := kr_resolution_reason row,
     kr_updated_at := kr_updated_at row, kr_resolved_at := kr_resolved_at row\<rparr>"

definition update_compliance_case_in_transaction ::
  "postgres_api \<Rightarrow> compliance_case \<Rightarrow> database \<Rightarrow> ledger_storage_error + database" where
  "update_compliance_case_in_transaction pg c db =
     and_then (case_to_row pg c) (\<lambda>row.
     Inr (db\<lparr>db_cases := sql_update (\<lambda>r. kr_id r = kr_id row) (decide_case_row row) (db_cases db)\<rparr>))"

text \<open>\<open>UPDATE transactions SET status = ..., failure_reason = ... WHERE id = ... AND status = ...\<close>.\<close>

definition set_transaction_status ::
  "string \<Rightarrow> string \<Rightarrow> string \<Rightarrow> string option \<Rightarrow> timestamp \<Rightarrow> database \<Rightarrow> database" where
  "set_transaction_status i from_status to_status reason now db =
     db\<lparr>db_transactions := sql_update (\<lambda>r. tr_id r = i \<and> tr_status r = from_status)
          (\<lambda>r. r\<lparr>tr_status := to_status, tr_failure_reason := reason, tr_updated_at := now\<rparr>)
          (db_transactions db)\<rparr>"

definition pg_approve_compliance_case ::
  "postgres_api \<Rightarrow> string \<Rightarrow> string option \<Rightarrow> string option
    \<Rightarrow> (compliance_case \<times> payment_record) store_op" where
  "pg_approve_compliance_case pg i reviewer reason =
     h_bind (pg_compliance_case pg i) (\<lambda>c.
     h_bind (h_lift (ensure_storage_case_not_terminal c)) (\<lambda>_.
     h_bind (db_draw (\<lambda>w. compliance_case_approved w reviewer reason c)) (\<lambda>c.
     h_bind (db_draw utc_now) (\<lambda>now.
     h_bind (db_execute (\<lambda>db.
       and_then (update_compliance_case_in_transaction pg c db) (\<lambda>db.
       and_then (uuid_cast pg (case_payment_id c)) (\<lambda>payment_id.
       Inr ((), set_transaction_status payment_id ''HELD'' ''PENDING'' None (pg_time pg now) db)))))
       (\<lambda>_.
     h_bind (pg_payment pg (case_payment_id c)) (\<lambda>payment.
     h_return (c, payment)))))))"

definition pg_reject_compliance_case ::
  "postgres_api \<Rightarrow> string \<Rightarrow> string option \<Rightarrow> string option
    \<Rightarrow> (compliance_case \<times> payment_record) store_op" where
  "pg_reject_compliance_case pg i reviewer reason =
     h_bind (pg_compliance_case pg i) (\<lambda>c.
     h_bind (h_lift (ensure_storage_case_not_terminal c)) (\<lambda>_.
     let rejection_reason = (case reason of None \<Rightarrow> ''compliance case rejected'' | Some r \<Rightarrow> r) in
     h_bind (db_draw (\<lambda>w. compliance_case_rejected w reviewer reason c)) (\<lambda>c.
     h_bind (db_draw utc_now) (\<lambda>now.
     h_bind (db_execute (\<lambda>db.
       and_then (update_compliance_case_in_transaction pg c db) (\<lambda>db.
       and_then (uuid_cast pg (case_payment_id c)) (\<lambda>payment_id.
       Inr ((), set_transaction_status payment_id ''HELD'' ''REJECTED'' (Some rejection_reason)
                  (pg_time pg now) db)))))
       (\<lambda>_.
     h_bind (pg_payment pg (case_payment_id c)) (\<lambda>payment.
     h_return (c, payment)))))))"

section \<open>Pending transactions, audit events and journal\<close>

definition pg_pending_transactions :: "i64 \<Rightarrow> i64 \<Rightarrow> transaction list store_op" where
  "pg_pending_transactions limit offset = db_query (\<lambda>db.
     and_then (sql_page limit offset (order_by_time tr_created_at tr_id
                 (filter (\<lambda>r. tr_status r = ''PENDING'') (db_transactions db)))) (\<lambda>rows.
     collect_results (map transaction_from_row rows)))"

definition pg_reject_transaction :: "postgres_api \<Rightarrow> string \<Rightarrow> string \<Rightarrow> unit store_op" where
  "pg_reject_transaction pg i reason =
     h_bind (db_draw utc_now) (\<lambda>now.
     db_execute (\<lambda>db.
       and_then (uuid_cast pg i) (\<lambda>i.
       Inr ((), set_transaction_status i ''PENDING'' ''REJECTED'' (Some reason) (pg_time pg now) db))))"

definition audit_to_row :: "postgres_api \<Rightarrow> audit_event \<Rightarrow> ledger_storage_error + audit_row" where
  "audit_to_row pg e =
     and_then (uuid_cast pg (ae_id e)) (\<lambda>i.
     and_then (uuid_cast_opt pg (ae_transaction_id e)) (\<lambda>transaction_id.
     Inr \<lparr>er_id = i, er_event_type = ae_event_type e, er_message = ae_message e,
          er_metadata = ae_metadata e, er_block_height = ae_block_height e,
          er_transaction_id = transaction_id, er_created_at = pg_time pg (ae_created_at e)\<rparr>))"

definition insert_audit_row :: "audit_row \<Rightarrow> database \<Rightarrow> ledger_storage_error + database" where
  "insert_audit_row row db =
     and_then (sql_insert (\<lambda>r. True) (\<lambda>r r'. False)
                 (\<lambda>r. (case er_block_height r of None \<Rightarrow> True | Some h \<Rightarrow> block_exists db h) \<and>
                      (case er_transaction_id r of None \<Rightarrow> True | Some i \<Rightarrow> transaction_exists db i))
                 (\<lambda>r. er_id r = er_id row) DoNothing row (db_audit db))
       (\<lambda>(n, rows). Inr (db\<lparr>db_audit := rows\<rparr>))"

definition pg_insert_audit_event :: "postgres_api \<Rightarrow> audit_event \<Rightarrow> unit store_op" where
  "pg_insert_audit_event pg e =
     db_execute (\<lambda>db.
       and_then (audit_to_row pg e) (\<lambda>row.
       and_then (insert_audit_row row db) (\<lambda>db. Inr ((), db))))"

definition pg_query_journal_entries :: "journal_entry_search \<Rightarrow> journal_entry list store_op" where
  "pg_query_journal_entries q = db_query (\<lambda>db.
     and_then (sql_page (jes_limit q) (jes_offset q) (order_by_time jr_created_at jr_id
                 (filter (\<lambda>r. jr_account_id r = jes_account_id q \<and>
                    (case jes_asset q of None \<Rightarrow> True | Some asset \<Rightarrow> jr_asset r = asset))
                    (db_journal db)))) (\<lambda>rows.
     collect_results (map journal_entry_from_row rows)))"

text \<open>A comparison with an absent key of the metadata is \<open>NULL\<close>, which selects nothing.\<close>

definition audit_where :: "postgres_api \<Rightarrow> audit_event_search \<Rightarrow> audit_row \<Rightarrow> bool" where
  "audit_where pg q r \<longleftrightarrow>
     (case aes_event_type q of None \<Rightarrow> True
      | Some t \<Rightarrow> pg_lower pg (er_event_type r) = pg_lower pg t) \<and>
     (case aes_decision q of None \<Rightarrow> True
      | Some d \<Rightarrow> (case bt_get (er_metadata r) ''decision'' of None \<Rightarrow> False
                   | Some v \<Rightarrow> pg_lower pg v = pg_lower pg d)) \<and>
     (case aes_institution_id q of None \<Rightarrow> True
      | Some i \<Rightarrow> bt_get (er_metadata r) ''institution_id'' = Some i) \<and>
     (case aes_created_from q of None \<Rightarrow> True | Some t \<Rightarrow> er_created_at r \<ge> pg_time pg t) \<and>
     (case aes_created_to q of None \<Rightarrow> True | Some t \<Rightarrow> er_created_at r \<le> pg_time pg t)"

definition pg_query_audit_events :: "postgres_api \<Rightarrow> audit_event_search \<Rightarrow> audit_event list store_op" where
  "pg_query_audit_events pg q = db_query (\<lambda>db.
     and_then (sql_page (aes_limit q) (aes_offset q) (order_by_time er_created_at er_id
                 (filter (audit_where pg q) (db_audit db)))) (\<lambda>rows.
     collect_results (map audit_event_from_row rows)))"

section \<open>Blocks and validators\<close>

text \<open>\<open>entry(height).or_default().push(tx)\<close>.\<close>

definition push_block_tx ::
  "i64 \<Rightarrow> transaction \<Rightarrow> (i64, transaction list) hash_map \<Rightarrow> (i64, transaction list) hash_map" where
  "push_block_tx h tx m =
     hm_insert h ((case hm_get m h of None \<Rightarrow> [] | Some txs \<Rightarrow> txs) @ [tx]) m"

text \<open>Each height is a primary key of the blocks, so an entry is taken at most once.\<close>

definition blocks_from_rows ::
  "block_row list \<Rightarrow> (i64, transaction list) hash_map \<Rightarrow> ledger_storage_error + block list" where
  "blocks_from_rows rows txs_by_block =
     collect_results (map (\<lambda>r. block_from_row r
       (case hm_get txs_by_block (bkr_height r) of None \<Rightarrow> [] | Some txs \<Rightarrow> txs)) rows)"

fun collect_block_txs ::
  "transaction_row list \<Rightarrow> (i64, transaction list) hash_map
    \<Rightarrow> ledger_storage_error + (i64, transaction list) hash_map" where
  "collect_block_txs [] m = Inr m"
| "collect_block_txs (r # rs) m =
     and_then (transaction_from_row r) (\<lambda>tx.
     collect_block_txs rs (case tr_block_height r of None \<Rightarrow> m | Some h \<Rightarrow> push_block_tx h tx m))"

definition load_transactions_for_blocks ::
  "i64 list \<Rightarrow> database \<Rightarrow> ledger_storage_error + (i64, transaction list) hash_map" where
  "load_transactions_for_blocks heights db =
     (if heights = [] then Inr []
      else collect_block_txs
        (sort_key (\<lambda>r. the (tr_block_height r)) (order_by_time tr_created_at tr_id
           (filter (\<lambda>r. case tr_block_height r of None \<Rightarrow> False | Some h \<Rightarrow> h \<in> set heights)
              (db_transactions db)))) [])"

definition pg_query_blocks :: "block_search \<Rightarrow> block list store_op" where
  "pg_query_blocks q =
     h_bind (db_query (\<lambda>db. sql_page (bs_limit q) (bs_offset q) (sort_key bkr_height (db_blocks db))))
       (\<lambda>rows.
     h_bind (db_query (load_transactions_for_blocks (map bkr_height rows))) (\<lambda>txs_by_block.
     h_lift (blocks_from_rows rows txs_by_block)))"

definition upsert_validator_row ::
  "(validator_status_row \<Rightarrow> validator_status_row) \<Rightarrow> validator_status_row \<Rightarrow> database
    \<Rightarrow> ledger_storage_error + unit \<times> database" where
  "upsert_validator_row upd row db =
     and_then (sql_insert (\<lambda>r. True) (\<lambda>r r'. False)
                 (\<lambda>r. case vr_last_finalized_height r of None \<Rightarrow> True | Some h \<Rightarrow> block_exists db h)
                 (\<lambda>r. vr_validator_id r = vr_validator_id row) (DoUpdate upd) row (db_validators db))
       (\<lambda>(n, rows). Inr ((), db\<lparr>db_validators := rows\<rparr>))"

definition pg_record_validator_heartbeat :: "postgres_api \<Rightarrow> string \<Rightarrow> unit store_op" where
  "pg_record_validator_heartbeat pg validator_id =
     h_bind (db_draw utc_now) (\<lambda>now.
     db_execute (upsert_validator_row (\<lambda>old. old\<lparr>vr_last_seen_at := pg_time pg now\<rparr>)
       \<lparr>vr_validator_id = validator_id, vr_last_seen_at = pg_time pg now,
        vr_last_finalized_height = None, vr_last_finalized_hash = None,
        vr_last_finalized_at = None\<rparr>))"

definition pg_record_validator_finalized_block :: "postgres_api \<Rightarrow> string \<Rightarrow> block \<Rightarrow> unit store_op" where
  "pg_record_validator_finalized_block pg validator_id b =
     h_bind (db_draw utc_now) (\<lambda>now.
     let row = \<lparr>vr_validator_id = validator_id, vr_last_seen_at = pg_time pg now,
           vr_last_finalized_height = Some (blk_height b), vr_last_finalized_hash = Some (blk_hash b),
           vr_last_finalized_at = Some (pg_time pg now)\<rparr>
     in db_execute (upsert_validator_row (\<lambda>old. row) row))"

definition pg_validator_statuses :: "postgres_api \<Rightarrow> validator_status list store_op" where
  "pg_validator_statuses pg = db_query (\<lambda>db.
     collect_results (map validator_status_from_row
       (sort_key (\<lambda>r. pg_collate pg (vr_validator_id r)) (db_validators db))))"

end
