(* ===== verification/Kani_Pg_Snapshot.thy ===== *)
theory Kani_Pg_Snapshot
  imports Kani_Pg_Store
begin

text \<open>
  Saving and loading the whole ledger: \<open>save_snapshot\<close>, \<open>load_snapshot\<close> and
  \<open>ensure_sandbox_seed\<close> of \<open>PostgresLedgerStore\<close>. Saving is one transaction of upserts, in the
  order of the code; loading is a sequence of queries.
\<close>

section \<open>Saving\<close>

text \<open>A loop of statements inside the transaction: the first error ends it.\<close>

fun save_all :: "('a \<Rightarrow> database \<Rightarrow> ledger_storage_error + database) \<Rightarrow> 'a list \<Rightarrow> database
    \<Rightarrow> ledger_storage_error + database" where
  "save_all f [] db = Inr db"
| "save_all f (x # xs) db = and_then (f x db) (save_all f xs)"

definition save_institution :: "postgres_api \<Rightarrow> institution \<Rightarrow> database \<Rightarrow> ledger_storage_error + database" where
  "save_institution pg i db = insert_institution_row (institution_to_row pg i) db"

definition save_credential ::
  "postgres_api \<Rightarrow> institution_credential \<Rightarrow> database \<Rightarrow> ledger_storage_error + database" where
  "save_credential pg c db =
     and_then (credential_to_row pg c) (\<lambda>row.
     and_then (sql_insert (\<lambda>r. True) credential_clash
                 (\<lambda>r. institution_exists db (cr_institution_id r)) (\<lambda>r. cr_id r = cr_id row)
                 DoNothing row (db_credentials db))
       (\<lambda>(n, rows). Inr (db\<lparr>db_credentials := rows\<rparr>)))"

definition save_limit :: "postgres_api \<Rightarrow> institution_limit \<Rightarrow> database \<Rightarrow> ledger_storage_error + database" where
  "save_limit pg m db = and_then (limit_to_row pg m) (\<lambda>row. insert_limit_row row db)"

definition account_to_row :: "postgres_api \<Rightarrow> account \<Rightarrow> account_row" where
  "account_to_row pg a =
     \<lparr>ar_id = acc_id a, ar_account_type = account_type_to_db (acc_type a),
      ar_institution_id = acc_institution_id a, ar_created_at = pg_time pg (acc_created_at a)\<rparr>"

definition save_account :: "postgres_api \<Rightarrow> account \<Rightarrow> database \<Rightarrow> ledger_storage_error + database" where
  "save_account pg a db =
     (let row = account_to_row pg a in
      and_then (sql_insert (\<lambda>r. True) (\<lambda>r r'. False) (\<lambda>r. True) (\<lambda>r. ar_id r = ar_id row)
                  (DoUpdate (\<lambda>old. old\<lparr>ar_account_type := ar_account_type row,
                     ar_institution_id := ar_institution_id row\<rparr>)) row (db_accounts db))
        (\<lambda>(n, rows). Inr (db\<lparr>db_accounts := rows\<rparr>)))"

definition balance_to_row ::
  "postgres_api \<Rightarrow> timestamp \<Rightarrow> balance_row \<Rightarrow> ledger_storage_error + balance_table_row" where
  "balance_to_row pg now b =
     and_then (numeric_cast (bal_amount b)) (\<lambda>amount.
     Inr \<lparr>bl_account_id = bal_account_id b, bl_asset = bal_asset b, bl_amount = amount,
          bl_updated_at = pg_time pg now\<rparr>)"

definition save_balance ::
  "postgres_api \<Rightarrow> timestamp \<Rightarrow> balance_row \<Rightarrow> database \<Rightarrow> ledger_storage_error + database" where
  "save_balance pg now b db =
     and_then (balance_to_row pg now b) (\<lambda>row.
     and_then (sql_insert (\<lambda>r. 0 \<le> bl_amount r \<and> asset_column_ok (bl_asset r)) (\<lambda>r r'. False)
                 (\<lambda>r. account_exists db (bl_account_id r))
                 (\<lambda>r. bl_account_id r = bl_account_id row \<and> bl_asset r = bl_asset row)
                 (DoUpdate (\<lambda>old. row)) row (db_balances db))
       (\<lambda>(n, rows). Inr (db\<lparr>db_balances := rows\<rparr>)))"

definition block_to_row :: "postgres_api \<Rightarrow> block \<Rightarrow> block_row" where
  "block_to_row pg b =
     \<lparr>bkr_height = blk_height b, bkr_prev_hash = blk_prev_hash b, bkr_hash = blk_hash b,
      bkr_validator = blk_validator b, bkr_signature = blk_signature b,
      bkr_finalized_by = blk_finalized_by b, bkr_created_at = pg_time pg (blk_created_at b)\<rparr>"

definition save_block :: "postgres_api \<Rightarrow> block \<Rightarrow> database \<Rightarrow> ledger_storage_error + database" where
  "save_block pg b db =
     (let row = block_to_row pg b in
      and_then (sql_insert (\<lambda>r. True) (\<lambda>r r'. bkr_hash r = bkr_hash r') (\<lambda>r. True)
                  (\<lambda>r. bkr_height r = bkr_height row) DoNothing row (db_blocks db))
        (\<lambda>(n, rows). Inr (db\<lparr>db_blocks := rows\<rparr>)))"

definition save_payment :: "postgres_api \<Rightarrow> payment_record \<Rightarrow> database \<Rightarrow> ledger_storage_error + database" where
  "save_payment pg p db =
     and_then (payment_to_row pg p) (\<lambda>row.
     and_then (sql_insert transaction_check (\<lambda>r r'. same_nonce r r' \<or> same_reference r r')
                 (transaction_refs db) (\<lambda>r. tr_id r = tr_id row)
                 (DoUpdate (\<lambda>old. old\<lparr>tr_block_height := tr_block_height row,
                    tr_status := tr_status row, tr_failure_reason := tr_failure_reason row,
                    tr_updated_at := tr_updated_at row\<rparr>)) row (db_transactions db))
       (\<lambda>(n, rows). Inr (db\<lparr>db_transactions := rows\<rparr>)))"

definition save_case :: "postgres_api \<Rightarrow> compliance_case \<Rightarrow> database \<Rightarrow> ledger_storage_error + database" where
  "save_case pg c db =
     and_then (case_to_row pg c) (\<lambda>row.
     and_then (sql_insert (\<lambda>r. True) (\<lambda>r r'. kr_payment_id r = kr_payment_id r')
                 (\<lambda>r. transaction_exists db (kr_payment_id r)) (\<lambda>r. kr_id r = kr_id row)
                 (DoUpdate (decide_case_row row)) row (db_cases db))
       (\<lambda>(n, rows). Inr (db\<lparr>db_cases := rows\<rparr>)))"

definition journal_entry_to_row ::
  "postgres_api \<Rightarrow> journal_entry \<Rightarrow> ledger_storage_error + journal_row" where
  "journal_entry_to_row pg e =
     and_then (uuid_cast pg (je_id e)) (\<lambda>i.
     and_then (uuid_cast pg (je_transaction_id e)) (\<lambda>transaction_id.
     and_then (numeric_cast (je_amount e)) (\<lambda>amount.
     Inr \<lparr>jr_id = i, jr_transaction_id = transaction_id, jr_account_id = je_account_id e,
          jr_asset = je_asset e, jr_amount = amount,
          jr_direction = journal_direction_to_db (je_direction e),
          jr_block_height = je_block_height e, jr_created_at = pg_time pg (je_created_at e)\<rparr>)))"

definition save_journal_entry ::
  "postgres_api \<Rightarrow> journal_entry \<Rightarrow> database \<Rightarrow> ledger_storage_error + database" where
  "save_journal_entry pg e db =
     and_then (journal_entry_to_row pg e) (\<lambda>row.
     and_then (sql_insert (\<lambda>r. 0 < jr_amount r \<and> asset_column_ok (jr_asset r)) (\<lambda>r r'. False)
                 (\<lambda>r. transaction_exists db (jr_transaction_id r) \<and>
                      account_exists db (jr_account_id r) \<and> block_exists db (jr_block_height r))
                 (\<lambda>r. jr_id r = jr_id row) DoNothing row (db_journal db))
       (\<lambda>(n, rows). Inr (db\<lparr>db_journal := rows\<rparr>)))"

definition save_audit_event :: "postgres_api \<Rightarrow> audit_event \<Rightarrow> database \<Rightarrow> ledger_storage_error + database" where
  "save_audit_event pg e db = and_then (audit_to_row pg e) (\<lambda>row. insert_audit_row row db)"

definition save_statements ::
  "postgres_api \<Rightarrow> timestamp \<Rightarrow> ledger_snapshot \<Rightarrow> database \<Rightarrow> ledger_storage_error + database" where
  "save_statements pg now s db =
     and_then (save_all (save_institution pg) (snap_institutions s) db) (\<lambda>db.
     and_then (save_all (save_credential pg) (snap_institution_credentials s) db) (\<lambda>db.
     and_then (save_all (save_limit pg) (snap_institution_limits s) db) (\<lambda>db.
     and_then (save_all (save_account pg) (snap_accounts s) db) (\<lambda>db.
     and_then (save_all (save_balance pg now) (snap_balances s) db) (\<lambda>db.
     and_then (save_all (save_block pg) (snap_blocks s) db) (\<lambda>db.
     and_then (save_all (save_payment pg) (snap_payments s) db) (\<lambda>db.
     and_then (save_all (save_case pg) (snap_compliance_cases s) db) (\<lambda>db.
     and_then (save_all (save_journal_entry pg) (snap_journal_entries s) db) (\<lambda>db.
     save_all (save_audit_event pg) (snap_audit_events s) db)))))))))"

text \<open>\<open>now()\<close> is the time the transaction began.\<close>

definition pg_save_snapshot :: "postgres_api \<Rightarrow> ledger_snapshot \<Rightarrow> unit store_op" where
  "pg_save_snapshot pg s =
     h_bind (db_draw utc_now) (\<lambda>now.
     db_execute (\<lambda>db. and_then (save_statements pg now s db) (\<lambda>db. Inr ((), db))))"

section \<open>Loading\<close>

definition load_accounts :: "postgres_api \<Rightarrow> account list store_op" where
  "load_accounts pg = db_query (\<lambda>db.
     collect_results (map account_from_row
       (sort_key (\<lambda>r. pg_collate pg (ar_id r)) (db_accounts db))))"

definition load_institution_credentials :: "institution_credential list store_op" where
  "load_institution_credentials = db_query (\<lambda>db.
     collect_results (map institution_credential_from_row
       (order_by_time cr_created_at cr_id (db_credentials db))))"

definition load_institution_limits :: "postgres_api \<Rightarrow> institution_limit list store_op" where
  "load_institution_limits pg = db_query (\<lambda>db.
     collect_results (map institution_limit_from_row
       (sort_key (\<lambda>r. pg_collate pg (lr_institution_id r))
          (sort_key (\<lambda>r. pg_collate pg (lr_asset r)) (db_limits db)))))"

definition load_balances :: "postgres_api \<Rightarrow> balance_row list store_op" where
  "load_balances pg = db_query (\<lambda>db.
     collect_results (map balance_from_row
       (sort_key (\<lambda>r. pg_collate pg (bl_account_id r))
          (sort_key (\<lambda>r. pg_collate pg (bl_asset r)) (db_balances db)))))"

text \<open>The accumulators of the loop of \<open>load_payments\<close>.\<close>

record loaded_payments =
  lp_payments :: "payment_record list"
  lp_nonces :: "(string, i64) hash_map"
  lp_issued :: "(string, i128) hash_map"
  lp_txs_by_block :: "(i64, transaction list) hash_map"

definition load_payment :: "payment_record \<Rightarrow> loaded_payments \<Rightarrow> loaded_payments" where
  "load_payment p acc =
     (let tx = pay_transaction p;
          acc = (if pay_status p = Finalized
            then acc\<lparr>lp_nonces := entry_or_zero (tx_from tx) (\<lambda>n. max n (tx_nonce tx)) (lp_nonces acc),
              lp_issued := (case tx_kind tx of
                  Mint \<Rightarrow> entry_or_zero (tx_asset tx) (\<lambda>n. i128_add n (tx_amount tx)) (lp_issued acc)
                | Burn \<Rightarrow> entry_or_zero (tx_asset tx) (\<lambda>n. i128_sub n (tx_amount tx)) (lp_issued acc)
                | Transfer \<Rightarrow> lp_issued acc)\<rparr>
            else acc);
          acc = (case pay_block_height p of
              None \<Rightarrow> acc
            | Some h \<Rightarrow> acc\<lparr>lp_txs_by_block := push_block_tx h tx (lp_txs_by_block acc)\<rparr>)
      in acc\<lparr>lp_payments := lp_payments acc @ [p]\<rparr>)"

fun collect_payments ::
  "block_row list \<Rightarrow> transaction_row list \<Rightarrow> loaded_payments \<Rightarrow> ledger_storage_error + loaded_payments" where
  "collect_payments blocks [] acc = Inr acc"
| "collect_payments blocks (r # rs) acc =
     and_then (payment_from_row blocks r) (\<lambda>p. collect_payments blocks rs (load_payment p acc))"

definition load_payments :: "loaded_payments store_op" where
  "load_payments = db_query (\<lambda>db.
     collect_payments (db_blocks db) (order_by_time tr_created_at tr_id (db_transactions db))
       \<lparr>lp_payments = [], lp_nonces = [], lp_issued = [], lp_txs_by_block = []\<rparr>)"

definition load_blocks :: "(i64, transaction list) hash_map \<Rightarrow> block list store_op" where
  "load_blocks txs_by_block = db_query (\<lambda>db.
     blocks_from_rows (sort_key bkr_height (db_blocks db)) txs_by_block)"

definition load_journal_entries :: "journal_entry list store_op" where
  "load_journal_entries = db_query (\<lambda>db.
     collect_results (map journal_entry_from_row (order_by_time jr_created_at jr_id (db_journal db))))"

definition load_audit_events :: "audit_event list store_op" where
  "load_audit_events = db_query (\<lambda>db.
     collect_results (map audit_event_from_row (order_by_time er_created_at er_id (db_audit db))))"

definition pg_load_snapshot :: "postgres_api \<Rightarrow> ledger_snapshot store_op" where
  "pg_load_snapshot pg =
     h_bind (load_accounts pg) (\<lambda>accounts.
     h_bind (pg_institutions pg) (\<lambda>institutions.
     h_bind load_institution_credentials (\<lambda>credentials.
     h_bind (load_institution_limits pg) (\<lambda>limits.
     h_bind (load_balances pg) (\<lambda>balances.
     h_bind load_payments (\<lambda>loaded.
     h_bind (pg_compliance_cases (2 ^ 63 - 1) 0) (\<lambda>cases.
     h_bind (load_blocks (lp_txs_by_block loaded)) (\<lambda>blocks.
     h_bind load_journal_entries (\<lambda>journal_entries.
     h_bind load_audit_events (\<lambda>audit_events.
     h_return \<lparr>snap_accounts = accounts, snap_institutions = institutions,
       snap_institution_credentials = credentials, snap_institution_limits = limits,
       snap_balances = balances, snap_payments = lp_payments loaded,
       snap_compliance_cases = cases, snap_blocks = blocks, snap_audit_events = audit_events,
       snap_journal_entries = journal_entries, snap_nonces = lp_nonces loaded,
       snap_issued = lp_issued loaded\<rparr>))))))))))"

section \<open>Seeding\<close>

fun upsert_all :: "postgres_api \<Rightarrow> institution list \<Rightarrow> unit store_op" where
  "upsert_all pg [] = h_return ()"
| "upsert_all pg (i # is) = h_bind (pg_upsert_institution pg i) (\<lambda>_. upsert_all pg is)"

text \<open>
  What \<open>ensure_sandbox_seed\<close> does with the snapshot it loaded. Nothing locks the database between
  the load and these writes.
\<close>

definition pg_seed_from :: "postgres_api \<Rightarrow> ledger_snapshot \<Rightarrow> unit store_op" where
  "pg_seed_from pg s =
     (if snap_accounts s = []
      then h_bind (db_draw ledger_sandbox) (\<lambda>l. pg_save_snapshot pg (ledger_to_snapshot l))
      else if snap_institutions s = []
      then h_bind (db_draw ledger_sandbox) (\<lambda>l. upsert_all pg (snap_institutions (ledger_to_snapshot l)))
      else h_return ())"

definition pg_ensure_sandbox_seed :: "postgres_api \<Rightarrow> unit store_op" where
  "pg_ensure_sandbox_seed pg = h_bind (pg_load_snapshot pg) (pg_seed_from pg)"

end
