(* ===== verification/Kani_Pg_Node.thy ===== *)
theory Kani_Pg_Node
  imports Kani_Node Kani_Pg_Snapshot
begin

text \<open>
  The node of \<open>crates/kani-node/src/lib.rs\<close> when a PostgreSQL store is configured (\<open>storage\<close> is
  \<open>Some\<close>), the \<open>ValidatorRuntime\<close> and the validator process of \<open>main.rs\<close>. In this mode the node's
  own ledger is never read again: every operation goes to the store, and the validators turn
  the pending transactions of the store into blocks.
\<close>

section \<open>Operations of the node over the store\<close>

type_synonym 'a node_op = "database \<times> env \<Rightarrow> (node_error + 'a) \<times> database \<times> env"

text \<open>\<open>storage.operation().await?\<close>: the error is converted by \<open>From<LedgerStorageError>\<close>.\<close>

definition via_storage :: "'a store_op \<Rightarrow> 'a node_op" where
  "via_storage m = (\<lambda>s. case m s of (r, s) \<Rightarrow> (map_err NodeStorage r, s))"

definition pg_current_ledger :: "postgres_api \<Rightarrow> ledger node_op" where
  "pg_current_ledger pg =
     h_bind (via_storage (pg_load_snapshot pg)) (\<lambda>s. h_return (from_snapshot s))"

definition draw :: "(env \<Rightarrow> 'a \<times> env) \<Rightarrow> 'a node_op" where
  "draw f = (\<lambda>(db, w). case f w of (x, w) \<Rightarrow> (Inr x, db, w))"

definition draw_engine :: "configured_consensus_engine node_op" where
  "draw_engine = (\<lambda>(db, w). case build_engine w config_phase1_poa of
     Inl err \<Rightarrow> (Inl (NodeConsensus err), db, w) | Inr (e, w) \<Rightarrow> (Inr e, db, w))"

text \<open>Connecting: the schema of the migrations is the type of the tables.\<close>

definition node_postgres :: "postgres_api \<Rightarrow> kani_node node_op" where
  "node_postgres pg =
     h_bind (via_storage (pg_ensure_sandbox_seed pg)) (\<lambda>_.
     h_bind (pg_current_ledger pg) (\<lambda>l.
     h_bind draw_engine (\<lambda>e.
     h_return (node_new l e hybrid_pqc_v1))))"

fun node_error_from_enqueue :: "ledger_storage_error \<Rightarrow> node_error" where
  "node_error_from_enqueue (IdempotencyConflict c payment_id) = NodeIdempotencyConflict c"
| "node_error_from_enqueue other = NodeStorage other"

definition via_enqueue :: "'a store_op \<Rightarrow> 'a node_op" where
  "via_enqueue m = (\<lambda>s. case m s of (r, s) \<Rightarrow> (map_err node_error_from_enqueue r, s))"

definition enqueue_postgres_payment ::
  "postgres_api \<Rightarrow> transaction \<Rightarrow> string option \<Rightarrow> string option \<Rightarrow> payment_record node_op" where
  "enqueue_postgres_payment pg tx client_reference_id fingerprint =
     via_enqueue (pg_enqueue_pending_transaction pg tx client_reference_id fingerprint)"

definition pg_node_submit_payment ::
  "platform \<Rightarrow> postgres_api \<Rightarrow> kani_node \<Rightarrow> string \<Rightarrow> string \<Rightarrow> string \<Rightarrow> i128 \<Rightarrow> string option
    \<Rightarrow> payment_record node_op" where
  "pg_node_submit_payment pf pg node sender receiver asset amount cri =
     (let fingerprint = request_fingerprint pf node Transfer sender receiver asset amount in
      h_bind (via_storage (pg_next_nonce_for_account sender)) (\<lambda>nonce.
      h_bind (draw (\<lambda>w. transaction_new_transfer w sender receiver asset amount nonce)) (\<lambda>tx.
      let tx = with_idempotency_metadata cri fingerprint tx in
      enqueue_postgres_payment pg tx cri (Some fingerprint))))"

definition pg_node_hold_payment_for_review ::
  "platform \<Rightarrow> postgres_api \<Rightarrow> kani_node \<Rightarrow> string \<Rightarrow> string \<Rightarrow> string \<Rightarrow> i128 \<Rightarrow> string option
    \<Rightarrow> compliance_case_open \<Rightarrow> (payment_record \<times> compliance_case) node_op" where
  "pg_node_hold_payment_for_review pf pg node sender receiver asset amount cri copen =
     (let fingerprint = request_fingerprint pf node Transfer sender receiver asset amount in
      h_bind (via_storage (pg_next_nonce_for_account sender)) (\<lambda>nonce.
      h_bind (draw (\<lambda>w. transaction_new_transfer w sender receiver asset amount nonce)) (\<lambda>tx.
      let tx = with_idempotency_metadata cri fingerprint tx;
          copen = copen\<lparr>copen_payment_id := tx_id tx\<rparr>
      in via_enqueue (pg_hold_payment_for_review pg tx cri (Some fingerprint) copen))))"

definition pg_node_mint_sandbox ::
  "postgres_api \<Rightarrow> string \<Rightarrow> string \<Rightarrow> string \<Rightarrow> i128 \<Rightarrow> payment_record node_op" where
  "pg_node_mint_sandbox pg treasury receiver asset amount =
     h_bind (via_storage (pg_next_nonce_for_account treasury)) (\<lambda>nonce.
     h_bind (draw (\<lambda>w. transaction_new_mint w treasury receiver asset amount nonce)) (\<lambda>tx.
     via_storage (pg_enqueue_pending_transaction pg tx None None)))"

definition pg_node_burn_sandbox ::
  "postgres_api \<Rightarrow> string \<Rightarrow> string \<Rightarrow> string \<Rightarrow> i128 \<Rightarrow> payment_record node_op" where
  "pg_node_burn_sandbox pg sender treasury asset amount =
     h_bind (via_storage (pg_next_nonce_for_account sender)) (\<lambda>nonce.
     h_bind (draw (\<lambda>w. transaction_new_burn w sender treasury asset amount nonce)) (\<lambda>tx.
     via_storage (pg_enqueue_pending_transaction pg tx None None)))"

section \<open>Reads\<close>

definition pg_node_get_payment :: "postgres_api \<Rightarrow> string \<Rightarrow> payment_record node_op" where
  "pg_node_get_payment pg payment_id =
     h_bind (pg_current_ledger pg) (\<lambda>l. h_lift (map_err NodeLedger (get_payment l payment_id)))"

definition pg_node_balance :: "postgres_api \<Rightarrow> string \<Rightarrow> string \<Rightarrow> i128 node_op" where
  "pg_node_balance pg account asset =
     h_bind (pg_current_ledger pg) (\<lambda>l. h_return (ledger_balance l account asset))"

definition pg_node_issued :: "postgres_api \<Rightarrow> string \<Rightarrow> i128 node_op" where
  "pg_node_issued pg asset =
     h_bind (pg_current_ledger pg) (\<lambda>l. h_return (ledger_issued l asset))"

definition pg_node_latest_block :: "postgres_api \<Rightarrow> block option node_op" where
  "pg_node_latest_block pg =
     h_bind (pg_current_ledger pg) (\<lambda>l. h_return (latest_block l))"

definition pg_node_accounts :: "postgres_api \<Rightarrow> account list node_op" where
  "pg_node_accounts pg = h_bind (pg_current_ledger pg) (\<lambda>l. h_return (accounts l))"

definition pg_node_blocks :: "block_search \<Rightarrow> block list node_op" where
  "pg_node_blocks q = via_storage (pg_query_blocks q)"

definition pg_node_audit_events :: "postgres_api \<Rightarrow> audit_event_search \<Rightarrow> audit_event list node_op" where
  "pg_node_audit_events pg q = via_storage (pg_query_audit_events pg q)"

definition pg_node_journal_entries :: "journal_entry_search \<Rightarrow> journal_entry list node_op" where
  "pg_node_journal_entries q = via_storage (pg_query_journal_entries q)"

definition pg_node_record_audit_event :: "postgres_api \<Rightarrow> audit_event \<Rightarrow> unit node_op" where
  "pg_node_record_audit_event pg e = via_storage (pg_insert_audit_event pg e)"

definition pg_node_pending_transactions :: "i64 \<Rightarrow> i64 \<Rightarrow> transaction list node_op" where
  "pg_node_pending_transactions limit offset = via_storage (pg_pending_transactions limit offset)"

section \<open>Institutions and compliance cases\<close>

definition pg_node_institutions :: "postgres_api \<Rightarrow> institution list node_op" where
  "pg_node_institutions pg = via_storage (pg_institutions pg)"

text \<open>\<open>ok_or_else(|| LedgerError::UnknownInstitution(...))\<close>.\<close>

definition known_institution :: "string \<Rightarrow> institution option \<Rightarrow> institution node_op" where
  "known_institution i found = h_lift (ok_or (NodeLedger (UnknownInstitution i)) found)"

definition pg_node_get_institution :: "string \<Rightarrow> institution node_op" where
  "pg_node_get_institution i =
     h_bind (via_storage (pg_get_institution i)) (known_institution i)"

definition pg_node_upsert_institution :: "postgres_api \<Rightarrow> institution \<Rightarrow> institution node_op" where
  "pg_node_upsert_institution pg i = via_storage (pg_upsert_institution pg i)"

definition pg_node_suspend_institution :: "postgres_api \<Rightarrow> string \<Rightarrow> institution node_op" where
  "pg_node_suspend_institution pg i =
     h_bind (via_storage (pg_suspend_institution pg i)) (known_institution i)"

definition pg_node_add_institution_credential ::
  "postgres_api \<Rightarrow> institution_credential \<Rightarrow> institution_credential node_op" where
  "pg_node_add_institution_credential pg c =
     h_bind (pg_node_get_institution (cred_institution_id c)) (\<lambda>_.
     via_storage (pg_insert_institution_credential pg c))"

definition pg_node_institution_credentials :: "string \<Rightarrow> institution_credential list node_op" where
  "pg_node_institution_credentials i =
     h_bind (pg_node_get_institution i) (\<lambda>_. via_storage (pg_institution_credentials i))"

definition pg_node_upsert_institution_limit ::
  "postgres_api \<Rightarrow> institution_limit \<Rightarrow> institution_limit node_op" where
  "pg_node_upsert_institution_limit pg m =
     h_bind (pg_node_get_institution (lim_institution_id m)) (\<lambda>_.
     via_storage (pg_upsert_institution_limit pg m))"

definition pg_node_institution_limits :: "postgres_api \<Rightarrow> string \<Rightarrow> institution_limit list node_op" where
  "pg_node_institution_limits pg i =
     h_bind (pg_node_get_institution i) (\<lambda>_. via_storage (pg_institution_limits pg i))"

definition pg_node_compliance_cases :: "i64 \<Rightarrow> i64 \<Rightarrow> compliance_case list node_op" where
  "pg_node_compliance_cases limit offset = via_storage (pg_compliance_cases limit offset)"

definition pg_node_compliance_case :: "postgres_api \<Rightarrow> string \<Rightarrow> compliance_case node_op" where
  "pg_node_compliance_case pg i = via_storage (pg_compliance_case pg i)"

definition pg_node_approve_compliance_case ::
  "postgres_api \<Rightarrow> string \<Rightarrow> string option \<Rightarrow> string option \<Rightarrow> (compliance_case \<times> payment_record) node_op" where
  "pg_node_approve_compliance_case pg i reviewer reason =
     via_storage (pg_approve_compliance_case pg i reviewer reason)"

definition pg_node_reject_compliance_case ::
  "postgres_api \<Rightarrow> string \<Rightarrow> string option \<Rightarrow> string option \<Rightarrow> (compliance_case \<times> payment_record) node_op" where
  "pg_node_reject_compliance_case pg i reviewer reason =
     via_storage (pg_reject_compliance_case pg i reviewer reason)"

definition pg_node_validators :: "postgres_api \<Rightarrow> kani_node \<Rightarrow> validator_info list node_op" where
  "pg_node_validators pg node =
     h_bind (via_storage (pg_validator_statuses pg)) (\<lambda>statuses.
     let statuses = hm_collect (map (\<lambda>status. (vst_validator_id status, status)) statuses) in
     h_return (map (\<lambda>v. validator_info_from v (hm_get statuses (val_id v)))
       (engine_validators (node_consensus node))))"

section \<open>The validator runtime\<close>

record validator_runtime =
  vrt_consensus :: configured_consensus_engine
  vrt_crypto_profile :: crypto_profile
  vrt_validator_id :: string
  vrt_max_transactions_per_block :: i64

definition validator_connect :: "postgres_api \<Rightarrow> string \<Rightarrow> validator_runtime node_op" where
  "validator_connect pg validator_id =
     h_bind (via_storage (pg_ensure_sandbox_seed pg)) (\<lambda>_.
     h_bind draw_engine (\<lambda>e.
     h_return \<lparr>vrt_consensus = e, vrt_crypto_profile = hybrid_pqc_v1,
       vrt_validator_id = validator_id, vrt_max_transactions_per_block = 25\<rparr>))"

definition with_max_transactions_per_block :: "i64 \<Rightarrow> validator_runtime \<Rightarrow> validator_runtime" where
  "with_max_transactions_per_block n v = v\<lparr>vrt_max_transactions_per_block := max n 1\<rparr>"

definition rejection_metadata :: "validator_runtime \<Rightarrow> transaction \<Rightarrow> string \<Rightarrow> string btree_map" where
  "rejection_metadata v tx reason =
     bt_insert ''validator'' (vrt_validator_id v)
       (bt_insert ''transaction_id'' (tx_id tx)
         (bt_insert ''to'' (tx_to tx)
           (bt_insert ''reason'' reason
             (bt_insert ''kind'' (transaction_kind_fingerprint_value (tx_kind tx))
               (bt_insert ''from'' (tx_from tx)
                 (bt_insert ''asset'' (tx_asset tx) []))))))"

definition reject_pending_transaction ::
  "postgres_api \<Rightarrow> validator_runtime \<Rightarrow> transaction \<Rightarrow> string \<Rightarrow> unit node_op" where
  "reject_pending_transaction pg v tx reason =
     h_bind (via_storage (pg_reject_transaction pg (tx_id tx) reason)) (\<lambda>_.
     h_bind (draw (\<lambda>w. audit_event_new w ''TRANSACTION_REJECTED''
       (''transaction '' @ tx_id tx @ '' rejected by validator '' @ vrt_validator_id v
          @ '': '' @ reason)
       None (Some (tx_id tx)))) (\<lambda>event.
     via_storage (pg_insert_audit_event pg
       (audit_event_with_metadata (rejection_metadata v tx reason) event))))"

fun reject_all :: "postgres_api \<Rightarrow> validator_runtime \<Rightarrow> string \<Rightarrow> transaction list \<Rightarrow> unit node_op" where
  "reject_all pg v reason [] = h_return ()"
| "reject_all pg v reason (tx # txs) =
     h_bind (reject_pending_transaction pg v tx reason) (\<lambda>_. reject_all pg v reason txs)"

fun select_or_reject ::
  "postgres_api \<Rightarrow> validator_runtime \<Rightarrow> ledger \<Rightarrow> transaction list \<Rightarrow> transaction list
    \<Rightarrow> transaction list node_op" where
  "select_or_reject pg v l accepted [] = h_return accepted"
| "select_or_reject pg v l accepted (tx # pending) = (\<lambda>(db, w).
     let candidate = accepted @ [tx] in
     case validate_transactions_for_next_block w l candidate of
       Inl err \<Rightarrow>
         h_bind (reject_pending_transaction pg v tx (ledger_error_display err)) (\<lambda>_.
         select_or_reject pg v l accepted pending) (db, w)
     | Inr _ \<Rightarrow> select_or_reject pg v l candidate pending (db, w))"

definition draw_block ::
  "platform \<Rightarrow> validator_runtime \<Rightarrow> ledger \<Rightarrow> transaction list \<Rightarrow> block node_op" where
  "draw_block pf v l txs = (\<lambda>(db, w).
     case build_block_for_validator pf w l txs (vrt_consensus v) (vrt_crypto_profile v)
            (vrt_validator_id v) of
       Inl err \<Rightarrow> (Inl err, db, w) | Inr (b, w) \<Rightarrow> (Inr b, db, w))"

text \<open>\<open>working_ledger.apply_block\<close>; a failure rejects the transactions of the block.\<close>

definition apply_or_reject ::
  "postgres_api \<Rightarrow> validator_runtime \<Rightarrow> ledger \<Rightarrow> block \<Rightarrow> ledger node_op" where
  "apply_or_reject pg v l b = (\<lambda>(db, w).
     case apply_block w b l of
       (Inl err, working_ledger, w) \<Rightarrow>
         h_bind (reject_all pg v (ledger_error_display err) (blk_txs b)) (\<lambda>_.
         h_fail (NodeLedger err)) (db, w)
     | (Inr records, working_ledger, w) \<Rightarrow> (Inr working_ledger, db, w))"

definition verify_for :: "platform \<Rightarrow> validator_runtime \<Rightarrow> ledger \<Rightarrow> block \<Rightarrow> unit node_op" where
  "verify_for pf v l b = (\<lambda>(db, w).
     (verify_phase1_block pf w l b (vrt_consensus v) (vrt_crypto_profile v), db, w))"

text \<open>
  \<open>run_once_with_block_lock\<close> up to the last use of the loaded ledger, and from the first write
  of the finalized state on.
\<close>

definition pass_prepare ::
  "platform \<Rightarrow> postgres_api \<Rightarrow> validator_runtime \<Rightarrow> (block \<times> ledger) option node_op" where
  "pass_prepare pf pg v =
     h_bind (pg_current_ledger pg) (\<lambda>l.
     h_bind (h_lift (map_err NodeConsensus (engine_leader_for_height (vrt_consensus v) (next_height l))))
       (\<lambda>leader.
     if val_id leader \<noteq> vrt_validator_id v then h_return None
     else
     h_bind (via_storage (pg_pending_transactions (vrt_max_transactions_per_block v) 0)) (\<lambda>pending.
     if pending = [] then h_return None
     else
     h_bind (select_or_reject pg v l [] pending) (\<lambda>accepted.
     if accepted = [] then h_return None
     else
     h_bind (draw_block pf v l accepted) (\<lambda>b.
     h_bind (verify_for pf v l b) (\<lambda>_.
     h_bind (apply_or_reject pg v l b) (\<lambda>working_ledger.
     h_return (Some (b, working_ledger)))))))))"

definition pass_commit ::
  "postgres_api \<Rightarrow> validator_runtime \<Rightarrow> block \<Rightarrow> ledger \<Rightarrow> block option node_op" where
  "pass_commit pg v b working_ledger =
     h_bind (via_storage (pg_save_snapshot pg (ledger_to_snapshot working_ledger))) (\<lambda>_.
     h_bind (via_storage (pg_record_validator_finalized_block pg (vrt_validator_id v) b)) (\<lambda>_.
     h_return (Some b)))"

definition run_once_with_block_lock ::
  "platform \<Rightarrow> postgres_api \<Rightarrow> validator_runtime \<Rightarrow> block option node_op" where
  "run_once_with_block_lock pf pg v =
     h_bind (pass_prepare pf pg v) (\<lambda>prepared.
     case prepared of
       None \<Rightarrow> h_return None
     | Some (b, working_ledger) \<Rightarrow> pass_commit pg v b working_ledger)"

text \<open>The lock is released after the pass; the error of the pass wins over that of the release.\<close>

definition release_after :: "'a node_op \<Rightarrow> 'a node_op" where
  "release_after m = (\<lambda>s. case m s of (result, s) \<Rightarrow>
     (case via_storage pg_release_block_production_lock s of
        (Inl error, s) \<Rightarrow> ((case result of Inr _ \<Rightarrow> Inl error | Inl e \<Rightarrow> Inl e), s)
      | (Inr _, s) \<Rightarrow> (result, s)))"

definition run_once :: "platform \<Rightarrow> postgres_api \<Rightarrow> validator_runtime \<Rightarrow> block option node_op" where
  "run_once pf pg v =
     h_bind (via_storage (pg_record_validator_heartbeat pg (vrt_validator_id v))) (\<lambda>_.
     h_bind (pg_current_ledger pg) (\<lambda>l.
     h_bind (h_lift (map_err NodeConsensus (engine_leader_for_height (vrt_consensus v) (next_height l))))
       (\<lambda>leader.
     if val_id leader \<noteq> vrt_validator_id v then h_return None
     else
     h_bind (via_storage pg_try_acquire_block_production_lock) (\<lambda>acquired.
     if \<not> acquired then h_return None
     else release_after (run_once_with_block_lock pf pg v)))))"

text \<open>The first \<open>n\<close> passes of \<open>run_forever\<close>: a failed pass is logged and the loop goes on.\<close>

fun run_forever_passes ::
  "platform \<Rightarrow> postgres_api \<Rightarrow> validator_runtime \<Rightarrow> nat \<Rightarrow> database \<times> env \<Rightarrow> database \<times> env" where
  "run_forever_passes pf pg v 0 s = s"
| "run_forever_passes pf pg v (Suc n) s = run_forever_passes pf pg v n (snd (run_once pf pg v s))"

section \<open>The validator process\<close>

definition run_validator_once :: "platform \<Rightarrow> postgres_api \<Rightarrow> validator_runtime \<Rightarrow> bool node_op" where
  "run_validator_once pf pg v =
     h_bind (run_once pf pg v) (\<lambda>r.
     h_return (case r of Some b \<Rightarrow> True | None \<Rightarrow> False))"

definition connect_with_max :: "postgres_api \<Rightarrow> i64 \<Rightarrow> string \<Rightarrow> validator_runtime node_op" where
  "connect_with_max pg max_transactions_per_block validator_id =
     h_bind (validator_connect pg validator_id) (\<lambda>v.
     h_return (with_max_transactions_per_block max_transactions_per_block v))"

definition validator_once :: "platform \<Rightarrow> postgres_api \<Rightarrow> i64 \<Rightarrow> string \<Rightarrow> bool node_op" where
  "validator_once pf pg max_transactions_per_block validator_id =
     h_bind (connect_with_max pg max_transactions_per_block validator_id) (run_validator_once pf pg)"

text \<open>The loop of the mode \<open>sweep\<close>; the result is the number of finalized blocks.\<close>

fun validator_sweep :: "platform \<Rightarrow> postgres_api \<Rightarrow> i64 \<Rightarrow> string list \<Rightarrow> nat node_op" where
  "validator_sweep pf pg max_transactions_per_block [] = h_return 0"
| "validator_sweep pf pg max_transactions_per_block (i # is) =
     h_bind (validator_once pf pg max_transactions_per_block i) (\<lambda>finalized.
     h_bind (validator_sweep pf pg max_transactions_per_block is) (\<lambda>n.
     h_return (if finalized then Suc n else n)))"

end
