(* ===== verification/Kani_Pg_Rows.thy ===== *)
theory Kani_Pg_Rows
  imports Kani_Pg_Snapshot
begin

text \<open>
  Rows and the records they store. The locale \<open>row_codec\<close> is the contract of a pair of an
  encoder and a row decoder: what is bound to a statement is read back, up to the form \<open>stored\<close>
  in which PostgreSQL keeps it. It is interpreted on each table of the store.
\<close>

section \<open>The contract\<close>

locale row_codec =
  fixes encode :: "'a \<Rightarrow> ledger_storage_error + 'r"
    and decode :: "'r \<Rightarrow> ledger_storage_error + 'a"
    and stored :: "'a \<Rightarrow> 'a"
  assumes decode_encode: "encode x = Inr r \<Longrightarrow> decode r = Inr (stored x)"
begin

lemma decode_encode_all:
  "collect_results (map encode xs) = Inr rs \<Longrightarrow> collect_results (map decode rs) = Inr (map stored xs)"
  by (induction xs arbitrary: rs) (auto simp: res_simps decode_encode)

lemma encode_injective: "encode x = Inr r \<Longrightarrow> encode y = Inr r \<Longrightarrow> stored x = stored y"
  using decode_encode by (metis sum.inject(2))

end

section \<open>Casts\<close>

definition canonical :: "postgres_api \<Rightarrow> string \<Rightarrow> string" where
  "canonical pg i = the (pg_uuid pg i)"

lemma uuid_cast_iff [res_simps]: "uuid_cast pg i = Inr j \<longleftrightarrow> pg_uuid pg i = Some j"
  by (simp add: uuid_cast_def res_simps)

lemma uuid_cast_opt_iff [res_simps]:
  "uuid_cast_opt pg v = Inr u \<longleftrightarrow>
     (case v of None \<Rightarrow> u = None | Some i \<Rightarrow> (\<exists>j. pg_uuid pg i = Some j \<and> u = Some j))"
  by (auto simp: uuid_cast_opt_def res_simps split: option.splits)

lemma numeric_cast_iff [res_simps]: "numeric_cast x = Inr y \<longleftrightarrow> \<bar>x\<bar> < 10 ^ 38 \<and> y = x"
  by (auto simp: numeric_cast_def)

lemma numeric_in_i128: "\<bar>x\<bar> < 10 ^ 38 \<Longrightarrow> in_i128 x"
  by (auto simp: in_i128_def i128_MIN_def i128_MAX_def abs_less_iff)

lemma parse_numeric: "\<bar>x\<bar> < 10 ^ 38 \<Longrightarrow> parse_amount (int_to_dec x) = Inr x"
  by (simp add: parse_amount_roundtrip numeric_in_i128)

section \<open>Interpretations\<close>

definition stored_institution :: "postgres_api \<Rightarrow> institution \<Rightarrow> institution" where
  "stored_institution pg i = i\<lparr>inst_created_at := pg_time pg (inst_created_at i),
     inst_approved_at := map_option (pg_time pg) (inst_approved_at i),
     inst_suspended_at := map_option (pg_time pg) (inst_suspended_at i),
     inst_updated_at := pg_time pg (inst_updated_at i)\<rparr>"

definition stored_credential :: "postgres_api \<Rightarrow> institution_credential \<Rightarrow> institution_credential" where
  "stored_credential pg c = c\<lparr>cred_id := canonical pg (cred_id c),
     cred_expires_at := map_option (pg_time pg) (cred_expires_at c),
     cred_created_at := pg_time pg (cred_created_at c),
     cred_revoked_at := map_option (pg_time pg) (cred_revoked_at c)\<rparr>"

definition stored_limit :: "postgres_api \<Rightarrow> institution_limit \<Rightarrow> institution_limit" where
  "stored_limit pg m = m\<lparr>lim_updated_at := pg_time pg (lim_updated_at m)\<rparr>"

definition stored_account :: "postgres_api \<Rightarrow> account \<Rightarrow> account" where
  "stored_account pg a = a\<lparr>acc_created_at := pg_time pg (acc_created_at a)\<rparr>"

definition stored_block :: "postgres_api \<Rightarrow> transaction list \<Rightarrow> block \<Rightarrow> block" where
  "stored_block pg txs b = b\<lparr>blk_txs := txs, blk_created_at := pg_time pg (blk_created_at b)\<rparr>"

text \<open>A stored transaction has the creation time of its payment record, not its own.\<close>

definition stored_transaction :: "postgres_api \<Rightarrow> payment_record \<Rightarrow> transaction" where
  "stored_transaction pg p = (pay_transaction p)
     \<lparr>tx_id := canonical pg (tx_id (pay_transaction p)),
      tx_created_at := pg_time pg (pay_created_at p)\<rparr>"

definition stored_payment :: "postgres_api \<Rightarrow> block_row list \<Rightarrow> payment_record \<Rightarrow> payment_record" where
  "stored_payment pg blocks p = p
     \<lparr>pay_transaction := stored_transaction pg p,
      pay_block_hash := Option.bind (pay_block_height p) (\<lambda>h.
        map_option bkr_hash (List.find (\<lambda>b. bkr_height b = h) blocks)),
      pay_created_at := pg_time pg (pay_created_at p),
      pay_updated_at := pg_time pg (pay_updated_at p)\<rparr>"

definition stored_case :: "postgres_api \<Rightarrow> compliance_case \<Rightarrow> compliance_case" where
  "stored_case pg c = c\<lparr>case_id := canonical pg (case_id c),
     case_payment_id := canonical pg (case_payment_id c),
     case_created_at := pg_time pg (case_created_at c),
     case_updated_at := pg_time pg (case_updated_at c),
     case_resolved_at := map_option (pg_time pg) (case_resolved_at c)\<rparr>"

definition stored_journal_entry :: "postgres_api \<Rightarrow> journal_entry \<Rightarrow> journal_entry" where
  "stored_journal_entry pg e = e\<lparr>je_id := canonical pg (je_id e),
     je_transaction_id := canonical pg (je_transaction_id e),
     je_created_at := pg_time pg (je_created_at e)\<rparr>"

definition stored_audit_event :: "postgres_api \<Rightarrow> audit_event \<Rightarrow> audit_event" where
  "stored_audit_event pg e = e\<lparr>ae_id := canonical pg (ae_id e),
     ae_transaction_id := map_option (canonical pg) (ae_transaction_id e),
     ae_created_at := pg_time pg (ae_created_at e)\<rparr>"

lemmas stored_defs = stored_institution_def stored_credential_def stored_limit_def
  stored_account_def stored_block_def stored_transaction_def stored_payment_def stored_case_def
  stored_journal_entry_def stored_audit_event_def canonical_def

lemmas encode_defs = institution_to_row_def credential_to_row_def limit_to_row_def
  account_to_row_def balance_to_row_def block_to_row_def payment_to_row_def case_to_row_def
  journal_entry_to_row_def audit_to_row_def

lemmas decode_defs = institution_from_row_def institution_credential_from_row_def
  institution_limit_from_row_def account_from_row_def balance_from_row_def block_from_row_def
  transaction_from_row_def payment_from_row_def compliance_case_from_row_def
  journal_entry_from_row_def audit_event_from_row_def joined_block_hash_def

lemmas codec_from_to = account_type_codec.from_to
  institution_status_codec.from_to
  institution_risk_tier_codec.from_to
  institution_role_codec.from_to
  institution_credential_type_codec.from_to
  institution_credential_status_codec.from_to
  transaction_kind_codec.from_to
  transaction_status_codec.from_to
  compliance_case_status_codec.from_to
  journal_direction_codec.from_to

lemma roles_roundtrip:
  "collect_results (map institution_role_from_db (map institution_role_to_db roles)) = Inr roles"
  by (induction roles) (simp_all add: codec_from_to)

interpretation institution_rows: row_codec
  "\<lambda>i. Inr (institution_to_row pg i)" institution_from_row "stored_institution pg" for pg
  by unfold_locales
    (auto simp: encode_defs decode_defs stored_defs codec_from_to roles_roundtrip simp del: map_map)

interpretation credential_rows: row_codec
  "credential_to_row pg" institution_credential_from_row "stored_credential pg" for pg
  by unfold_locales (auto simp: encode_defs decode_defs stored_defs uuid_cast_iff numeric_cast_iff and_then_eq_Inr parse_numeric codec_from_to)

interpretation limit_rows: row_codec
  "limit_to_row pg" institution_limit_from_row "stored_limit pg" for pg
  by unfold_locales (auto simp: encode_defs decode_defs stored_defs res_simps parse_numeric)

interpretation account_rows: row_codec
  "\<lambda>a. Inr (account_to_row pg a)" account_from_row "stored_account pg" for pg
  by unfold_locales (auto simp: encode_defs decode_defs stored_defs codec_from_to)

interpretation balance_rows: row_codec "balance_to_row pg now" balance_from_row "\<lambda>b. b" for pg now
  by unfold_locales (auto simp: encode_defs decode_defs res_simps parse_numeric)

interpretation block_rows: row_codec
  "\<lambda>b. Inr (block_to_row pg b)" "\<lambda>r. block_from_row r txs" "stored_block pg txs" for pg txs
  by unfold_locales (auto simp: encode_defs decode_defs stored_defs)

lemma transaction_decode_encode:
  "payment_to_row pg p = Inr r \<Longrightarrow> transaction_from_row r = Inr (stored_transaction pg p)"
  by (auto simp: encode_defs decode_defs stored_defs Let_def res_simps parse_numeric codec_from_to)

interpretation payment_rows: row_codec
  "payment_to_row pg" "payment_from_row blocks" "stored_payment pg blocks" for pg blocks
proof unfold_locales
  fix p r
  assume enc: "payment_to_row pg p = Inr r"
  then have "tr_status r = transaction_status_to_db (pay_status p)"
    "tr_block_height r = pay_block_height p" "tr_failure_reason r = pay_failure_reason p"
    "tr_client_reference_id r = pay_client_reference_id p"
    "tr_request_fingerprint r = pay_request_fingerprint p"
    "tr_created_at r = pg_time pg (pay_created_at p)"
    "tr_updated_at r = pg_time pg (pay_updated_at p)"
    by (auto simp: payment_to_row_def Let_def res_simps)
  with transaction_decode_encode [OF enc]
  show "payment_from_row blocks r = Inr (stored_payment pg blocks p)"
    by (simp add: payment_from_row_def stored_payment_def joined_block_hash_def codec_from_to)
qed

interpretation case_rows: row_codec "case_to_row pg" compliance_case_from_row "stored_case pg" for pg
  by unfold_locales (auto simp: encode_defs decode_defs stored_defs uuid_cast_iff numeric_cast_iff and_then_eq_Inr parse_numeric codec_from_to)

interpretation journal_rows: row_codec
  "journal_entry_to_row pg" journal_entry_from_row "stored_journal_entry pg" for pg
  by unfold_locales
    (auto simp: encode_defs decode_defs stored_defs res_simps parse_numeric codec_from_to)

interpretation audit_rows: row_codec
  "audit_to_row pg" audit_event_from_row "stored_audit_event pg" for pg
  by unfold_locales (auto simp: encode_defs decode_defs stored_defs res_simps split: option.splits)

end
