(* ===== verification/Kani_Pg_Keep.thy ===== *)
theory Kani_Pg_Keep
  imports Kani_Pg_Rows Kani_Pg_Node
begin

text \<open>
  What the operations of other sessions can do to the tables while a validator's pass is under
  way. \<open>kept S\<close> relates two databases when the settled tables are the same, a finalized
  transaction or a pending one of the set \<open>S\<close> is untouched, no transaction became finalized, and
  no row lost its content. Every operation of the node keeps it.
\<close>

section \<open>Statements\<close>

lemma sql_insert_cases:
  assumes "sql_insert check clash refs arbiter action row rows = Inr (n, rows')"
  obtains (insert) "List.find arbiter rows = None" "n = 1" "rows' = rows @ [row]" "check row"
    "refs row" "\<forall>r \<in> set rows. \<not> clash row r"
  | (nothing) "action = DoNothing" "n = 0" "rows' = rows" "\<exists>r \<in> set rows. arbiter r"
  | (update) old upd where "List.find arbiter rows = Some old" "action = DoUpdate upd" "n = 1"
    "rows' = map (\<lambda>r. if arbiter r then upd r else r) rows" "check row" "check (upd old)"
    "refs (upd old)" "\<forall>r \<in> set rows. \<not> arbiter r \<longrightarrow> \<not> clash (upd old) r"
proof (cases "List.find arbiter rows")
  case None
  with assms that(1) show thesis
    by (auto simp: sql_insert_def list_ex_iff split: if_splits)
next
  case (Some old)
  then have "\<exists>r \<in> set rows. arbiter r" by (auto dest: find_Some_in)
  with Some assms that(2,3) show thesis
    by (auto simp: sql_insert_def list_ex_iff split: if_splits conflict_action.splits)
qed

section \<open>The relation\<close>

definition is_pending :: "transaction_row \<Rightarrow> bool" where
  "is_pending r \<longleftrightarrow> tr_status r = ''PENDING''"

definition is_finalized :: "transaction_row \<Rightarrow> bool" where
  "is_finalized r \<longleftrightarrow> tr_status r = ''FINALIZED''"

definition evolves :: "string set \<Rightarrow> transaction_row \<Rightarrow> transaction_row \<Rightarrow> bool" where
  "evolves S r r' \<longleftrightarrow> tr_id r' = tr_id r \<and> transaction_from_row r' = transaction_from_row r \<and>
     tr_client_reference_id r' = tr_client_reference_id r \<and>
     tr_request_fingerprint r' = tr_request_fingerprint r \<and>
     (is_finalized r \<or> is_pending r \<and> tr_id r \<in> S \<longrightarrow> r' = r) \<and>
     (is_finalized r' \<longrightarrow> is_finalized r)"

definition transactions_kept :: "string set \<Rightarrow> transaction_row list \<Rightarrow> transaction_row list \<Rightarrow> bool" where
  "transactions_kept S rows rows' \<longleftrightarrow>
     (\<exists>olds news. rows' = olds @ news \<and> list_all2 (evolves S) rows olds \<and>
        list_all (\<lambda>r. \<not> is_finalized r) news)"

definition rows_ok :: "postgres_api \<Rightarrow> transaction_row list \<Rightarrow> bool" where
  "rows_ok pg rows \<longleftrightarrow> distinct (map tr_id rows) \<and>
     (\<forall>r \<in> set rows. pg_uuid pg (tr_id r) = Some (tr_id r) \<and> is_ok (transaction_from_row r)) \<and>
     (\<forall>r \<in> set rows. \<forall>r' \<in> set rows. same_reference r r' \<longrightarrow> tr_id r = tr_id r')"

definition kept :: "postgres_api \<Rightarrow> string set \<Rightarrow> database \<times> env \<Rightarrow> database \<times> env \<Rightarrow> bool" where
  "kept pg S s s' \<longleftrightarrow>
     db_accounts (fst s') = db_accounts (fst s) \<and> db_balances (fst s') = db_balances (fst s) \<and>
     db_blocks (fst s') = db_blocks (fst s) \<and> db_journal (fst s') = db_journal (fst s) \<and>
     db_lock (fst s') = db_lock (fst s) \<and>
     (rows_ok pg (db_transactions (fst s)) \<longrightarrow>
        rows_ok pg (db_transactions (fst s')) \<and>
        transactions_kept S (db_transactions (fst s)) (db_transactions (fst s')))"

lemma evolves_refl [simp]: "evolves S r r"
  by (simp add: evolves_def)

lemma evolves_trans: "evolves S r r' \<Longrightarrow> evolves S r' r'' \<Longrightarrow> evolves S r r''"
  unfolding evolves_def by metis

lemma transactions_kept_refl [simp]: "transactions_kept S rows rows"
  unfolding transactions_kept_def by (intro exI [of _ rows] exI [of _ "[]"]) (simp add: list.rel_refl)

lemma transactions_kept_trans:
  assumes "transactions_kept S rows rows'" "transactions_kept S rows' rows''"
  shows "transactions_kept S rows rows''"
proof -
  obtain olds news where r': "rows' = olds @ news" and olds: "list_all2 (evolves S) rows olds"
    and news: "list_all (\<lambda>r. \<not> is_finalized r) news"
    using assms(1) unfolding transactions_kept_def by blast
  obtain olds2 news2 where r'': "rows'' = olds2 @ news2"
    and olds2: "list_all2 (evolves S) (olds @ news) olds2"
    and news2: "list_all (\<lambda>r. \<not> is_finalized r) news2"
    using assms(2) r' unfolding transactions_kept_def by blast
  obtain xs ys where xy: "olds2 = xs @ ys" "list_all2 (evolves S) olds xs"
    "list_all2 (evolves S) news ys"
    using olds2 by (metis list_all2_append1)
  have "list_all (\<lambda>r. \<not> is_finalized r) ys"
    using xy(3) news by (induction rule: list_all2_induct) (auto simp: evolves_def)
  moreover have "list_all2 (evolves S) rows xs"
    by (rule list_all2_trans [OF evolves_trans olds xy(2)])
  ultimately show ?thesis
    unfolding transactions_kept_def using r'' xy(1) news2
    by (intro exI [of _ xs] exI [of _ "ys @ news2"]) simp
qed

interpretation kept: state_preorder "kept pg S" for pg S
  by unfold_locales (auto simp: kept_def intro: transactions_kept_trans)

section \<open>Statements that keep the rows\<close>

lemma kept_transactions:
  assumes "rows_ok pg (db_transactions db) \<Longrightarrow>
      rows_ok pg rows \<and> transactions_kept S (db_transactions db) rows"
  shows "kept pg S (db, w) (db\<lparr>db_transactions := rows\<rparr>, w')"
  using assms by (simp add: kept_def)

lemma rows_ok_evolve:
  assumes "rows_ok pg rows" "list_all2 (evolves S) rows rows'"
  shows "rows_ok pg rows'"
proof -
  have ids: "map tr_id rows' = map tr_id rows"
    using assms(2) by (induction rule: list_all2_induct) (auto simp: evolves_def)
  have old: "\<exists>r \<in> set rows. evolves S r r'" if "r' \<in> set rows'" for r'
    using assms(2) that by (induction rule: list_all2_induct) auto
  have "tr_id r = tr_id r'" if rr': "r \<in> set rows'" "r' \<in> set rows'" "same_reference r r'" for r r'
  proof -
    obtain q q' where "q \<in> set rows" "evolves S q r" "q' \<in> set rows" "evolves S q' r'"
      using old rr'(1,2) by metis
    moreover from this have "same_reference q q'"
      using rr'(3) unfolding same_reference_def evolves_def by metis
    ultimately show ?thesis using assms(1) unfolding rows_ok_def evolves_def by metis
  qed
  moreover have "pg_uuid pg (tr_id r) = Some (tr_id r) \<and> is_ok (transaction_from_row r)"
    if "r \<in> set rows'" for r
    using old [OF that] assms(1) unfolding rows_ok_def evolves_def by metis
  ultimately show ?thesis using ids assms(1) by (simp add: rows_ok_def)
qed

lemma kept_update:
  assumes "\<And>r. r \<in> set (db_transactions db) \<Longrightarrow> evolves S r (f r)"
  shows "kept pg S (db, w) (db\<lparr>db_transactions := map f (db_transactions db)\<rparr>, w')"
proof (rule kept_transactions)
  assume ok: "rows_ok pg (db_transactions db)"
  have all: "list_all2 (evolves S) (db_transactions db) (map f (db_transactions db))"
    using assms by (simp add: list_all2_conv_all_nth)
  moreover have "transactions_kept S (db_transactions db) (map f (db_transactions db))"
    unfolding transactions_kept_def
    by (intro exI [of _ "map f (db_transactions db)"] exI [of _ "[]"]) (simp add: all)
  ultimately show "rows_ok pg (map f (db_transactions db)) \<and>
      transactions_kept S (db_transactions db) (map f (db_transactions db))"
    using rows_ok_evolve [OF ok] by blast
qed

lemma status_evolves:
  assumes "old \<noteq> ''FINALIZED''" "new \<noteq> ''FINALIZED''" "old = ''PENDING'' \<Longrightarrow> i \<notin> S"
  shows "evolves S r (if tr_id r = i \<and> tr_status r = old
    then r\<lparr>tr_status := new, tr_failure_reason := reason, tr_updated_at := now\<rparr> else r)"
  using assms by (auto simp: evolves_def is_pending_def is_finalized_def transaction_from_row_def)

lemma kept_set_status:
  assumes "old \<noteq> ''FINALIZED''" "new \<noteq> ''FINALIZED''" "old = ''PENDING'' \<Longrightarrow> i \<notin> S"
  shows "kept pg S (db, w) (set_transaction_status i old new reason now db, w')"
  unfolding set_transaction_status_def sql_update_def
  by (rule kept_update) (rule status_evolves [OF assms])

text \<open>A new row: its identifier is the canonical form of a fresh one.\<close>

definition pg_ok :: "postgres_api \<Rightarrow> bool" where
  "pg_ok pg \<longleftrightarrow> (\<forall>i j. pg_uuid pg i = Some j \<longrightarrow> pg_uuid pg j = Some j)"

lemma payment_row_canonical:
  assumes "pg_ok pg" "payment_to_row pg p = Inr row"
  shows "pg_uuid pg (tr_id row) = Some (tr_id row)" "is_ok (transaction_from_row row)"
    "tr_status row = transaction_status_to_db (pay_status p)"
  using assms transaction_decode_encode [OF assms(2)]
  by (auto simp: payment_to_row_def Let_def res_simps pg_ok_def)

lemma kept_insert_transaction:
  assumes "insert_new_transaction row db = Inr (n, db')"
    and "pg_uuid pg (tr_id row) = Some (tr_id row)" "is_ok (transaction_from_row row)"
    and "\<not> is_finalized row"
  shows "kept pg S (db, w) (db', w')"
proof -
  from assms(1) obtain rows where sql: "sql_insert transaction_check
      (\<lambda>r r'. tr_id r = tr_id r' \<or> same_nonce r r') (transaction_refs db) (same_reference row)
      DoNothing row (db_transactions db) = Inr (n, rows)"
    and db': "db' = db\<lparr>db_transactions := rows\<rparr>"
    by (auto simp: insert_new_transaction_def res_simps)
  from sql show ?thesis
  proof (cases rule: sql_insert_cases)
    case insert
    show ?thesis unfolding db'
    proof (rule kept_transactions)
      assume "rows_ok pg (db_transactions db)"
      moreover have "\<not> same_reference row r" "\<not> same_reference r row" if "r \<in> set (db_transactions db)" for r
        using insert(1) that by (auto simp: find_None_iff same_reference_def)
      ultimately have "rows_ok pg rows" using insert assms(2,3) by (auto simp: rows_ok_def)
      moreover have "transactions_kept S (db_transactions db) rows"
        unfolding transactions_kept_def insert(3)
        by (intro exI [of _ "db_transactions db"] exI [of _ "[row]"])
          (simp add: list.rel_refl assms(4))
      ultimately show "rows_ok pg rows \<and> transactions_kept S (db_transactions db) rows" by blast
    qed
  next
    case nothing
    then show ?thesis by (simp add: db' kept_def)
  next
    case update
    then show ?thesis by simp
  qed
qed

section \<open>Operations that keep the rows\<close>

lemma keeps_db_query [simp, intro!]: "keeps (kept pg S) (db_query f)"
  by (rule keepsI) (auto simp: db_query_def kept.R_refl)

lemma keeps_db_draw [simp, intro!]: "keeps (kept pg S) (db_draw f)"
  by (rule keepsI) (auto simp: db_draw_def kept_def split: prod.splits)

lemma keeps_node_draw [simp, intro!]: "keeps (kept pg S) (draw f)"
  by (rule keepsI) (auto simp: draw_def kept_def split: prod.splits)

lemma keeps_draw_engine [simp, intro!]: "keeps (kept pg S) draw_engine"
  by (rule keepsI) (auto simp: draw_engine_def kept_def split: sum.splits prod.splits)

lemma keeps_db_execute:
  assumes "\<And>db x db' w. f db = Inr (x, db') \<Longrightarrow> kept pg S (db, w) (db', w)"
  shows "keeps (kept pg S) (db_execute f)"
  using assms by (intro keepsI) (auto simp: db_execute_def kept.R_refl split: sum.splits prod.splits)

lemma keeps_via_storage [simp, intro!]: "keeps R m \<Longrightarrow> keeps R (via_storage m)"
  by (simp add: keeps_def via_storage_def case_prod_unfold)

lemma keeps_via_enqueue [simp, intro!]: "keeps R m \<Longrightarrow> keeps R (via_enqueue m)"
  by (simp add: keeps_def via_enqueue_def case_prod_unfold)

text \<open>Operations that write none of the tables \<open>kept\<close> speaks of.\<close>

lemma kept_other_tables [simp]:
  "kept pg S (db, w) (db\<lparr>db_institutions := x1\<rparr>, w')" "kept pg S (db, w) (db\<lparr>db_credentials := x2\<rparr>, w')"
  "kept pg S (db, w) (db\<lparr>db_limits := x3\<rparr>, w')" "kept pg S (db, w) (db\<lparr>db_cases := x4\<rparr>, w')"
  "kept pg S (db, w) (db\<lparr>db_audit := x5\<rparr>, w')" "kept pg S (db, w) (db\<lparr>db_validators := x6\<rparr>, w')"
  "kept pg S (db, w) (db, w')"
  by (simp_all add: kept_def)

lemma keeps_registry [simp, intro!]:
  "keeps (kept pg S) (pg_upsert_institution pg i)" "keeps (kept pg S) (pg_suspend_institution pg j)"
  "keeps (kept pg S) (pg_insert_institution_credential pg c)"
  "keeps (kept pg S) (pg_upsert_institution_limit pg m)"
  "keeps (kept pg S) (pg_insert_audit_event pg e)"
  unfolding pg_upsert_institution_def insert_institution_row_def pg_suspend_institution_def
    pg_insert_institution_credential_def pg_upsert_institution_limit_def insert_limit_row_def
    pg_insert_audit_event_def insert_audit_row_def
  by (auto intro!: keeps_db_execute simp: res_simps Let_def)

lemma keeps_validator_rows [simp, intro!]:
  "keeps (kept pg S) (pg_record_validator_heartbeat pg v)"
  "keeps (kept pg S) (pg_record_validator_finalized_block pg v b)"
  unfolding pg_record_validator_heartbeat_def pg_record_validator_finalized_block_def
    upsert_validator_row_def Let_def
  by (auto intro!: keeps_db_execute simp: res_simps)

lemma keeps_reads [simp, intro!]:
  "keeps (kept pg S) (pg_get_institution i)" "keeps (kept pg S) (pg_institutions pg)"
  "keeps (kept pg S) (pg_next_nonce_for_account a)"
  "keeps (kept pg S) (pg_payment_by_client_reference_id c)" "keeps (kept pg S) (pg_payment pg p)"
  "keeps (kept pg S) (pg_compliance_case pg k)"
  "keeps (kept pg S) (pg_compliance_case_by_payment_id pg p)"
  "keeps (kept pg S) (pg_pending_transactions m n)" "keeps (kept pg S) (pg_load_snapshot pg)"
  unfolding pg_get_institution_def pg_institutions_def pg_next_nonce_for_account_def
    pg_payment_by_client_reference_id_def pg_payment_def pg_compliance_case_def
    pg_compliance_case_by_payment_id_def pg_find_case_def pg_pending_transactions_def
    pg_load_snapshot_def load_accounts_def load_institution_credentials_def
    load_institution_limits_def load_balances_def load_payments_def load_blocks_def
    load_journal_entries_def load_audit_events_def pg_compliance_cases_def
  by auto

lemma keeps_earlier_payment [simp, intro!]:
  "keeps (kept pg S) (pg_earlier_payment cri tx fingerprint)"
  unfolding pg_earlier_payment_def by auto

lemma keeps_bind_draw:
  assumes "\<And>w. keeps (kept pg S) (k (fst (f w)))"
  shows "keeps (kept pg S) (h_bind (db_draw f) k)"
proof (rule keepsI)
  fix s r s'
  assume run: "h_bind (db_draw f) k s = (r, s')"
  obtain db w where s: "s = (db, w)" by force
  obtain x w1 where x: "f w = (x, w1)" by force
  have "k x (db, w1) = (r, s')" using run s x by (simp add: h_bind_def db_draw_def)
  with assms [of w] x have "kept pg S (db, w1) s'" by (auto dest: keepsD)
  then show "kept pg S s s'" using s kept.R_trans kept_other_tables(7) by blast
qed

lemma keeps_insert_payment:
  assumes "pg_ok pg" "pay_status payment \<noteq> Finalized"
    and "\<And>row. tr_id (g row) = tr_id row \<and> tr_status (g row) = tr_status row \<and>
      transaction_from_row (g row) = transaction_from_row row"
    and "payment_to_row pg payment = Inr row" "insert_new_transaction (g row) db = Inr (n, db')"
  shows "kept pg S (db, w) (db', w')"
  by (rule kept_insert_transaction [OF assms(5)])
    (use payment_row_canonical [OF assms(1,4)] assms(2,3) in
      \<open>cases "pay_status payment"; simp add: is_finalized_def\<close>)+

lemma pending_payment_status [simp]:
  "pay_status (with_request_fingerprint f (with_client_reference_id c p)) = pay_status p"
  "pay_status (fst (payment_pending w tx)) = Pending" "pay_status (fst (payment_held w tx r)) = Held"
  by (simp_all add: with_request_fingerprint_def with_client_reference_id_def payment_pending_def
      payment_held_def Let_def split: prod.split)

lemmas keeps_step = keeps_bind_draw kept.keeps_bind keeps_earlier_payment kept.keeps_option
  kept.keeps_return kept.keeps_fail kept.keeps_lift kept.keeps_if kept.keeps_pair keeps_db_execute
  keeps_reads keeps_via_storage keeps_via_enqueue keeps_registry

lemma keeps_enqueue [intro!]:
  assumes "pg_ok pg"
  shows "keeps (kept pg S) (pg_enqueue_pending_transaction pg tx cri fingerprint)"
  unfolding pg_enqueue_pending_transaction_def Let_def
  by (intro keeps_step)
    (auto simp: res_simps transaction_from_row_def
      intro!: keeps_insert_payment [OF assms, where
        g = "\<lambda>row. row\<lparr>tr_block_height := None, tr_failure_reason := None\<rparr>"])

lemma insert_new_case_keeps: "insert_new_case row db = Inr db' \<Longrightarrow> kept pg S (db, w) (db', w')"
  by (auto simp: insert_new_case_def res_simps)

lemma keeps_hold [intro!]:
  assumes "pg_ok pg"
  shows "keeps (kept pg S) (pg_hold_payment_for_review pg tx cri fingerprint copen)"
proof -
  have "kept pg S (db, w) (db', w)"
    if held: "pay_status payment = Held"
      and run: "and_then (payment_to_row pg payment) (\<lambda>row.
      and_then (insert_new_transaction (row\<lparr>tr_block_height := None\<rparr>) db) (\<lambda>(rows_affected, db').
      if rows_affected = 0 then Inr (rows_affected, db)
      else and_then (case_to_row pg c) (\<lambda>case_row.
           and_then (insert_new_case case_row db') (\<lambda>db'. Inr (rows_affected, db'))))) = Inr (x, db')"
    for payment c db x db' w
  proof -
    from run obtain row n db1 where row: "payment_to_row pg payment = Inr row"
      and ins: "insert_new_transaction (row\<lparr>tr_block_height := None\<rparr>) db = Inr (n, db1)"
      and rest: "n = 0 \<and> db' = db \<or> (\<exists>case_row. insert_new_case case_row db1 = Inr db')"
      by (auto simp: res_simps split: if_splits)
    have "kept pg S (db, w) (db1, w)"
      by (rule keeps_insert_payment [where g = "\<lambda>row. row\<lparr>tr_block_height := None\<rparr>", OF assms _ _ row ins])
        (simp_all add: held transaction_from_row_def)
    with rest show ?thesis using insert_new_case_keeps kept.R_trans kept.R_refl by metis
  qed
  note insert_both = this
  show ?thesis
    unfolding pg_hold_payment_for_review_def Let_def
    by (intro keeps_step) (rule insert_both [rotated], assumption, simp)
qed

lemma update_case_keeps:
  "update_compliance_case_in_transaction pg c db = Inr db' \<Longrightarrow> kept pg S (db, w) (db', w')"
  by (auto simp: update_compliance_case_in_transaction_def res_simps)

lemma keeps_decisions [intro!]:
  "keeps (kept pg S) (pg_approve_compliance_case pg i reviewer reason)"
  "keeps (kept pg S) (pg_reject_compliance_case pg i reviewer reason)"
proof -
  have decide: "kept pg S (db, w) (set_transaction_status p ''HELD'' new r now db1, w)"
    if "update_compliance_case_in_transaction pg c db = Inr db1" "new \<noteq> ''FINALIZED''"
    for db db1 c w p new r now
  proof (rule kept.R_trans)
    show "kept pg S (db, w) (db1, w)" by (rule update_case_keeps [OF that(1)])
    show "kept pg S (db1, w) (set_transaction_status p ''HELD'' new r now db1, w)"
      by (rule kept_set_status [OF _ that(2)]) simp_all
  qed
  show "keeps (kept pg S) (pg_approve_compliance_case pg i reviewer reason)"
    unfolding pg_approve_compliance_case_def
    by (intro keeps_step) (auto simp: res_simps intro: decide)
  show "keeps (kept pg S) (pg_reject_compliance_case pg i reviewer reason)"
    unfolding pg_reject_compliance_case_def Let_def
    by (intro keeps_step) (auto simp: res_simps intro: decide)
qed

section \<open>Operations of the node\<close>

text \<open>The operations of the other sessions that write: requests served by nodes of the store.\<close>

inductive client_step :: "platform \<Rightarrow> postgres_api \<Rightarrow> database \<times> env \<Rightarrow> database \<times> env \<Rightarrow> bool" for pf pg where
  client_submit: "pg_node_submit_payment pf pg node a b c x cri s = (r1, s') \<Longrightarrow> client_step pf pg s s'"
| client_hold:
    "pg_node_hold_payment_for_review pf pg node a b c x cri copen s = (r2, s') \<Longrightarrow> client_step pf pg s s'"
| client_mint: "pg_node_mint_sandbox pg a b c x s = (r1, s') \<Longrightarrow> client_step pf pg s s'"
| client_burn: "pg_node_burn_sandbox pg a b c x s = (r1, s') \<Longrightarrow> client_step pf pg s s'"
| client_approve:
    "pg_node_approve_compliance_case pg k reviewer reason s = (r3, s') \<Longrightarrow> client_step pf pg s s'"
| client_reject:
    "pg_node_reject_compliance_case pg k reviewer reason s = (r3, s') \<Longrightarrow> client_step pf pg s s'"
| client_institution: "pg_node_upsert_institution pg i s = (r4, s') \<Longrightarrow> client_step pf pg s s'"
| client_suspend: "pg_node_suspend_institution pg j s = (r4, s') \<Longrightarrow> client_step pf pg s s'"
| client_credential:
    "pg_node_add_institution_credential pg c s = (r5, s') \<Longrightarrow> client_step pf pg s s'"
| client_limit: "pg_node_upsert_institution_limit pg m s = (r6, s') \<Longrightarrow> client_step pf pg s s'"
| client_audit: "pg_node_record_audit_event pg e s = (r7, s') \<Longrightarrow> client_step pf pg s s'"

lemma keeps_known_institution [simp, intro!]: "keeps (kept pg S) (known_institution i found)"
  by (simp add: known_institution_def)

lemmas pg_node_defs = pg_node_submit_payment_def pg_node_hold_payment_for_review_def
  pg_node_mint_sandbox_def pg_node_burn_sandbox_def pg_node_approve_compliance_case_def
  pg_node_reject_compliance_case_def pg_node_upsert_institution_def pg_node_suspend_institution_def
  pg_node_add_institution_credential_def pg_node_get_institution_def
  pg_node_upsert_institution_limit_def pg_node_record_audit_event_def
  enqueue_postgres_payment_def

lemma client_step_kept:
  assumes "pg_ok pg" "client_step pf pg s s'"
  shows "kept pg S s s'"
  using assms(2)
  by cases (auto simp: pg_node_defs Let_def elim!: keepsD [rotated] intro!: kept.keeps_bind
      keeps_enqueue [OF assms(1)] keeps_hold [OF assms(1)] keeps_decisions)

end
