(* ===== verification/Kani_Pg_Books.thy ===== *)
theory Kani_Pg_Books
  imports Kani_Pg_Keep
begin

text \<open>
  The books in the tables: the balances, and the finalized transactions. \<open>db_follows txs db\<close>
  says that the balances of the database are those of the transactions \<open>txs\<close>, applied in this
  order, and that these are the finalized rows. A ledger loaded from such a database follows the
  same transactions, whatever the order the rows are read in.
\<close>

section \<open>The books of a database\<close>

definition row_tx :: "transaction_row \<Rightarrow> transaction" where
  "row_tx r = projr (transaction_from_row r)"

definition finalized_txs :: "database \<Rightarrow> transaction list" where
  "finalized_txs db = map row_tx (filter is_finalized (db_transactions db))"

definition db_balance_map :: "database \<Rightarrow> balances" where
  "db_balance_map db = map (\<lambda>r. ((bl_account_id r, bl_asset r), bl_amount r)) (db_balances db)"

definition balances_ok :: "database \<Rightarrow> bool" where
  "balances_ok db \<longleftrightarrow> hm_wf (db_balance_map db) \<and>
     (\<forall>r \<in> set (db_balances db). 0 \<le> bl_amount r \<and> bl_amount r < 10 ^ 38)"

definition db_follows :: "transaction list \<Rightarrow> database \<Rightarrow> bool" where
  "db_follows txs db \<longleftrightarrow> mset txs = mset (finalized_txs db) \<and>
     (\<exists>work. work_balances work = db_balance_map db \<and> follows txs work)"

lemma follows_transfer:
  assumes "follows txs u" "hm_wf (work_balances v)"
    and "\<And>k. hm_get (work_balances v) k = hm_get (work_balances u) k"
    and "\<And>s. asset_total (work_balances v) s = asset_total (work_balances u) s"
    and "\<And>a. unwrap_or_zero (hm_get (work_nonces v) a) = unwrap_or_zero (hm_get (work_nonces u) a)"
    and "\<And>s. unwrap_or_zero (hm_get (work_issued v) s) = unwrap_or_zero (hm_get (work_issued u) s)"
  shows "follows txs v"
proof -
  have wf: "hm_wf (work_balances v) = hm_wf (work_balances u)"
    using assms(1,2) by (simp add: follows_def balances_follow_def)
  have "follows txs v = follows txs u"
    by (simp only: follows_def balances_follow_def issued_follows_def total_follows_def
        nonces_follow_def exact_for_def balance_from_def assms(3-6) wf)
  with assms(1) show ?thesis by simp
qed

lemma option_eqI: "(\<And>v. x = Some v \<longleftrightarrow> y = Some v) \<Longrightarrow> x = y"
  by (cases x; cases y) auto

lemma same_entries:
  assumes "mset b = mset c" "hm_wf c"
  shows "hm_wf b" "hm_get b k = hm_get c k" "asset_total b s = asset_total c s"
proof -
  have "mset (map fst b) = mset (map fst c)" using assms(1) by simp
  then show wf: "hm_wf b" using assms(2) unfolding hm_wf_def by (metis mset_eq_imp_distinct_iff)
  have "hm_get b k = Some v \<longleftrightarrow> hm_get c k = Some v" for v
    using hm.entries_get [OF wf, of k v] hm.entries_get [OF assms(2), of k v]
      mset_eq_setD [OF assms(1)] by simp
  then show "hm_get b k = hm_get c k" by (rule option_eqI)
  have "sum_mset (mset (map f b)) = sum_mset (mset (map f c))" for f :: "_ \<Rightarrow> int"
    using assms(1) by simp
  then show "asset_total b s = asset_total c s"
    unfolding asset_total_def sum_mset_sum_list .
qed

lemma asset_total_same_gets:
  assumes "hm_wf b" "hm_wf c" "\<And>k. hm_get b k = hm_get c k"
  shows "asset_total b s = asset_total c s"
proof -
  have "e \<in> set b \<longleftrightarrow> e \<in> set c" for e
    using hm.entries_get [OF assms(1)] hm.entries_get [OF assms(2)] assms(3) by (cases e) simp
  then have "set b = set c" by blast
  then show ?thesis
    unfolding asset_total_def hm.entries_sum [OF assms(1)] hm.entries_sum [OF assms(2)] by simp
qed

section \<open>Loading\<close>

lemma mset_order_by_time [simp]: "mset (order_by_time f g rows) = mset rows"
  by (simp add: order_by_time_def)

lemma load_balances_ok:
  assumes "balances_ok db" "mset rows = mset (db_balances db)"
    and "collect_results (map balance_from_row rows) = Inr bs"
  shows "mset (hm_collect (map (\<lambda>b. ((bal_account_id b, bal_asset b), bal_amount b)) bs)) =
    mset (db_balance_map db)"
proof -
  have range: "\<bar>bl_amount r\<bar> < 10 ^ 38" if "r \<in> set rows" for r
    using that assms(1) mset_eq_setD [OF assms(2)] by (auto simp: balances_ok_def)
  then have "\<forall>r \<in> set rows. balance_from_row r =
      Inr \<lparr>bal_account_id = bl_account_id r, bal_asset = bl_asset r, bal_amount = bl_amount r\<rparr>"
    by (simp add: balance_from_row_def parse_numeric)
  then have "map balance_from_row rows = map (\<lambda>r. Inr
      \<lparr>bal_account_id = bl_account_id r, bal_asset = bl_asset r, bal_amount = bl_amount r\<rparr>) rows"
    by (intro map_cong) simp_all
  with assms(3) have bs: "bs = map (\<lambda>r.
      \<lparr>bal_account_id = bl_account_id r, bal_asset = bl_asset r, bal_amount = bl_amount r\<rparr>) rows"
    by (simp add: collect_results_map_Inr)
  let ?m = "map (\<lambda>r. ((bl_account_id r, bl_asset r), bl_amount r)) rows"
  have "mset ?m = mset (db_balance_map db)"
    unfolding db_balance_map_def mset_map assms(2) ..
  moreover have "hm_collect ?m = ?m"
    using same_entries(1) [OF calculation] assms(1)
    by (intro hm_collect_distinct) (simp add: balances_ok_def hm_wf_def)
  ultimately show ?thesis by (simp add: bs o_def)
qed

text \<open>The loop of \<open>load_payments\<close>.\<close>

lemma row_tx_payment:
  assumes "payment_from_row blocks r = Inr p"
  shows "transaction_from_row r = Inr (row_tx r)" "pay_transaction p = row_tx r"
    "pay_status p = Finalized \<longleftrightarrow> is_finalized r"
proof -
  obtain tx status where tx: "transaction_from_row r = Inr tx" "pay_transaction p = tx"
    and status: "transaction_status_from_db (tr_status r) = Inr status" "pay_status p = status"
    using assms by (auto simp: payment_from_row_def res_simps)
  then show "transaction_from_row r = Inr (row_tx r)" "pay_transaction p = row_tx r"
    by (simp_all add: row_tx_def)
  from status have "tr_status r = transaction_status_to_db status"
    by (simp add: codec_accepts_iff)
  with status show "pay_status p = Finalized \<longleftrightarrow> is_finalized r"
    by (cases status) (simp_all add: is_finalized_def)
qed

lemma load_payment_sel:
  "lp_payments (load_payment p acc) = lp_payments acc @ [p]"
  "unwrap_or_zero (hm_get (lp_nonces (load_payment p acc)) a) =
     (if pay_status p = Finalized \<and> tx_from (pay_transaction p) = a
      then max (unwrap_or_zero (hm_get (lp_nonces acc) a)) (tx_nonce (pay_transaction p))
      else unwrap_or_zero (hm_get (lp_nonces acc) a))"
  "pay_status p = Finalized \<Longrightarrow> unwrap_or_zero (hm_get (lp_issued acc) s) = i128_wrap x \<Longrightarrow>
     unwrap_or_zero (hm_get (lp_issued (load_payment p acc)) s) =
       i128_wrap (x + tx_issue (pay_transaction p) s)"
  "pay_status p \<noteq> Finalized \<Longrightarrow> lp_issued (load_payment p acc) = lp_issued acc"
  by (auto simp: load_payment_def Let_def map_simps tx_issue_def i128_add_def i128_sub_def
      split: transaction_kind.splits option.split)

lemma collect_payments_ok:
  assumes "collect_payments blocks rows acc = Inr acc'"
  shows "\<exists>ps. lp_payments acc' = lp_payments acc @ ps \<and>
      list_all2 (\<lambda>r p. payment_from_row blocks r = Inr p) rows ps"
    and "unwrap_or_zero (hm_get (lp_nonces acc') a) =
      fold max (nonces_of a (map row_tx (filter is_finalized rows)))
        (unwrap_or_zero (hm_get (lp_nonces acc) a))"
    and "unwrap_or_zero (hm_get (lp_issued acc) s) = i128_wrap x \<Longrightarrow>
      unwrap_or_zero (hm_get (lp_issued acc') s) =
        i128_wrap (x + chain_issued (map row_tx (filter is_finalized rows)) s)"
  using assms
proof (induction rows arbitrary: acc x)
  case (Cons r rows)
  {
    case 1
    from 1 obtain p where p: "payment_from_row blocks r = Inr p"
      and rest: "collect_payments blocks rows (load_payment p acc) = Inr acc'"
      by (auto simp: res_simps)
    with Cons.IH(1) [OF rest] show ?case by (auto simp: load_payment_sel)
  next
    case 2
    then obtain p where p: "payment_from_row blocks r = Inr p"
      and rest: "collect_payments blocks rows (load_payment p acc) = Inr acc'"
      by (auto simp: res_simps)
    with Cons.IH(2) [OF rest] row_tx_payment [OF p] show ?case
      by (auto simp: load_payment_sel nonces_of_def max.commute)
  next
    case 3
    then obtain p where p: "payment_from_row blocks r = Inr p"
      and rest: "collect_payments blocks rows (load_payment p acc) = Inr acc'"
      by (auto simp: res_simps)
    show ?case
    proof (cases "is_finalized r")
      case True
      with Cons.IH(3) [OF load_payment_sel(3) rest] row_tx_payment [OF p] 3(1) show ?thesis
        by (simp add: chain_issued_def add.assoc)
    next
      case False
      with Cons.IH(3) [OF _ rest] row_tx_payment [OF p] 3(1) show ?thesis
        by (simp add: load_payment_sel(4))
    qed
  }
qed (simp_all add: nonces_of_def)

text \<open>The highest nonce does not depend on the order of the rows.\<close>

lemma last_is_greatest:
  fixes xs :: "int list"
  shows "sorted_wrt (<) xs \<Longrightarrow> y \<in> set xs \<Longrightarrow> y \<le> last xs"
proof (induction xs)
  case (Cons x xs)
  then show ?case by (cases xs) (auto intro: less_imp_le order.trans)
qed simp

lemma greatest_nonce:
  assumes "mset txs = mset txs'" "sorted_wrt (<) (0 # nonces_of a txs)"
  shows "fold max (nonces_of a txs') 0 = last (0 # nonces_of a txs)"
proof -
  have "set (nonces_of a txs') = set (nonces_of a txs)"
    using mset_eq_setD [OF assms(1)] by (simp add: nonces_of_def)
  then have "fold max (nonces_of a txs') 0 = Max (set (0 # nonces_of a txs))"
    using Max.set_eq_fold [of 0 "nonces_of a txs'"] by simp
  also have "\<dots> = last (0 # nonces_of a txs)"
  proof (rule Max_eqI)
    show "y \<le> last (0 # nonces_of a txs)" if "y \<in> set (0 # nonces_of a txs)" for y
      using last_is_greatest [OF assms(2) that] .
    show "last (0 # nonces_of a txs) \<in> set (0 # nonces_of a txs)" by (rule last_in_set) simp
  qed simp
  finally show ?thesis .
qed

lemma chain_issued_mset: "mset txs = mset txs' \<Longrightarrow> chain_issued txs s = chain_issued txs' s"
  unfolding chain_issued_def by (metis mset_map sum_mset_sum_list)

lemma db_query_ok [simp]: "db_query f (db, w) = (Inr x, s') \<longleftrightarrow> f db = Inr x \<and> s' = (db, w)"
  by (auto simp: db_query_def)

lemma via_storage_ok [simp]: "via_storage m s = (Inr x, s') \<longleftrightarrow> m s = (Inr x, s')"
  by (auto simp: via_storage_def res_simps split: prod.splits)

text \<open>What a loaded snapshot holds.\<close>

lemma load_snapshot_ok:
  assumes "pg_load_snapshot pg (db, w) = (Inr snap, s')"
  obtains loaded where "s' = (db, w)"
    and "collect_results (map balance_from_row
        (sort_key (\<lambda>r. pg_collate pg (bl_account_id r))
          (sort_key (\<lambda>r. pg_collate pg (bl_asset r)) (db_balances db)))) = Inr (snap_balances snap)"
    and "collect_payments (db_blocks db) (order_by_time tr_created_at tr_id (db_transactions db))
        \<lparr>lp_payments = [], lp_nonces = [], lp_issued = [], lp_txs_by_block = []\<rparr> = Inr loaded"
    and "snap_payments snap = lp_payments loaded" "snap_nonces snap = lp_nonces loaded"
      "snap_issued snap = lp_issued loaded"
    and "blocks_from_rows (sort_key bkr_height (db_blocks db)) (lp_txs_by_block loaded)
        = Inr (snap_blocks snap)"
    and "collect_results (map institution_from_row
        (sort_key (\<lambda>r. pg_collate pg (ir_id r)) (db_institutions db))) = Inr (snap_institutions snap)"
    and "collect_results (map account_from_row
        (sort_key (\<lambda>r. pg_collate pg (ar_id r)) (db_accounts db))) = Inr (snap_accounts snap)"
    and "and_then (sql_page (2 ^ 63 - 1) 0 (order_by_time kr_created_at kr_id (db_cases db)))
        (\<lambda>rows. collect_results (map compliance_case_from_row rows)) = Inr (snap_compliance_cases snap)"
  using assms
  by (auto simp: pg_load_snapshot_def load_accounts_def pg_institutions_def
      load_institution_credentials_def load_institution_limits_def load_balances_def
      load_payments_def pg_compliance_cases_def load_blocks_def load_journal_entries_def
      load_audit_events_def simp del: collect_payments.simps elim!: h_bind_okE)

lemma current_ledger_ok:
  assumes "pg_current_ledger pg (db, w) = (Inr l, s')"
  obtains snap where "pg_load_snapshot pg (db, w) = (Inr snap, s')" "l = from_snapshot snap"
  using assms by (auto simp: pg_current_ledger_def elim!: h_bind_okE)

lemma loaded_follows:
  assumes ok: "balances_ok db" and f: "db_follows txs db"
    and load: "pg_current_ledger pg (db, w) = (Inr l, s')"
  shows "s' = (db, w)" "follows txs (working_copy l)"
    and "mset (led_balances l) = mset (db_balance_map db)"
proof -
  obtain snap where snap: "pg_load_snapshot pg (db, w) = (Inr snap, s')" and l: "l = from_snapshot snap"
    by (rule current_ledger_ok [OF load])
  obtain loaded where s': "s' = (db, w)"
    and bal: "collect_results (map balance_from_row
        (sort_key (\<lambda>r. pg_collate pg (bl_account_id r))
          (sort_key (\<lambda>r. pg_collate pg (bl_asset r)) (db_balances db)))) = Inr (snap_balances snap)"
    and pay: "collect_payments (db_blocks db) (order_by_time tr_created_at tr_id (db_transactions db))
        \<lparr>lp_payments = [], lp_nonces = [], lp_issued = [], lp_txs_by_block = []\<rparr> = Inr loaded"
    and sel: "snap_nonces snap = lp_nonces loaded" "snap_issued snap = lp_issued loaded"
    by (rule load_snapshot_ok [OF snap])
  show "s' = (db, w)" by (rule s')
  have m: "mset (led_balances l) = mset (db_balance_map db)"
    unfolding l from_snapshot_def ledger.simps by (rule load_balances_ok [OF ok _ bal]) simp
  then show "mset (led_balances l) = mset (db_balance_map db)" .
  obtain work where work: "work_balances work = db_balance_map db" and fw: "follows txs work"
    and txs: "mset txs = mset (finalized_txs db)"
    using f by (auto simp: db_follows_def)
  let ?rows = "order_by_time tr_created_at tr_id (db_transactions db)"
  have fin: "mset txs = mset (map row_tx (filter is_finalized ?rows))"
    unfolding txs finalized_txs_def mset_map mset_filter mset_order_by_time ..
  have nonces: "unwrap_or_zero (hm_get (lp_nonces loaded) a) = unwrap_or_zero (hm_get (work_nonces work) a)" for a
    using collect_payments_ok(2) [OF pay, of a] greatest_nonce [OF fin, of a] fw
    by (simp add: follows_def nonces_follow_def)
  have issued: "unwrap_or_zero (hm_get (lp_issued loaded) s) = unwrap_or_zero (hm_get (work_issued work) s)" for s
    using collect_payments_ok(3) [OF pay, of s 0]
      chain_issued_mset [OF fin, of s] fw
    by (simp add: follows_def issued_follows_def)
  have wf: "hm_wf (db_balance_map db)" using ok by (simp add: balances_ok_def)
  show "follows txs (working_copy l)"
    by (rule follows_transfer [OF fw])
      (use same_entries [OF m wf] work nonces issued in
        \<open>simp_all add: working_copy_def\<close>, simp_all add: l from_snapshot_def sel)
qed

end
