(* ===== verification/Kani_Pg_Save.thy ===== *)
theory Kani_Pg_Save
  imports Kani_Pg_Books
begin

text \<open>
  The effect of saving a snapshot. The locale \<open>upsert_table\<close> is the contract of a loop of
  \<open>INSERT ... ON CONFLICT (key)\<close> statements over one table; it gives the table the loop leaves in
  closed form, and is interpreted on the loops of \<open>save_snapshot\<close>.
\<close>

section \<open>A loop of upserts\<close>

definition row_of :: "('r \<Rightarrow> 'k) \<Rightarrow> 'r list \<Rightarrow> 'k \<Rightarrow> 'r option" where
  "row_of key rows k = List.find (\<lambda>r. key r = k) rows"

lemma row_of_simps [simp]:
  "row_of key [] k = None"
  "row_of key (r # rows) k = (if key r = k then Some r else row_of key rows k)"
  by (simp_all add: row_of_def)

lemma row_of_None: "row_of key rows k = None \<longleftrightarrow> k \<notin> key ` set rows"
  by (auto simp: row_of_def find_None_iff)

lemma row_of_SomeD: "row_of key rows k = Some r \<Longrightarrow> r \<in> set rows \<and> key r = k"
  by (auto simp: row_of_def dest: find_Some_in)

lemma row_of_distinct: "distinct (map key rows) \<Longrightarrow> r \<in> set rows \<Longrightarrow> row_of key rows (key r) = Some r"
  by (induction rows) (auto simp: image_iff)

text \<open>An old row after the statements of the rows \<open>rs\<close>.\<close>

definition merged :: "('r \<Rightarrow> 'k) \<Rightarrow> ('r \<Rightarrow> 'r \<Rightarrow> 'r) \<Rightarrow> 'r list \<Rightarrow> 'r \<Rightarrow> 'r" where
  "merged key merge rs r = (case row_of key rs (key r) of None \<Rightarrow> r | Some row \<Rightarrow> merge row r)"

locale upsert_table =
  fixes save :: "'a \<Rightarrow> database \<Rightarrow> ledger_storage_error + database"
    and rows :: "database \<Rightarrow> 'r list"
    and encode :: "'a \<Rightarrow> ledger_storage_error + 'r"
    and key :: "'r \<Rightarrow> 'k"
    and merge :: "'r \<Rightarrow> 'r \<Rightarrow> 'r"
  assumes save_row: "save x db = Inr db' \<Longrightarrow> \<exists>row. encode x = Inr row \<and>
      rows db' = (if key row \<in> key ` set (rows db)
        then map (\<lambda>r. if key r = key row then merge row r else r) (rows db) else rows db @ [row])"
    and merge_key: "key r = key row \<Longrightarrow> key (merge row r) = key row"
begin

abbreviation update :: "'r list \<Rightarrow> 'r \<Rightarrow> 'r" where
  "update \<equiv> merged key merge"

lemma merged_key: "key (update rs r) = key r"
  by (auto simp: merged_def merge_key dest: row_of_SomeD split: option.split)

lemma save_all_rows:
  assumes "save_all save xs db = Inr db'"
  shows "\<exists>rs. list_all2 (\<lambda>x r. encode x = Inr r) xs rs \<and> (distinct (map key rs) \<longrightarrow>
    rows db' = map (update rs) (rows db) @ filter (\<lambda>row. key row \<notin> key ` set (rows db)) rs)"
  using assms
proof (induction xs arbitrary: db)
  case Nil
  then show ?case by (auto simp: merged_def)
next
  case (Cons x xs)
  from Cons.prems obtain db1 where first: "save x db = Inr db1" and rest: "save_all save xs db1 = Inr db'"
    by (auto simp: res_simps)
  obtain row where row: "encode x = Inr row"
    and rows1: "rows db1 = (if key row \<in> key ` set (rows db)
        then map (\<lambda>r. if key r = key row then merge row r else r) (rows db) else rows db @ [row])"
    using save_row [OF first] by blast
  obtain rs where rs: "list_all2 (\<lambda>x r. encode x = Inr r) xs rs" and IH: "distinct (map key rs) \<Longrightarrow>
      rows db' = map (update rs) (rows db1) @ filter (\<lambda>row. key row \<notin> key ` set (rows db1)) rs"
    using Cons.IH [OF rest] by blast
  have "rows db' = map (update (row # rs)) (rows db)
      @ filter (\<lambda>row. key row \<notin> key ` set (rows db)) (row # rs)"
    if dist: "distinct (map key (row # rs))"
  proof -
    have none: "row_of key rs (key row) = None" using dist by (simp add: row_of_None)
    have fresh: "key r \<noteq> key row" if "r \<in> set rs" for r using dist that by (auto simp: image_iff)
    have "distinct (map key rs)" using dist by simp
    note IH = IH [OF this]
    show ?thesis
    proof (cases "key row \<in> key ` set (rows db)")
      case True
      have "update rs (if key r = key row then merge row r else r) = update (row # rs) r" for r
        using none by (auto simp: merged_def merge_key)
      moreover have "map key (rows db1) = map key (rows db)"
        using True rows1 by (simp add: merge_key)
      then have "key ` set (rows db1) = key ` set (rows db)" by (metis list.set_map)
      ultimately show ?thesis using IH rows1 True by (simp add: o_def)
    next
      case False
      then have "update (row # rs) r = update rs r" if "r \<in> set (rows db)" for r
        using that by (auto simp: merged_def)
      moreover have "update rs row = row" using none by (simp add: merged_def)
      moreover have "filter (\<lambda>r. key r \<noteq> key row \<and> key r \<notin> key ` set (rows db)) rs =
          filter (\<lambda>r. key r \<notin> key ` set (rows db)) rs"
        using fresh by (intro filter_cong) auto
      ultimately show ?thesis using IH rows1 False by simp
    qed
  qed
  with row rs show ?case by (intro exI [of _ "row # rs"]) simp
qed

lemma save_all_keys:
  assumes "distinct (map key (rows db))" "distinct (map key rs)"
    and "rows db' = map (update rs) (rows db) @ filter (\<lambda>row. key row \<notin> key ` set (rows db)) rs"
  shows "distinct (map key (rows db'))" "key ` set (rows db') = key ` set (rows db) \<union> key ` set rs"
proof -
  have keys: "map key (rows db') = map key (rows db) @
      map key (filter (\<lambda>row. key row \<notin> key ` set (rows db)) rs)"
    unfolding assms(3) by (simp add: merged_key)
  from assms(1,2) show "distinct (map key (rows db'))"
    unfolding keys by (auto simp: distinct_map_filter image_iff)
  have "key ` set (rows db') = set (map key (rows db'))" by simp
  then show "key ` set (rows db') = key ` set (rows db) \<union> key ` set rs"
    unfolding keys by auto
qed

lemma save_all_row_of:
  assumes "distinct (map key rs)"
    and "rows db' = map (update rs) (rows db) @ filter (\<lambda>row. key row \<notin> key ` set (rows db)) rs"
  shows "row_of key (rows db') k = (case row_of key (rows db) k of
      Some r \<Rightarrow> Some (update rs r) | None \<Rightarrow> row_of key rs k)"
proof -
  have append: "row_of key (xs @ ys) k =
      (case row_of key xs k of None \<Rightarrow> row_of key ys k | Some r \<Rightarrow> Some r)" for xs ys
    by (induction xs) auto
  have map: "row_of key (map (update rs) xs) k = map_option (update rs) (row_of key xs k)" for xs
    by (induction xs) (auto simp: merged_key)
  have filter: "k \<notin> K \<Longrightarrow> row_of key (filter (\<lambda>row. key row \<notin> K) xs) k = row_of key xs k" for K xs
    by (induction xs) auto
  show ?thesis
  proof (cases "row_of key (rows db) k")
    case None
    then have "k \<notin> key ` set (rows db)" by (simp add: row_of_None)
    with None show ?thesis unfolding assms(2) append map by (simp add: filter)
  next
    case (Some r)
    then show ?thesis unfolding assms(2) append map by simp
  qed
qed

end

section \<open>The tables of a snapshot\<close>

lemma sql_upsert:
  assumes "sql_insert check clash refs (\<lambda>r. key r = key row) (DoUpdate (merge row)) row rows = Inr (n, rows')"
  shows "rows' = (if key row \<in> key ` set rows
    then map (\<lambda>r. if key r = key row then merge row r else r) rows else rows @ [row])"
  using assms by (cases rule: sql_insert_cases) (auto simp: find_None_iff image_iff eq_commute [of "key row"] dest!: find_Some_in)

lemma sql_keep_first:
  assumes "sql_insert check clash refs (\<lambda>r. key r = key row) DoNothing row rows = Inr (n, rows')"
  shows "rows' = (if key row \<in> key ` set rows
    then map (\<lambda>r. if key r = key row then r else r) rows else rows @ [row])"
  using assms by (cases rule: sql_insert_cases) (auto simp: find_None_iff image_iff eq_commute [of "key row"])

definition balance_key :: "balance_table_row \<Rightarrow> string \<times> string" where
  "balance_key r = (bl_account_id r, bl_asset r)"

definition merge_transaction :: "transaction_row \<Rightarrow> transaction_row \<Rightarrow> transaction_row" where
  "merge_transaction row old = old\<lparr>tr_block_height := tr_block_height row,
     tr_status := tr_status row, tr_failure_reason := tr_failure_reason row,
     tr_updated_at := tr_updated_at row\<rparr>"

definition merge_institution :: "institution_row \<Rightarrow> institution_row \<Rightarrow> institution_row" where
  "merge_institution row old = row\<lparr>ir_created_at := ir_created_at old\<rparr>"

interpretation balance_table: upsert_table "save_balance pg now" db_balances "balance_to_row pg now"
  balance_key "\<lambda>row old. row" for pg now
proof
  fix b db db'
  assume "save_balance pg now b db = Inr db'"
  then obtain row n rows where enc: "balance_to_row pg now b = Inr row"
    and sql: "sql_insert (\<lambda>r. 0 \<le> bl_amount r \<and> asset_column_ok (bl_asset r)) (\<lambda>r r'. False)
      (\<lambda>r. account_exists db (bl_account_id r))
      (\<lambda>r. balance_key r = balance_key row) (DoUpdate (\<lambda>old. row)) row (db_balances db) = Inr (n, rows)"
    and db': "db' = db\<lparr>db_balances := rows\<rparr>"
    by (auto simp: save_balance_def res_simps Let_def balance_key_def)
  with sql_upsert [where merge = "\<lambda>row old. row", OF sql]
  show "\<exists>row. balance_to_row pg now b = Inr row \<and> db_balances db' =
      (if balance_key row \<in> balance_key ` set (db_balances db)
       then map (\<lambda>r. if balance_key r = balance_key row then row else r) (db_balances db)
       else db_balances db @ [row])"
    by auto
qed (rule refl)

interpretation payment_table: upsert_table "save_payment pg" db_transactions "payment_to_row pg"
  tr_id merge_transaction for pg
proof
  fix p db db'
  assume "save_payment pg p db = Inr db'"
  then obtain row n rows where enc: "payment_to_row pg p = Inr row"
    and sql: "sql_insert transaction_check (\<lambda>r r'. same_nonce r r' \<or> same_reference r r')
      (transaction_refs db) (\<lambda>r. tr_id r = tr_id row) (DoUpdate (merge_transaction row)) row
      (db_transactions db) = Inr (n, rows)"
    and db': "db' = db\<lparr>db_transactions := rows\<rparr>"
    by (auto simp: save_payment_def res_simps merge_transaction_def [abs_def])
  with sql_upsert [where merge = merge_transaction, OF sql]
  show "\<exists>row. payment_to_row pg p = Inr row \<and> db_transactions db' =
      (if tr_id row \<in> tr_id ` set (db_transactions db)
       then map (\<lambda>r. if tr_id r = tr_id row then merge_transaction row r else r) (db_transactions db)
       else db_transactions db @ [row])"
    by auto
qed (simp add: merge_transaction_def)

interpretation institution_table: upsert_table "save_institution pg" db_institutions
  "\<lambda>i. Inr (institution_to_row pg i)" ir_id merge_institution for pg
proof
  fix i db db'
  assume "save_institution pg i db = Inr db'"
  then obtain n rows where
    sql: "sql_insert (\<lambda>r. True) (\<lambda>r r'. ir_institution_code r = ir_institution_code r') (\<lambda>r. True)
      (\<lambda>r. ir_id r = ir_id (institution_to_row pg i))
      (DoUpdate (merge_institution (institution_to_row pg i))) (institution_to_row pg i)
      (db_institutions db) = Inr (n, rows)"
    and db': "db' = db\<lparr>db_institutions := rows\<rparr>"
    by (auto simp: save_institution_def insert_institution_row_def res_simps
        merge_institution_def [abs_def])
  with sql_upsert [where merge = merge_institution, OF sql]
  show "\<exists>row. Inr (institution_to_row pg i) = Inr row \<and> db_institutions db' =
      (if ir_id row \<in> ir_id ` set (db_institutions db)
       then map (\<lambda>r. if ir_id r = ir_id row then merge_institution row r else r) (db_institutions db)
       else db_institutions db @ [row])"
    by auto
qed (simp add: merge_institution_def)

interpretation case_table: upsert_table "save_case pg" db_cases "case_to_row pg" kr_id
  decide_case_row for pg
proof
  fix c db db'
  assume "save_case pg c db = Inr db'"
  then obtain row n rows where enc: "case_to_row pg c = Inr row"
    and sql: "sql_insert (\<lambda>r. True) (\<lambda>r r'. kr_payment_id r = kr_payment_id r')
      (\<lambda>r. transaction_exists db (kr_payment_id r)) (\<lambda>r. kr_id r = kr_id row)
      (DoUpdate (decide_case_row row)) row (db_cases db) = Inr (n, rows)"
    and db': "db' = db\<lparr>db_cases := rows\<rparr>"
    by (auto simp: save_case_def res_simps)
  with sql_upsert [where merge = decide_case_row, OF sql]
  show "\<exists>row. case_to_row pg c = Inr row \<and> db_cases db' =
      (if kr_id row \<in> kr_id ` set (db_cases db)
       then map (\<lambda>r. if kr_id r = kr_id row then decide_case_row row r else r) (db_cases db)
       else db_cases db @ [row])"
    by auto
qed (simp add: decide_case_row_def)

interpretation block_table: upsert_table "save_block pg" db_blocks
  "\<lambda>b. Inr (block_to_row pg b)" bkr_height "\<lambda>row old. old" for pg
proof
  fix b db db'
  assume "save_block pg b db = Inr db'"
  then obtain n rows where
    sql: "sql_insert (\<lambda>r. True) (\<lambda>r r'. bkr_hash r = bkr_hash r') (\<lambda>r. True)
      (\<lambda>r. bkr_height r = bkr_height (block_to_row pg b)) DoNothing (block_to_row pg b)
      (db_blocks db) = Inr (n, rows)"
    and db': "db' = db\<lparr>db_blocks := rows\<rparr>"
    by (auto simp: save_block_def res_simps Let_def)
  with sql_keep_first [OF sql]
  show "\<exists>row. Inr (block_to_row pg b) = Inr row \<and> db_blocks db' =
      (if bkr_height row \<in> bkr_height ` set (db_blocks db)
       then map (\<lambda>r. if bkr_height r = bkr_height row then r else r) (db_blocks db)
       else db_blocks db @ [row])"
    by auto
qed simp

section \<open>What each loop leaves alone\<close>

lemma save_all_frame:
  assumes "\<And>x db db'. f x db = Inr db' \<Longrightarrow> \<exists>r. db' = upd (\<lambda>_. r) db"
    and "\<And>r r' db. upd (\<lambda>_. r) (upd (\<lambda>_. r') db) = upd (\<lambda>_. r) db"
    and "\<And>db. upd (\<lambda>_. get db) db = db"
  shows "save_all f xs db = Inr db' \<Longrightarrow> \<exists>r. db' = upd (\<lambda>_. r) db"
proof (induction xs arbitrary: db)
  case Nil
  then show ?case using assms(3) by (metis save_all.simps(1) sum.inject(2))
next
  case (Cons x xs)
  then obtain db1 where "f x db = Inr db1" "save_all f xs db1 = Inr db'"
    by (auto simp: res_simps)
  then show ?case using Cons.IH assms(1,2) by metis
qed

lemma save_frames:
  "save_institution pg i db = Inr db' \<Longrightarrow> \<exists>r. db' = db\<lparr>db_institutions := r\<rparr>"
  "save_credential pg c db = Inr db' \<Longrightarrow> \<exists>r. db' = db\<lparr>db_credentials := r\<rparr>"
  "save_limit pg m db = Inr db' \<Longrightarrow> \<exists>r. db' = db\<lparr>db_limits := r\<rparr>"
  "save_account pg a db = Inr db' \<Longrightarrow> \<exists>r. db' = db\<lparr>db_accounts := r\<rparr>"
  "save_balance pg now b db = Inr db' \<Longrightarrow> \<exists>r. db' = db\<lparr>db_balances := r\<rparr>"
  "save_block pg k db = Inr db' \<Longrightarrow> \<exists>r. db' = db\<lparr>db_blocks := r\<rparr>"
  "save_payment pg p db = Inr db' \<Longrightarrow> \<exists>r. db' = db\<lparr>db_transactions := r\<rparr>"
  "save_case pg q db = Inr db' \<Longrightarrow> \<exists>r. db' = db\<lparr>db_cases := r\<rparr>"
  "save_journal_entry pg e db = Inr db' \<Longrightarrow> \<exists>r. db' = db\<lparr>db_journal := r\<rparr>"
  "save_audit_event pg v db = Inr db' \<Longrightarrow> \<exists>r. db' = db\<lparr>db_audit := r\<rparr>"
  by (auto simp: save_institution_def insert_institution_row_def save_credential_def save_limit_def
      insert_limit_row_def save_account_def save_balance_def save_block_def save_payment_def
      save_case_def save_journal_entry_def save_audit_event_def insert_audit_row_def Let_def res_simps)

lemma save_all_institutions: "save_all (save_institution pg) xs db = Inr db' \<Longrightarrow> \<exists>r. db' = db\<lparr>db_institutions := r\<rparr>"
  by (rule save_all_frame [where upd = db_institutions_update and get = db_institutions, OF save_frames(1)]) simp_all

lemma save_all_credentials: "save_all (save_credential pg) xs db = Inr db' \<Longrightarrow> \<exists>r. db' = db\<lparr>db_credentials := r\<rparr>"
  by (rule save_all_frame [where upd = db_credentials_update and get = db_credentials, OF save_frames(2)]) simp_all

lemma save_all_limits: "save_all (save_limit pg) xs db = Inr db' \<Longrightarrow> \<exists>r. db' = db\<lparr>db_limits := r\<rparr>"
  by (rule save_all_frame [where upd = db_limits_update and get = db_limits, OF save_frames(3)]) simp_all

lemma save_all_accounts: "save_all (save_account pg) xs db = Inr db' \<Longrightarrow> \<exists>r. db' = db\<lparr>db_accounts := r\<rparr>"
  by (rule save_all_frame [where upd = db_accounts_update and get = db_accounts, OF save_frames(4)]) simp_all

lemma save_all_balances: "save_all (save_balance pg now) xs db = Inr db' \<Longrightarrow> \<exists>r. db' = db\<lparr>db_balances := r\<rparr>"
  by (rule save_all_frame [where upd = db_balances_update and get = db_balances, OF save_frames(5)]) simp_all

lemma save_all_blocks: "save_all (save_block pg) xs db = Inr db' \<Longrightarrow> \<exists>r. db' = db\<lparr>db_blocks := r\<rparr>"
  by (rule save_all_frame [where upd = db_blocks_update and get = db_blocks, OF save_frames(6)]) simp_all

lemma save_all_transactions: "save_all (save_payment pg) xs db = Inr db' \<Longrightarrow> \<exists>r. db' = db\<lparr>db_transactions := r\<rparr>"
  by (rule save_all_frame [where upd = db_transactions_update and get = db_transactions, OF save_frames(7)]) simp_all

lemma save_all_cases: "save_all (save_case pg) xs db = Inr db' \<Longrightarrow> \<exists>r. db' = db\<lparr>db_cases := r\<rparr>"
  by (rule save_all_frame [where upd = db_cases_update and get = db_cases, OF save_frames(8)]) simp_all

lemma save_all_journal: "save_all (save_journal_entry pg) xs db = Inr db' \<Longrightarrow> \<exists>r. db' = db\<lparr>db_journal := r\<rparr>"
  by (rule save_all_frame [where upd = db_journal_update and get = db_journal, OF save_frames(9)]) simp_all

lemma save_all_audit: "save_all (save_audit_event pg) xs db = Inr db' \<Longrightarrow> \<exists>r. db' = db\<lparr>db_audit := r\<rparr>"
  by (rule save_all_frame [where upd = db_audit_update and get = db_audit, OF save_frames(10)]) simp_all

text \<open>Each loop, from a database with the table it finds to one with the table it leaves.\<close>

lemma save_statements_ok:
  assumes "save_statements pg now s db = Inr db'"
  obtains d4 d4' d5 d5' d6 d6' d7 d7' d1 where
    "save_all (save_institution pg) (snap_institutions s) db = Inr d1"
    "db_institutions db' = db_institutions d1"
    and "db_balances d4 = db_balances db" "db_balances db' = db_balances d4'"
    "save_all (save_balance pg now) (snap_balances s) d4 = Inr d4'"
    and "db_blocks d5 = db_blocks db" "db_blocks db' = db_blocks d5'"
    "save_all (save_block pg) (snap_blocks s) d5 = Inr d5'"
    and "db_transactions d6 = db_transactions db" "db_transactions db' = db_transactions d6'"
    "save_all (save_payment pg) (snap_payments s) d6 = Inr d6'"
    and "db_cases d7 = db_cases db" "db_cases db' = db_cases d7'"
    "save_all (save_case pg) (snap_compliance_cases s) d7 = Inr d7'"
    and "db_lock db' = db_lock db" "db_validators db' = db_validators db"
proof -
  obtain a1 a2 a3 a4 a5 a6 a7 a8 a9 where s1: "save_all (save_institution pg) (snap_institutions s) db = Inr a1"
    and s2: "save_all (save_credential pg) (snap_institution_credentials s) a1 = Inr a2"
    and s3: "save_all (save_limit pg) (snap_institution_limits s) a2 = Inr a3"
    and s4: "save_all (save_account pg) (snap_accounts s) a3 = Inr a4"
    and s5: "save_all (save_balance pg now) (snap_balances s) a4 = Inr a5"
    and s6: "save_all (save_block pg) (snap_blocks s) a5 = Inr a6"
    and s7: "save_all (save_payment pg) (snap_payments s) a6 = Inr a7"
    and s8: "save_all (save_case pg) (snap_compliance_cases s) a7 = Inr a8"
    and s9: "save_all (save_journal_entry pg) (snap_journal_entries s) a8 = Inr a9"
    and s10: "save_all (save_audit_event pg) (snap_audit_events s) a9 = Inr db'"
    using assms by (auto simp: save_statements_def res_simps)
  note f = save_all_institutions [OF s1] save_all_credentials [OF s2] save_all_limits [OF s3]
    save_all_accounts [OF s4] save_all_balances [OF s5] save_all_blocks [OF s6]
    save_all_transactions [OF s7] save_all_cases [OF s8] save_all_journal [OF s9]
    save_all_audit [OF s10]
  show thesis
    by (rule that [OF s1 _ _ _ s5 _ _ s6 _ _ s7 _ _ s8]) (use f in auto)
qed

end
