(* ===== verification/Kani_Pg_Pass.thy ===== *)
theory Kani_Pg_Pass
  imports Kani_Pg_Save
begin

text \<open>
  What a validator's pass needs between its last read and its first write (\<open>ready\<close>): the working
  ledger follows the finalized transactions of the database and those of the block, and each
  payment of the ledger has its row. The relation survives whatever keeps the rows, and a
  successful save then leaves a database that follows the longer list of transactions.
\<close>

section \<open>A prepared block\<close>

definition ready :: "transaction list \<Rightarrow> database \<Rightarrow> block \<Rightarrow> ledger \<Rightarrow> bool" where
  "ready txs db b l \<longleftrightarrow>
     mset txs = mset (finalized_txs db) \<and> follows (txs @ blk_txs b) (working_copy l) \<and>
     fst ` set (db_balance_map db) \<subseteq> fst ` set (led_balances l) \<and>
     distinct (map tx_id (blk_txs b)) \<and>
     (\<forall>tx \<in> set (blk_txs b). \<exists>r \<in> set (db_transactions db).
        is_pending r \<and> transaction_from_row r = Inr tx) \<and>
     keyed (\<lambda>p. tx_id (pay_transaction p)) (led_payments l) \<and>
     (\<forall>p \<in> set (hm_values (led_payments l)). \<exists>r \<in> set (db_transactions db).
        tr_id r = tx_id (pay_transaction p) \<and>
        (pay_status p = Finalized \<longleftrightarrow> is_finalized r \<or> tr_id r \<in> tx_id ` set (blk_txs b))) \<and>
     tx_id ` set (blk_txs b) \<subseteq> fst ` set (led_payments l)"

lemma ready_payment:
  "ready txs db b l \<Longrightarrow> p \<in> set (hm_values (led_payments l)) \<Longrightarrow> \<exists>r \<in> set (db_transactions db).
     tr_id r = tx_id (pay_transaction p) \<and>
     (pay_status p = Finalized \<longleftrightarrow> is_finalized r \<or> tr_id r \<in> tx_id ` set (blk_txs b))"
  by (simp add: ready_def)

lemma row_tx_id: "is_ok (transaction_from_row r) \<Longrightarrow> tx_id (row_tx r) = tr_id r"
proof (cases "transaction_from_row r")
  case (Inr tx)
  then show ?thesis by (auto simp: row_tx_def) (auto simp: transaction_from_row_def res_simps)
qed (simp add: is_ok_def)

lemma row_tx_eq: "transaction_from_row r = Inr tx \<Longrightarrow> row_tx r = tx"
  by (simp add: row_tx_def)

lemma pending_not_finalized: "is_pending r \<Longrightarrow> \<not> is_finalized r"
  by (simp add: is_pending_def is_finalized_def)

section \<open>Operations of other sessions\<close>

lemma list_all2_partner:
  "list_all2 (\<lambda>x r. P x r) xs rs \<Longrightarrow> r \<in> set rs \<Longrightarrow> \<exists>x \<in> set xs. P x r"
  "list_all2 (\<lambda>x r. P x r) xs rs \<Longrightarrow> x \<in> set xs \<Longrightarrow> \<exists>r \<in> set rs. P x r"
  by (induction rule: list_all2_induct) auto

lemma kept_row:
  assumes "transactions_kept S rows rows'" "r \<in> set rows"
  obtains r' where "r' \<in> set rows'" "evolves S r r'"
proof -
  obtain olds news where "rows' = olds @ news" "list_all2 (evolves S) rows olds"
    using assms(1) unfolding transactions_kept_def by blast
  with list_all2_partner(2) [of "evolves S", OF _ assms(2)] that show thesis by auto
qed

lemma evolves_finalized:
  assumes "evolves S r r'"
  shows "is_finalized r' \<longleftrightarrow> is_finalized r" "is_finalized r \<Longrightarrow> r' = r"
  using assms unfolding evolves_def by blast+

lemma finalized_kept:
  assumes "transactions_kept S rows rows'"
  shows "filter is_finalized rows' = filter is_finalized rows"
proof -
  obtain olds news where rows': "rows' = olds @ news" and olds: "list_all2 (evolves S) rows olds"
    and news: "list_all (\<lambda>r. \<not> is_finalized r) news"
    using assms unfolding transactions_kept_def by blast
  have "filter is_finalized news = []" using news by (simp add: list_all_iff filter_empty_conv)
  moreover have "filter is_finalized olds = filter is_finalized rows"
    using olds
  proof (induction rule: list_all2_induct)
    case (Cons r rs r' rs')
    then show ?case
      using evolves_finalized [OF Cons(1)] by (cases "is_finalized r") simp_all
  qed simp
  ultimately show ?thesis by (simp add: rows')
qed

text \<open>What no session takes from a row: its transaction, its key, and its finality.\<close>

definition row_kept :: "transaction_row \<Rightarrow> transaction_row \<Rightarrow> bool" where
  "row_kept r r' \<longleftrightarrow> tr_id r' = tr_id r \<and> transaction_from_row r' = transaction_from_row r \<and>
     tr_client_reference_id r' = tr_client_reference_id r \<and>
     tr_request_fingerprint r' = tr_request_fingerprint r \<and> (is_finalized r \<longrightarrow> is_finalized r')"

definition rows_kept :: "transaction_row list \<Rightarrow> transaction_row list \<Rightarrow> bool" where
  "rows_kept rows rows' \<longleftrightarrow> (\<forall>r \<in> set rows. \<exists>r' \<in> set rows'. row_kept r r')"

lemma rows_kept_refl [simp]: "rows_kept rows rows"
  unfolding rows_kept_def row_kept_def by blast

lemma rows_kept_trans: "rows_kept rows rows' \<Longrightarrow> rows_kept rows' rows'' \<Longrightarrow> rows_kept rows rows''"
  unfolding rows_kept_def row_kept_def by metis

lemma kept_rows_kept:
  assumes "kept pg S (db, w) (db', w')" "rows_ok pg (db_transactions db)"
  shows "rows_kept (db_transactions db) (db_transactions db')"
  unfolding rows_kept_def
proof
  fix r assume "r \<in> set (db_transactions db)"
  then obtain r' where "r' \<in> set (db_transactions db')" "evolves S r r'"
    using kept_row assms by (metis fst_conv kept_def)
  then show "\<exists>r' \<in> set (db_transactions db'). row_kept r r'"
    unfolding evolves_def row_kept_def by metis
qed

lemma db_follows_kept:
  assumes "kept pg S (db, w) (db', w')" "rows_ok pg (db_transactions db)"
  shows "rows_ok pg (db_transactions db')" "balances_ok db' = balances_ok db"
    "finalized_txs db' = finalized_txs db" "db_follows txs db' = db_follows txs db"
  using assms finalized_kept [of S "db_transactions db" "db_transactions db'"]
  by (auto simp: kept_def balances_ok_def db_balance_map_def finalized_txs_def db_follows_def)

lemma ready_kept:
  assumes k: "kept pg S (db, w) (db', w')" and ok: "rows_ok pg (db_transactions db)"
    and r: "ready txs db b l" and S: "tx_id ` set (blk_txs b) \<subseteq> S"
  shows "ready txs db' b l"
proof -
  have t: "transactions_kept S (db_transactions db) (db_transactions db')"
    using k ok by (simp add: kept_def)
  have "\<exists>r \<in> set (db_transactions db'). is_pending r \<and> transaction_from_row r = Inr tx"
    if tx: "tx \<in> set (blk_txs b)" for tx
  proof -
    obtain row where row: "row \<in> set (db_transactions db)" "is_pending row"
      "transaction_from_row row = Inr tx"
      using r tx by (auto simp: ready_def)
    then have in_S: "tr_id row \<in> S"
      using S tx ok row_tx_id [of row] row_tx_eq [of row tx] by (auto simp: rows_ok_def)
    obtain row' where "row' \<in> set (db_transactions db')" "evolves S row row'"
      by (rule kept_row [OF t row(1)])
    with row in_S show ?thesis by (intro bexI [of _ row']) (auto simp: evolves_def)
  qed
  moreover have "\<exists>r \<in> set (db_transactions db'). tr_id r = tx_id (pay_transaction p) \<and>
        (pay_status p = Finalized \<longleftrightarrow> is_finalized r \<or> tr_id r \<in> tx_id ` set (blk_txs b))"
    if p: "p \<in> set (hm_values (led_payments l))" for p
  proof -
    obtain row where row: "row \<in> set (db_transactions db)" "tr_id row = tx_id (pay_transaction p)"
      "pay_status p = Finalized \<longleftrightarrow> is_finalized row \<or> tr_id row \<in> tx_id ` set (blk_txs b)"
      using ready_payment [OF r p] by blast
    obtain row' where "row' \<in> set (db_transactions db')" "evolves S row row'"
      by (rule kept_row [OF t row(1)])
    then show ?thesis using row(2,3) evolves_finalized(1) [OF \<open>evolves S row row'\<close>]
      by (intro bexI [of _ row']) (auto simp: evolves_def)
  qed
  ultimately show ?thesis
    using r db_follows_kept [OF k ok] k unfolding ready_def by (simp add: kept_def db_balance_map_def)
qed

section \<open>Saving the working ledger\<close>

text \<open>The \<open>CHECK\<close> of the table: no negative balance is saved.\<close>

lemma balances_saved_nonneg:
  "save_all (save_balance pg now) bs d = Inr d' \<Longrightarrow> b \<in> set bs \<Longrightarrow> 0 \<le> bal_amount b"
proof (induction bs arbitrary: d)
  case (Cons b' bs)
  then obtain d1 where first: "save_balance pg now b' d = Inr d1"
    and rest: "save_all (save_balance pg now) bs d1 = Inr d'"
    by (auto simp: res_simps)
  have "0 \<le> bal_amount b'"
    using first
    by (auto simp: save_balance_def balance_to_row_def res_simps sql_insert_def split: if_splits)
  with Cons.IH [OF rest] Cons.prems(2) show ?case by auto
qed simp

lemma save_balances_books:
  assumes save: "save_all (save_balance pg now) (snap_balances (ledger_to_snapshot l)) d = Inr d'"
    and wf: "hm_wf (led_balances l)" and ok: "balances_ok d"
    and keys: "fst ` set (db_balance_map d) \<subseteq> fst ` set (led_balances l)"
  shows "set (db_balance_map d') = set (led_balances l)" "balances_ok d'"
proof -
  let ?bs = "snap_balances (ledger_to_snapshot l)"
  obtain rs where enc: "list_all2 (\<lambda>b r. balance_to_row pg now b = Inr r) ?bs rs"
    and rows: "distinct (map balance_key rs) \<Longrightarrow> db_balances d' =
      map (merged balance_key (\<lambda>row old. row) rs) (db_balances d) @
        filter (\<lambda>row. balance_key row \<notin> balance_key ` set (db_balances d)) rs"
    using balance_table.save_all_rows [OF save] by blast
  have entries: "map (\<lambda>r. (balance_key r, bl_amount r)) rs = led_balances l"
  proof -
    have "map (\<lambda>r. (balance_key r, bl_amount r)) rs =
        map (\<lambda>b. ((bal_account_id b, bal_asset b), bal_amount b)) ?bs"
      using enc by (induction rule: list_all2_induct)
        (auto simp: balance_to_row_def res_simps balance_key_def)
    then show ?thesis by (simp add: ledger_to_snapshot_def o_def case_prod_unfold)
  qed
  then have "map balance_key rs = map fst (led_balances l)" by (metis (no_types, lifting) fst_conv map_eq_conv map_map o_apply)
  note keys_eq = this
  have dist: "distinct (map balance_key rs)" unfolding keys_eq using wf by (simp add: hm_wf_def)
  have keyset: "balance_key ` set rs = fst ` set (led_balances l)"
    using arg_cong [OF keys_eq, of set] by simp
  note rows = rows [OF dist]
  have old: "merged balance_key (\<lambda>row old. row) rs r \<in> set rs" if "r \<in> set (db_balances d)" for r
  proof -
    have "balance_key r \<in> balance_key ` set rs"
      using that keys keyset by (force simp: db_balance_map_def balance_key_def)
    then obtain row where "row_of balance_key rs (balance_key r) = Some row"
      using row_of_None by (metis option.exhaust)
    then show ?thesis by (auto simp: merged_def dest: row_of_SomeD)
  qed
  have all: "set (db_balances d') = set rs"
  proof
    show "set (db_balances d') \<subseteq> set rs" using old rows by auto
    show "set rs \<subseteq> set (db_balances d')"
    proof
      fix row
      assume row: "row \<in> set rs"
      show "row \<in> set (db_balances d')"
      proof (cases "balance_key row \<in> balance_key ` set (db_balances d)")
        case True
        then obtain r where r: "r \<in> set (db_balances d)" "balance_key r = balance_key row" by force
        then have "merged balance_key (\<lambda>row old. row) rs r = row"
          using row_of_distinct [OF dist row] by (simp add: merged_def)
        with r rows show ?thesis by (metis Un_iff image_eqI list.set_map set_append)
      qed (use row rows in auto)
    qed
  qed
  have "db_balance_map d' = map (\<lambda>r. (balance_key r, bl_amount r)) (db_balances d')"
    by (simp add: db_balance_map_def balance_key_def)
  with all entries show set_eq: "set (db_balance_map d') = set (led_balances l)"
    by (metis list.set_map)
  have "distinct (map balance_key (db_balances d'))"
    by (rule balance_table.save_all_keys [OF _ dist rows])
      (use ok in \<open>simp add: balances_ok_def hm_wf_def db_balance_map_def o_def balance_key_def [abs_def]\<close>)
  moreover have "0 \<le> bl_amount r \<and> bl_amount r < 10 ^ 38" if "r \<in> set (db_balances d')" for r
    using that all balances_saved_nonneg [OF save] list_all2_partner(1) [OF enc, of r]
    by (auto simp: balance_to_row_def res_simps)
  ultimately show "balances_ok d'"
    by (simp add: balances_ok_def hm_wf_def db_balance_map_def o_def balance_key_def [abs_def])
qed

lemma keyed_entries:
  assumes "keyed key m"
  shows "m = map (\<lambda>v. (key v, v)) (hm_values m)" "distinct (map key (hm_values m))"
    "key ` set (hm_values m) = fst ` set m"
proof -
  show m: "m = map (\<lambda>v. (key v, v)) (hm_values m)"
    using assms by (induction m) (auto simp: keyed_def hm_values_def hm_wf_def)
  have keys: "map fst m = map key (hm_values m)" by (subst m) simp
  then show "distinct (map key (hm_values m))" using assms by (simp add: keyed_def hm_wf_def)
  show "key ` set (hm_values m) = fst ` set m" using arg_cong [OF keys, of set] by simp
qed

lemma filter_disjoint_mset:
  "(\<And>x. x \<in> set xs \<Longrightarrow> \<not> (P x \<and> Q x)) \<Longrightarrow>
     mset (filter (\<lambda>x. P x \<or> Q x) xs) = mset (filter P xs) + mset (filter Q xs)"
  by (induction xs) auto

lemma save_payments_books:
  assumes save: "save_all (save_payment pg) (snap_payments (ledger_to_snapshot l)) d = Inr d'"
    and same: "db_transactions d = db_transactions db"
    and ok: "rows_ok pg (db_transactions db)" and r: "ready txs db b l"
  shows "mset (finalized_txs d') = mset (finalized_txs db) + mset (blk_txs b)"
    "rows_ok pg (db_transactions d')" "rows_kept (db_transactions db) (db_transactions d')"
proof -
  let ?rows = "db_transactions db" and ?ps = "hm_values (led_payments l)"
  let ?ids = "tx_id ` set (blk_txs b)"
  have snap: "snap_payments (ledger_to_snapshot l) = ?ps"
    by (simp add: ledger_to_snapshot_def)
  obtain rs where enc: "list_all2 (\<lambda>p row. payment_to_row pg p = Inr row) ?ps rs"
    and saved: "distinct (map tr_id rs) \<Longrightarrow> db_transactions d' =
      map (merged tr_id merge_transaction rs) ?rows @ filter (\<lambda>row. tr_id row \<notin> tr_id ` set ?rows) rs"
    using payment_table.save_all_rows [OF save] unfolding snap same by blast
  have keyed: "keyed (\<lambda>p. tx_id (pay_transaction p)) (led_payments l)"
    using r by (simp add: ready_def)
  have unique: "r = r'" if "r \<in> set ?rows" "r' \<in> set ?rows" "tr_id r = tr_id r'" for r r'
    using that ok inj_onD [of tr_id "set ?rows"] by (auto simp: rows_ok_def distinct_map)
  have row_id: "tr_id row = tx_id (pay_transaction p)"
    if p: "p \<in> set ?ps" and row: "payment_to_row pg p = Inr row" for p row
  proof -
    obtain r' where "r' \<in> set ?rows" "tr_id r' = tx_id (pay_transaction p)"
      using ready_payment [OF r p] by blast
    then have "pg_uuid pg (tx_id (pay_transaction p)) = Some (tx_id (pay_transaction p))"
      using ok by (metis rows_ok_def)
    with row show ?thesis by (auto simp: payment_to_row_def Let_def res_simps)
  qed
  have "list_all2 (\<lambda>p row. tx_id (pay_transaction p) = tr_id row) ?ps rs"
    using enc by (rule list.rel_mono_strong) (metis row_id)
  then have ids: "map tr_id rs = map (\<lambda>p. tx_id (pay_transaction p)) ?ps"
    by (induction rule: list_all2_induct) simp_all
  have dist: "distinct (map tr_id rs)" unfolding ids by (rule keyed_entries(2) [OF keyed])
  have payment: "\<exists>p \<in> set ?ps. payment_to_row pg p = Inr row" if "row \<in> set rs" for row
    by (rule list_all2_partner(1) [OF enc that])
  have known: "tr_id row \<in> tr_id ` set ?rows" if row: "row \<in> set rs" for row
    using payment [OF row] row_id ready_payment [OF r] by (metis image_eqI)
  let ?M = "merged tr_id merge_transaction rs"
  have rows': "db_transactions d' = map ?M ?rows"
    using saved [OF dist] known by (simp add: filter_empty_conv)
  have M: "tr_id (?M q) = tr_id q" "transaction_from_row (?M q) = transaction_from_row q" for q
    by (simp_all add: merged_def merge_transaction_def transaction_from_row_def split: option.split)
  have block_row: "\<exists>q \<in> set ?rows. is_pending q \<and> tr_id q = tx_id tx \<and> row_tx q = tx"
    if "tx \<in> set (blk_txs b)" for tx
    using r that ok unfolding ready_def rows_ok_def by (metis row_tx_eq row_tx_id)
  have status: "is_finalized (?M q) \<longleftrightarrow> is_finalized q \<or> tr_id q \<in> ?ids" if q: "q \<in> set ?rows" for q
  proof (cases "row_of tr_id rs (tr_id q)")
    case None
    then have "tr_id q \<notin> tr_id ` set rs" by (simp add: row_of_None)
    moreover have "?ids \<subseteq> tr_id ` set rs"
      using r keyed_entries(3) [OF keyed] arg_cong [OF ids, of set] by (simp add: ready_def)
    ultimately show ?thesis using None by (auto simp: merged_def)
  next
    case (Some row)
    then have row: "row \<in> set rs" "tr_id row = tr_id q" by (auto dest: row_of_SomeD)
    obtain p where p: "p \<in> set ?ps" "payment_to_row pg p = Inr row" using payment [OF row(1)] by blast
    obtain q' where "q' \<in> set ?rows" "tr_id q' = tx_id (pay_transaction p)"
      and fin: "pay_status p = Finalized \<longleftrightarrow> is_finalized q' \<or> tr_id q' \<in> ?ids"
      using ready_payment [OF r p(1)] by blast
    then have "q' = q" using unique q row(2) row_id [OF p] by simp
    moreover have "is_finalized (?M q) \<longleftrightarrow> pay_status p = Finalized"
      using Some p(2) by (cases "pay_status p")
        (auto simp: merged_def merge_transaction_def is_finalized_def payment_to_row_def Let_def res_simps)
    ultimately show ?thesis using fin by simp
  qed
  have "finalized_txs d' = map row_tx (filter (\<lambda>q. is_finalized q \<or> tr_id q \<in> ?ids) ?rows)"
    unfolding finalized_txs_def rows'
    using status by (simp add: filter_map o_def row_tx_def M cong: filter_cong)
  moreover have "\<not> (is_finalized q \<and> tr_id q \<in> ?ids)" if q: "q \<in> set ?rows" for q
    using block_row unique [OF _ q] pending_not_finalized by (metis imageE)
  moreover have "mset (map row_tx (filter (\<lambda>q. tr_id q \<in> ?ids) ?rows)) = mset (blk_txs b)"
  proof -
    let ?f = "filter (\<lambda>q. tr_id q \<in> ?ids) ?rows"
    have id: "tx_id (row_tx q) = tr_id q" if "q \<in> set ?rows" for q
      using that ok row_tx_id by (simp add: rows_ok_def)
    then have "map tx_id (map row_tx ?f) = map tr_id ?f" by simp
    moreover have "distinct (map tr_id ?f)" using ok by (simp add: rows_ok_def distinct_map_filter)
    ultimately have "distinct (map row_tx ?f)" by (metis distinct_map)
    moreover have "distinct (blk_txs b)" using r by (simp add: ready_def distinct_map)
    moreover have "set (map row_tx ?f) = set (blk_txs b)"
    proof
      show "set (map row_tx ?f) \<subseteq> set (blk_txs b)"
        using block_row unique by auto metis
      show "set (blk_txs b) \<subseteq> set (map row_tx ?f)" using block_row by force
    qed
    ultimately show ?thesis by (intro iffD1 [OF set_eq_iff_mset_eq_distinct])
  qed
  ultimately show "mset (finalized_txs d') = mset (finalized_txs db) + mset (blk_txs b)"
    using filter_disjoint_mset [of ?rows is_finalized "\<lambda>q. tr_id q \<in> ?ids"]
    by (simp add: finalized_txs_def)
  have key: "tr_client_reference_id (?M q) = tr_client_reference_id q"
    "tr_request_fingerprint (?M q) = tr_request_fingerprint q" for q
    by (simp_all add: merged_def merge_transaction_def split: option.split)
  show "rows_ok pg (db_transactions d')"
  proof -
    have "same_reference (?M q) (?M q') = same_reference q q'" for q q'
      by (simp add: same_reference_def key)
    then show ?thesis using ok by (simp add: rows' rows_ok_def M o_def)
  qed
  from key show "rows_kept (db_transactions db) (db_transactions d')"
    unfolding rows' rows_kept_def row_kept_def using M status by auto
qed

section \<open>The commit of a pass\<close>

lemma save_books:
  assumes save: "pg_save_snapshot pg (ledger_to_snapshot l) (db, w) = (Inr u, (db', w'))"
    and ok: "rows_ok pg (db_transactions db)" "balances_ok db" and r: "ready txs db b l"
  shows "rows_ok pg (db_transactions db')" "balances_ok db'" "db_follows (txs @ blk_txs b) db'"
    "rows_kept (db_transactions db) (db_transactions db')"
proof -
  obtain now where st: "save_statements pg now (ledger_to_snapshot l) db = Inr db'"
    using save by (auto simp: pg_save_snapshot_def db_draw_def db_execute_def h_bind_def res_simps
        split: prod.splits sum.splits)
  obtain d4 d4' d6 d6' where d4: "db_balances d4 = db_balances db" "db_balances db' = db_balances d4'"
    "save_all (save_balance pg now) (snap_balances (ledger_to_snapshot l)) d4 = Inr d4'"
    and d6: "db_transactions d6 = db_transactions db" "db_transactions db' = db_transactions d6'"
    "save_all (save_payment pg) (snap_payments (ledger_to_snapshot l)) d6 = Inr d6'"
    by (rule save_statements_ok [OF st])
  have f: "follows (txs @ blk_txs b) (working_copy l)" and txs: "mset txs = mset (finalized_txs db)"
    and keys: "fst ` set (db_balance_map db) \<subseteq> fst ` set (led_balances l)"
    using r by (simp_all add: ready_def)
  have wf: "hm_wf (led_balances l)" using f by (simp add: follows_def balances_follow_def working_copy_def)
  have map4: "db_balance_map d4 = db_balance_map db" "db_balance_map db' = db_balance_map d4'"
    "balances_ok d4 = balances_ok db" "balances_ok db' = balances_ok d4'"
    using d4 by (simp_all add: db_balance_map_def balances_ok_def)
  note bal = save_balances_books [OF d4(3) wf, unfolded map4, OF ok(2) keys]
  show ok': "balances_ok db'" unfolding map4 by (rule bal(2))
  note pay = save_payments_books [OF d6(3,1) ok(1) r]
  show "rows_ok pg (db_transactions db')" unfolding d6 by (rule pay(2))
  show "rows_kept (db_transactions db) (db_transactions db')" unfolding d6 by (rule pay(3))
  have wf': "hm_wf (db_balance_map db')" using ok' by (simp add: balances_ok_def)
  have "e \<in> set (db_balance_map db') \<longleftrightarrow> e \<in> set (led_balances l)" for e
    unfolding map4 using bal(1) by simp
  then have gets: "hm_get (db_balance_map db') k = hm_get (led_balances l) k" for k
    using hm.entries_get [OF wf', of k] hm.entries_get [OF wf, of k] by (intro option_eqI) simp
  have "follows (txs @ blk_txs b) ((working_copy l)\<lparr>work_balances := db_balance_map db'\<rparr>)"
    by (rule follows_transfer [OF f])
      (simp_all add: working_copy_def wf' gets asset_total_same_gets [OF wf' wf gets])
  moreover have "mset (txs @ blk_txs b) = mset (finalized_txs db')"
    using pay(1) txs by (simp add: finalized_txs_def d6)
  ultimately show "db_follows (txs @ blk_txs b) db'"
    unfolding db_follows_def
    by (intro conjI exI [of _ "(working_copy l)\<lparr>work_balances := db_balance_map db'\<rparr>"]) simp_all
qed

end
