(* ===== verification/Kani_Pg_Prepare.thy ===== *)
theory Kani_Pg_Prepare
  imports Kani_Pg_Pass
begin

text \<open>
  The first half of a validator's pass, from the load of the ledger to the application of the
  block: when it succeeds, the working ledger is \<open>ready\<close> to be saved, and the transactions it
  rejected on the way are none of those of the block.
\<close>

section \<open>The ledger a pass loads\<close>

lemma loaded_payment_list:
  assumes ok: "rows_ok pg (db_transactions db)"
    and load: "pg_current_ledger pg (db, w) = (Inr l, s')"
  obtains ps where "led_payments l = map (\<lambda>p. (tx_id (pay_transaction p), p)) ps"
    "distinct (map (\<lambda>p. tx_id (pay_transaction p)) ps)"
    "\<forall>p \<in> set ps. \<exists>r \<in> set (db_transactions db). payment_from_row (db_blocks db) r = Inr p"
    "\<forall>r \<in> set (db_transactions db). \<exists>p \<in> set ps. payment_from_row (db_blocks db) r = Inr p"
proof -
  obtain snap where snap: "pg_load_snapshot pg (db, w) = (Inr snap, s')" and l: "l = from_snapshot snap"
    by (rule current_ledger_ok [OF load])
  let ?rows = "order_by_time tr_created_at tr_id (db_transactions db)"
  obtain loaded where pay: "collect_payments (db_blocks db) ?rows
        \<lparr>lp_payments = [], lp_nonces = [], lp_issued = [], lp_txs_by_block = []\<rparr> = Inr loaded"
    and ps: "snap_payments snap = lp_payments loaded"
    by (rule load_snapshot_ok [OF snap])
  have all: "list_all2 (\<lambda>r p. payment_from_row (db_blocks db) r = Inr p) ?rows (snap_payments snap)"
    using collect_payments_ok(1) [OF pay] ps by auto
  have id: "tx_id (pay_transaction p) = tr_id r" if "payment_from_row (db_blocks db) r = Inr p" for r p
    using row_tx_payment [OF that] row_tx_id [of r] by simp
  have "map (\<lambda>p. tx_id (pay_transaction p)) (snap_payments snap) = map tr_id ?rows"
    using all by (induction rule: list_all2_induct) (simp_all add: id)
  moreover have "distinct (map tr_id ?rows)"
    using ok mset_eq_imp_distinct_iff [of "map tr_id ?rows" "map tr_id (db_transactions db)"]
    by (simp add: rows_ok_def)
  ultimately have dist: "distinct (map (\<lambda>p. tx_id (pay_transaction p)) (snap_payments snap))" by simp
  have rows: "r \<in> set ?rows \<longleftrightarrow> r \<in> set (db_transactions db)" for r
    by (metis mset_eq_setD mset_order_by_time)
  show thesis
  proof (rule that [OF _ dist])
    show "led_payments l = map (\<lambda>p. (tx_id (pay_transaction p), p)) (snap_payments snap)"
      unfolding l from_snapshot_def ledger.simps using dist
      by (intro hm_collect_distinct) (simp add: o_def)
  qed (use list_all2_partner [OF all] rows in metis)+
qed

lemma loaded_payments:
  assumes ok: "rows_ok pg (db_transactions db)"
    and load: "pg_current_ledger pg (db, w) = (Inr l, s')"
  shows "keyed (\<lambda>p. tx_id (pay_transaction p)) (led_payments l)"
    and "p \<in> set (hm_values (led_payments l)) \<Longrightarrow> \<exists>r \<in> set (db_transactions db).
      tr_id r = tx_id (pay_transaction p) \<and> (pay_status p = Finalized \<longleftrightarrow> is_finalized r)"
    and "r \<in> set (db_transactions db) \<Longrightarrow> \<exists>p. hm_get (led_payments l) (tr_id r) = Some p \<and>
      payment_from_row (db_blocks db) r = Inr p"
proof -
  obtain ps where m: "led_payments l = map (\<lambda>p. (tx_id (pay_transaction p), p)) ps"
    and dist: "distinct (map (\<lambda>p. tx_id (pay_transaction p)) ps)"
    and row: "\<forall>p \<in> set ps. \<exists>r \<in> set (db_transactions db). payment_from_row (db_blocks db) r = Inr p"
    and payment: "\<forall>r \<in> set (db_transactions db). \<exists>p \<in> set ps. payment_from_row (db_blocks db) r = Inr p"
    by (rule loaded_payment_list [OF ok load])
  have id: "tx_id (pay_transaction p) = tr_id r \<and> (pay_status p = Finalized \<longleftrightarrow> is_finalized r)"
    if "payment_from_row (db_blocks db) r = Inr p" for r p
    using row_tx_payment [OF that] row_tx_id [of r] by simp
  show keyed: "keyed (\<lambda>p. tx_id (pay_transaction p)) (led_payments l)"
    using dist m by (auto simp: keyed_def hm_wf_def o_def)
  show "p \<in> set (hm_values (led_payments l)) \<Longrightarrow> \<exists>r \<in> set (db_transactions db).
      tr_id r = tx_id (pay_transaction p) \<and> (pay_status p = Finalized \<longleftrightarrow> is_finalized r)"
    using row id by (auto simp: m hm_values_def) metis
  assume "r \<in> set (db_transactions db)"
  then obtain q where q: "q \<in> set ps" "payment_from_row (db_blocks db) r = Inr q" using payment by blast
  then have "(tr_id r, q) \<in> set (led_payments l)" using id [OF q(2)] by (force simp: m)
  then have "hm_get (led_payments l) (tr_id r) = Some q"
    using keyed by (simp add: keyed_def hm.entries_get)
  with q(2) show "\<exists>p. hm_get (led_payments l) (tr_id r) = Some p \<and> payment_from_row (db_blocks db) r = Inr p"
    by blast
qed

lemma pending_loaded:
  assumes "pg_pending_transactions n m (db, w) = (Inr pending, s')"
    and ok: "rows_ok pg (db_transactions db)"
  shows "s' = (db, w)" "distinct (map tx_id pending)"
    and "tx \<in> set pending \<Longrightarrow> \<exists>r \<in> set (db_transactions db). is_pending r \<and> transaction_from_row r = Inr tx"
    and "tx \<in> set pending \<Longrightarrow> pg_uuid pg (tx_id tx) = Some (tx_id tx)"
proof -
  let ?rows = "order_by_time tr_created_at tr_id
    (filter (\<lambda>r. tr_status r = ''PENDING'') (db_transactions db))"
  obtain rows where page: "sql_page n m ?rows = Inr rows"
    and col: "collect_results (map transaction_from_row rows) = Inr pending" and s': "s' = (db, w)"
    using assms(1) by (auto simp: pg_pending_transactions_def res_simps)
  show "s' = (db, w)" by (rule s')
  have rows: "rows = page (nat m) (nat n) ?rows"
    using page by (simp add: sql_page_def split: if_splits)
  have all: "list_all2 (\<lambda>r tx. transaction_from_row r = Inr tx) rows pending"
    using col by (induction rows arbitrary: pending) (auto simp: res_simps)
  have sub: "r \<in> set (db_transactions db) \<and> is_pending r" if "r \<in> set rows" for r
  proof -
    have "r \<in> set ?rows" using that unfolding rows page_def by (meson in_set_dropD in_set_takeD)
    then have "r \<in> set (filter (\<lambda>r. tr_status r = ''PENDING'') (db_transactions db))"
      by (metis mset_eq_setD mset_order_by_time)
    then show ?thesis by (simp add: is_pending_def)
  qed
  have "map tx_id pending = map tr_id rows"
    using all by (induction rule: list_all2_induct) (simp_all, metis is_ok_simps(2) row_tx_eq row_tx_id)
  moreover have "distinct (map tr_id ?rows)"
    using ok mset_eq_imp_distinct_iff [of "map tr_id ?rows"
        "map tr_id (filter (\<lambda>r. tr_status r = ''PENDING'') (db_transactions db))"]
    by (simp add: rows_ok_def distinct_map_filter)
  ultimately show "distinct (map tx_id pending)"
    by (simp add: rows page_def take_map [symmetric] drop_map [symmetric])
  assume "tx \<in> set pending"
  then obtain r where r: "r \<in> set rows" "transaction_from_row r = Inr tx"
    using all by (auto simp: list_all2_conv_all_nth in_set_conv_nth) metis
  then show "\<exists>r \<in> set (db_transactions db). is_pending r \<and> transaction_from_row r = Inr tx"
    using sub by blast
  from r show "pg_uuid pg (tx_id tx) = Some (tx_id tx)"
    using sub ok row_tx_id [of r] row_tx_eq [of r tx] by (simp add: rows_ok_def)
qed

section \<open>Rejected transactions\<close>

lemma keeps_reject:
  assumes "pg_uuid pg (tx_id tx) = Some (tx_id tx)" "tx_id tx \<notin> S"
  shows "keeps (kept pg S) (reject_pending_transaction pg v tx reason)"
  unfolding reject_pending_transaction_def pg_reject_transaction_def
  by (intro kept.keeps_bind keeps_via_storage keeps_bind_draw keeps_db_execute keeps_node_draw
      keeps_registry) (auto simp: res_simps assms(1) intro!: kept_set_status assms(2))

lemma keeps_select:
  assumes "\<And>tx. tx \<in> set pending \<Longrightarrow> pg_uuid pg (tx_id tx) = Some (tx_id tx)"
    and "distinct (map tx_id (accepted @ pending))"
    and "select_or_reject pg v l accepted pending s = (Inr txs, s')"
  shows "kept pg (tx_id ` set txs) s s'" "set accepted \<subseteq> set txs"
    "set txs \<subseteq> set accepted \<union> set pending" "distinct (map tx_id txs)"
proof -
  have "kept pg (tx_id ` set txs) s s' \<and> set accepted \<subseteq> set txs \<and>
      set txs \<subseteq> set accepted \<union> set pending \<and> distinct (map tx_id txs)"
    using assms
  proof (induction pending arbitrary: accepted s)
    case Nil
    then show ?case by (simp add: kept.R_refl)
  next
    case (Cons tx pending)
    obtain db w where s: "s = (db, w)" by force
    show ?case
    proof (cases "validate_transactions_for_next_block w l (accepted @ [tx])")
      case (Inl err)
      with Cons.prems(3) s obtain u t where
        rej: "reject_pending_transaction pg v tx (ledger_error_display err) s = (Inr u, t)"
        and rest: "select_or_reject pg v l accepted pending t = (Inr txs, s')"
        by (auto elim: h_bind_okE)
      have IH: "kept pg (tx_id ` set txs) t s' \<and> set accepted \<subseteq> set txs \<and>
          set txs \<subseteq> set accepted \<union> set pending \<and> distinct (map tx_id txs)"
        by (rule Cons.IH [OF _ _ rest]) (use Cons.prems in auto)
      have "tx_id tx \<notin> tx_id ` set txs" using IH Cons.prems(2) by auto
      then have "kept pg (tx_id ` set txs) s t"
        using keepsD [OF keeps_reject rej] Cons.prems(1) by simp
      then have "kept pg (tx_id ` set txs) s s'" using IH kept.R_trans by blast
      then show ?thesis using IH by auto
    next
      case (Inr u)
      with Cons.prems(3) s have rest: "select_or_reject pg v l (accepted @ [tx]) pending s = (Inr txs, s')"
        by simp
      have "kept pg (tx_id ` set txs) s s' \<and> set (accepted @ [tx]) \<subseteq> set txs \<and>
          set txs \<subseteq> set (accepted @ [tx]) \<union> set pending \<and> distinct (map tx_id txs)"
        by (rule Cons.IH [OF _ _ rest]) (use Cons.prems in auto)
      then show ?thesis by auto
    qed
  qed
  then show "kept pg (tx_id ` set txs) s s'" "set accepted \<subseteq> set txs"
    "set txs \<subseteq> set accepted \<union> set pending" "distinct (map tx_id txs)" by blast+
qed

section \<open>The block and the working ledger\<close>

lemma insert_records_keys:
  "fst ` set (insert_records rs m) = fst ` set m \<union> (\<lambda>r. tx_id (pay_transaction r)) ` set rs"
  unfolding insert_records_def
  by (induction rs arbitrary: m) (auto simp: hm_insert_def dom_update)

lemma insert_records_values:
  assumes "keyed (\<lambda>p. tx_id (pay_transaction p)) m"
    and "p \<in> set (hm_values (insert_records rs m))"
  shows "p \<in> set rs \<or> p \<in> set (hm_values m) \<and>
    tx_id (pay_transaction p) \<notin> (\<lambda>r. tx_id (pay_transaction r)) ` set rs"
  using assms
proof (induction rs arbitrary: m)
  case (Cons r rs)
  let ?m = "hm_insert (tx_id (pay_transaction r)) r m"
  have wf: "hm_wf m" and k: "keyed (\<lambda>p. tx_id (pay_transaction p)) ?m"
    using Cons.prems(1) by (simp_all add: keyed_def keyed_insert' [OF Cons.prems(1), unfolded keyed_def])
  have "p \<in> set rs \<or> p \<in> set (hm_values ?m) \<and>
      tx_id (pay_transaction p) \<notin> (\<lambda>r. tx_id (pay_transaction r)) ` set rs"
    using Cons.IH [OF k] Cons.prems(2) by (simp add: insert_records_def)
  moreover have "p = r \<or> p \<in> set (hm_values m) \<and> tx_id (pay_transaction p) \<noteq> tx_id (pay_transaction r)"
    if p: "p \<in> set (hm_values ?m)"
  proof -
    obtain i where i: "(i, p) \<in> set ?m"
      using p unfolding hm_values_def by force
    show ?thesis
    proof (cases "(i, p) \<in> set m \<and> i \<noteq> tx_id (pay_transaction r)")
      case True
      then have "i = tx_id (pay_transaction p)" using Cons.prems(1) by (auto simp: keyed_def)
      with True show ?thesis by (force simp: hm_values_def)
    qed (use i in \<open>auto simp: hm.entries_put_set [OF wf]\<close>)
  qed
  ultimately show ?case by auto
qed (simp add: insert_records_def)

lemma apply_txs_keys:
  assumes "apply_txs w l h hash txs work = Inr (rs, work', w')"
  shows "fst ` set (work_balances work) \<subseteq> fst ` set (work_balances work')"
  using assms
proof (induction txs arbitrary: w work rs)
  case (Cons tx txs)
  from Cons.prems obtain work1 w1 r w2 rs' where
    ap: "apply_transaction w tx h work = Inr (work1, w1)"
    and rest: "apply_txs w2 l h hash txs work1 = Inr (rs', work', w')"
    by (rule apply_txs_ConsE)
  have grows: "fst ` set b \<subseteq> fst ` set (entry_or_zero k f b)" for b :: balances and k f
    by (auto simp: entry_or_zero_insert hm_insert_def dom_update)
  have "fst ` set b \<subseteq> fst ` set (balances_after tx b)" for b
    unfolding balances_after_def credit_def Let_def
    by (cases "tx_kind tx") (simp_all only: transaction_kind.case order.trans [OF grows grows] grows)
  then have "fst ` set (work_balances work) \<subseteq> fst ` set (work_balances work1)"
    unfolding apply_transaction_effect(1) [OF ap] .
  then show ?case using Cons.IH [OF rest] by blast
qed simp

lemma apply_block_ready:
  assumes ok: "rows_ok pg (db_transactions db)" "balances_ok db" and f: "db_follows txs db"
    and load: "pg_current_ledger pg (db, w) = (Inr l, s1)"
    and ap: "apply_block w1 b l = (Inr rs, l', w2)"
    and dist: "distinct (map tx_id (blk_txs b))"
    and pend: "\<And>tx. tx \<in> set (blk_txs b) \<Longrightarrow>
      \<exists>r \<in> set (db_transactions db). is_pending r \<and> transaction_from_row r = Inr tx"
  shows "ready txs db b l'"
proof -
  obtain work w3 es where
    run: "apply_txs w1 l (blk_height b) (blk_hash b) (blk_txs b) (working_copy l) = Inr (rs, work, w3)"
    and l': "l' = (commit_working work l)
        \<lparr>led_payments := insert_records rs (led_payments l),
         led_audit_events := led_audit_events l @ es, led_blocks := led_blocks l @ [b]\<rparr>"
    using ap by (rule apply_block_ok)
  note loaded = loaded_follows [OF ok(2) f load] and pays = loaded_payments [OF ok(1) load]
  have recs: "map pay_transaction rs = blk_txs b" "\<And>r. r \<in> set rs \<Longrightarrow> pay_status r = Finalized"
    using apply_txs_records [OF run] by (auto simp: finalized_in_def)
  have ids: "(\<lambda>r. tx_id (pay_transaction r)) ` set rs = tx_id ` set (blk_txs b)"
    unfolding recs(1) [symmetric] by (simp add: image_image)
  have l'_sel: "working_copy l' = work" "led_balances l' = work_balances work"
    "led_payments l' = insert_records rs (led_payments l)"
    by (simp_all add: l' commit_working_def working_copy_def)
  have "follows (txs @ blk_txs b) (working_copy l')"
    unfolding l'_sel using apply_txs_follows [OF run loaded(2)] by blast
  moreover have "fst ` set (db_balance_map db) \<subseteq> fst ` set (led_balances l')"
    using apply_txs_keys [OF run] mset_eq_setD [OF loaded(3)] by (simp add: l'_sel working_copy_def)
  moreover have "keyed (\<lambda>p. tx_id (pay_transaction p)) (led_payments l')"
    unfolding l'_sel by (rule keyed_insert_records [OF pays(1)])
  moreover have "tx_id ` set (blk_txs b) \<subseteq> fst ` set (led_payments l')"
    unfolding l'_sel insert_records_keys ids by blast
  moreover have "\<exists>r \<in> set (db_transactions db). tr_id r = tx_id (pay_transaction p) \<and>
        (pay_status p = Finalized \<longleftrightarrow> is_finalized r \<or> tr_id r \<in> tx_id ` set (blk_txs b))"
    if p: "p \<in> set (hm_values (led_payments l'))" for p
    using insert_records_values [OF pays(1) p [unfolded l'_sel]]
  proof
    assume "p \<in> set rs"
    then have "pay_status p = Finalized" "pay_transaction p \<in> pay_transaction ` set rs"
      using recs(2) by auto
    then have fin: "pay_transaction p \<in> set (blk_txs b)" "pay_status p = Finalized"
      unfolding recs(1) [symmetric] by simp_all
    then obtain r where "r \<in> set (db_transactions db)" "transaction_from_row r = Inr (pay_transaction p)"
      using pend by blast
    moreover from this(2) have "tr_id r = tx_id (pay_transaction p)"
      using row_tx_id [of r] row_tx_eq [of r] by simp
    ultimately show ?thesis using fin by (intro bexI [of _ r]) auto
  next
    assume "p \<in> set (hm_values (led_payments l)) \<and>
      tx_id (pay_transaction p) \<notin> (\<lambda>r. tx_id (pay_transaction r)) ` set rs"
    then show ?thesis using pays(2) [of p] ids by (metis (no_types, lifting))
  qed
  ultimately show ?thesis using f dist pend unfolding ready_def db_follows_def by blast
qed

lemma build_block_for_validator_txs:
  "build_block_for_validator pf w l txs e profile v = Inr (b, w') \<Longrightarrow> blk_txs b = txs"
  by (auto simp: build_block_for_validator_def Let_def res_simps case_prod_unfold block_seal_def
      block_new_unsealed_def utc_now_def split: if_splits)

text \<open>The intermediate results of a pass that prepared a block.\<close>

lemma draw_block_ok:
  "draw_block pf v l txs s = (Inr b, s') \<Longrightarrow> blk_txs b = txs \<and> fst s' = fst s"
  by (auto simp: draw_block_def dest: build_block_for_validator_txs split: sum.splits prod.splits)

lemma apply_or_reject_ok:
  "apply_or_reject pg v l b s = (Inr l', s') \<Longrightarrow>
     \<exists>w rs w'. apply_block w b l = (Inr rs, l', w') \<and> fst s' = fst s"
  by (auto simp: apply_or_reject_def h_bind_def h_fail_def split: sum.splits prod.splits)

lemma pass_prepare_parts:
  assumes "pass_prepare pf pg v s = (Inr (Some (b, l')), s')"
  shows "\<exists>l s1 pending s2 accepted s3 rs w2 w3. pg_current_ledger pg s = (Inr l, s1) \<and>
    pg_pending_transactions (vrt_max_transactions_per_block v) 0 s1 = (Inr pending, s2) \<and>
    select_or_reject pg v l [] pending s2 = (Inr accepted, s3) \<and> blk_txs b = accepted \<and>
    apply_block w2 b l = (Inr rs, l', w3) \<and> fst s' = fst s3"
proof -
  obtain l s1 pending s2 accepted s3 s4 s5 u where load: "pg_current_ledger pg s = (Inr l, s1)"
    "pg_pending_transactions (vrt_max_transactions_per_block v) 0 s1 = (Inr pending, s2)"
    "select_or_reject pg v l [] pending s2 = (Inr accepted, s3)"
    and block: "draw_block pf v l accepted s3 = (Inr b, s4)" "verify_for pf v l b s4 = (Inr u, s5)"
      "apply_or_reject pg v l b s5 = (Inr l', s')"
    using assms unfolding pass_prepare_def
    by (auto elim!: h_bind_okE split: if_splits)
  have "fst s5 = fst s4" using block(2) by (auto simp: verify_for_def split: prod.splits)
  with load draw_block_ok [OF block(1)] apply_or_reject_ok [OF block(3)] show ?thesis by metis
qed

theorem pass_prepare_ready:
  assumes ok: "rows_ok pg (db_transactions (fst s))" "balances_ok (fst s)"
    and f: "db_follows txs (fst s)"
    and run: "pass_prepare pf pg v s = (Inr (Some (b, l')), s')"
  shows "ready txs (fst s') b l'" "kept pg (tx_id ` set (blk_txs b)) s s'"
proof -
  obtain db w where s: "s = (db, w)" by force
  note inv = ok [unfolded s fst_conv] f [unfolded s fst_conv]
  obtain l s1 pending s2 accepted s3 rs w2 w3 where load: "pg_current_ledger pg s = (Inr l, s1)"
    and pending: "pg_pending_transactions (vrt_max_transactions_per_block v) 0 s1 = (Inr pending, s2)"
    and sel: "select_or_reject pg v l [] pending s2 = (Inr accepted, s3)"
    and b: "blk_txs b = accepted" and ap: "apply_block w2 b l = (Inr rs, l', w3)"
    and s': "fst s' = fst s3"
    using pass_prepare_parts [OF run] by blast
  have s1: "s1 = (db, w)" by (rule loaded_follows(1) [OF inv(2,3) load [unfolded s]])
  note pend = pending_loaded [OF pending [unfolded s1] inv(1)]
  have acc: "kept pg (tx_id ` set accepted) s s3" "set accepted \<subseteq> set pending"
    "distinct (map tx_id accepted)"
    using keeps_select [OF pend(4) _ sel] pend(1,2) s by auto
  have r: "ready txs db b l'"
    by (rule apply_block_ready [OF inv load [unfolded s] ap]) (use acc b pend(3) in auto)
  show k: "kept pg (tx_id ` set (blk_txs b)) s s'"
    using acc(1) unfolding b kept_def s' .
  show "ready txs (fst s') b l'"
    using ready_kept [of pg _ db w "fst s'" "snd s'", OF _ inv(1) r subset_refl] k s by simp
qed

end
