(* ===== verification/Kani_Pg_Session.thy ===== *)
theory Kani_Pg_Session
  imports Kani_Pg_Prepare
begin

text \<open>
  The network around one database: nodes that serve requests, processes that connect, and
  validators whose passes hold the advisory lock from their load to their save. A pass is two
  steps, between which the other sessions run; a session that is lost gives its lock back. The
  invariant of the reachable networks: at most one pass is under way, it is ready to be saved, and
  the balances of the database are those of its finalized transactions.
\<close>

section \<open>The two steps of a pass\<close>

definition hold_lock :: "'a option node_op \<Rightarrow> 'a option node_op" where
  "hold_lock m = (\<lambda>s. case m s of
     (Inr (Some x), s') \<Rightarrow> (Inr (Some x), s') | other \<Rightarrow> release_after m s)"

definition begin_pass ::
  "platform \<Rightarrow> postgres_api \<Rightarrow> validator_runtime \<Rightarrow> (block \<times> ledger) option node_op" where
  "begin_pass pf pg v =
     h_bind (via_storage (pg_record_validator_heartbeat pg (vrt_validator_id v))) (\<lambda>_.
     h_bind (pg_current_ledger pg) (\<lambda>l.
     h_bind (h_lift (map_err NodeConsensus (engine_leader_for_height (vrt_consensus v) (next_height l))))
       (\<lambda>leader.
     if val_id leader \<noteq> vrt_validator_id v then h_return None
     else
     h_bind (via_storage pg_try_acquire_block_production_lock) (\<lambda>acquired.
     if \<not> acquired then h_return None else hold_lock (pass_prepare pf pg v)))))"

definition finish_pass ::
  "postgres_api \<Rightarrow> validator_runtime \<Rightarrow> block \<Rightarrow> ledger \<Rightarrow> block option node_op" where
  "finish_pass pg v b l = release_after (pass_commit pg v b l)"

text \<open>Run back to back, the two steps are the pass of the code.\<close>

lemma h_bind_assoc: "h_bind (h_bind m k) n = h_bind m (\<lambda>x. h_bind (k x) n)"
  by (auto simp: h_bind_def fun_eq_iff split: prod.split sum.split)

lemma h_bind_if: "h_bind (if c then m else m') k = (if c then h_bind m k else h_bind m' k)"
  by simp

lemma release_after_two_steps:
  "release_after (h_bind m (\<lambda>p. case p of None \<Rightarrow> h_return None | Some x \<Rightarrow> k x)) =
   h_bind (hold_lock m) (\<lambda>p. case p of None \<Rightarrow> h_return None | Some x \<Rightarrow> release_after (k x))"
    (is "release_after (h_bind m ?k) = h_bind _ ?k'")
proof
  fix s
  obtain r s1 where m: "m s = (r, s1)" by (rule prod.exhaust)
  obtain q s2 where release: "via_storage pg_release_block_production_lock s1 = (q, s2)"
    by (rule prod.exhaust)
  consider e where "r = Inl e" | "r = Inr None" | x where "r = Inr (Some x)"
    by (metis not_Some_eq sum.exhaust)
  then show "release_after (h_bind m ?k) s = h_bind (hold_lock m) ?k' s"
    by cases (simp_all add: release_after_def hold_lock_def h_bind_def h_return_def m release
        split: sum.split del: via_storage_ok)
qed

lemma run_once_two_steps:
  "run_once pf pg v = h_bind (begin_pass pf pg v) (\<lambda>prepared.
     case prepared of None \<Rightarrow> h_return None | Some (b, l) \<Rightarrow> finish_pass pg v b l)"
proof -
  have "release_after (run_once_with_block_lock pf pg v) = h_bind (hold_lock (pass_prepare pf pg v))
      (\<lambda>prepared. case prepared of None \<Rightarrow> h_return None | Some (b, l) \<Rightarrow> finish_pass pg v b l)"
    using release_after_two_steps [of "pass_prepare pf pg v" "\<lambda>(b, l). pass_commit pg v b l"]
    by (simp add: run_once_with_block_lock_def finish_pass_def case_prod_unfold cong: option.case_cong)
  then show ?thesis
    unfolding run_once_def begin_pass_def by (simp add: h_bind_assoc h_bind_if cong: if_cong)
qed

section \<open>The network\<close>

record network =
  net_db :: database
  net_env :: env
  net_passes :: "(validator_runtime \<times> block \<times> ledger) list"
  net_seeders :: "ledger_snapshot list"

fun started_passes ::
  "validator_runtime \<Rightarrow> node_error + (block \<times> ledger) option \<Rightarrow> (validator_runtime \<times> block \<times> ledger) list" where
  "started_passes v (Inr (Some (b, l))) = [(v, b, l)]"
| "started_passes v _ = []"

inductive network_step :: "platform \<Rightarrow> postgres_api \<Rightarrow> network \<Rightarrow> network \<Rightarrow> bool" for pf pg where
  net_client: "client_step pf pg (db, w) (db', w') \<Longrightarrow>
     network_step pf pg \<lparr>net_db = db, net_env = w, net_passes = ps, net_seeders = ss\<rparr>
       \<lparr>net_db = db', net_env = w', net_passes = ps, net_seeders = ss\<rparr>"
| net_load: "pg_load_snapshot pg (db, w) = (Inr snap, (db', w')) \<Longrightarrow>
     network_step pf pg \<lparr>net_db = db, net_env = w, net_passes = ps, net_seeders = ss\<rparr>
       \<lparr>net_db = db', net_env = w', net_passes = ps, net_seeders = snap # ss\<rparr>"
| net_seed: "pg_seed_from pg snap (db, w) = (r, (db', w')) \<Longrightarrow>
     network_step pf pg \<lparr>net_db = db, net_env = w, net_passes = ps, net_seeders = ss @ snap # ts\<rparr>
       \<lparr>net_db = db', net_env = w', net_passes = ps, net_seeders = ss @ ts\<rparr>"
| net_begin: "begin_pass pf pg v (db, w) = (r, (db', w')) \<Longrightarrow>
     network_step pf pg \<lparr>net_db = db, net_env = w, net_passes = ps, net_seeders = ss\<rparr>
       \<lparr>net_db = db', net_env = w', net_passes = started_passes v r @ ps, net_seeders = ss\<rparr>"
| net_finish: "finish_pass pg v b l (db, w) = (r, (db', w')) \<Longrightarrow>
     network_step pf pg \<lparr>net_db = db, net_env = w, net_passes = ps @ (v, b, l) # qs, net_seeders = ss\<rparr>
       \<lparr>net_db = db', net_env = w', net_passes = ps @ qs, net_seeders = ss\<rparr>"
| net_lost: "network_step pf pg \<lparr>net_db = db, net_env = w, net_passes = ps @ (v, b, l) # qs, net_seeders = ss\<rparr>
       \<lparr>net_db = db\<lparr>db_lock := False\<rparr>, net_env = w, net_passes = ps @ qs, net_seeders = ss\<rparr>"

text \<open>
  The start: the first process has connected to an empty database and seeded it, and no other
  process read the database before that. A process that did would seed it again whenever it goes
  on, see \<open>Kani_Pg_Seeding\<close>.
\<close>

definition network_started :: "postgres_api \<Rightarrow> network \<Rightarrow> bool" where
  "network_started pg n \<longleftrightarrow> net_passes n = [] \<and> net_seeders n = [] \<and>
     (\<exists>w. via_storage (pg_ensure_sandbox_seed pg) (database_empty, w) = (Inr (), (net_db n, net_env n)))"

inductive network_reachable :: "platform \<Rightarrow> postgres_api \<Rightarrow> network \<Rightarrow> bool" for pf pg where
  network_start: "network_started pg n \<Longrightarrow> network_reachable pf pg n"
| network_next: "network_reachable pf pg n \<Longrightarrow> network_step pf pg n n' \<Longrightarrow> network_reachable pf pg n'"

section \<open>Seeding\<close>

lemma save_accounts_grow:
  "save_all (save_account pg) xs db = Inr db' \<Longrightarrow>
     length (db_accounts db) \<le> length (db_accounts db') \<and> (xs \<noteq> [] \<longrightarrow> db_accounts db' \<noteq> [])"
proof (induction xs arbitrary: db)
  case (Cons a as)
  then obtain db1 where first: "save_account pg a db = Inr db1"
    and rest: "save_all (save_account pg) as db1 = Inr db'"
    by (auto simp: res_simps)
  obtain n rows where sql: "sql_insert (\<lambda>r. True) (\<lambda>r r'. False) (\<lambda>r. True)
      (\<lambda>r. ar_id r = ar_id (account_to_row pg a))
      (DoUpdate (\<lambda>old. old\<lparr>ar_account_type := ar_account_type (account_to_row pg a),
         ar_institution_id := ar_institution_id (account_to_row pg a)\<rparr>))
      (account_to_row pg a) (db_accounts db) = Inr (n, rows)" and db1: "db1 = db\<lparr>db_accounts := rows\<rparr>"
    using first by (auto simp: save_account_def Let_def res_simps)
  have "length (db_accounts db) \<le> length rows \<and> rows \<noteq> []"
    using sql by (cases rule: sql_insert_cases) (auto dest: find_Some_in)
  with Cons.IH [OF rest] show ?case by (auto simp: db1)
qed simp

lemma save_statements_accounts:
  assumes "save_statements pg now s db = Inr db'"
  shows "length (db_accounts db) \<le> length (db_accounts db')" "snap_accounts s \<noteq> [] \<Longrightarrow> db_accounts db' \<noteq> []"
proof -
  obtain a1 a2 a3 a4 a5 a6 a7 a8 a9 where s1: "save_all (save_institution pg) (snap_institutions s) db = Inr a1"
    and s2: "save_all (save_credential pg) (snap_institution_credentials s) a1 = Inr a2"
    and s3: "save_all (save_limit pg) (snap_institution_limits s) a2 = Inr a3"
    and s4: "save_all (save_account pg) (snap_accounts s) a3 = Inr a4"
    and s5: "save_all (save_balance pg now) (snap_balances s) a4 = Inr a5"
    and s6: "save_all (save_block pg) (snap_blocks s) a5 = Inr a6"
    and s7: "save_all (save_payment pg) (snap_payments s) a6 = Inr a7"
    and s8: "save_all (save_case pg) (snap_compliance_cases s) a7 = Inr a8"
    and s9: "save_all (save_journal_entry pg) (snap_journal_entries s) a8 = Inr a9"
    and s10: "save_all (save_audit_event pg) (snap_audit_events s) a9 = Inr db'"
    using assms by (auto simp: save_statements_def res_simps)
  have "db_accounts a3 = db_accounts db" "db_accounts db' = db_accounts a4"
    using save_all_institutions [OF s1] save_all_credentials [OF s2] save_all_limits [OF s3]
      save_all_balances [OF s5] save_all_blocks [OF s6] save_all_transactions [OF s7]
      save_all_cases [OF s8] save_all_journal [OF s9] save_all_audit [OF s10]
    by auto
  then show "length (db_accounts db) \<le> length (db_accounts db')" "snap_accounts s \<noteq> [] \<Longrightarrow> db_accounts db' \<noteq> []"
    using save_accounts_grow [OF s4] by auto
qed

lemma save_snapshot_cases:
  assumes "pg_save_snapshot pg s (db, w) = (r, (db', w'))"
  obtains (saved) now where "r = Inr ()" "save_statements pg now s db = Inr db'"
  | (failed) e where "r = Inl e" "db' = db"
  using assms by (auto simp: pg_save_snapshot_def db_draw_def db_execute_def h_bind_def res_simps
      split: prod.splits sum.splits)

lemma keeps_upsert_all: "keeps (kept pg S) (upsert_all pg is)"
  by (induction "is") auto

text \<open>A process that connects to a seeded database.\<close>

lemma loaded_accounts:
  assumes "pg_load_snapshot pg (db, w) = (Inr snap, s)"
  shows "s = (db, w)" "snap_accounts snap = [] \<longleftrightarrow> db_accounts db = []"
proof -
  show "s = (db, w)" using load_snapshot_ok [OF assms] by blast
  have len: "collect_results (map f xs) = Inr ys \<Longrightarrow> length ys = length xs"
    for f :: "account_row \<Rightarrow> ledger_storage_error + account" and xs ys
    by (induction xs arbitrary: ys) (auto simp: res_simps)
  have "length (snap_accounts snap) = length (db_accounts db)"
  proof (rule load_snapshot_ok [OF assms], goal_cases)
    case (1 loaded)
    show ?case using len [OF 1(9)] by simp
  qed
  then show "snap_accounts snap = [] \<longleftrightarrow> db_accounts db = []"
    by (metis length_0_conv)
qed

lemma seed_from_kept:
  assumes "snap_accounts snap \<noteq> []" "pg_seed_from pg snap s = (r, s')"
  shows "kept pg S s s'"
proof -
  have "keeps (kept pg S) (if snap_institutions snap = []
     then h_bind (db_draw ledger_sandbox) (\<lambda>l. upsert_all pg (snap_institutions (ledger_to_snapshot l)))
     else h_return ())"
    by (intro kept.keeps_if keeps_bind_draw keeps_upsert_all kept.keeps_return)
  with assms show ?thesis by (auto simp: pg_seed_from_def dest: keepsD)
qed

lemma seeded_connect_kept:
  assumes "db_accounts db \<noteq> []" "pg_ensure_sandbox_seed pg (db, w) = (r, s')"
  shows "kept pg S (db, w) s'"
proof -
  obtain r1 s1 where load: "pg_load_snapshot pg (db, w) = (r1, s1)" by (rule prod.exhaust)
  show ?thesis
  proof (cases r1)
    case (Inl e)
    with assms(2) load have "s' = s1" by (simp add: pg_ensure_sandbox_seed_def h_bind_def)
    with keepsD [OF keeps_reads(9) load] show ?thesis by simp
  next
    case (Inr snap)
    note l = loaded_accounts [OF load [unfolded Inr]]
    with assms Inr load have "snap_accounts snap \<noteq> []" "pg_seed_from pg snap (db, w) = (r, s')"
      by (auto simp: pg_ensure_sandbox_seed_def h_bind_def)
    then show ?thesis by (rule seed_from_kept)
  qed
qed

section \<open>The invariant\<close>

definition passes_ok :: "transaction list \<Rightarrow> network \<Rightarrow> bool" where
  "passes_ok txs n \<longleftrightarrow> length (net_passes n) \<le> 1 \<and>
     (net_passes n \<noteq> [] \<longleftrightarrow> db_lock (net_db n)) \<and>
     (\<forall>(v, b, l) \<in> set (net_passes n). ready txs (net_db n) b l)"

definition network_ok :: "postgres_api \<Rightarrow> network \<Rightarrow> bool" where
  "network_ok pg n \<longleftrightarrow> db_accounts (net_db n) \<noteq> [] \<and>
     (\<forall>snap \<in> set (net_seeders n). snap_accounts snap \<noteq> []) \<and> rows_ok pg (db_transactions (net_db n)) \<and>
     balances_ok (net_db n) \<and> (\<exists>txs. db_follows txs (net_db n) \<and> passes_ok txs n)"

text \<open>A step of another session.\<close>

lemma network_ok_kept:
  assumes ok: "network_ok pg \<lparr>net_db = db, net_env = w, net_passes = ps, net_seeders = ss\<rparr>"
    and k: "\<And>S. kept pg S (db, w) (db', w')"
  shows "network_ok pg \<lparr>net_db = db', net_env = w', net_passes = ps, net_seeders = ss\<rparr>"
proof -
  from ok obtain txs where rows: "rows_ok pg (db_transactions db)" and bal: "balances_ok db"
    and f: "db_follows txs db" and ps: "passes_ok txs \<lparr>net_db = db, net_env = w, net_passes = ps, net_seeders = ss\<rparr>"
    and acc: "db_accounts db \<noteq> []" "\<forall>snap \<in> set ss. snap_accounts snap \<noteq> []"
    by (auto simp: network_ok_def)
  note d = db_follows_kept [OF k rows]
  have "passes_ok txs \<lparr>net_db = db', net_env = w', net_passes = ps, net_seeders = ss\<rparr>"
    using ps k [of "{}"] ready_kept [OF k rows _ subset_refl]
    unfolding passes_ok_def by (auto simp: kept_def)
  then show ?thesis
    using d f bal acc k [of "{}"] unfolding network_ok_def by (auto simp: kept_def)
qed

text \<open>Taking and releasing the lock changes nothing else.\<close>

lemma ready_lock [simp]: "ready txs (db\<lparr>db_lock := x\<rparr>) b l = ready txs db b l"
  by (simp add: ready_def finalized_txs_def db_balance_map_def)

lemma books_lock [simp]:
  "balances_ok (db\<lparr>db_lock := x\<rparr>) = balances_ok db"
  "db_follows txs (db\<lparr>db_lock := x\<rparr>) = db_follows txs db"
  by (simp_all add: balances_ok_def db_balance_map_def db_follows_def finalized_txs_def)

lemma release_ok:
  "via_storage pg_release_block_production_lock (db, w) = (r, s') \<Longrightarrow> fst s' = db\<lparr>db_lock := False\<rparr>"
  by (auto simp: via_storage_def pg_release_block_production_lock_def db_execute_def
      split: if_splits prod.splits)

lemma release_after_db:
  "release_after m s = (r, s') \<Longrightarrow> fst s' = (fst (snd (m s)))\<lparr>db_lock := False\<rparr>"
  by (auto simp: release_after_def split: prod.splits sum.splits dest!: release_ok simp del: via_storage_ok)

lemma keeps_prepare: "keeps (kept pg {}) (pass_prepare pf pg v)"
proof -
  have reject: "keeps (kept pg {}) (reject_pending_transaction pg v tx reason)" for tx reason
    unfolding reject_pending_transaction_def pg_reject_transaction_def
    by (intro kept.keeps_bind keeps_via_storage keeps_bind_draw keeps_db_execute keeps_node_draw
        keeps_registry) (auto simp: res_simps intro!: kept_set_status)
  have all: "keeps (kept pg {}) (reject_all pg v reason txs)" for reason txs
    by (induction txs) (auto intro: reject)
  have select: "keeps (kept pg {}) (select_or_reject pg v l accepted pending)" for l accepted pending
  proof (induction pending arbitrary: accepted)
    case (Cons tx pending)
    have "keeps (kept pg {}) (h_bind (reject_pending_transaction pg v tx reason) (\<lambda>_.
        select_or_reject pg v l accepted pending))" for reason
      by (intro kept.keeps_bind reject Cons.IH)
    then have rest: "kept pg {} s s'" if "h_bind (reject_pending_transaction pg v tx reason) (\<lambda>_.
        select_or_reject pg v l accepted pending) s = (r, s')" for reason s r s'
      using that by (rule keepsD)
    show ?case
      by (rule keepsI) (auto simp: Let_def split: sum.splits intro: rest keepsD [OF Cons.IH])
  qed simp
  have draw: "keeps (kept pg {}) (draw_block pf v l txs)" for l txs
    by (rule keepsI) (auto simp: draw_block_def kept.R_refl split: sum.splits prod.splits)
  have verify: "keeps (kept pg {}) (verify_for pf v l b)" for l b
    by (rule keepsI) (auto simp: verify_for_def kept.R_refl split: prod.splits)
  have applied: "keeps (kept pg {}) (apply_or_reject pg v l b)" for l b
  proof -
    have k: "keeps (kept pg {}) (h_bind (reject_all pg v reason (blk_txs b)) (\<lambda>_. h_fail err))" for reason err
      by (intro kept.keeps_bind all kept.keeps_fail)
    have rest: "kept pg {} (db, w') s'" if "h_bind (reject_all pg v reason (blk_txs b))
        (\<lambda>_. h_fail err) (db, w) = (r, s')" for reason err db w w' r s'
    proof -
      from k that have "kept pg {} (db, w) s'" by (rule keepsD)
      then show ?thesis by (simp add: kept_def)
    qed
    show ?thesis
      by (rule keepsI) (auto simp: apply_or_reject_def kept.R_refl split: sum.splits prod.splits intro: rest)
  qed
  show ?thesis
    unfolding pass_prepare_def pg_current_ledger_def
    by (intro kept.keeps_bind kept.keeps_if kept.keeps_return kept.keeps_lift keeps_via_storage
        keeps_reads select draw verify applied)
qed


lemma hold_lock_cases:
  assumes "hold_lock m s = (r, s')"
  obtains (held) x where "r = Inr (Some x)" "m s = (r, s')"
  | (released) "\<nexists>x. r = Inr (Some x)" "fst s' = (fst (snd (m s)))\<lparr>db_lock := False\<rparr>"
proof (cases "\<exists>x. fst (m s) = Inr (Some x)")
  case True
  then show thesis using assms held by (auto simp: hold_lock_def split: prod.splits)
next
  case False
  then have "release_after m s = (r, s')"
    using assms by (auto simp: hold_lock_def split: prod.splits sum.splits option.splits)
  moreover from this have "\<nexists>x. r = Inr (Some x)"
    using False by (auto simp: release_after_def split: prod.splits sum.splits)
  ultimately show thesis using released release_after_db by blast
qed

lemma try_lock_cases:
  assumes "via_storage pg_try_acquire_block_production_lock (db, w) = (r, s)"
  obtains (busy) "r = Inr False" "s = (db, w)"
  | (acquired) "r = Inr True" "\<not> db_lock db" "s = (db\<lparr>db_lock := True\<rparr>, w)"
  using assms by (auto simp: via_storage_def pg_try_acquire_block_production_lock_def db_execute_def
      split: if_splits)

lemma keeps_current_ledger: "keeps (kept pg S) (pg_current_ledger pg)"
  unfolding pg_current_ledger_def by auto

lemma heartbeat_db:
  "via_storage (pg_record_validator_heartbeat pg i) (db, w) = (r, (db', w')) \<Longrightarrow>
     \<exists>vs. db' = db\<lparr>db_validators := vs\<rparr>"
  by (auto simp: via_storage_def pg_record_validator_heartbeat_def upsert_validator_row_def
      h_bind_def db_draw_def db_execute_def Let_def res_simps split: prod.splits sum.splits
      intro: exI [of _ "db_validators db"])

lemma db_query_state [simp]: "snd (db_query f s) = s"
  by (simp add: db_query_def case_prod_unfold)

lemma load_state: "snd (pg_current_ledger pg s) = s"
proof -
  have bind: "snd (h_bind m k s) = s" if "snd (m s) = s" "\<And>x. snd (k x s) = s"
    for m :: "database \<times> env \<Rightarrow> ('e + 'a) \<times> database \<times> env" and k :: "'a \<Rightarrow> database \<times> env \<Rightarrow> ('e + 'b) \<times> database \<times> env"
    using that by (cases "m s") (auto simp: h_bind_def split: sum.split)
  have via: "snd (via_storage m s) = s" if "snd (m s) = s" for m :: "'a store_op"
    using that by (simp add: via_storage_def case_prod_unfold)
  show ?thesis
    unfolding pg_current_ledger_def pg_load_snapshot_def load_accounts_def pg_institutions_def
      load_institution_credentials_def load_institution_limits_def load_balances_def
      load_payments_def pg_compliance_cases_def load_blocks_def load_journal_entries_def
      load_audit_events_def
    by (intro bind via db_query_state) (simp_all add: h_return_def)
qed

lemma begin_pass_parts:
  assumes "begin_pass pf pg v (db, w) = (r, (db', w'))"
  obtains (idle) vs where "started_passes v r = []" "db' = db\<lparr>db_validators := vs\<rparr>"
  | (tried) vs w1 where "started_passes v r = []" "\<not> db_lock db"
      "db' = (fst (snd (pass_prepare pf pg v (db\<lparr>db_validators := vs, db_lock := True\<rparr>, w1))))\<lparr>db_lock := False\<rparr>"
  | (prepared) vs w1 b l where "started_passes v r = [(v, b, l)]" "\<not> db_lock db" "r = Inr (Some (b, l))"
      "pass_prepare pf pg v (db\<lparr>db_validators := vs, db_lock := True\<rparr>, w1) = (Inr (Some (b, l)), (db', w'))"
proof -
  obtain r1 db1 w1 where beat: "via_storage (pg_record_validator_heartbeat pg (vrt_validator_id v)) (db, w)
      = (r1, (db1, w1))" by (rule prod_cases3)
  obtain vs where vs: "db1 = db\<lparr>db_validators := vs\<rparr>" using heartbeat_db [OF beat] by blast
  obtain r2 where load: "pg_current_ledger pg (db1, w1) = (r2, (db1, w1))"
    using load_state [of pg "(db1, w1)"] by (cases "pg_current_ledger pg (db1, w1)") simp
  obtain r3 s3 where lock: "via_storage pg_try_acquire_block_production_lock (db1, w1) = (r3, s3)"
    by (rule prod.exhaust)
  consider (before) "started_passes v r = []" "(db', w') = (db1, w1)"
    | (locking) "(case r3 of Inl e \<Rightarrow> (Inl e, s3) | Inr acquired \<Rightarrow>
        (if \<not> acquired then h_return None else hold_lock (pass_prepare pf pg v)) s3) = (r, (db', w'))"
    using assms beat load lock unfolding begin_pass_def
    by (auto simp: h_bind_def h_lift_def h_return_def split: sum.splits if_splits)
  then show thesis
  proof cases
    case before
    then show thesis using idle vs by simp
  next
    case locking
    from lock show thesis
    proof (cases rule: try_lock_cases)
      case busy
      with locking idle vs show thesis by (auto simp: h_return_def)
    next
      case acquired
      then have held: "hold_lock (pass_prepare pf pg v) (db\<lparr>db_validators := vs, db_lock := True\<rparr>, w1)
          = (r, (db', w'))"
        using locking by (simp add: vs)
      have free: "\<not> db_lock db" using acquired(2) by (simp add: vs)
      from held show thesis
      proof (cases rule: hold_lock_cases)
        case (held x)
        with prepared [OF _ free] show thesis by (cases x) simp
      next
        case released
        have "started_passes v r = []"
          using released(1) by (cases "(v, r)" rule: started_passes.cases) auto
        then show thesis using tried [OF _ free] released(2) by simp
      qed
    qed
  qed
qed

lemma begin_pass_cases:
  assumes "begin_pass pf pg v (db, w) = (r, (db', w'))"
  obtains (idle) "started_passes v r = []" "\<And>S. kept pg S (db, w) (db', w')"
  | (tried) db1 w1 s2 where "started_passes v r = []" "\<not> db_lock db" "\<And>S. kept pg S (db, w) (db1, w1)"
      "kept pg {} (db1\<lparr>db_lock := True\<rparr>, w1) s2" "db' = fst s2\<lparr>db_lock := False\<rparr>"
  | (prepared) db1 w1 b l where "started_passes v r = [(v, b, l)]" "\<not> db_lock db"
      "\<And>S. kept pg S (db, w) (db1, w1)"
      "pass_prepare pf pg v (db1\<lparr>db_lock := True\<rparr>, w1) = (Inr (Some (b, l)), (db', w'))"
  using assms
proof (cases rule: begin_pass_parts)
  case (idle vs)
  then show thesis using that(1) by simp
next
  case (tried vs w1)
  let ?s = "(db\<lparr>db_validators := vs, db_lock := True\<rparr>, w1)"
  have "kept pg {} ?s (snd (pass_prepare pf pg v ?s))" using keeps_prepare by (simp add: keeps_def)
  then show thesis using that(2) [of "db\<lparr>db_validators := vs\<rparr>" w1, OF tried(1,2)] tried(3) by simp
next
  case (prepared vs w1 b l)
  then show thesis using that(3) [of b l "db\<lparr>db_validators := vs\<rparr>" w1] by simp
qed

lemma network_ok_begin:
  assumes ok: "network_ok pg \<lparr>net_db = db, net_env = w, net_passes = ps, net_seeders = ss\<rparr>"
    and run: "begin_pass pf pg v (db, w) = (r, (db', w'))"
  shows "network_ok pg \<lparr>net_db = db', net_env = w', net_passes = started_passes v r @ ps, net_seeders = ss\<rparr>"
  using run
proof (cases rule: begin_pass_cases)
  case idle
  then show ?thesis using network_ok_kept [OF ok] by simp
next
  case (tried db1 w1 s2)
  note ok1 = network_ok_kept [OF ok tried(3)]
  have "ps = []" using ok tried(2) by (auto simp: network_ok_def passes_ok_def)
  with ok1 obtain txs where inv: "rows_ok pg (db_transactions db1)" "balances_ok db1" "db_follows txs db1"
    "db_accounts db1 \<noteq> []" "\<forall>snap \<in> set ss. snap_accounts snap \<noteq> []" by (auto simp: network_ok_def)
  obtain db2 w2 where s2: "s2 = (db2, w2)" by force
  note d = db_follows_kept [OF tried(4) [unfolded s2], simplified, OF inv(1)]
  have "db_accounts db2 \<noteq> []" using tried(4) inv(4) by (simp add: s2 kept_def)
  with d inv show ?thesis
    unfolding \<open>ps = []\<close> network_ok_def passes_ok_def by (auto simp: tried(1,5) s2)
next
  case (prepared db1 w1 b l)
  note ok1 = network_ok_kept [OF ok prepared(3)]
  have "ps = []" using ok prepared(2) by (auto simp: network_ok_def passes_ok_def)
  with ok1 obtain txs where inv: "rows_ok pg (db_transactions db1)" "balances_ok db1" "db_follows txs db1"
    "db_accounts db1 \<noteq> []" "\<forall>snap \<in> set ss. snap_accounts snap \<noteq> []" by (auto simp: network_ok_def)
  have r: "ready txs db' b l"
    "kept pg (tx_id ` set (blk_txs b)) (db1\<lparr>db_lock := True\<rparr>, w1) (db', w')"
    using pass_prepare_ready [OF _ _ _ prepared(4), of txs] inv by simp_all
  note d = db_follows_kept [OF r(2), simplified, OF inv(1)]
  have "db_accounts db' \<noteq> []" "db_lock db'" using r(2) inv(4) by (simp_all add: kept_def)
  with d inv r(1) show ?thesis
    unfolding \<open>ps = []\<close> network_ok_def passes_ok_def by (auto simp: prepared(1))
qed

lemma record_finalized_db:
  "via_storage (pg_record_validator_finalized_block pg i b) (db, w) = (r, (db', w')) \<Longrightarrow>
     \<exists>vs. db' = db\<lparr>db_validators := vs\<rparr>"
  by (auto simp: via_storage_def pg_record_validator_finalized_block_def upsert_validator_row_def
      h_bind_def db_draw_def db_execute_def Let_def res_simps split: prod.splits sum.splits
      intro: exI [of _ "db_validators db"])

lemma finish_pass_db:
  assumes "finish_pass pg v b l (db, w) = (r, (db', w'))"
  obtains r1 db1 w1 vs where "pg_save_snapshot pg (ledger_to_snapshot l) (db, w) = (r1, (db1, w1))"
    and "db' = db1\<lparr>db_validators := vs, db_lock := False\<rparr>" and "is_ok r \<Longrightarrow> r1 = Inr ()"
proof -
  obtain r1 db1 w1 where save: "pg_save_snapshot pg (ledger_to_snapshot l) (db, w) = (r1, (db1, w1))"
    by (rule prod_cases3)
  obtain r2 db2 w2 where rec: "via_storage (pg_record_validator_finalized_block pg (vrt_validator_id v) b)
      (db1, w1) = (r2, (db2, w2))" by (rule prod_cases3)
  obtain vs where vs: "db2 = db1\<lparr>db_validators := vs\<rparr>" using record_finalized_db [OF rec] by blast
  have via: "via_storage (pg_save_snapshot pg (ledger_to_snapshot l)) (db, w) = (map_err NodeStorage r1, (db1, w1))"
    using save by (simp add: via_storage_def)
  have commit: "pass_commit pg v b l (db, w) = (case r1 of Inl e \<Rightarrow> (Inl (NodeStorage e), (db1, w1))
      | Inr u \<Rightarrow> (case r2 of Inl e \<Rightarrow> (Inl e, (db2, w2)) | Inr u \<Rightarrow> (Inr (Some b), (db2, w2))))"
    by (simp add: pass_commit_def h_bind_def h_return_def via rec split: sum.split del: via_storage_ok)
  have db': "db' = (fst (snd (pass_commit pg v b l (db, w))))\<lparr>db_lock := False\<rparr>"
    using release_after_db [OF assms [unfolded finish_pass_def]] by simp
  have ok: "is_ok r \<Longrightarrow> is_ok (fst (pass_commit pg v b l (db, w)))"
    using assms by (auto simp: finish_pass_def release_after_def split: prod.splits sum.splits)
  show thesis
  proof (cases r1)
    case (Inl e)
    then show thesis using that [OF save, of "db_validators db1"] db' ok by (auto simp: commit)
  next
    case (Inr u)
    then have "db' = db2\<lparr>db_lock := False\<rparr>" using db' by (simp add: commit split: sum.split)
    then show thesis using that [OF save, of vs] Inr vs by simp
  qed
qed

lemma books_validators [simp]:
  "balances_ok (db\<lparr>db_validators := x\<rparr>) = balances_ok db"
  "db_follows txs (db\<lparr>db_validators := x\<rparr>) = db_follows txs db"
  by (simp_all add: balances_ok_def db_balance_map_def db_follows_def finalized_txs_def)

text \<open>What the save of a pass leaves, whether it fails or not.\<close>

lemma finish_saved:
  assumes "pg_save_snapshot pg (ledger_to_snapshot l) (db, w) = (r1, (db1, w1))"
    and inv: "rows_ok pg (db_transactions db)" "balances_ok db" "db_follows txs db" "ready txs db b l"
  shows "rows_ok pg (db_transactions db1)" "balances_ok db1" "\<exists>txs. db_follows txs db1"
    "rows_kept (db_transactions db) (db_transactions db1)"
    "db_accounts db \<noteq> [] \<Longrightarrow> db_accounts db1 \<noteq> []"
proof -
  have "rows_ok pg (db_transactions db1) \<and> balances_ok db1 \<and> (\<exists>txs. db_follows txs db1) \<and>
    rows_kept (db_transactions db) (db_transactions db1) \<and> (db_accounts db \<noteq> [] \<longrightarrow> db_accounts db1 \<noteq> [])"
    using assms(1)
  proof (cases rule: save_snapshot_cases)
    case (saved now)
    then show ?thesis
      using save_books [OF assms(1) [unfolded saved(1)] inv(1,2,4)]
        save_statements_accounts(1) [OF saved(2)] by auto
  qed (use inv in auto)
  then show "rows_ok pg (db_transactions db1)" "balances_ok db1" "\<exists>txs. db_follows txs db1"
    "rows_kept (db_transactions db) (db_transactions db1)"
    "db_accounts db \<noteq> [] \<Longrightarrow> db_accounts db1 \<noteq> []" by blast+
qed

lemma network_ok_finish:
  assumes ok: "network_ok pg \<lparr>net_db = db, net_env = w, net_passes = ps @ (v, b, l) # qs, net_seeders = ss\<rparr>"
    and run: "finish_pass pg v b l (db, w) = (r, (db', w'))"
  shows "network_ok pg \<lparr>net_db = db', net_env = w', net_passes = ps @ qs, net_seeders = ss\<rparr>"
proof -
  from ok obtain txs where inv: "rows_ok pg (db_transactions db)" "balances_ok db" "db_follows txs db"
    "ready txs db b l" "db_accounts db \<noteq> []" "\<forall>snap \<in> set ss. snap_accounts snap \<noteq> []" and "ps = []" "qs = []"
    by (auto simp: network_ok_def passes_ok_def)
  obtain r1 db1 w1 vs where save: "pg_save_snapshot pg (ledger_to_snapshot l) (db, w) = (r1, (db1, w1))"
    and db': "db' = db1\<lparr>db_validators := vs, db_lock := False\<rparr>"
    by (rule finish_pass_db [OF run])
  show ?thesis
    using finish_saved [OF save inv(1-4)] inv(5,6)
    unfolding \<open>ps = []\<close> \<open>qs = []\<close> by (auto simp: db' network_ok_def passes_ok_def)
qed

lemma network_ok_step:
  assumes "pg_ok pg" "network_step pf pg n n'" "network_ok pg n"
  shows "network_ok pg n'"
  using assms(2,3)
proof cases
  case (net_client db w db' w' ps ss)
  then show ?thesis using network_ok_kept client_step_kept [OF assms(1)] assms(3) by metis
next
  case (net_load db w snap db' w' ps ss)
  have "db' = db" "snap_accounts snap \<noteq> []"
    using loaded_accounts [OF net_load(3)] assms(3) net_load(1) by (auto simp: network_ok_def)
  then show ?thesis using assms(3) net_load(1,2) by (auto simp: network_ok_def passes_ok_def)
next
  case (net_seed snap db w r db' w' ps ss ts)
  have "network_ok pg \<lparr>net_db = db, net_env = w, net_passes = ps, net_seeders = ss @ ts\<rparr>"
    and "snap_accounts snap \<noteq> []"
    using assms(3) net_seed(1) by (auto simp: network_ok_def passes_ok_def)
  then show ?thesis using network_ok_kept seed_from_kept [OF _ net_seed(3)] net_seed(2) by metis
next
  case (net_begin v db w r db' w' ps ss)
  then show ?thesis using network_ok_begin assms(3) by metis
next
  case (net_finish v b l db w r db' w' ps qs ss)
  then show ?thesis using network_ok_finish assms(3) by metis
next
  case (net_lost db w ps v b l qs ss)
  then show ?thesis using assms(3) by (auto simp: network_ok_def passes_ok_def)
qed

section \<open>The start\<close>

lemma sandbox_institutions_frame:
  "led_blocks (fst (sandbox_institutions w xs l)) = led_blocks l"
  "led_payments (fst (sandbox_institutions w xs l)) = led_payments l"
  by (induction xs arbitrary: w l) (auto simp: upsert_institution_def split: prod.split)

lemma sandbox_accounts_frame:
  "led_blocks (fst (sandbox_accounts w xs l)) = led_blocks l"
  "led_payments (fst (sandbox_accounts w xs l)) = led_payments l"
  "led_accounts l \<noteq> [] \<or> xs \<noteq> [] \<Longrightarrow> led_accounts (fst (sandbox_accounts w xs l)) \<noteq> []"
proof -
  have nonempty: "hm_insert k v m \<noteq> []" for k and v :: account and m
    by (cases m) (auto simp: hm_insert_def)
  show "led_blocks (fst (sandbox_accounts w xs l)) = led_blocks l"
    "led_payments (fst (sandbox_accounts w xs l)) = led_payments l"
    by (induction xs arbitrary: w l) (auto simp: upsert_account_def split: prod.split)
  show "led_accounts l \<noteq> [] \<or> xs \<noteq> [] \<Longrightarrow> led_accounts (fst (sandbox_accounts w xs l)) \<noteq> []"
  proof (induction xs arbitrary: w l)
    case (Cons x xs)
    then show ?case by (cases x) (simp add: case_prod_unfold Let_def upsert_account_def nonempty)
  qed simp
qed

lemma balance_row_frame:
  "led_blocks (ensure_balance_row a s l) = led_blocks l"
  "led_payments (ensure_balance_row a s l) = led_payments l"
  "led_accounts (ensure_balance_row a s l) = led_accounts l"
  by (auto simp: ensure_balance_row_def Let_def split: option.split)

lemma sandbox_snapshot:
  "snap_payments (ledger_to_snapshot (fst (ledger_sandbox w))) = []"
  "snap_accounts (ledger_to_snapshot (fst (ledger_sandbox w))) \<noteq> []"
  "led_blocks (fst (ledger_sandbox w)) = []"
proof -
  have "led_accounts (fst (ledger_sandbox w)) \<noteq> []" "led_blocks (fst (ledger_sandbox w)) = []"
    "led_payments (fst (ledger_sandbox w)) = []"
    unfolding ledger_sandbox_def Let_def case_prod_unfold fst_conv balance_row_frame
    by (simp_all only: sandbox_accounts_frame sandbox_institutions_frame list.distinct(2)
        simp_thms not_False_eq_True) (simp_all add: ledger_empty_def)
  then show "snap_payments (ledger_to_snapshot (fst (ledger_sandbox w))) = []"
    "snap_accounts (ledger_to_snapshot (fst (ledger_sandbox w))) \<noteq> []"
    "led_blocks (fst (ledger_sandbox w)) = []"
    by (simp_all add: ledger_to_snapshot_def accounts_def hm_values_def)
qed

lemma network_started_saved:
  assumes "network_started pg n"
  obtains w now where "save_statements pg now (ledger_to_snapshot (fst (ledger_sandbox w)))
    database_empty = Inr (net_db n)" "net_passes n = []" "net_seeders n = []"
proof -
  obtain w where seed: "pg_ensure_sandbox_seed pg (database_empty, w) = (Inr (), (net_db n, net_env n))"
    and ps: "net_passes n = []" "net_seeders n = []"
    using assms by (auto simp: network_started_def)
  obtain snap s1 where load: "pg_load_snapshot pg (database_empty, w) = (Inr snap, s1)"
    using seed by (auto simp: pg_ensure_sandbox_seed_def elim: h_bind_okE)
  have "s1 = (database_empty, w)" "snap_accounts snap = []"
    by (rule load_snapshot_ok [OF load], simp) (rule load_snapshot_ok [OF load], simp add: database_empty_def)
  then have "h_bind (db_draw ledger_sandbox) (\<lambda>l. pg_save_snapshot pg (ledger_to_snapshot l))
      (database_empty, w) = (Inr (), (net_db n, net_env n))"
    using seed load by (simp add: pg_ensure_sandbox_seed_def pg_seed_from_def h_bind_def)
  then obtain w1 where save: "pg_save_snapshot pg (ledger_to_snapshot (fst (ledger_sandbox w)))
      (database_empty, w1) = (Inr (), (net_db n, net_env n))"
    by (auto simp: h_bind_def db_draw_def split: prod.splits)
  from save show thesis
    by (cases rule: save_snapshot_cases) (use that ps in auto)
qed

lemma network_ok_start:
  assumes "network_started pg n"
  shows "network_ok pg n"
proof -
  obtain w now where saved: "save_statements pg now (ledger_to_snapshot (fst (ledger_sandbox w)))
      database_empty = Inr (net_db n)" and ps: "net_passes n = []" "net_seeders n = []"
    by (rule network_started_saved [OF assms])
  let ?l = "fst (ledger_sandbox w)"
  obtain d4 d4' d6 d6' where d4: "db_balances d4 = db_balances database_empty"
    "db_balances (net_db n) = db_balances d4'"
    "save_all (save_balance pg now) (snap_balances (ledger_to_snapshot ?l)) d4 = Inr d4'"
    and d6: "db_transactions d6 = db_transactions database_empty"
    "db_transactions (net_db n) = db_transactions d6'"
    "save_all (save_payment pg) (snap_payments (ledger_to_snapshot ?l)) d6 = Inr d6'"
    and lock: "db_lock (net_db n) = db_lock database_empty"
    by (rule save_statements_ok [OF saved])
  have tx: "db_transactions (net_db n) = []" using d6 by (simp add: sandbox_snapshot database_empty_def)
  have f: "follows [] (working_copy ?l)"
    using reachable_follows [OF sandbox_reachable [of w]] by (simp add: chain_txs_def sandbox_snapshot)
  then have wf: "hm_wf (led_balances ?l)" by (simp add: follows_def balances_follow_def)
  have bal: "set (db_balance_map d4') = set (led_balances ?l)" "balances_ok d4'"
    using save_balances_books [OF d4(3) wf] d4(1)
    by (simp_all add: balances_ok_def db_balance_map_def database_empty_def)
  then have ok: "balances_ok (net_db n)" "db_balance_map (net_db n) = db_balance_map d4'"
    using d4(2) by (simp_all add: balances_ok_def db_balance_map_def)
  then have wf': "hm_wf (db_balance_map d4')" by (simp add: balances_ok_def)
  have gets: "hm_get (db_balance_map d4') k = hm_get (led_balances ?l) k" for k
    using hm.entries_get [OF wf', of k] hm.entries_get [OF wf, of k] bal(1) by (intro option_eqI) simp
  have "follows [] ((working_copy ?l)\<lparr>work_balances := db_balance_map (net_db n)\<rparr>)"
    by (rule follows_transfer [OF f])
      (simp_all add: ok(2) wf' gets asset_total_same_gets [OF wf' wf gets])
  then have "db_follows [] (net_db n)"
    unfolding db_follows_def finalized_txs_def tx
    by (intro conjI exI [of _ "(working_copy ?l)\<lparr>work_balances := db_balance_map (net_db n)\<rparr>"]) simp_all
  moreover have "rows_ok pg (db_transactions (net_db n))" by (simp add: tx rows_ok_def)
  ultimately show ?thesis
    using ok(1) ps lock save_statements_accounts(2) [OF saved sandbox_snapshot(2)]
    by (auto simp: network_ok_def passes_ok_def database_empty_def)
qed

lemma network_ok_reachable: "network_reachable pf pg n \<Longrightarrow> pg_ok pg \<Longrightarrow> network_ok pg n"
  by (induction rule: network_reachable.induct) (auto intro: network_ok_start network_ok_step)

section \<open>Rows through the steps\<close>

lemma network_step_rows:
  assumes "pg_ok pg" "network_step pf pg n n'" "network_ok pg n"
  shows "rows_kept (db_transactions (net_db n)) (db_transactions (net_db n'))"
  using assms(2,3)
proof cases
  case (net_client db w db' w' ps ss)
  then show ?thesis
    using kept_rows_kept [OF client_step_kept [OF assms(1) net_client(3)]] assms(3)
    by (simp add: network_ok_def)
next
  case (net_load db w snap db' w' ps ss)
  then show ?thesis using loaded_accounts(1) [OF net_load(3)] by simp
next
  case (net_seed snap db w r db' w' ps ss ts)
  have "snap_accounts snap \<noteq> []" "rows_ok pg (db_transactions db)"
    using assms(3) net_seed(1) by (auto simp: network_ok_def)
  then show ?thesis
    using kept_rows_kept [OF seed_from_kept [of snap pg "(db, w)" r "(db', w')" "{}"]] net_seed by simp
next
  case (net_begin v db w r db' w' ps ss)
  have ok: "rows_ok pg (db_transactions db)" using assms(3) net_begin(1) by (simp add: network_ok_def)
  have two: "rows_kept (db_transactions db) (db_transactions db2)"
    if k1: "kept pg {} (db, w) (db1, w1)" and k2: "kept pg {} (db1\<lparr>db_lock := True\<rparr>, w1) (db2, w2)"
    for db1 w1 db2 w2
    using kept_rows_kept [OF k1 ok] kept_rows_kept [OF k2] db_follows_kept(1) [OF k1 ok]
    by (auto intro: rows_kept_trans)
  from net_begin(3) have "rows_kept (db_transactions db) (db_transactions db')"
  proof (cases rule: begin_pass_cases)
    case idle
    then show ?thesis using kept_rows_kept ok by blast
  next
    case (tried db1 w1 s2)
    obtain db2 w2 where s2: "s2 = (db2, w2)" by (rule prod.exhaust)
    have "rows_kept (db_transactions db) (db_transactions db2)"
      by (rule two [OF tried(3)]) (use tried(4) s2 in simp)
    then show ?thesis by (simp add: tried(5) s2)
  next
    case (prepared db1 w1 b l)
    show ?thesis by (rule two [OF prepared(3) keepsD [OF keeps_prepare prepared(4)]])
  qed
  then show ?thesis using net_begin(1,2) by simp
next
  case (net_finish v b l db w r db' w' ps qs ss)
  from assms(3) net_finish(1) obtain txs where inv: "rows_ok pg (db_transactions db)" "balances_ok db"
    and f: "db_follows txs db" and ready: "ready txs db b l" by (auto simp: network_ok_def passes_ok_def)
  obtain r1 db1 w1 vs where save: "pg_save_snapshot pg (ledger_to_snapshot l) (db, w) = (r1, (db1, w1))"
    and db': "db' = db1\<lparr>db_validators := vs, db_lock := False\<rparr>"
    by (rule finish_pass_db [OF net_finish(3)])
  show ?thesis using finish_saved(4) [OF save inv f ready] net_finish(1,2) by (simp add: db')
next
  case (net_lost db w ps v b l qs ss)
  then show ?thesis by simp
qed

end
