(* ===== verification/Kani_Pg_Chain.thy ===== *)
theory Kani_Pg_Chain
  imports Kani_Pg_Session
begin

text \<open>
  The block table of the database as a hash chain: the rows stand in the order of their heights,
  without a gap, and each names the hash of the one before. A block a pass prepared continues the
  chain of the table, whatever the other sessions do before it is saved.
\<close>

section \<open>The chain of the table\<close>

definition rows_linked :: "block_row list \<Rightarrow> bool" where
  "rows_linked rows \<longleftrightarrow> (\<forall>i < length rows. bkr_height (rows ! i) = int i + 1 \<and> bkr_hash (rows ! i) \<noteq> [] \<and>
     bkr_prev_hash (rows ! i) = (if i = 0 then GENESIS_HASH else bkr_hash (rows ! (i - 1))))"

definition short_chain :: "database \<Rightarrow> bool" where
  "short_chain db \<longleftrightarrow> length (db_blocks db) \<le> 2 ^ 62"

definition next_link :: "block_row list \<Rightarrow> block \<Rightarrow> bool" where
  "next_link rows b \<longleftrightarrow> blk_height b = int (length rows) + 1 \<and> blk_hash b \<noteq> [] \<and>
     blk_prev_hash b = (if rows = [] then GENESIS_HASH else bkr_hash (last rows))"

definition chained :: "database \<Rightarrow> block \<Rightarrow> ledger \<Rightarrow> bool" where
  "chained db b l \<longleftrightarrow> (short_chain db \<longrightarrow> next_link (db_blocks db) b \<and>
     (\<exists>bs. led_blocks l = bs @ [b] \<and> map blk_height bs = map bkr_height (db_blocks db)))"

definition chain_ok :: "network \<Rightarrow> bool" where
  "chain_ok n \<longleftrightarrow> (short_chain (net_db n) \<longrightarrow> rows_linked (db_blocks (net_db n))) \<and>
     (\<forall>(v, b, l) \<in> set (net_passes n). chained (net_db n) b l)"

lemma rows_linked_snoc:
  assumes "rows_linked rows" "next_link rows b"
  shows "rows_linked (rows @ [block_to_row pg b])"
  using assms by (auto simp: rows_linked_def next_link_def block_to_row_def nth_append less_Suc_eq
      last_conv_nth)

lemma linked_heights: "rows_linked rows \<Longrightarrow> map bkr_height rows = map (\<lambda>i. int i + 1) [0..<length rows]"
  by (rule nth_equalityI) (simp_all add: rows_linked_def)

lemma linked_sorted:
  assumes "rows_linked rows"
  shows "sort_key bkr_height rows = rows"
proof -
  have "sorted (map bkr_height rows)"
    unfolding linked_heights [OF assms] by (auto simp: sorted_wrt_iff_nth_less)
  then show ?thesis by (simp add: sort_key_id_if_sorted)
qed

section \<open>Preparing and saving\<close>

lemma loaded_blocks:
  assumes "pg_current_ledger pg (db, w) = (Inr l, s)" "rows_linked (db_blocks db)"
  shows "map blk_height (led_blocks l) = map bkr_height (db_blocks db)"
    and "map blk_hash (led_blocks l) = map bkr_hash (db_blocks db)"
proof -
  obtain snap where snap: "pg_load_snapshot pg (db, w) = (Inr snap, s)" and l: "l = from_snapshot snap"
    by (rule current_ledger_ok [OF assms(1)])
  obtain by_block where bs: "blocks_from_rows (sort_key bkr_height (db_blocks db)) by_block
        = Inr (snap_blocks snap)"
    by (rule load_snapshot_ok [OF snap])
  have "collect_results (map (\<lambda>r. block_from_row r (f r)) rows) = Inr bs \<Longrightarrow>
      map blk_height bs = map bkr_height rows \<and> map blk_hash bs = map bkr_hash rows" for f rows bs
    by (induction rows arbitrary: bs) (auto simp: res_simps block_from_row_def)
  with bs show "map blk_height (led_blocks l) = map bkr_height (db_blocks db)"
    "map blk_hash (led_blocks l) = map bkr_hash (db_blocks db)"
    unfolding blocks_from_rows_def linked_sorted [OF assms(2)] by (simp_all add: l from_snapshot_def)
qed

lemma applied_chained:
  assumes load: "pg_current_ledger pg (db, w) = (Inr l, s)"
    and ap: "apply_block w1 b l = (Inr rs, l', w2)"
    and linked: "short_chain db \<Longrightarrow> rows_linked (db_blocks db)"
  shows "chained db b l'"
  unfolding chained_def
proof (intro impI conjI)
  assume short: "short_chain db"
  note bs = loaded_blocks [OF load linked [OF short]]
  have len: "length (led_blocks l) = length (db_blocks db)" using bs(1) by (metis length_map)
  obtain work es where links: "block_links l b" and l': "l' = (commit_working work l)
        \<lparr>led_payments := insert_records rs (led_payments l),
         led_audit_events := led_audit_events l @ es, led_blocks := led_blocks l @ [b]\<rparr>"
    using ap by (rule apply_block_ok)
  have "int (length (db_blocks db)) \<le> 2 ^ 62" using short by (simp add: short_chain_def)
  then have "next_height l = int (length (db_blocks db)) + 1"
    by (simp add: next_height_def len i64_wrap_id)
  moreover have "last_hash l = (if db_blocks db = [] then GENESIS_HASH else bkr_hash (last (db_blocks db)))"
    using bs(2) len by (cases "led_blocks l" rule: rev_cases; cases "db_blocks db" rule: rev_cases)
      (auto simp: last_hash_def latest_block_def)
  ultimately show "next_link (db_blocks db) b" using links by (simp add: next_link_def block_links_def)
  show "\<exists>bs. led_blocks l' = bs @ [b] \<and> map blk_height bs = map bkr_height (db_blocks db)"
    using bs(1) by (simp add: l')
qed

lemma prepared_chained:
  assumes inv: "rows_ok pg (db_transactions db)" "balances_ok db" "db_follows txs db"
    and linked: "short_chain db \<Longrightarrow> rows_linked (db_blocks db)"
    and run: "pass_prepare pf pg v (db, w) = (Inr (Some (b, l')), (db', w'))"
  shows "chained db' b l'"
proof -
  obtain l s1 rs w2 w3 where load: "pg_current_ledger pg (db, w) = (Inr l, s1)"
    and ap: "apply_block w2 b l = (Inr rs, l', w3)"
    using pass_prepare_parts [OF run] by blast
  have "db_blocks db' = db_blocks db" using keepsD [OF keeps_prepare run] by (simp add: kept_def)
  with applied_chained [OF load ap linked] show ?thesis by (simp add: chained_def short_chain_def)
qed

context upsert_table
begin

lemma save_all_length: "save_all save xs db = Inr db' \<Longrightarrow> length (rows db) \<le> length (rows db')"
proof (induction xs arbitrary: db)
  case (Cons x xs)
  then obtain db1 where first: "save x db = Inr db1" and rest: "save_all save xs db1 = Inr db'"
    by (auto simp: res_simps)
  have "length (rows db) \<le> length (rows db1)" using save_row [OF first] by (auto split: if_splits)
  with Cons.IH [OF rest] show ?case by simp
qed simp

end

lemma saved_blocks:
  assumes save: "save_statements pg now (ledger_to_snapshot l) db = Inr db1"
    and short: "short_chain db" and linked: "rows_linked (db_blocks db)" and c: "chained db b l"
  shows "db_blocks db1 = db_blocks db @ [block_to_row pg b]"
proof -
  obtain d5 d5' where d5: "db_blocks d5 = db_blocks db" "db_blocks db1 = db_blocks d5'"
    "save_all (save_block pg) (snap_blocks (ledger_to_snapshot l)) d5 = Inr d5'"
    by (rule save_statements_ok [OF save])
  have snap: "snap_blocks (ledger_to_snapshot l) = led_blocks l"
    by (simp add: ledger_to_snapshot_def)
  obtain rs where enc: "list_all2 (\<lambda>b r. Inr (block_to_row pg b) = (Inr r :: ledger_storage_error + block_row)) (led_blocks l) rs"
    and rows: "distinct (map bkr_height rs) \<longrightarrow> db_blocks db1 = map (merged bkr_height (\<lambda>row old. old) rs) (db_blocks db)
      @ filter (\<lambda>row. bkr_height row \<notin> bkr_height ` set (db_blocks db)) rs"
    using block_table.save_all_rows [OF d5(3)] unfolding d5 snap by blast
  have rs: "rs = map (block_to_row pg) (led_blocks l)"
    using enc by (induction rule: list_all2_induct) simp_all
  obtain bs where bs: "led_blocks l = bs @ [b]" "map blk_height bs = map bkr_height (db_blocks db)"
    and next_b: "next_link (db_blocks db) b"
    using c short by (auto simp: chained_def)
  have hs: "map bkr_height rs = map (\<lambda>i. int i + 1) [0..<length (db_blocks db)] @ [int (length (db_blocks db)) + 1]"
    using bs(2) linked_heights [OF linked] next_b
    by (simp add: rs bs(1) block_to_row_def next_link_def o_def)
  have "distinct (map bkr_height rs)" unfolding hs by (auto simp: distinct_map inj_on_def)
  moreover have "merged bkr_height (\<lambda>row old. old) rs r = r" for r
    by (simp add: merged_def split: option.split)
  moreover have "filter (\<lambda>row. bkr_height row \<notin> bkr_height ` set (db_blocks db)) rs = [block_to_row pg b]"
  proof -
    have set: "bkr_height ` set (db_blocks db) = set (map blk_height bs)" using bs(2) by simp
    have "int (length (db_blocks db)) + 1 \<notin> set (map bkr_height (db_blocks db))"
      unfolding linked_heights [OF linked] by auto
    then have "blk_height b \<notin> set (map blk_height bs)" using next_b bs(2) by (simp add: next_link_def)
    then show ?thesis unfolding set
      by (simp add: rs bs(1) block_to_row_def filter_empty_conv)
  qed
  ultimately show ?thesis using rows by (simp add: map_idI)
qed

lemma saved_linked:
  assumes save: "pg_save_snapshot pg (ledger_to_snapshot l) (db, w) = (r1, (db1, w1))"
    and linked: "short_chain db \<Longrightarrow> rows_linked (db_blocks db)" and c: "chained db b l"
  shows "short_chain db1 \<Longrightarrow> rows_linked (db_blocks db1)"
    and "length (db_blocks db) \<le> length (db_blocks db1)"
proof -
  have "length (db_blocks db) \<le> length (db_blocks db1) \<and>
      (short_chain db \<longrightarrow> short_chain db1 \<longrightarrow> rows_linked (db_blocks db1))"
    using save
  proof (cases rule: save_snapshot_cases)
    case (saved now)
    obtain d5 d5' where d5: "db_blocks d5 = db_blocks db" "db_blocks db1 = db_blocks d5'"
      "save_all (save_block pg) (snap_blocks (ledger_to_snapshot l)) d5 = Inr d5'"
      by (rule save_statements_ok [OF saved(2)])
    have grow: "length (db_blocks db) \<le> length (db_blocks db1)"
      using block_table.save_all_length [OF d5(3)] by (simp add: d5)
    have "rows_linked (db_blocks db1)" if short: "short_chain db"
    proof -
      have "next_link (db_blocks db) b" using c short by (simp add: chained_def)
      then show ?thesis
        unfolding saved_blocks [OF saved(2) short linked [OF short] c] by (rule rows_linked_snoc [OF linked [OF short]])
    qed
    with grow show ?thesis by blast
  qed (use linked in auto)
  then show "length (db_blocks db) \<le> length (db_blocks db1)"
    "short_chain db1 \<Longrightarrow> rows_linked (db_blocks db1)"
    by (auto simp: short_chain_def)
qed

section \<open>The chain of every reachable network\<close>

lemma kept_chain:
  assumes "kept pg S (db, w) (db', w')"
  shows "short_chain db' = short_chain db" "db_blocks db' = db_blocks db" "chained db' b l = chained db b l"
  using assms by (simp_all add: kept_def short_chain_def chained_def)

lemma chain_ok_kept:
  assumes "chain_ok \<lparr>net_db = db, net_env = w, net_passes = ps, net_seeders = ss\<rparr>" "kept pg S (db, w) (db', w')"
  shows "chain_ok \<lparr>net_db = db', net_env = w', net_passes = ps, net_seeders = ss\<rparr>"
  using assms(1) by (simp add: chain_ok_def kept_chain [OF assms(2)])

lemma chain_ok_step:
  assumes "pg_ok pg" "network_step pf pg n n'" "network_ok pg n" "chain_ok n"
  shows "chain_ok n'"
  using assms(2-4)
proof cases
  case (net_client db w db' w' ps ss)
  then show ?thesis using chain_ok_kept client_step_kept [OF assms(1)] assms(4) by metis
next
  case (net_load db w snap db' w' ps ss)
  have "db' = db" using loaded_accounts(1) [OF net_load(3)] by simp
  then show ?thesis using assms(4) net_load(1,2) by (simp add: chain_ok_def)
next
  case (net_seed snap db w r db' w' ps ss ts)
  have "snap_accounts snap \<noteq> []" using assms(3) net_seed(1) by (simp add: network_ok_def)
  moreover have "chain_ok \<lparr>net_db = db, net_env = w, net_passes = ps, net_seeders = ss @ ts\<rparr>"
    using assms(4) net_seed(1) by (simp add: chain_ok_def)
  ultimately show ?thesis using chain_ok_kept seed_from_kept [OF _ net_seed(3)] net_seed(2) by metis
next
  case (net_begin v db w r db' w' ps ss)
  have ok: "network_ok pg \<lparr>net_db = db, net_env = w, net_passes = ps, net_seeders = ss\<rparr>"
    and chain: "chain_ok \<lparr>net_db = db, net_env = w, net_passes = ps, net_seeders = ss\<rparr>"
    using assms(3,4) net_begin(1) by simp_all
  from net_begin(3) have "chain_ok \<lparr>net_db = db', net_env = w', net_passes = started_passes v r @ ps, net_seeders = ss\<rparr>"
  proof (cases rule: begin_pass_cases)
    case idle
    then show ?thesis using chain_ok_kept [OF chain idle(2)] by simp
  next
    case (tried db1 w1 s2)
    have "kept pg {} (db1\<lparr>db_lock := True\<rparr>, w1) (fst s2, snd s2)" using tried(4) by simp
    note k = kept_chain [OF this] kept_chain [OF tried(3)]
    show ?thesis using chain by (simp add: chain_ok_def tried(1,5) chained_def short_chain_def k(2,5))
  next
    case (prepared db1 w1 b l)
    note k = kept_chain [OF prepared(3)] kept_chain [OF keepsD [OF keeps_prepare prepared(4)]]
    obtain txs where inv: "rows_ok pg (db_transactions db1)" "balances_ok db1" "db_follows txs db1"
      using network_ok_kept [OF ok prepared(3)] by (auto simp: network_ok_def)
    have "chained db' b l"
      by (rule prepared_chained [OF _ _ _ _ prepared(4), of txs])
        (use inv chain k in \<open>simp_all add: chain_ok_def short_chain_def\<close>)
    then show ?thesis using chain by (simp add: chain_ok_def prepared(1) chained_def short_chain_def k(2,5))
  qed
  then show ?thesis using net_begin(1,2) by simp
next
  case (net_finish v b l db w r db' w' ps qs ss)
  have chain: "chain_ok \<lparr>net_db = db, net_env = w, net_passes = ps @ (v, b, l) # qs, net_seeders = ss\<rparr>"
    and "length (ps @ (v, b, l) # qs) \<le> 1"
    using assms(3,4) net_finish(1) by (auto simp: network_ok_def passes_ok_def)
  then have "ps = []" "qs = []" by auto
  obtain r1 db1 w1 vs where save: "pg_save_snapshot pg (ledger_to_snapshot l) (db, w) = (r1, (db1, w1))"
    and db': "db' = db1\<lparr>db_validators := vs, db_lock := False\<rparr>"
    by (rule finish_pass_db [OF net_finish(3)])
  show ?thesis
    using saved_linked(1) [OF save, of b] chain net_finish(2)
    unfolding \<open>ps = []\<close> \<open>qs = []\<close> by (auto simp: chain_ok_def db' short_chain_def)
next
  case (net_lost db w ps v b l qs ss)
  then show ?thesis using assms(4) by (auto simp: chain_ok_def chained_def short_chain_def)
qed

lemma chain_ok_start:
  assumes "network_started pg n"
  shows "chain_ok n"
proof -
  obtain w now where saved: "save_statements pg now (ledger_to_snapshot (fst (ledger_sandbox w)))
      database_empty = Inr (net_db n)" and ps: "net_passes n = []"
    by (rule network_started_saved [OF assms])
  obtain d5 d5' where d5: "db_blocks d5 = db_blocks database_empty" "db_blocks (net_db n) = db_blocks d5'"
    "save_all (save_block pg) (snap_blocks (ledger_to_snapshot (fst (ledger_sandbox w)))) d5 = Inr d5'"
    by (rule save_statements_ok [OF saved])
  have "snap_blocks (ledger_to_snapshot (fst (ledger_sandbox w))) = []"
    using sandbox_snapshot(3) by (simp add: ledger_to_snapshot_def)
  with d5 have "db_blocks (net_db n) = []" by (simp add: database_empty_def)
  with ps show ?thesis by (simp add: chain_ok_def rows_linked_def)
qed

lemma chain_ok_reachable: "network_reachable pf pg n \<Longrightarrow> pg_ok pg \<Longrightarrow> chain_ok n"
  by (induction rule: network_reachable.induct)
    (auto intro: chain_ok_start chain_ok_step network_ok_reachable)

end
