(* ===== verification/Kani_Pg_Props.thy ===== *)
theory Kani_Pg_Props
  imports Kani_Pg_Chain
begin

text \<open>The properties of a network of nodes and validators around one PostgreSQL database.\<close>

section \<open>The books\<close>

lemma chain_balance_mset: "mset txs = mset txs' \<Longrightarrow> chain_balance txs a s = chain_balance txs' a s"
  unfolding chain_balance_def by (metis mset_map sum_mset_sum_list)

lemma gross_minted_mset: "mset txs = mset txs' \<Longrightarrow> gross_minted txs s = gross_minted txs' s"
  unfolding gross_minted_def by (metis mset_map sum_mset_sum_list)

definition db_balance :: "database \<Rightarrow> string \<Rightarrow> string \<Rightarrow> int" where
  "db_balance db a s = balance_from (db_balance_map db) a s"

text \<open>
  Claim C3. Solvency of the database. Once one process has seeded the empty database, and provided
  no other process had read it before that, whatever the nodes, the processes that connect from
  then on (their load and their seeding are separate steps), the validators and the lost sessions
  do, and however their steps interleave, no stored balance is negative, and the balances of an
  asset add up to what the finalized transactions issued of it modulo \<open>2 ^ 128\<close>. As long as less
  than \<open>2 ^ 127\<close> units of it were minted, every balance is exactly the credits less the debits of
  the finalized transactions, and the balances add up exactly to the issued amount. The proviso is
  needed: \<open>stale_seed_resets_balances\<close> in \<open>Kani_Pg_Seeding\<close>.
\<close>

theorem database_solvency:
  assumes "network_reachable pf pg n" "pg_ok pg"
  shows "(\<forall>a. 0 \<le> db_balance (net_db n) a s) \<and>
    asset_total (db_balance_map (net_db n)) s mod 2 ^ 128 =
      chain_issued (finalized_txs (net_db n)) s mod 2 ^ 128 \<and>
    (gross_minted (finalized_txs (net_db n)) s < 2 ^ 127 \<longrightarrow>
      (\<forall>a. db_balance (net_db n) a s = chain_balance (finalized_txs (net_db n)) a s) \<and>
      asset_total (db_balance_map (net_db n)) s = chain_issued (finalized_txs (net_db n)) s)"
proof -
  obtain txs work where ok: "balances_ok (net_db n)" and m: "mset txs = mset (finalized_txs (net_db n))"
    and work: "work_balances work = db_balance_map (net_db n)" and f: "follows txs work"
    using network_ok_reachable [OF assms] by (auto simp: network_ok_def db_follows_def)
  note same = chain_balance_mset [OF m] chain_issued_mset [OF m] gross_minted_mset [OF m]
  have "0 \<le> db_balance (net_db n) a s" for a
  proof (cases "hm_get (db_balance_map (net_db n)) (a, s)")
    case (Some x)
    then have "((a, s), x) \<in> set (db_balance_map (net_db n))"
      using hm.entries_get [of "db_balance_map (net_db n)" "(a, s)" x] ok by (simp add: balances_ok_def)
    then show ?thesis using ok Some
      by (auto simp: db_balance_def balance_from_def balances_ok_def db_balance_map_def)
  qed (simp add: db_balance_def balance_from_def)
  moreover have "asset_total (db_balance_map (net_db n)) s mod 2 ^ 128 = chain_issued txs s mod 2 ^ 128"
    using f work by (simp add: follows_def total_follows_def i128_modulus_def)
  moreover have "exact_for s txs work" if "gross_minted txs s < 2 ^ 127"
    using f that by (simp add: follows_def)
  ultimately show ?thesis by (auto simp: same [symmetric] exact_for_def db_balance_def work)
qed

section \<open>Block production\<close>

text \<open>
  Claim C5. One block at a time. In every reachable network at most one validator is between the
  load and the save of its pass, the advisory lock of the database is taken exactly then, and a
  validator that begins a pass while it is taken prepares nothing.
\<close>

theorem block_production_exclusive:
  assumes "network_reachable pf pg n" "pg_ok pg"
  shows "length (net_passes n) \<le> 1 \<and> (db_lock (net_db n) \<longleftrightarrow> net_passes n \<noteq> []) \<and>
    (net_passes n \<noteq> [] \<longrightarrow> started_passes v (fst (begin_pass pf pg v (net_db n, net_env n))) = [])"
proof -
  have ok: "length (net_passes n) \<le> 1" "db_lock (net_db n) \<longleftrightarrow> net_passes n \<noteq> []"
    using network_ok_reachable [OF assms] by (auto simp: network_ok_def passes_ok_def)
  obtain r db' w' where run: "begin_pass pf pg v (net_db n, net_env n) = (r, (db', w'))"
    by (rule prod_cases3)
  then have "db_lock (net_db n) \<longrightarrow> started_passes v r = []"
    by (cases rule: begin_pass_cases) auto
  with ok run show ?thesis by simp
qed

text \<open>
  Claim C16. The stored chain. In every reachable network with at most \<open>2 ^ 62\<close> blocks the rows of
  the block table are a hash chain in the order they were inserted: the heights count from one
  without a gap, and each block names the hash of the one before, the first the genesis hash.
\<close>

theorem database_chain:
  assumes "network_reachable pf pg n" "pg_ok pg" "length (db_blocks (net_db n)) \<le> 2 ^ 62"
    and "i < length (db_blocks (net_db n))"
  shows "bkr_height (db_blocks (net_db n) ! i) = int i + 1 \<and> bkr_hash (db_blocks (net_db n) ! i) \<noteq> [] \<and>
    bkr_prev_hash (db_blocks (net_db n) ! i) =
      (if i = 0 then GENESIS_HASH else bkr_hash (db_blocks (net_db n) ! (i - 1)))"
  using chain_ok_reachable [OF assms(1,2)] assms(3,4)
  by (simp add: chain_ok_def short_chain_def rows_linked_def)

section \<open>Transactions\<close>

lemma network_run_rows:
  assumes "(network_step pf pg)\<^sup>*\<^sup>* n n'" "network_ok pg n" "pg_ok pg"
  shows "network_ok pg n' \<and> rows_kept (db_transactions (net_db n)) (db_transactions (net_db n'))"
  using assms(1)
proof (induction rule: rtranclp_induct)
  case (step m n')
  then show ?case
    using network_ok_step [OF assms(3)] network_step_rows [OF assms(3)] rows_kept_trans by blast
qed (use assms(2) in simp)

text \<open>
  Claim C4. No session takes back a transaction. Once a row is in the table it stays there in
  every later state of the network, with its identifier, its contents and its idempotency key;
  and once it is finalized it stays finalized.
\<close>

theorem stored_transactions_final:
  assumes "network_reachable pf pg n" "pg_ok pg" "(network_step pf pg)\<^sup>*\<^sup>* n n'"
    and "r \<in> set (db_transactions (net_db n))"
  shows "\<exists>r' \<in> set (db_transactions (net_db n')). tr_id r' = tr_id r \<and> row_tx r' = row_tx r \<and>
    tr_client_reference_id r' = tr_client_reference_id r \<and>
    tr_request_fingerprint r' = tr_request_fingerprint r \<and> (is_finalized r \<longrightarrow> is_finalized r')"
proof -
  have "rows_kept (db_transactions (net_db n)) (db_transactions (net_db n'))"
    using network_run_rows [OF assms(3) network_ok_reachable [OF assms(1,2)] assms(2)] by blast
  with assms(4) show ?thesis unfolding rows_kept_def row_kept_def row_tx_def by metis
qed

text \<open>A submission under a key that a row already carries.\<close>

lemma retry_fingerprint:
  "storage_ensure_idempotent_retry p tx c (Some f) = Inr u \<Longrightarrow> pay_request_fingerprint p = Some g \<Longrightarrow> f = g"
  by (auto simp: storage_ensure_idempotent_retry_def split: if_splits)

lemma submit_used_key:
  assumes ok: "rows_ok pg (db_transactions db)"
    and r: "r \<in> set (db_transactions db)" "tr_client_reference_id r = Some c"
    and run: "pg_node_submit_payment pf pg node a b s x (Some c) (db, w) = (res, (db', w'))"
  shows "db' = db" "res = Inr p \<Longrightarrow> pay_transaction p = row_tx r \<and>
    (\<forall>f. tr_request_fingerprint r = Some f \<longrightarrow> f = request_fingerprint pf node Transfer a b s x)"
proof -
  obtain q where q: "List.find (\<lambda>r. tr_client_reference_id r = Some c) (db_transactions db) = Some q"
    using r by (cases "List.find (\<lambda>r. tr_client_reference_id r = Some c) (db_transactions db)")
      (auto simp: find_None_iff)
  have "q \<in> set (db_transactions db)" "tr_client_reference_id q = Some c"
    using find_Some_in [OF q] by simp_all
  moreover from this have "same_reference q r" using r(2) by (simp add: same_reference_def)
  ultimately have "tr_id q = tr_id r" using ok r(1) unfolding rows_ok_def by blast
  then have "q = r"
    using ok r(1) \<open>q \<in> set (db_transactions db)\<close> inj_onD [of tr_id "set (db_transactions db)" q r]
    by (simp add: rows_ok_def distinct_map)
  note found = q [unfolded this]
  let ?f = "request_fingerprint pf node Transfer a b s x"
  have earlier: "pg_earlier_payment (Some c) tx (Some ?f) (db, w1) = (case payment_from_row (db_blocks db) r of
      Inl e \<Rightarrow> (Inl e, (db, w1))
    | Inr p \<Rightarrow> (case storage_ensure_idempotent_retry p tx c (Some ?f) of
        Inl e \<Rightarrow> (Inl e, (db, w1)) | Inr u \<Rightarrow> (Inr (Some p), (db, w1))))" for tx w1
    by (simp add: pg_earlier_payment_def pg_payment_by_client_reference_id_def h_bind_def db_query_def
        found h_lift_def h_return_def and_then_def split: sum.split)
  then have enqueue: "pg_enqueue_pending_transaction pg tx (Some c) (Some ?f) (db, w1) = (case payment_from_row (db_blocks db) r of
      Inl e \<Rightarrow> (Inl e, (db, w1))
    | Inr p \<Rightarrow> (case storage_ensure_idempotent_retry p tx c (Some ?f) of
        Inl e \<Rightarrow> (Inl e, (db, w1)) | Inr u \<Rightarrow> (Inr p, (db, w1))))" for tx w1
    by (simp add: pg_enqueue_pending_transaction_def h_bind_def h_return_def split: sum.split)
  have fp: "pay_request_fingerprint p = tr_request_fingerprint r"
    if "payment_from_row (db_blocks db) r = Inr p" for p
    using that by (auto simp: payment_from_row_def res_simps)
  obtain nonce where nonce: "via_storage (pg_next_nonce_for_account a) (db, w) = (nonce, (db, w))"
    by (simp add: via_storage_def pg_next_nonce_for_account_def db_query_def)
  have "db' = db \<and> (res = Inr p \<longrightarrow> payment_from_row (db_blocks db) r = Inr p \<and>
      (\<forall>f. tr_request_fingerprint r = Some f \<longrightarrow> f = ?f))"
  proof (cases nonce)
    case (Inl e)
    then show ?thesis using run nonce
      by (auto simp: pg_node_submit_payment_def Let_def h_bind_def simp del: via_storage_ok)
  next
    case (Inr k)
    obtain tx w1 where tx: "transaction_new_transfer w a b s x k = (tx, w1)" by (rule prod.exhaust)
    let ?tx = "with_idempotency_metadata (Some c) ?f tx"
    from run Inr nonce tx have "via_enqueue (pg_enqueue_pending_transaction pg ?tx (Some c) (Some ?f)) (db, w1)
        = (res, (db', w'))"
      by (simp add: pg_node_submit_payment_def Let_def h_bind_def draw_def enqueue_postgres_payment_def
          del: via_storage_ok)
    note out = this
    show ?thesis
    proof (cases "payment_from_row (db_blocks db) r")
      case (Inl e)
      with out show ?thesis by (auto simp: via_enqueue_def enqueue)
    next
      case (Inr q)
      show ?thesis
      proof (cases "storage_ensure_idempotent_retry q ?tx c (Some ?f)")
        case (Inl e)
        with out Inr show ?thesis by (auto simp: via_enqueue_def enqueue)
      next
        case ok: (Inr u)
        with out Inr have "res = Inr q" "db' = db" by (simp_all add: via_enqueue_def enqueue)
        with Inr show ?thesis using retry_fingerprint [OF ok] fp [OF Inr] by simp
      qed
    qed
  qed
  then show "db' = db" "res = Inr p \<Longrightarrow> pay_transaction p = row_tx r \<and>
      (\<forall>f. tr_request_fingerprint r = Some f \<longrightarrow> f = ?f)"
    using row_tx_payment(2) [of "db_blocks db" r p] by simp_all
qed

text \<open>
  Claim C6. Idempotency over the database. Once a transaction is stored under a client reference,
  a submission under the same reference at any later state of the network, through any node,
  changes nothing in the database, and if it is answered with a payment, that is the stored
  transaction, and the request has the fingerprint it was stored with.
\<close>

theorem stored_key_idempotent:
  assumes "network_reachable pf pg n" "pg_ok pg" "(network_step pf pg)\<^sup>*\<^sup>* n n'"
    and "r \<in> set (db_transactions (net_db n))" "tr_client_reference_id r = Some c"
    and "pg_node_submit_payment pf pg node a b s x (Some c) (net_db n', net_env n') = (res, (db', w'))"
  shows "db' = net_db n' \<and> (\<forall>p. res = Inr p \<longrightarrow> pay_transaction p = row_tx r \<and>
    (\<forall>f. tr_request_fingerprint r = Some f \<longrightarrow> f = request_fingerprint pf node Transfer a b s x))"
proof -
  have ok: "rows_ok pg (db_transactions (net_db n'))"
    and "rows_kept (db_transactions (net_db n)) (db_transactions (net_db n'))"
    using network_run_rows [OF assms(3) network_ok_reachable [OF assms(1,2)] assms(2)]
    by (auto simp: network_ok_def)
  then obtain r' where r': "r' \<in> set (db_transactions (net_db n'))" "row_kept r r'"
    using assms(4) unfolding rows_kept_def by blast
  then have "tr_client_reference_id r' = Some c" "row_tx r' = row_tx r"
    "tr_request_fingerprint r' = tr_request_fingerprint r"
    using assms(5) by (simp_all add: row_kept_def row_tx_def)
  note r'_sel = this
  show ?thesis
    using submit_used_key [OF ok r'(1) r'_sel(1) assms(6)] by (simp only: r'_sel) blast
qed

end
