(* ===== verification/Kani_Pg_Faults.thy ===== *)
theory Kani_Pg_Faults
  imports Kani_Pg_Props Kani_Node_Props
begin

text \<open>
  Two faults of the validators' passes: a pass writes back every institution
  as it was when the pass began, and a minted balance that does not fit the column stops block
  production.
\<close>

section \<open>A pass writes back the institutions it loaded\<close>

lemma loaded_institution:
  assumes load: "pg_current_ledger pg (db, w) = (Inr l, s)"
    and dist: "distinct (map ir_id (db_institutions db))"
    and row: "row \<in> set (db_institutions db)"
  obtains inst where "institution_from_row row = Inr inst" "inst \<in> set (institutions l)"
    "distinct (map inst_id (institutions l))"
proof -
  obtain snap where snap: "pg_load_snapshot pg (db, w) = (Inr snap, s)" and l: "l = from_snapshot snap"
    by (rule current_ledger_ok [OF load])
  let ?rows = "sort_key (\<lambda>r. pg_collate pg (ir_id r)) (db_institutions db)"
  have col: "collect_results (map institution_from_row ?rows) = Inr (snap_institutions snap)"
    by (rule load_snapshot_ok [OF snap])
  have all: "list_all2 (\<lambda>r i. institution_from_row r = Inr i) ?rows (snap_institutions snap)"
  proof -
    have "collect_results (map institution_from_row rs) = Inr is \<Longrightarrow>
        list_all2 (\<lambda>r i. institution_from_row r = Inr i) rs is" for rs "is"
      by (induction rs arbitrary: "is") (auto simp: res_simps)
    then show ?thesis using col .
  qed
  have "map inst_id (snap_institutions snap) = map ir_id ?rows"
    using all by (induction rule: list_all2_induct) (auto simp: institution_from_row_def res_simps)
  moreover have "distinct (map ir_id ?rows)"
    using dist mset_eq_imp_distinct_iff [of "map ir_id ?rows" "map ir_id (db_institutions db)"] by simp
  ultimately have d: "distinct (map inst_id (snap_institutions snap))" by simp
  then have "led_institutions l = map (\<lambda>i. (inst_id i, i)) (snap_institutions snap)"
    unfolding l from_snapshot_def ledger.simps by (intro hm_collect_distinct) (simp add: o_def)
  then have vals: "hm_values (led_institutions l) = snap_institutions snap"
    by (simp add: hm_values_def o_def)
  obtain inst where "institution_from_row row = Inr inst" "inst \<in> set (snap_institutions snap)"
    using list_all2_partner(2) [OF all, of row] row by auto
  moreover have "distinct (map inst_id (institutions l))"
    using d mset_eq_imp_distinct_iff [of "map inst_id (institutions l)" "map inst_id (snap_institutions snap)"]
    by (simp add: institutions_def vals)
  ultimately show thesis using that by (simp add: institutions_def vals)
qed

lemma saved_institution:
  assumes save: "save_statements pg now (ledger_to_snapshot l) db = Inr db'"
    and inst: "inst \<in> set (institutions l)" "distinct (map inst_id (institutions l))"
  obtains row where "List.find (\<lambda>r. ir_id r = inst_id inst) (db_institutions db') = Some row"
    "ir_status row = institution_status_to_db (inst_status inst)" "is_ok (institution_from_row row)"
proof -
  obtain d1 where d1: "save_all (save_institution pg) (snap_institutions (ledger_to_snapshot l)) db = Inr d1"
    "db_institutions db' = db_institutions d1"
    by (rule save_statements_ok [OF save])
  have snap: "snap_institutions (ledger_to_snapshot l) = institutions l"
    by (simp add: ledger_to_snapshot_def)
  obtain rs where enc: "list_all2 (\<lambda>i r. Inr (institution_to_row pg i) = (Inr r :: ledger_storage_error + _))
      (institutions l) rs"
    and rows: "distinct (map ir_id rs) \<Longrightarrow> db_institutions d1 =
      map (merged ir_id merge_institution rs) (db_institutions db) @
        filter (\<lambda>row. ir_id row \<notin> ir_id ` set (db_institutions db)) rs"
    using institution_table.save_all_rows [OF d1(1)] unfolding snap by blast
  have rs: "rs = map (institution_to_row pg) (institutions l)"
    using enc by (induction rule: list_all2_induct) simp_all
  have ids: "map ir_id rs = map inst_id (institutions l)" by (simp add: rs institution_to_row_def)
  let ?row = "institution_to_row pg inst"
  have id: "ir_id ?row = inst_id inst" by (simp add: institution_to_row_def)
  have dist: "distinct (map ir_id rs)" using inst(2) ids by simp
  have "?row \<in> set rs" using inst(1) by (simp add: rs)
  then have found: "row_of ir_id rs (inst_id inst) = Some ?row"
    using row_of_distinct [OF dist] id by metis
  then have "\<exists>c. row_of ir_id (db_institutions db') (inst_id inst) = Some (?row\<lparr>ir_created_at := c\<rparr>)"
  proof (cases "row_of ir_id (db_institutions db) (inst_id inst)")
    case None
    then have "row_of ir_id (db_institutions db') (inst_id inst) = Some ?row"
      unfolding d1(2) institution_table.save_all_row_of [OF dist rows [OF dist]] using found by simp
    then show ?thesis by (intro exI [of _ "ir_created_at ?row"]) simp
  next
    case (Some old)
    then have "ir_id old = inst_id inst" by (auto dest: row_of_SomeD)
    with Some found show ?thesis
      unfolding d1(2) institution_table.save_all_row_of [OF dist rows [OF dist]]
      by (auto simp: merged_def merge_institution_def)
  qed
  then obtain c where "row_of ir_id (db_institutions db') (inst_id inst) = Some (?row\<lparr>ir_created_at := c\<rparr>)"
    by blast
  moreover have "is_ok (institution_from_row (?row\<lparr>ir_created_at := c\<rparr>))"
    using institution_rows.decode_encode [of pg inst ?row]
    by (auto simp: institution_from_row_def res_simps is_ok_iff)
  ultimately show thesis using that by (simp add: row_of_def institution_to_row_def)
qed

lemma read_institution:
  "pg_node_get_institution i (db, w) = (Inr inst, s') \<longleftrightarrow>
     (\<exists>row. List.find (\<lambda>r. ir_id r = i) (db_institutions db) = Some row \<and>
        institution_from_row row = Inr inst) \<and> s' = (db, w)"
  by (auto simp: pg_node_get_institution_def pg_get_institution_def known_institution_def h_bind_def
      via_storage_def db_query_def h_lift_def res_simps split: option.splits sum.splits)

lemma suspended_status:
  assumes "pg_node_suspend_institution pg i s = (Inr inst, s')"
  shows "inst_status inst = InstSuspended"
proof -
  have row: "ir_status r = ''SUSPENDED''"
    if found: "List.find (\<lambda>r. ir_id r = i) (sql_update (\<lambda>r. ir_id r = i) (suspend_institution_row t) rows) = Some r"
    for t rows r
  proof -
    obtain q where "r = (if ir_id q = i then suspend_institution_row t q else q)" "ir_id r = i"
      using find_Some_in [OF found] unfolding sql_update_def by force
    then show ?thesis by (cases "ir_id q = i") (simp_all add: suspend_institution_row_def)
  qed
  obtain db w where s: "s = (db, w)" by (rule prod.exhaust)
  let ?rows = "\<lambda>t. sql_update (\<lambda>r. ir_id r = i) (suspend_institution_row (pg_time pg t)) (db_institutions db)"
  obtain now w1 where now: "utc_now w = (now, w1)" by (rule prod.exhaust)
  obtain found s1 where sus: "pg_suspend_institution pg i s = (Inr found, s1)"
    and known: "known_institution i found s1 = (Inr inst, s')"
    using assms by (auto simp: pg_node_suspend_institution_def elim!: h_bind_okE)
  have "(case List.find (\<lambda>r. ir_id r = i) (?rows now) of None \<Rightarrow> Inr None
      | Some r \<Rightarrow> and_then (institution_from_row r) (\<lambda>x. Inr (Some x))) = Inr found"
    using sus unfolding s pg_suspend_institution_def
    by (simp add: h_bind_def db_draw_def db_execute_def Let_def now h_lift_def)
  moreover have "found = Some inst" using known by (simp add: known_institution_def res_simps)
  ultimately obtain r where "List.find (\<lambda>r. ir_id r = i) (?rows now) = Some r"
    "institution_from_row r = Inr inst"
    by (auto simp: res_simps split: option.splits)
  then have "institution_status_from_db ''SUSPENDED'' = Inr (inst_status inst)"
    using row by (auto simp: institution_from_row_def res_simps)
  then show ?thesis by (simp add: institution_status_from_db_def)
qed

text \<open>
  Claim C18. A pass undoes a suspension. If an institution is suspended while a validator's pass is
  under way, the pass, when it is finished, gives the institution the status back that it had when
  the pass began: the working ledger holds every institution as it was loaded, and the save writes
  them all.
\<close>

theorem suspension_undone:
  assumes "distinct (map ir_id (db_institutions db))"
    and "pg_node_get_institution i (db, w) = (Inr before, (db, w))"
    and "begin_pass pf pg v (db, w) = (Inr (Some (b, l)), s1)"
    and "pg_node_suspend_institution pg i s1 = (Inr suspended, s2)"
    and "finish_pass pg v b l s2 = (Inr finished, s3)"
  shows "inst_status suspended = InstSuspended \<and>
    (\<exists>after. pg_node_get_institution i s3 = (Inr after, s3) \<and> inst_status after = inst_status before)"
proof -
  obtain db1 w1 where s1: "s1 = (db1, w1)" by (rule prod.exhaust)
  obtain row where row: "List.find (\<lambda>r. ir_id r = i) (db_institutions db) = Some row"
    "institution_from_row row = Inr before"
    using assms(2) by (auto simp: read_institution)
  then have row_in: "row \<in> set (db_institutions db)" "ir_id row = i" using find_Some_in by fast+
  from assms(3) [unfolded s1] obtain vs w2 where
    prep: "pass_prepare pf pg v (db\<lparr>db_validators := vs, db_lock := True\<rparr>, w2) = (Inr (Some (b, l)), s1)"
    by (cases rule: begin_pass_parts) (auto simp: s1)
  obtain l0 s4 rs w3 w4 where load: "pg_current_ledger pg (db\<lparr>db_validators := vs, db_lock := True\<rparr>, w2) = (Inr l0, s4)"
    and ap: "apply_block w3 b l0 = (Inr rs, l, w4)"
    using pass_prepare_parts [OF prep] by blast
  have insts: "institutions l = institutions l0"
    using ap by (rule apply_block_ok) (simp add: institutions_def commit_working_def)
  have "db_institutions (db\<lparr>db_validators := vs, db_lock := True\<rparr>) = db_institutions db" by simp
  then obtain inst where inst: "institution_from_row row = Inr inst" "inst \<in> set (institutions l)"
    "distinct (map inst_id (institutions l))"
    using loaded_institution [OF load] assms(1) row_in(1) insts by metis
  then have "inst = before" using row(2) by simp
  have id: "inst_id before = i"
    using row(2) row_in(2) by (auto simp: institution_from_row_def res_simps)
  obtain db2 w5 where s2: "s2 = (db2, w5)" by (rule prod.exhaust)
  obtain db3 w6 where s3: "s3 = (db3, w6)" by (rule prod.exhaust)
  obtain r1 db4 w7 us where save: "pg_save_snapshot pg (ledger_to_snapshot l) (db2, w5) = (r1, (db4, w7))"
    and db3: "db3 = db4\<lparr>db_validators := us, db_lock := False\<rparr>" and "r1 = Inr ()"
    using finish_pass_db [OF assms(5) [unfolded s2 s3]] by (metis is_ok_simps(2))
  from save obtain now where "save_statements pg now (ledger_to_snapshot l) db2 = Inr db4"
    using \<open>r1 = Inr ()\<close> by (cases rule: save_snapshot_cases) auto
  then obtain row' where "List.find (\<lambda>r. ir_id r = i) (db_institutions db4) = Some row'"
    "ir_status row' = institution_status_to_db (inst_status before)" "is_ok (institution_from_row row')"
    using saved_institution inst(2,3) \<open>inst = before\<close> id by metis
  moreover from this obtain after where "institution_from_row row' = Inr after" by (auto simp: is_ok_iff)
  moreover from this have "institution_status_from_db (ir_status row') = Inr (inst_status after)"
    by (auto simp: institution_from_row_def res_simps)
  ultimately show ?thesis
    using suspended_status [OF assms(4)]
    by (auto simp: s3 read_institution db3 codec_from_to)
qed

section \<open>A balance that does not fit its column\<close>

text \<open>
  The one pending transaction is a valid mint that takes a balance to \<open>10 ^ 38\<close> or more, which
  the column \<open>NUMERIC(38, 0)\<close> does not hold.
\<close>

definition oversized_mint :: "postgres_api \<Rightarrow> transaction \<Rightarrow> database \<Rightarrow> bool" where
  "oversized_mint pg tx db \<longleftrightarrow> balances_ok db \<and> tx_kind tx = Mint \<and> tx_amount tx < 10 ^ 38 \<and>
     10 ^ 38 \<le> db_balance db (tx_to tx) (tx_asset tx) + tx_amount tx \<and>
     (\<exists>r. filter (\<lambda>r. tr_status r = ''PENDING'') (db_transactions db) = [r] \<and>
        transaction_from_row r = Inr tx) \<and>
     (\<forall>w l s. pg_current_ledger pg (db, w) = (Inr l, s) \<longrightarrow>
        validate_transactions_for_next_block w l [tx] = Inr ())"

lemma oversized_pending:
  assumes "oversized_mint pg tx db" "0 < k"
  shows "via_storage (pg_pending_transactions k 0) (db, w) = (Inr [tx], (db, w))"
proof -
  obtain r where r: "filter (\<lambda>r. tr_status r = ''PENDING'') (db_transactions db) = [r]"
    "transaction_from_row r = Inr tx"
    using assms(1) by (auto simp: oversized_mint_def)
  have "order_by_time tr_created_at tr_id [r] = [r]" by (simp add: order_by_time_def)
  moreover have "nat k \<noteq> 0" using assms(2) by simp
  then have "page (nat 0) (nat k) [r] = [r]" by (cases "nat k") (simp_all add: page_def)
  ultimately show ?thesis
    using assms(2) r by (simp add: pg_pending_transactions_def sql_page_def db_query_def)
qed

lemma build_links:
  assumes pf: "platform_ok pf"
    and run: "build_block_for_validator pf w l txs e profile v = Inr (b, w')"
  shows "block_links l b"
proof -
  have "block_digest pf p x \<noteq> Inr []" for p x
    using block_digest_ok [OF pf, of p x] by (metis sum.inject(2))
  then have "blk_hash b \<noteq> [] \<and> blk_height b = next_height l \<and> blk_prev_hash b = last_hash l"
    using run
    by (auto simp: build_block_for_validator_def Let_def res_simps case_prod_unfold block_seal_def
        block_new_unsealed_def utc_now_def split: if_splits)
  then show ?thesis by (simp add: block_links_def)
qed

lemma oversized_prepare:
  assumes over: "oversized_mint pg tx db" and pf: "platform_ok pf"
    and max: "0 < vrt_max_transactions_per_block v"
    and run: "pass_prepare pf pg v (db, w) = (res, (db', w'))"
  shows "db' = db"
    and "res = Inr (Some (b, l')) \<Longrightarrow> \<exists>l w2 rs w3. pg_current_ledger pg (db, w) = (Inr l, (db, w)) \<and>
      blk_txs b = [tx] \<and> apply_block w2 b l = (Inr rs, l', w3)"
proof -
  note pending = oversized_pending [OF over max]
  obtain rl where load: "pg_current_ledger pg (db, w) = (rl, (db, w))"
    using load_state [of pg "(db, w)"] by (cases "pg_current_ledger pg (db, w)") simp
  have valid: "validate_transactions_for_next_block x l [tx] = Inr ()" if "rl = Inr l" for l x
    using over load that validate_env [of x l "[tx]" w] by (auto simp: oversized_mint_def)
  have select: "select_or_reject pg v l [] [tx] (db, w) = (Inr [tx], (db, w))" if "rl = Inr l" for l
    using valid [OF that] by (simp add: h_return_def)
  have draw: "\<exists>r w'. draw_block pf v l txs (db, w) = (r, (db, w'))" for l txs w
    by (auto simp: draw_block_def split: sum.split)
  have apply_ok: "\<exists>l' w'. apply_or_reject pg v l b (db, w2) = (Inr l', (db, w'))"
    if l: "rl = Inr l" and b: "draw_block pf v l [tx] (db, w) = (Inr b, (db, w1))" for l b w1 w2
  proof -
    obtain w3 where build: "build_block_for_validator pf w l [tx] (vrt_consensus v) (vrt_crypto_profile v)
        (vrt_validator_id v) = Inr (b, w3)"
      using b by (auto simp: draw_block_def split: sum.splits)
    have "err_of (fst (apply_block w2 b l)) = None"
      using apply_block_linked [OF build_links [OF pf build], of w2 w] valid [OF l]
        build_block_for_validator_txs [OF build] by simp
    then obtain rs l' w' where "apply_block w2 b l = (Inr rs, l', w')"
      by (cases "apply_block w2 b l") (auto simp: err_of_None_iff)
    then show ?thesis by (simp add: apply_or_reject_def)
  qed
  show "db' = db"
  proof (cases rl)
    case (Inl e)
    then show ?thesis using run load by (simp add: pass_prepare_def h_bind_def)
  next
    case (Inr l)
    obtain rb w1 where rb: "draw_block pf v l [tx] (db, w) = (rb, (db, w1))" using draw by blast
    show ?thesis
    proof (cases rb)
      case (Inl e)
      then show ?thesis using run load \<open>rl = Inr l\<close> pending select [OF Inr] rb
        by (auto simp: pass_prepare_def h_bind_def h_lift_def h_return_def simp del: via_storage_ok
            split: sum.splits if_splits)
    next
      case b: (Inr b)
      obtain l' w4 where "apply_or_reject pg v l b (db, w1) = (Inr l', (db, w4))"
        using apply_ok [OF Inr rb [unfolded b]] by blast
      then show ?thesis using run load Inr pending select [OF Inr] rb b
        by (auto simp: pass_prepare_def h_bind_def h_lift_def h_return_def verify_for_def
            simp del: via_storage_ok split: sum.splits if_splits)
    qed
  qed
  assume res: "res = Inr (Some (b, l'))"
  obtain l s1 p s2 accepted s3 rs w2 w3 where parts: "pg_current_ledger pg (db, w) = (Inr l, s1)"
    "pg_pending_transactions (vrt_max_transactions_per_block v) 0 s1 = (Inr p, s2)"
    "select_or_reject pg v l [] p s2 = (Inr accepted, s3)" "blk_txs b = accepted"
    "apply_block w2 b l = (Inr rs, l', w3)"
    using pass_prepare_parts [OF run [unfolded res]] by blast
  have "rl = Inr l" "s1 = (db, w)" using parts(1) load by simp_all
  moreover from this have "p = [tx]" "s2 = (db, w)" using parts(2) pending by simp_all
  ultimately have "accepted = [tx]" using parts(3) select by simp
  with parts load \<open>rl = Inr l\<close> show "\<exists>l w2 rs w3. pg_current_ledger pg (db, w) = (Inr l, (db, w)) \<and>
      blk_txs b = [tx] \<and> apply_block w2 b l = (Inr rs, l', w3)" by blast
qed

lemma saved_balances_range:
  assumes "save_statements pg now (ledger_to_snapshot l) db = Inr db'" "(k, x) \<in> set (led_balances l)"
  shows "0 \<le> x \<and> x < 10 ^ 38"
proof -
  obtain d4 d4' where save: "save_all (save_balance pg now) (snap_balances (ledger_to_snapshot l)) d4 = Inr d4'"
    by (rule save_statements_ok [OF assms(1)])
  let ?b = "\<lparr>bal_account_id = fst k, bal_asset = snd k, bal_amount = x\<rparr>"
  have b: "?b \<in> set (snap_balances (ledger_to_snapshot l))"
    unfolding ledger_to_snapshot_def ledger_snapshot.simps set_map
    by (rule image_eqI [OF _ assms(2)]) (simp add: case_prod_unfold)
  obtain rs where "list_all2 (\<lambda>b r. balance_to_row pg now b = Inr r) (snap_balances (ledger_to_snapshot l)) rs"
    using balance_table.save_all_rows [OF save] by blast
  then obtain r where "balance_to_row pg now ?b = Inr r"
    using list_all2_partner(2) [OF _ b] by fastforce
  then have "\<bar>x\<bar> < 10 ^ 38" by (auto simp: balance_to_row_def res_simps)
  then show ?thesis using balances_saved_nonneg [OF save b] by auto
qed

lemma wrap_oversized:
  assumes "10 ^ 38 \<le> y" "y < 2 * 10 ^ 38"
  shows "i128_wrap y < 0 \<or> 10 ^ 38 \<le> i128_wrap y"
proof (cases "y < 2 ^ 127")
  case True
  then have "i128_wrap y = y" using assms(1) by (simp add: i128_wrap_def)
  then show ?thesis using assms(1) by simp
next
  case False
  have "(y + 2 ^ 127) mod 2 ^ 128 = (y + 2 ^ 127 - 2 ^ 128) mod 2 ^ 128"
    by (rule minus_mod_self2 [symmetric])
  also have "\<dots> = y + 2 ^ 127 - 2 ^ 128" using False assms(2) by (intro mod_pos_pos_trivial) simp_all
  finally show ?thesis using assms(2) by (simp add: i128_wrap_def)
qed

lemma oversized_unsaved:
  assumes over: "oversized_mint pg tx db" and load: "pg_current_ledger pg (db, w) = (Inr l, s)"
    and ap: "apply_block w2 b l = (Inr rs, l', w3)" and b: "blk_txs b = [tx]"
    and f: "db_follows txs db"
  shows "save_statements pg now (ledger_to_snapshot l') d \<noteq> Inr d'"
proof
  assume save: "save_statements pg now (ledger_to_snapshot l') d = Inr d'"
  have ok: "balances_ok db" and mint: "tx_kind tx = Mint" "tx_amount tx < 10 ^ 38"
    and big: "10 ^ 38 \<le> db_balance db (tx_to tx) (tx_asset tx) + tx_amount tx"
    using over by (simp_all add: oversized_mint_def)
  let ?k = "(tx_to tx, tx_asset tx)"
  obtain work w4 es where run: "apply_txs w2 l (blk_height b) (blk_hash b) [tx] (working_copy l) = Inr (rs, work, w4)"
    and l': "l' = (commit_working work l)
        \<lparr>led_payments := insert_records rs (led_payments l),
         led_audit_events := led_audit_events l @ es, led_blocks := led_blocks l @ [b]\<rparr>"
    using ap b by (metis apply_block_ok)
  obtain work1 w5 r w6 rs' where one: "apply_transaction w2 tx (blk_height b) (working_copy l) = Inr (work1, w5)"
    and "apply_txs w6 l (blk_height b) (blk_hash b) [] work1 = Inr (rs', work, w4)"
    using run by (rule apply_txs_ConsE)
  then have "led_balances l' = credit (tx_to tx) (tx_asset tx) (tx_amount tx) (led_balances l)"
    using apply_transaction_effect(1) [OF one] mint
    by (simp add: l' commit_working_def balances_after_def)
  moreover have "balance_from (led_balances l) (tx_to tx) (tx_asset tx) = db_balance db (tx_to tx) (tx_asset tx)"
    using same_entries(2) [OF loaded_follows(3) [OF ok f load], of ?k] ok
    by (simp add: balance_from_def db_balance_def balances_ok_def)
  ultimately have "hm_get (led_balances l') ?k = Some (i128_wrap (db_balance db (tx_to tx) (tx_asset tx) + tx_amount tx))"
    by (simp add: credit_def map_simps i128_add_def balance_from_def)
  moreover have "hm_wf (led_balances l')"
    using apply_txs_follows [OF run loaded_follows(2) [OF ok f load]]
    by (simp add: l' commit_working_def follows_def balances_follow_def)
  ultimately have "(?k, i128_wrap (db_balance db (tx_to tx) (tx_asset tx) + tx_amount tx)) \<in> set (led_balances l')"
    by (simp add: hm.entries_get)
  then have range: "0 \<le> i128_wrap (db_balance db (tx_to tx) (tx_asset tx) + tx_amount tx)"
    "i128_wrap (db_balance db (tx_to tx) (tx_asset tx) + tx_amount tx) < 10 ^ 38"
    using saved_balances_range [OF save] by blast+
  have "db_balance db (tx_to tx) (tx_asset tx) < 10 ^ 38"
  proof (cases "hm_get (db_balance_map db) ?k")
    case (Some x)
    then have "(?k, x) \<in> set (db_balance_map db)"
      using hm.entries_get [of "db_balance_map db" ?k x] ok by (simp add: balances_ok_def)
    then show ?thesis using ok Some
      by (auto simp: db_balance_def balance_from_def balances_ok_def db_balance_map_def)
  qed (simp add: db_balance_def balance_from_def)
  then show False using wrap_oversized [OF big] range mint(2) by linarith
qed

lemma load_tables:
  "fst (pg_current_ledger pg (db\<lparr>db_validators := vs, db_lock := x\<rparr>, w)) = fst (pg_current_ledger pg (db, w))"
  by (simp add: pg_current_ledger_def pg_load_snapshot_def load_accounts_def pg_institutions_def
      load_institution_credentials_def load_institution_limits_def load_balances_def
      load_payments_def pg_compliance_cases_def load_blocks_def load_journal_entries_def
      load_audit_events_def h_bind_def db_query_def via_storage_def h_return_def
      split: sum.split prod.split)

lemma oversized_tables [simp]:
  "oversized_mint pg tx (db\<lparr>db_validators := vs, db_lock := x\<rparr>) = oversized_mint pg tx db"
proof -
  have ok: "balances_ok (db\<lparr>db_validators := vs, db_lock := x\<rparr>) = balances_ok db" by simp
  have bal: "db_balance (db\<lparr>db_validators := vs, db_lock := x\<rparr>) a s = db_balance db a s" for a s
    by (simp add: db_balance_def db_balance_map_def)
  have load: "(\<exists>s. pg_current_ledger pg (db\<lparr>db_validators := vs, db_lock := x\<rparr>, w) = (Inr l, s)) \<longleftrightarrow>
      (\<exists>s. pg_current_ledger pg (db, w) = (Inr l, s))" for w l
    using load_tables [where db = db and vs = vs and x = x and w = w and pg = pg]
    by (metis fst_conv surjective_pairing)
  have "(\<forall>w l s. pg_current_ledger pg (db\<lparr>db_validators := vs, db_lock := x\<rparr>, w) = (Inr l, s) \<longrightarrow> P w l) \<longleftrightarrow>
      (\<forall>w l s. pg_current_ledger pg (db, w) = (Inr l, s) \<longrightarrow> P w l)" for P :: "env \<Rightarrow> ledger \<Rightarrow> bool"
    using load by blast
  then show ?thesis unfolding oversized_mint_def ok bal by simp
qed

lemma oversized_pass:
  assumes over: "oversized_mint pg tx db" and pf: "platform_ok pf" and f: "db_follows txs db"
    and max: "0 < vrt_max_transactions_per_block v"
    and run: "run_once pf pg v (db, w) = (res, (db', w'))"
  shows "\<exists>vs x. db' = db\<lparr>db_validators := vs, db_lock := x\<rparr>" "\<nexists>b. res = Inr (Some b)"
proof -
  obtain r1 db1 w1 where start: "begin_pass pf pg v (db, w) = (r1, (db1, w1))" by (rule prod_cases3)
  have "(\<exists>vs x. db' = db\<lparr>db_validators := vs, db_lock := x\<rparr>) \<and> (\<nexists>b. res = Inr (Some b))"
    using start
  proof (cases rule: begin_pass_parts)
    case (idle vs)
    then have "db' = db1 \<and> (\<nexists>b. res = Inr (Some b))"
      using run start by (cases "(v, r1)" rule: started_passes.cases)
        (auto simp: run_once_two_steps h_bind_def h_return_def)
    moreover have "db1 = db\<lparr>db_validators := vs, db_lock := db_lock db\<rparr>" using idle(2) by simp
    ultimately show ?thesis by blast
  next
    case (tried vs w2)
    then have idle: "db' = db1 \<and> (\<nexists>b. res = Inr (Some b))"
      using run start by (cases "(v, r1)" rule: started_passes.cases)
        (auto simp: run_once_two_steps h_bind_def h_return_def)
    let ?d = "db\<lparr>db_validators := vs, db_lock := True\<rparr>"
    obtain r2 db2 w3 where prep: "pass_prepare pf pg v (?d, w2) = (r2, (db2, w3))" by (rule prod_cases3)
    have "db2 = ?d" by (rule oversized_prepare(1) [OF _ pf max prep, of tx]) (simp add: over)
    then have "db1 = db\<lparr>db_validators := vs, db_lock := False\<rparr>" using tried(3) prep by simp
    with idle show ?thesis by blast
  next
    case (prepared vs w2 b l')
    let ?d = "db\<lparr>db_validators := vs, db_lock := True\<rparr>"
    have over': "oversized_mint pg tx ?d" by (simp add: over)
    have "db1 = ?d" by (rule oversized_prepare(1) [OF over' pf max prepared(4)])
    obtain l w3 rs w4 where load: "pg_current_ledger pg (?d, w2) = (Inr l, (?d, w2))"
      and b: "blk_txs b = [tx]" and ap: "apply_block w3 b l = (Inr rs, l', w4)"
      using oversized_prepare(2) [OF over' pf max prepared(4) refl] by blast
    have finish: "finish_pass pg v b l' (?d, w1) = (res, (db', w'))"
      using run start prepared(3) \<open>db1 = ?d\<close> by (simp add: run_once_two_steps h_bind_def)
    obtain r3 db3 w5 us where save: "pg_save_snapshot pg (ledger_to_snapshot l') (?d, w1) = (r3, (db3, w5))"
      and db': "db' = db3\<lparr>db_validators := us, db_lock := False\<rparr>" and ok: "is_ok res \<Longrightarrow> r3 = Inr ()"
      by (rule finish_pass_db [OF finish], rule that) auto
    have "db_follows txs ?d" using f by simp
    from save have "db3 = ?d" "r3 \<noteq> Inr ()"
      by (cases rule: save_snapshot_cases;
          use oversized_unsaved [OF over' load ap b \<open>db_follows txs ?d\<close>] in auto)+
    then show ?thesis using db' ok by (auto simp: is_ok_iff)
  qed
  then show "\<exists>vs x. db' = db\<lparr>db_validators := vs, db_lock := x\<rparr>" "\<nexists>b. res = Inr (Some b)" by blast+
qed

text \<open>
  Claim C21. A mint can stop block production. If the one pending transaction is a valid mint that
  takes a balance to \<open>10 ^ 38\<close> or more, which the balance column does not hold, then however often
  and in whatever order validators make their passes, no pass finalizes a block and the
  transaction is never rejected: each pass accepts it, fails to save, and leaves it pending for
  the next.
\<close>

theorem oversized_mint_stalls:
  assumes "oversized_mint pg tx db" "platform_ok pf" "db_follows txs db"
    and "\<forall>v \<in> set vs. 0 < vrt_max_transactions_per_block v" "0 < vrt_max_transactions_per_block v"
  shows "let s = foldl (\<lambda>s v. snd (run_once pf pg v s)) (db, w) vs in
    (\<nexists>b. fst (run_once pf pg v s) = Inr (Some b)) \<and>
    db_transactions (fst s) = db_transactions db \<and> db_blocks (fst s) = db_blocks db \<and>
    db_balances (fst s) = db_balances db"
proof -
  have "\<exists>us x. fst (foldl (\<lambda>s v. snd (run_once pf pg v s)) (db, w) vs) = db\<lparr>db_validators := us, db_lock := x\<rparr>"
    using assms(4)
  proof (induction vs rule: rev_induct)
    case Nil
    show ?case by (intro exI [of _ "db_validators db"] exI [of _ "db_lock db"]) simp
  next
    case (snoc v vs)
    let ?s = "foldl (\<lambda>s v. snd (run_once pf pg v s)) (db, w) vs"
    obtain us x where us: "fst ?s = db\<lparr>db_validators := us, db_lock := x\<rparr>" using snoc by auto
    obtain w1 where s: "?s = (db\<lparr>db_validators := us, db_lock := x\<rparr>, w1)" using us by (cases ?s) simp
    obtain r db2 w2 where run: "run_once pf pg v ?s = (r, (db2, w2))" by (rule prod_cases3)
    obtain vs2 y where "db2 = db\<lparr>db_validators := us, db_lock := x\<rparr>\<lparr>db_validators := vs2, db_lock := y\<rparr>"
      using oversized_pass(1) [OF _ assms(2) _ _ run [unfolded s], of tx txs] assms(1,3) snoc.prems by auto
    then show ?case using run by auto
  qed
  then obtain us x where us: "fst (foldl (\<lambda>s v. snd (run_once pf pg v s)) (db, w) vs) =
      db\<lparr>db_validators := us, db_lock := x\<rparr>" by blast
  let ?s = "foldl (\<lambda>s v. snd (run_once pf pg v s)) (db, w) vs"
  obtain w1 where s: "?s = (db\<lparr>db_validators := us, db_lock := x\<rparr>, w1)" using us by (cases ?s) simp
  obtain r db2 w2 where run: "run_once pf pg v ?s = (r, (db2, w2))" by (rule prod_cases3)
  have "\<nexists>b. r = Inr (Some b)"
    using oversized_pass(2) [OF _ assms(2) _ assms(5) run [unfolded s], of tx txs] assms(1,3) by simp
  then show ?thesis using run us by (simp add: Let_def)
qed

end
