(* ===== verification/Kani_Pg_Example.thy ===== *)
theory Kani_Pg_Example
  imports Kani_Pg_Faults
begin

text \<open>
  Example runs of the network over a concrete database: identifiers are the texts of UUIDs,
  timestamps are kept to the microsecond, and the collation is that of the characters.
\<close>

section \<open>Evaluation\<close>

text \<open>A page by integers: the limit of a full read is \<open>i64::MAX\<close>.\<close>

fun take_int :: "int \<Rightarrow> 'r list \<Rightarrow> 'r list" where
  "take_int n [] = []"
| "take_int n (x # xs) = (if n \<le> 0 then [] else x # take_int (n - 1) xs)"

fun drop_int :: "int \<Rightarrow> 'r list \<Rightarrow> 'r list" where
  "drop_int n [] = []"
| "drop_int n (x # xs) = (if n \<le> 0 then x # xs else drop_int (n - 1) xs)"

lemma take_int: "take_int n xs = take (nat n) xs"
  by (induction n xs rule: take_int.induct) (auto simp: take_Cons' nat_diff_distrib)

lemma drop_int: "drop_int n xs = drop (nat n) xs"
  by (induction n xs rule: drop_int.induct) (auto simp: drop_Cons' nat_diff_distrib)

lemma sql_page_code [code]:
  "sql_page limit offset rows =
     (if limit < 0 then Inl (Sqlx ''invalid_row_count_in_limit_clause'')
      else if offset < 0 then Inl (Sqlx ''invalid_row_count_in_result_offset_clause'')
      else Inr (take_int limit (drop_int offset rows)))"
  by (simp add: sql_page_def page_def take_int drop_int)

text \<open>Decimal texts by division of integers.\<close>

function dec_of_int :: "int \<Rightarrow> string" where
  "dec_of_int n = (if n < 10 then [dec_digit (nat n)]
     else dec_of_int (n div 10) @ [dec_digit (nat (n mod 10))])"
  by pat_completeness auto

termination by (relation "measure nat") auto

declare dec_of_int.simps [simp del]

lemma dec_of_int: "0 \<le> n \<Longrightarrow> dec_of_int n = nat_to_dec (nat n)"
proof (induction n rule: dec_of_int.induct)
  case (1 n)
  then show ?case
    by (subst dec_of_int.simps, subst nat_to_dec.simps)
      (auto simp: nat_div_distrib nat_mod_distrib nat_less_iff)
qed

lemma int_to_dec_code [code]:
  "int_to_dec x = (if x < 0 then CHR ''-'' # dec_of_int (- x) else dec_of_int x)"
  by (simp add: int_to_dec_def dec_of_int)

text \<open>Amounts are read back without their decimal text.\<close>

definition read_amount :: "int \<Rightarrow> ledger_storage_error + i128" where
  "read_amount x = (if in_i128 x then Inr x else parse_amount (int_to_dec x))"

lemma read_amount: "parse_amount (int_to_dec x) = read_amount x"
  by (simp add: read_amount_def parse_amount_roundtrip)

lemmas amount_columns_code [code] =
  transaction_from_row_def [unfolded read_amount] balance_from_row_def [unfolded read_amount]
  journal_entry_from_row_def [unfolded read_amount] institution_limit_from_row_def [unfolded read_amount]

section \<open>The database and the environment\<close>

definition uuid_text :: "nat \<Rightarrow> string" where
  "uuid_text n = (let d = nat_to_dec n in ''00000000-0000-4000-8000-'' @ replicate (12 - length d) (CHR ''0'') @ d)"

definition uuid_char :: "char \<Rightarrow> bool" where
  "uuid_char c \<longleftrightarrow> c \<in> set ''0123456789abcdef-''"

definition sample_pg :: postgres_api where
  "sample_pg = \<lparr>pg_uuid = (\<lambda>i. if length i = 36 \<and> list_all uuid_char i then Some i else None),
     pg_time = (\<lambda>t. t div 1000 * 1000), pg_collate = (\<lambda>s. s), pg_lower = (\<lambda>s. s)\<rparr>"

definition micro_clock :: "nat \<Rightarrow> timestamp" where
  "micro_clock n = 1000 * int n"

definition sample_pg_env :: env where
  "sample_pg_env = \<lparr>uuids = uuid_text, clock = micro_clock, drawn = 0, ticks = 0\<rparr>"

lemma sample_pg_ok: "pg_ok sample_pg"
  by (simp add: pg_ok_def sample_pg_def split: if_splits)

definition sample_validator :: "string \<Rightarrow> validator_runtime" where
  "sample_validator i = \<lparr>vrt_consensus = sample_engine, vrt_crypto_profile = hybrid_pqc_v1,
     vrt_validator_id = i, vrt_max_transactions_per_block = 25\<rparr>"

section \<open>The run\<close>

text \<open>The database the first process seeds.\<close>

definition sample_institutions :: "institution_row list" where
  "sample_institutions =
     [\<lparr>ir_id = ''CORP_A'', ir_legal_name = ''Sandbox Corporation A'', ir_institution_code = ''CORP_A'',
          ir_jurisdiction = ''CA'', ir_status = ''APPROVED'', ir_risk_tier = ''LOW'',
          ir_allowed_assets = [''KCAD_TEST'', ''KUSD_TEST''],
          ir_roles = [''OPERATOR'', ''AUDITOR'', ''TECHNICAL_ADMIN''], ir_created_at = 1000,
          ir_approved_at = Some 1000, ir_suspended_at = None, ir_updated_at = 1000\<rparr>,
      \<lparr>ir_id = ''CORP_B'', ir_legal_name = ''Sandbox Corporation B'', ir_institution_code = ''CORP_B'',
          ir_jurisdiction = ''CA'', ir_status = ''APPROVED'', ir_risk_tier = ''LOW'',
          ir_allowed_assets = [''KCAD_TEST'', ''KUSD_TEST''],
          ir_roles = [''OPERATOR'', ''AUDITOR'', ''TECHNICAL_ADMIN''], ir_created_at = 2000,
          ir_approved_at = Some 2000, ir_suspended_at = None, ir_updated_at = 2000\<rparr>,
      \<lparr>ir_id = ''KANI'', ir_legal_name = ''KANI Network Sandbox Operator'', ir_institution_code = ''KANI'',
          ir_jurisdiction = ''CA'', ir_status = ''APPROVED'', ir_risk_tier = ''LOW'',
          ir_allowed_assets = [''KCAD_TEST'', ''KUSD_TEST''],
          ir_roles = [''OPERATOR'', ''AUDITOR'', ''TECHNICAL_ADMIN''], ir_created_at = 3000,
          ir_approved_at = Some 3000, ir_suspended_at = None, ir_updated_at = 3000\<rparr>,
      \<lparr>ir_id = ''KANI_TREASURY'', ir_legal_name = ''KANI Sandbox Treasury'', ir_institution_code = ''KANI_TREASURY'',
          ir_jurisdiction = ''CA'', ir_status = ''APPROVED'', ir_risk_tier = ''LOW'',
          ir_allowed_assets = [''KCAD_TEST'', ''KUSD_TEST''],
          ir_roles = [''OPERATOR'', ''AUDITOR'', ''TECHNICAL_ADMIN''], ir_created_at = 0,
          ir_approved_at = Some 0, ir_suspended_at = None, ir_updated_at = 0\<rparr>]"

definition sample_account_row :: "string \<Rightarrow> string \<Rightarrow> string \<Rightarrow> timestamp \<Rightarrow> account_row" where
  "sample_account_row a ty i t = \<lparr>ar_id = a, ar_account_type = ty, ar_institution_id = Some i, ar_created_at = t\<rparr>"

definition sample_balance_row :: "string \<Rightarrow> string \<Rightarrow> int \<Rightarrow> timestamp \<Rightarrow> balance_table_row" where
  "sample_balance_row a s x t = \<lparr>bl_account_id = a, bl_asset = s, bl_amount = x, bl_updated_at = t\<rparr>"

definition seeded_db :: database where
  "seeded_db = database_empty
     \<lparr>db_accounts := [sample_account_row ''TREASURY_SANDBOX'' ''TREASURY'' ''KANI_TREASURY'' 4000,
        sample_account_row ''CORP_A'' ''INSTITUTION'' ''CORP_A'' 5000,
        sample_account_row ''CORP_B'' ''INSTITUTION'' ''CORP_B'' 6000,
        sample_account_row ''FEE_SANDBOX'' ''FEE'' ''KANI'' 7000],
      db_institutions := sample_institutions,
      db_balances := map (\<lambda>(a, s). sample_balance_row a s 0 8000)
        [(''TREASURY_SANDBOX'', ''KCAD_TEST''), (''CORP_A'', ''KCAD_TEST''), (''CORP_B'', ''KCAD_TEST''),
         (''TREASURY_SANDBOX'', ''KUSD_TEST''), (''CORP_A'', ''KUSD_TEST''), (''CORP_B'', ''KUSD_TEST'')]\<rparr>"

definition seeded_env :: env where
  "seeded_env = snd (snd (via_storage (pg_ensure_sandbox_seed sample_pg) (database_empty, sample_pg_env)))"

lemma seeded: "via_storage (pg_ensure_sandbox_seed sample_pg) (database_empty, sample_pg_env) =
    (Inr (), seeded_db, seeded_env)"
proof -
  have "(case via_storage (pg_ensure_sandbox_seed sample_pg) (database_empty, sample_pg_env) of
      (r, db, w) \<Rightarrow> is_ok r \<and> db = seeded_db)" by code_simp
  then show ?thesis by (auto simp: seeded_env_def is_ok_iff split: prod.splits simp del: via_storage_ok)
qed

text \<open>The treasury issues, and a validator begins its pass.\<close>

definition sample_mint_row :: transaction_row where
  "sample_mint_row = \<lparr>tr_id = uuid_text 0, tr_block_height = None, tr_from_account = ''TREASURY_SANDBOX'',
     tr_to_account = ''CORP_A'', tr_asset = ''KCAD_TEST'', tr_amount = 1000, tr_nonce = 1,
     tr_kind = ''MINT'', tr_status = ''PENDING'', tr_signatures = [], tr_metadata = [],
     tr_failure_reason = None, tr_client_reference_id = None, tr_request_fingerprint = None,
     tr_created_at = 10000, tr_updated_at = 10000\<rparr>"

definition minted_db :: database where
  "minted_db = seeded_db\<lparr>db_transactions := [sample_mint_row]\<rparr>"

definition minted_env :: env where
  "minted_env = snd (snd (pg_node_mint_sandbox sample_pg ''TREASURY_SANDBOX'' ''CORP_A'' ''KCAD_TEST'' 1000
     (seeded_db, seeded_env)))"

lemma minted: "snd (pg_node_mint_sandbox sample_pg ''TREASURY_SANDBOX'' ''CORP_A'' ''KCAD_TEST'' 1000
    (seeded_db, seeded_env)) = (minted_db, minted_env)"
proof -
  have "fst (snd (pg_node_mint_sandbox sample_pg ''TREASURY_SANDBOX'' ''CORP_A'' ''KCAD_TEST'' 1000
    (seeded_db, seeded_env))) = minted_db" by code_simp
  then show ?thesis by (simp add: minted_env_def prod_eq_iff)
qed

definition begun :: "(node_error + (block \<times> ledger) option) \<times> database \<times> env" where
  "begun = begin_pass sample_platform sample_pg (sample_validator ''validator-a'') (minted_db, minted_env)"

definition begun_block :: block where "begun_block = fst (the (projr (fst begun)))"
definition begun_ledger :: ledger where "begun_ledger = snd (the (projr (fst begun)))"

lemma begun: "begun = (Inr (Some (begun_block, begun_ledger)), snd begun)"
proof -
  have "case begun of (Inr (Some x), s) \<Rightarrow> True | _ \<Rightarrow> False" by code_simp
  then show ?thesis
    by (auto simp: begun_block_def begun_ledger_def prod_eq_iff split: prod.splits sum.splits option.splits)
qed

text \<open>
  While the pass is under way a payment is requested under a key; then the pass is finished. In
  the second run an institution is suspended instead.
\<close>

abbreviation sample_request :: "database \<times> env \<Rightarrow> (node_error + payment_record) \<times> database \<times> env" where
  "sample_request \<equiv> pg_node_submit_payment sample_platform sample_pg sample_node ''CORP_A'' ''CORP_B''
     ''KCAD_TEST'' 300 (Some ''order-1'')"

definition requested_state :: "database \<times> env" where
  "requested_state = snd (sample_request (snd begun))"

definition finish_sample :: "database \<times> env \<Rightarrow> (node_error + block option) \<times> database \<times> env" where
  "finish_sample s = (case begun of
     (Inr (Some (b, l)), s0) \<Rightarrow> finish_pass sample_pg (sample_validator ''validator-a'') b l s
   | (_, s0) \<Rightarrow> (Inr None, s))"

lemma finish_sample:
  "finish_sample s = finish_pass sample_pg (sample_validator ''validator-a'') begun_block begun_ledger s"
proof -
  obtain t where t: "begun = (Inr (Some (begun_block, begun_ledger)), t)" using begun by blast
  show ?thesis unfolding finish_sample_def t by simp
qed

definition finished_run :: "(node_error + block option) \<times> database \<times> env" where
  "finished_run = (case begun of
     (Inr (Some (b, l)), s) \<Rightarrow>
       finish_pass sample_pg (sample_validator ''validator-a'') b l (snd (sample_request s))
   | (_, s) \<Rightarrow> (Inr None, s))"

lemma finished_run: "finished_run = finish_sample requested_state"
proof -
  obtain t where t: "begun = (Inr (Some (begun_block, begun_ledger)), t)" using begun by blast
  show ?thesis unfolding finished_run_def finish_sample_def requested_state_def t by simp
qed

lemma finished_values:
  "(let db = fst (snd finished_run) in is_ok (fst finished_run) \<and>
     db_balance db ''CORP_A'' ''KCAD_TEST'' = 1000 \<and> length (db_blocks db) = 1 \<and>
     gross_minted (finalized_txs db) ''KCAD_TEST'' = 1000 \<and>
     map (\<lambda>r. (tr_status r, tr_client_reference_id r)) (db_transactions db) =
       [(''FINALIZED'', None), (''PENDING'', Some ''order-1'')])"
  by code_simp

definition suspended_run :: "(node_error + institution) \<times> (node_error + block option) \<times> database \<times> env" where
  "suspended_run = (case begun of
     (Inr (Some (b, l)), s) \<Rightarrow> (case pg_node_suspend_institution sample_pg ''CORP_A'' s of
        (r, s) \<Rightarrow> (r, finish_pass sample_pg (sample_validator ''validator-a'') b l s))
   | (_, s) \<Rightarrow> (Inl (NodeStorage AdvisoryLockReleaseFailed), Inr None, s))"

lemma suspended_values: "is_ok (fst suspended_run) \<and> is_ok (fst (snd suspended_run))"
  by code_simp

end
