(* ===== verification/Kani_Pg_Seeding.thy ===== *)
theory Kani_Pg_Seeding
  imports Kani_Pg_Props
begin

text \<open>
  Two processes that seed one database. \<open>ensure_sandbox_seed\<close> loads the ledger and saves the
  sandbox ledger when it found no account, without a lock between the two, and the save sets the
  balances it writes. A process that read the empty database and saves after another one has
  seeded it therefore takes back every balance, whatever was finalized in between.
\<close>

section \<open>The balances of the sandbox ledger\<close>







section \<open>Saving them\<close>






end
