(* ===== verification/Kani_Pg_Witnesses.thy ===== *)
theory Kani_Pg_Witnesses
  imports Kani_Pg_Example Kani_Pg_Seeding
begin

text \<open>The properties of the network on the example runs.\<close>

section \<open>The states of the first run\<close>

definition seeded_network :: network where
  "seeded_network = \<lparr>net_db = seeded_db, net_env = seeded_env, net_passes = [], net_seeders = []\<rparr>"

definition minted_network :: network where
  "minted_network = \<lparr>net_db = minted_db, net_env = minted_env, net_passes = [], net_seeders = []\<rparr>"

definition begun_network :: network where
  "begun_network = \<lparr>net_db = fst (snd begun), net_env = snd (snd begun),
     net_passes = [(sample_validator ''validator-a'', begun_block, begun_ledger)], net_seeders = []\<rparr>"

definition requested_network :: network where
  "requested_network = \<lparr>net_db = fst requested_state, net_env = snd requested_state,
     net_passes = [(sample_validator ''validator-a'', begun_block, begun_ledger)], net_seeders = []\<rparr>"

definition finished_network :: network where
  "finished_network = \<lparr>net_db = fst (snd finished_run), net_env = snd (snd finished_run), net_passes = [], net_seeders = []\<rparr>"

lemma minted_step: "network_step sample_platform sample_pg seeded_network minted_network"
  unfolding seeded_network_def minted_network_def
  by (rule net_client, rule client_mint) (subst minted [symmetric], rule surjective_pairing)

lemma begun_step: "network_step sample_platform sample_pg minted_network begun_network"
proof -
  have "begin_pass sample_platform sample_pg (sample_validator ''validator-a'') (minted_db, minted_env) =
      (Inr (Some (begun_block, begun_ledger)), (fst (snd begun), snd (snd begun)))"
    using begun by (simp add: begun_def)
  from net_begin [OF this, of "[]"] show ?thesis
    by (simp add: minted_network_def begun_network_def)
qed

lemma requested_step: "network_step sample_platform sample_pg begun_network requested_network"
  unfolding begun_network_def requested_network_def
  by (rule net_client, rule client_submit)
    (unfold requested_state_def prod.collapse, rule surjective_pairing)

lemma finished_step: "network_step sample_platform sample_pg requested_network finished_network"
proof -
  have "finish_pass sample_pg (sample_validator ''validator-a'') begun_block begun_ledger
      (fst requested_state, snd requested_state) =
      (fst finished_run, (fst (snd finished_run), snd (snd finished_run)))"
    by (simp add: finished_run finish_sample)
  from net_finish [where ps = "[]" and qs = "[]", OF this] show ?thesis
    by (simp add: requested_network_def finished_network_def)
qed

lemma seeded_reachable: "network_reachable pf sample_pg seeded_network"
  unfolding seeded_network_def
  by (rule network_start) (use seeded in \<open>simp add: network_started_def exI [of _ sample_pg_env] del: via_storage_ok\<close>)

lemma begun_reachable: "network_reachable sample_platform sample_pg begun_network"
  by (rule network_next [OF network_next [OF seeded_reachable minted_step] begun_step])

lemma requested_reachable: "network_reachable sample_platform sample_pg requested_network"
  by (rule network_next [OF begun_reachable requested_step])

lemma finished_reachable: "network_reachable sample_platform sample_pg finished_network"
  by (rule network_next [OF requested_reachable finished_step])

section \<open>Witnesses\<close>

theorem database_solvency_witness:
  "chain_balance (finalized_txs (net_db finished_network)) ''CORP_A'' ''KCAD_TEST'' = 1000"
proof -
  have "gross_minted (finalized_txs (net_db finished_network)) ''KCAD_TEST'' < 2 ^ 127"
    "db_balance (net_db finished_network) ''CORP_A'' ''KCAD_TEST'' = 1000"
    using finished_values by (simp_all add: finished_network_def Let_def)
  then show ?thesis using database_solvency [OF finished_reachable sample_pg_ok] by metis
qed

theorem block_production_exclusive_witness:
  "started_passes (sample_validator ''validator-b'') (fst (begin_pass sample_platform sample_pg
     (sample_validator ''validator-b'') (net_db begun_network, net_env begun_network))) = []"
  using block_production_exclusive [OF begun_reachable sample_pg_ok] by (simp add: begun_network_def)

theorem database_chain_witness:
  "bkr_height (db_blocks (net_db finished_network) ! 0) = 1 \<and>
   bkr_prev_hash (db_blocks (net_db finished_network) ! 0) = GENESIS_HASH"
proof -
  have "length (db_blocks (net_db finished_network)) = 1"
    using finished_values by (simp add: finished_network_def Let_def)
  then show ?thesis using database_chain [OF finished_reachable sample_pg_ok, of 0] by simp
qed

lemma minted_row: "sample_mint_row \<in> set (db_transactions (net_db minted_network))"
  by (simp add: minted_network_def minted_db_def)

theorem stored_transactions_final_witness:
  "\<exists>r \<in> set (db_transactions (net_db finished_network)). tr_id r = uuid_text 0"
proof -
  have "(network_step sample_platform sample_pg)\<^sup>*\<^sup>* minted_network finished_network"
    using begun_step requested_step finished_step by (meson r_into_rtranclp rtranclp_trans)
  from stored_transactions_final [OF network_next [OF seeded_reachable minted_step] sample_pg_ok this minted_row]
  show ?thesis by (auto simp: sample_mint_row_def)
qed

theorem stored_key_idempotent_witness:
  "fst (snd (pg_node_submit_payment sample_platform sample_pg sample_node ''CORP_A'' ''CORP_B''
     ''KCAD_TEST'' 400 (Some ''order-1'') (net_db finished_network, net_env finished_network))) =
   net_db finished_network"
proof -
  obtain r where r: "r \<in> set (db_transactions (net_db finished_network))"
    "tr_client_reference_id r = Some ''order-1''"
  proof -
    obtain q q' where "db_transactions (fst (snd finished_run)) = [q, q']"
      "tr_client_reference_id q' = Some ''order-1''"
      using finished_values by (auto simp: Let_def map_eq_Cons_conv)
    then show thesis using that [of q'] by (simp add: finished_network_def)
  qed
  obtain res db w where run: "pg_node_submit_payment sample_platform sample_pg sample_node ''CORP_A'' ''CORP_B''
     ''KCAD_TEST'' 400 (Some ''order-1'') (net_db finished_network, net_env finished_network) = (res, (db, w))"
    by (rule prod_cases3)
  from stored_key_idempotent [OF finished_reachable sample_pg_ok rtranclp.rtrancl_refl r run] run
  show ?thesis by simp
qed





theorem suspension_undone_witness:
  "\<exists>after. fst (pg_node_get_institution ''CORP_A'' (snd (snd suspended_run))) = Inr after \<and>
     inst_status after = InstApproved"
proof -
  have dist: "distinct (map ir_id (db_institutions minted_db))"
    by (simp add: minted_db_def seeded_db_def sample_institutions_def)
  have "(case fst (pg_node_get_institution ''CORP_A'' (minted_db, sample_pg_env)) of
      Inr i \<Rightarrow> inst_status i = InstApproved | Inl e \<Rightarrow> False)" by code_simp
  then obtain before where "fst (pg_node_get_institution ''CORP_A'' (minted_db, sample_pg_env)) = Inr before"
    and approved: "inst_status before = InstApproved" by (auto split: sum.splits)
  then have read: "pg_node_get_institution ''CORP_A'' (minted_db, minted_env) = (Inr before, (minted_db, minted_env))"
    by (metis prod.collapse read_institution)
  obtain t where t: "begun = (Inr (Some (begun_block, begun_ledger)), t)" using begun by blast
  obtain r t2 where sus: "pg_node_suspend_institution sample_pg ''CORP_A'' t = (r, t2)" by (rule prod.exhaust)
  have run: "suspended_run = (r, finish_pass sample_pg (sample_validator ''validator-a'') begun_block begun_ledger t2)"
    by (simp add: suspended_run_def t sus)
  obtain i where "r = Inr i" using suspended_values by (auto simp: run is_ok_iff)
  obtain f t3 where fin: "finish_pass sample_pg (sample_validator ''validator-a'') begun_block begun_ledger t2 = (Inr f, t3)"
    using suspended_values by (cases "finish_pass sample_pg (sample_validator ''validator-a'') begun_block begun_ledger t2")
      (auto simp: run is_ok_iff)
  from suspension_undone [OF dist read t [unfolded begun_def] sus [unfolded \<open>r = Inr i\<close>] fin]
  show ?thesis using approved by (auto simp: run fin)
qed

end
