(* ===== verification/Kani_Pg_Oversized.thy ===== *)
theory Kani_Pg_Oversized
  imports Kani_Pg_Witnesses
begin

text \<open>
  The example of the mint that stops block production: the treasury issues one unit less than the
  balance column holds, a validator finalizes it, and the treasury issues one unit more.
\<close>

definition big_mint :: "i128 \<Rightarrow> database \<times> env \<Rightarrow> (node_error + payment_record) \<times> database \<times> env" where
  "big_mint x = pg_node_mint_sandbox sample_pg ''TREASURY_SANDBOX'' ''CORP_A'' ''KCAD_TEST'' x"

definition big_begun :: "(node_error + (block \<times> ledger) option) \<times> database \<times> env" where
  "big_begun = begin_pass sample_platform sample_pg (sample_validator ''validator-a'')
     (snd (big_mint (10 ^ 38 - 1) (seeded_db, seeded_env)))"

definition big_finished :: "(node_error + block option) \<times> database \<times> env" where
  "big_finished = (case big_begun of
     (Inr (Some (b, l)), s) \<Rightarrow> finish_pass sample_pg (sample_validator ''validator-a'') b l s
   | (_, s) \<Rightarrow> (Inr None, s))"

definition big_state :: "database \<times> env" where
  "big_state = snd (big_mint 1 (snd big_finished))"

definition big_row :: "database \<Rightarrow> transaction_row option" where
  "big_row db = (case filter (\<lambda>r. tr_status r = ''PENDING'') (db_transactions db) of [r] \<Rightarrow> Some r | _ \<Rightarrow> None)"

lemma big_values:
  "(let db = fst big_state in db_balance db ''CORP_A'' ''KCAD_TEST'' = 10 ^ 38 - 1 \<and>
     (case big_row db of None \<Rightarrow> False | Some r \<Rightarrow> (case transaction_from_row r of Inl e \<Rightarrow> False
      | Inr tx \<Rightarrow> tx_kind tx = Mint \<and> tx_amount tx = 1 \<and> tx_to tx = ''CORP_A'' \<and> tx_asset tx = ''KCAD_TEST'' \<and>
          (case fst (pg_current_ledger sample_pg (db, sample_pg_env)) of Inl e \<Rightarrow> True
           | Inr l \<Rightarrow> is_ok (validate_transactions_for_next_block sample_pg_env l [tx])))))"
  by code_simp

lemma big_begun_ok: "(case big_begun of (Inr (Some x), s) \<Rightarrow> True | _ \<Rightarrow> False)"
  by code_simp

lemma big_reachable: "network_reachable sample_platform sample_pg
    \<lparr>net_db = fst big_state, net_env = snd big_state, net_passes = [], net_seeders = []\<rparr>"
proof -
  obtain r1 db1 w1 where m1: "big_mint (10 ^ 38 - 1) (seeded_db, seeded_env) = (r1, (db1, w1))"
    by (rule prod_cases3)
  obtain b l db2 w2 where g: "big_begun = (Inr (Some (b, l)), (db2, w2))"
    using big_begun_ok by (auto split: prod.splits sum.splits option.splits)
  obtain r3 db3 w3 where f: "finish_pass sample_pg (sample_validator ''validator-a'') b l (db2, w2) = (r3, (db3, w3))"
    by (rule prod_cases3)
  then have fin: "big_finished = (r3, (db3, w3))" by (simp add: big_finished_def g)
  obtain r4 db4 w4 where m2: "big_mint 1 (db3, w3) = (r4, (db4, w4))" by (rule prod_cases3)
  have "network_step sample_platform sample_pg seeded_network \<lparr>net_db = db1, net_env = w1, net_passes = [], net_seeders = []\<rparr>"
    unfolding seeded_network_def by (rule net_client, rule client_mint, rule m1 [unfolded big_mint_def])
  moreover have "network_step sample_platform sample_pg \<lparr>net_db = db1, net_env = w1, net_passes = [], net_seeders = []\<rparr>
      \<lparr>net_db = db2, net_env = w2, net_passes = [(sample_validator ''validator-a'', b, l)], net_seeders = []\<rparr>"
    using net_begin [OF g [unfolded big_begun_def m1 snd_conv], of "[]"] by simp
  moreover have "network_step sample_platform sample_pg
      \<lparr>net_db = db2, net_env = w2, net_passes = [(sample_validator ''validator-a'', b, l)], net_seeders = []\<rparr>
      \<lparr>net_db = db3, net_env = w3, net_passes = [], net_seeders = []\<rparr>"
    using net_finish [where ps = "[]" and qs = "[]", OF f] by simp
  moreover have "network_step sample_platform sample_pg \<lparr>net_db = db3, net_env = w3, net_passes = [], net_seeders = []\<rparr>
      \<lparr>net_db = db4, net_env = w4, net_passes = [], net_seeders = []\<rparr>"
    by (rule net_client, rule client_mint, rule m2 [unfolded big_mint_def])
  moreover have "big_state = (db4, w4)" by (simp add: big_state_def fin m2)
  ultimately show ?thesis using seeded_reachable network_next by (metis fst_conv snd_conv)
qed

lemma load_env: "fst (pg_current_ledger pg (db, w)) = fst (pg_current_ledger pg (db, w'))"
  by (simp add: pg_current_ledger_def pg_load_snapshot_def load_accounts_def pg_institutions_def
      load_institution_credentials_def load_institution_limits_def load_balances_def
      load_payments_def pg_compliance_cases_def load_blocks_def load_journal_entries_def
      load_audit_events_def h_bind_def db_query_def via_storage_def h_return_def
      split: sum.split prod.split)

theorem oversized_mint_stalls_witness:
  "\<nexists>b. fst (run_once sample_platform sample_pg (sample_validator ''validator-b'')
     (snd (run_once sample_platform sample_pg (sample_validator ''validator-b'') big_state))) = Inr (Some b)"
proof -
  obtain r tx where row: "big_row (fst big_state) = Some r" "transaction_from_row r = Inr tx"
    and tx: "tx_kind tx = Mint" "tx_amount tx = 1" "tx_to tx = ''CORP_A''" "tx_asset tx = ''KCAD_TEST''"
    and valid: "case fst (pg_current_ledger sample_pg (fst big_state, sample_pg_env)) of Inl e \<Rightarrow> True
           | Inr l \<Rightarrow> is_ok (validate_transactions_for_next_block sample_pg_env l [tx])"
    and bal: "db_balance (fst big_state) ''CORP_A'' ''KCAD_TEST'' = 10 ^ 38 - 1"
    using big_values by (auto simp: Let_def split: option.splits sum.splits)
  obtain txs where ok: "balances_ok (fst big_state)" and f: "db_follows txs (fst big_state)"
    using network_ok_reachable [OF big_reachable sample_pg_ok] by (auto simp: network_ok_def)
  have "filter (\<lambda>r. tr_status r = ''PENDING'') (db_transactions (fst big_state)) = [r]"
    using row(1) by (auto simp: big_row_def split: list.splits)
  moreover have "validate_transactions_for_next_block w l [tx] = Inr ()"
    if "pg_current_ledger sample_pg (fst big_state, w) = (Inr l, s)" for w l s
  proof -
    have "fst (pg_current_ledger sample_pg (fst big_state, sample_pg_env)) = Inr l"
      using that load_env [of sample_pg "fst big_state" w sample_pg_env] by simp
    with valid validate_env [of w l "[tx]" sample_pg_env] show ?thesis by (auto simp: is_ok_iff)
  qed
  ultimately have "oversized_mint sample_pg tx (fst big_state)"
    using ok row(2) tx bal by (simp add: oversized_mint_def)
  from oversized_mint_stalls [OF this sample_platform_ok f, of "[sample_validator ''validator-b'']"
      "sample_validator ''validator-b''" "snd big_state"]
  show ?thesis by (simp add: sample_validator_def Let_def)
qed

end
