(* ===== verification/Kani_Pg_Settle.thy ===== *)
theory Kani_Pg_Settle
  imports Kani_Pg_Props
begin

text \<open>
  What a pass of a validator does: the block it appends, the transactions it finalizes, and what
  its save does to all the others, whose rows it writes back as they were loaded.
\<close>

section \<open>The rows a save leaves\<close>

context upsert_table
begin

lemma save_all_stored:
  assumes save: "save_all save xs db = Inr db'"
    and dist: "\<And>rs. list_all2 (\<lambda>x r. encode x = Inr r) xs rs \<Longrightarrow> distinct (map key rs)"
    and x: "x \<in> set xs"
  shows "\<exists>row. encode x = Inr row \<and> (row \<in> set (rows db') \<or>
    (\<exists>old \<in> set (rows db). key old = key row \<and> merge row old \<in> set (rows db')))"
proof -
  obtain rs where enc: "list_all2 (\<lambda>x r. encode x = Inr r) xs rs"
    and saved: "distinct (map key rs) \<longrightarrow> rows db' = map (update rs) (rows db)
      @ filter (\<lambda>row. key row \<notin> key ` set (rows db)) rs"
    using save_all_rows [OF save] by blast
  note saved = saved [rule_format, OF dist [OF enc]]
  obtain row where row: "row \<in> set rs" "encode x = Inr row"
    using list_all2_partner(2) [OF enc x] by blast
  show ?thesis
  proof (cases "key row \<in> key ` set (rows db)")
    case True
    then obtain old where old: "old \<in> set (rows db)" "key old = key row" by force
    then have "update rs old = merge row old"
      using row_of_distinct [OF dist [OF enc] row(1)] by (simp add: merged_def)
    then have "merge row old \<in> set (rows db')" using old(1) by (auto simp: saved intro: rev_image_eqI)
    with row(2) old show ?thesis by blast
  next
    case False
    with row show ?thesis by (auto simp: saved)
  qed
qed

end

lemma ready_uuid:
  assumes "ready txs db b l" "rows_ok pg (db_transactions db)" "p \<in> set (hm_values (led_payments l))"
  shows "pg_uuid pg (tx_id (pay_transaction p)) = Some (tx_id (pay_transaction p))"
  using ready_payment [OF assms(1,3)] assms(2) unfolding rows_ok_def by metis

lemma saved_payment:
  assumes save: "save_statements pg now (ledger_to_snapshot l) db = Inr db'"
    and r: "ready txs db b l" and ok: "rows_ok pg (db_transactions db)"
    and p: "p \<in> set (hm_values (led_payments l))"
  shows "\<exists>row \<in> set (db_transactions db'). tr_id row = tx_id (pay_transaction p) \<and>
    tr_status row = transaction_status_to_db (pay_status p) \<and>
    tr_failure_reason row = pay_failure_reason p \<and> tr_block_height row = pay_block_height p"
proof -
  obtain d6 d6' where d6: "db_transactions d6 = db_transactions db" "db_transactions db' = db_transactions d6'"
    "save_all (save_payment pg) (snap_payments (ledger_to_snapshot l)) d6 = Inr d6'"
    by (rule save_statements_ok [OF save])
  let ?ps = "hm_values (led_payments l)"
  have snap: "snap_payments (ledger_to_snapshot l) = ?ps" by (simp add: ledger_to_snapshot_def)
  have id: "tr_id row = tx_id (pay_transaction p)"
    if "p \<in> set ?ps" "payment_to_row pg p = Inr row" for p row
    using that(2) ready_uuid [OF r ok that(1)] by (auto simp: payment_to_row_def Let_def res_simps)
  have "keyed (\<lambda>p. tx_id (pay_transaction p)) (led_payments l)" using r by (simp add: ready_def)
  note keys = keyed_entries(2) [OF this]
  have dist: "distinct (map tr_id rs)"
    if enc: "list_all2 (\<lambda>p row. payment_to_row pg p = Inr row) ?ps rs" for rs
  proof -
    have "list_all2 (\<lambda>p row. tx_id (pay_transaction p) = tr_id row) ?ps rs"
      using enc by (rule list.rel_mono_strong) (metis id)
    then have "map tr_id rs = map (\<lambda>p. tx_id (pay_transaction p)) ?ps"
      by (induction rule: list_all2_induct) simp_all
    then show ?thesis using keys by simp
  qed
  obtain row where row: "payment_to_row pg p = Inr row"
    and stored: "row \<in> set (db_transactions d6') \<or>
      (\<exists>old \<in> set (db_transactions d6). tr_id old = tr_id row \<and> merge_transaction row old \<in> set (db_transactions d6'))"
    using payment_table.save_all_stored [OF d6(3) [unfolded snap] dist p] by blast
  have "tr_status row = transaction_status_to_db (pay_status p)" "tr_failure_reason row = pay_failure_reason p"
    "tr_block_height row = pay_block_height p"
    using row by (auto simp: payment_to_row_def Let_def res_simps)
  note fields = this id [OF p row]
  from stored show ?thesis
  proof
    assume "row \<in> set (db_transactions d6')"
    with fields show ?thesis unfolding d6(2) by blast
  next
    assume "\<exists>old \<in> set (db_transactions d6). tr_id old = tr_id row \<and>
      merge_transaction row old \<in> set (db_transactions d6')"
    then obtain old where old: "tr_id old = tr_id row" "merge_transaction row old \<in> set (db_transactions d6')"
      by blast
    with fields show ?thesis unfolding d6(2)
      by (intro bexI [OF _ old(2)]) (simp add: merge_transaction_def)
  qed
qed

section \<open>Statuses are written back\<close>

lemma insert_records_other:
  "hm_wf m \<Longrightarrow> k \<notin> (\<lambda>r. tx_id (pay_transaction r)) ` set rs \<Longrightarrow> hm_get (insert_records rs m) k = hm_get m k"
proof (induction rs arbitrary: m)
  case (Cons r rs)
  then show ?case by (simp add: insert_records_def map_simps)
qed (simp add: insert_records_def)

text \<open>The payment a prepared pass holds for a row that is not in its block.\<close>

lemma prepared_payment:
  assumes ok: "rows_ok pg (db_transactions db)"
    and run: "pass_prepare pf pg v (db, w) = (Inr (Some (b, l)), s)"
    and r: "r \<in> set (db_transactions db)" "tr_id r \<notin> tx_id ` set (blk_txs b)"
  shows "\<exists>p. hm_get (led_payments l) (tr_id r) = Some p \<and> payment_from_row (db_blocks db) r = Inr p"
proof -
  obtain l0 s1 rs w2 w3 where load: "pg_current_ledger pg (db, w) = (Inr l0, s1)"
    and ap: "apply_block w2 b l0 = (Inr rs, l, w3)"
    using pass_prepare_parts [OF run] by blast
  note pays = loaded_payments [OF ok load]
  have l: "led_payments l = insert_records rs (led_payments l0)" "map pay_transaction rs = blk_txs b"
    by (rule apply_block_ok [OF ap], simp) (rule apply_block_ok [OF ap], metis apply_txs_records(1))
  have "(\<lambda>r. tx_id (pay_transaction r)) ` set rs = tx_id ` set (map pay_transaction rs)"
    by (simp add: image_image)
  with l have "hm_get (led_payments l) (tr_id r) = hm_get (led_payments l0) (tr_id r)"
    using insert_records_other [of "led_payments l0" "tr_id r" rs] pays(1) r(2) by (simp add: keyed_def)
  with pays(3) [OF r(1)] show ?thesis by simp
qed

lemma transaction_status_stored: "payment_from_row blocks r = Inr p \<Longrightarrow> transaction_status_to_db (pay_status p) = tr_status r"
  by (auto simp: payment_from_row_def res_simps transaction_status_from_db_def split: if_splits)

text \<open>
  Claim C19. A pass writes back every status. Whatever happens to a transaction between the load of
  a validator's pass and its save, when the pass is finished each transaction that was in the table
  when it began and is not in its block has the status and the failure reason it had then. So a
  transaction the pass itself rejected is pending again, and a held payment that was released or
  rejected meanwhile is held again.
\<close>

theorem pass_restores_statuses:
  assumes "network_reachable pf pg n" "pg_ok pg"
    and "begin_pass pf pg v (net_db n, net_env n) = (Inr (Some (b, l)), (db1, w1))"
    and "(network_step pf pg)\<^sup>*\<^sup>*
      \<lparr>net_db = db1, net_env = w1, net_passes = (v, b, l) # net_passes n, net_seeders = net_seeders n\<rparr>
      \<lparr>net_db = db2, net_env = w2, net_passes = [(v, b, l)], net_seeders = ss\<rparr>"
    and "finish_pass pg v b l (db2, w2) = (Inr finished, (db3, w3))"
    and "r \<in> set (db_transactions (net_db n))" "tr_id r \<notin> tx_id ` set (blk_txs b)"
  shows "\<exists>r' \<in> set (db_transactions db3). tr_id r' = tr_id r \<and> tr_status r' = tr_status r \<and>
    tr_failure_reason r' = tr_failure_reason r"
proof -
  let ?n1 = "\<lparr>net_db = db1, net_env = w1, net_passes = (v, b, l) # net_passes n, net_seeders = net_seeders n\<rparr>"
  let ?n2 = "\<lparr>net_db = db2, net_env = w2, net_passes = [(v, b, l)], net_seeders = ss\<rparr>"
  have ok0: "network_ok pg n" by (rule network_ok_reachable [OF assms(1,2)])
  have n: "n = \<lparr>net_db = net_db n, net_env = net_env n, net_passes = net_passes n, net_seeders = net_seeders n\<rparr>" by simp
  have "network_step pf pg n ?n1"
    by (subst n) (use net_begin [OF assms(3), of "net_passes n"] in simp)
  then have ok1: "network_ok pg ?n1" by (rule network_ok_step [OF assms(2) _ ok0])
  have ok2: "network_ok pg ?n2" using network_run_rows [OF assms(4) ok1 assms(2)] by blast
  then obtain txs where rows2: "rows_ok pg (db_transactions db2)" and ready: "ready txs db2 b l"
    by (auto simp: network_ok_def passes_ok_def)
  obtain vs w0 where prep: "pass_prepare pf pg v ((net_db n)\<lparr>db_validators := vs, db_lock := True\<rparr>, w0)
      = (Inr (Some (b, l)), (db1, w1))"
    using assms(3) by (cases rule: begin_pass_parts) auto
  obtain p where p: "hm_get (led_payments l) (tr_id r) = Some p"
    and row: "payment_from_row (db_blocks (net_db n)) r = Inr p"
    using prepared_payment [OF _ prep _ assms(7)] ok0 assms(6) by (auto simp: network_ok_def)
  have keyed: "keyed (\<lambda>p. tx_id (pay_transaction p)) (led_payments l)" using ready by (simp add: ready_def)
  have id: "tx_id (pay_transaction p) = tr_id r" by (rule keyed_get [OF keyed p])
  have "(tr_id r, p) \<in> set (led_payments l)" using p keyed by (simp add: keyed_def hm.entries_get)
  then have vals: "p \<in> set (hm_values (led_payments l))" by (force simp: hm_values_def)
  obtain r1 db4 w4 us where save: "pg_save_snapshot pg (ledger_to_snapshot l) (db2, w2) = (r1, (db4, w4))"
    and db3: "db3 = db4\<lparr>db_validators := us, db_lock := False\<rparr>" and "r1 = Inr ()"
    using finish_pass_db [OF assms(5)] by (metis is_ok_simps(2))
  from save obtain now where "save_statements pg now (ledger_to_snapshot l) db2 = Inr db4"
    using \<open>r1 = Inr ()\<close> by (cases rule: save_snapshot_cases) auto
  from saved_payment [OF this ready rows2 vals] obtain row' where "row' \<in> set (db_transactions db3)"
    "tr_id row' = tr_id r" "tr_status row' = transaction_status_to_db (pay_status p)"
    "tr_failure_reason row' = pay_failure_reason p"
    by (auto simp: db3 id)
  moreover have "pay_failure_reason p = tr_failure_reason r" using row by (auto simp: payment_from_row_def res_simps)
  ultimately show ?thesis using transaction_status_stored [OF row] by auto
qed

section \<open>The outcome of a pass\<close>

lemma kept_settled:
  assumes "kept pg S (db, w) (db', w')" "rows_ok pg (db_transactions db)"
  shows "db_blocks db' = db_blocks db" "finalized_txs db' = finalized_txs db"
  using assms db_follows_kept(3) [OF assms] by (simp_all add: kept_def)

lemma begin_pass_settled:
  assumes "begin_pass pf pg v (db, w) = (r, (db', w'))" "rows_ok pg (db_transactions db)"
  shows "db_blocks db' = db_blocks db" "finalized_txs db' = finalized_txs db"
proof -
  have step: "db_blocks (fst s) = db_blocks db1 \<and> finalized_txs (fst s) = finalized_txs db1"
    if "kept pg {} (db1\<lparr>db_lock := True\<rparr>, w1) s" "rows_ok pg (db_transactions db1)" for db1 w1 s
    using kept_settled [of pg "{}" "db1\<lparr>db_lock := True\<rparr>" w1 "fst s" "snd s"] that
    by (simp add: finalized_txs_def)
  have both: "db_blocks (fst s) = db_blocks db \<and> finalized_txs (fst s) = finalized_txs db"
    if "kept pg {} (db, w) (db1, w1)" "kept pg {} (db1\<lparr>db_lock := True\<rparr>, w1) s" for db1 w1 s
    using step [OF that(2) db_follows_kept(1) [OF that(1) assms(2)]] kept_settled [OF that(1) assms(2)] by simp
  from assms(1) have "db_blocks db' = db_blocks db \<and> finalized_txs db' = finalized_txs db"
  proof (cases rule: begin_pass_cases)
    case idle
    then show ?thesis using kept_settled [OF _ assms(2)] by blast
  next
    case (tried db1 w1 s2)
    then show ?thesis using both [OF tried(3,4)] by (simp add: finalized_txs_def)
  next
    case (prepared db1 w1 b l)
    then show ?thesis using both [OF prepared(3) keepsD [OF keeps_prepare prepared(4)]] by simp
  qed
  then show "db_blocks db' = db_blocks db" "finalized_txs db' = finalized_txs db" by blast+
qed

lemma build_block_for_validator_who:
  "build_block_for_validator pf w l txs e profile v = Inr (b, w') \<Longrightarrow> blk_validator b = v \<and> txs \<noteq> []"
  by (auto simp: build_block_for_validator_def Let_def res_simps case_prod_unfold block_seal_def
      block_new_unsealed_def utc_now_def split: if_splits)

lemma pass_prepare_who:
  assumes "pass_prepare pf pg v s = (Inr (Some (b, l')), s')"
  shows "blk_validator b = vrt_validator_id v" "blk_txs b \<noteq> []"
proof -
  obtain l accepted s3 s4 where "draw_block pf v l accepted s3 = (Inr b, s4)"
    using assms unfolding pass_prepare_def by (auto elim!: h_bind_okE split: if_splits)
  then obtain w l accepted w' where "build_block_for_validator pf w l accepted (vrt_consensus v)
      (vrt_crypto_profile v) (vrt_validator_id v) = Inr (b, w')"
    by (auto simp: draw_block_def split: prod.splits sum.splits)
  with build_block_for_validator_who [OF this] build_block_for_validator_txs [OF this]
  show "blk_validator b = vrt_validator_id v" "blk_txs b \<noteq> []" by simp_all
qed

text \<open>A pass that is finished, whatever the other sessions did since it began.\<close>

lemma finish_pass_settled:
  assumes ok: "network_ok pg \<lparr>net_db = db, net_env = w, net_passes = [(v, b, l)], net_seeders = ss\<rparr>"
    and chain: "chain_ok \<lparr>net_db = db, net_env = w, net_passes = [(v, b, l)], net_seeders = ss\<rparr>"
    and run: "finish_pass pg v b l (db, w) = (Inr res, (db', w'))" and short: "short_chain db"
  shows "res = Some b" "db_blocks db' = db_blocks db @ [block_to_row pg b]"
    "mset (finalized_txs db') = mset (finalized_txs db) + mset (blk_txs b)"
proof -
  from ok obtain txs where rows: "rows_ok pg (db_transactions db)" "balances_ok db" and ready: "ready txs db b l"
    by (auto simp: network_ok_def passes_ok_def)
  obtain r1 db4 w4 us where save: "pg_save_snapshot pg (ledger_to_snapshot l) (db, w) = (r1, (db4, w4))"
    and db': "db' = db4\<lparr>db_validators := us, db_lock := False\<rparr>" and "r1 = Inr ()"
    using finish_pass_db [OF run] by (metis is_ok_simps(2))
  from save obtain now where st: "save_statements pg now (ledger_to_snapshot l) db = Inr db4"
    using \<open>r1 = Inr ()\<close> by (cases rule: save_snapshot_cases) auto
  have linked: "rows_linked (db_blocks db)" "chained db b l"
    using chain short by (simp_all add: chain_ok_def)
  show "db_blocks db' = db_blocks db @ [block_to_row pg b]"
    using saved_blocks [OF st short linked] by (simp add: db')
  have "db_follows (txs @ blk_txs b) db4"
    by (rule save_books(3) [OF save [unfolded \<open>r1 = Inr ()\<close>] rows ready])
  then have "mset (txs @ blk_txs b) = mset (finalized_txs db4)" by (simp add: db_follows_def)
  then show "mset (finalized_txs db') = mset (finalized_txs db) + mset (blk_txs b)"
    using ready by (simp add: db' ready_def finalized_txs_def)
  show "res = Some b"
    using run by (auto simp: finish_pass_def release_after_def pass_commit_def h_bind_def h_return_def
        split: prod.splits sum.splits)
qed

text \<open>The network in which one process runs alone, and the invariants it starts from.\<close>

abbreviation alone :: "database \<Rightarrow> env \<Rightarrow> network" where
  "alone db w \<equiv> \<lparr>net_db = db, net_env = w, net_passes = [], net_seeders = []\<rparr>"

definition sound :: "postgres_api \<Rightarrow> network \<Rightarrow> bool" where
  "sound pg n \<longleftrightarrow> pg_ok pg \<and> network_ok pg n \<and> chain_ok n"

lemma sound_reachable: "network_reachable pf pg n \<Longrightarrow> pg_ok pg \<Longrightarrow> sound pg n"
  by (simp add: sound_def network_ok_reachable chain_ok_reachable)

lemma sound_step: "sound pg n \<Longrightarrow> network_step pf pg n n' \<Longrightarrow> sound pg n'"
  unfolding sound_def using network_ok_step chain_ok_step by blast

lemma sound_env: "sound pg \<lparr>net_db = db, net_env = w, net_passes = ps, net_seeders = ss\<rparr> \<Longrightarrow>
    sound pg \<lparr>net_db = db, net_env = w', net_passes = ps, net_seeders = ss\<rparr>"
  by (simp add: sound_def network_ok_def passes_ok_def chain_ok_def)

lemma run_once_cases:
  assumes "run_once pf pg v (db, w) = (r, (db', w'))"
  obtains (begun) r1 where "begin_pass pf pg v (db, w) = (r1, (db', w'))" "started_passes v r1 = []"
      "is_ok r \<Longrightarrow> r = Inr None"
  | (finished) b l db1 w1 where "begin_pass pf pg v (db, w) = (Inr (Some (b, l)), (db1, w1))"
      "finish_pass pg v b l (db1, w1) = (r, (db', w'))"
proof -
  obtain r1 db1 w1 where first: "begin_pass pf pg v (db, w) = (r1, (db1, w1))" by (rule prod_cases3)
  show thesis
  proof (cases "\<exists>b l. r1 = Inr (Some (b, l))")
    case True
    then obtain b l where r1: "r1 = Inr (Some (b, l))" by blast
    show thesis
      by (rule finished [OF first [unfolded r1]])
        (use assms first r1 in \<open>simp add: run_once_two_steps h_bind_def\<close>)
  next
    case False
    then have "(db', w') = (db1, w1)" "started_passes v r1 = []" "is_ok r \<Longrightarrow> r = Inr None"
      using assms first by (auto simp: run_once_two_steps h_bind_def h_return_def is_ok_iff split: sum.splits option.splits)
    then show thesis using begun first by simp
  qed
qed

lemma run_once_sound:
  assumes sound: "sound pg (alone db w)" and run: "run_once pf pg v (db, w) = (r, (db', w'))"
  shows "sound pg (alone db' w')"
  using run
proof (cases rule: run_once_cases)
  case (begun r1)
  then show ?thesis using sound_step [OF sound net_begin [OF begun(1)]] by simp
next
  case (finished b l db1 w1)
  have "sound pg \<lparr>net_db = db1, net_env = w1, net_passes = [] @ (v, b, l) # [], net_seeders = []\<rparr>"
    using sound_step [OF sound net_begin [OF finished(1)]] by simp
  from sound_step [OF this net_finish [OF finished(2)]] show ?thesis by simp
qed

lemma run_once_settled:
  assumes sound: "sound pg (alone db w)" and short: "short_chain db"
    and run: "run_once pf pg v (db, w) = (Inr res, (db', w'))"
  obtains (nothing) "res = None" "db_blocks db' = db_blocks db" "finalized_txs db' = finalized_txs db"
  | (block) b where "res = Some b" "db_blocks db' = db_blocks db @ [block_to_row pg b]"
      "mset (finalized_txs db') = mset (finalized_txs db) + mset (blk_txs b)"
      "blk_validator b = vrt_validator_id v" "blk_txs b \<noteq> []"
proof -
  have ok: "rows_ok pg (db_transactions db)" using sound by (simp add: sound_def network_ok_def)
  from run show thesis
  proof (cases rule: run_once_cases)
    case (begun r1)
    show thesis by (rule nothing) (use begun(3) begin_pass_settled [OF begun(1) ok] in simp_all)
  next
    case (finished b l db1 w1)
    note same = begin_pass_settled [OF finished(1) ok]
    have net: "sound pg \<lparr>net_db = db1, net_env = w1, net_passes = [(v, b, l)], net_seeders = []\<rparr>"
      using sound_step [OF sound net_begin [OF finished(1)]] by simp
    have short1: "short_chain db1" using short same(1) by (simp add: short_chain_def)
    have "network_ok pg \<lparr>net_db = db1, net_env = w1, net_passes = [(v, b, l)], net_seeders = []\<rparr>"
      "chain_ok \<lparr>net_db = db1, net_env = w1, net_passes = [(v, b, l)], net_seeders = []\<rparr>"
      using net by (simp_all add: sound_def)
    note fin = finish_pass_settled [OF this finished(2) short1]
    obtain s where "pass_prepare pf pg v s = (Inr (Some (b, l)), (db1, w1))"
      using finished(1) by (cases rule: begin_pass_parts) auto
    note who = pass_prepare_who [OF this]
    show thesis by (rule block [OF fin(1)]) (use fin same who in simp_all)
  qed
qed

text \<open>
  What a pass settles. A pass run by a process alone either leaves the chain and the
  finalized transactions as they are, or appends one block, made by the validator itself and not
  empty, and finalizes exactly the transactions of the block in addition to those that were.
\<close>

theorem run_once_settles:
  assumes "network_reachable pf pg \<lparr>net_db = db, net_env = w, net_passes = [], net_seeders = []\<rparr>" "pg_ok pg"
    and "length (db_blocks db) \<le> 2 ^ 62" "run_once pf pg v (db, w) = (Inr res, (db', w'))"
  shows "case res of
      None \<Rightarrow> db_blocks db' = db_blocks db \<and> finalized_txs db' = finalized_txs db
    | Some b \<Rightarrow> db_blocks db' = db_blocks db @ [block_to_row pg b] \<and>
        mset (finalized_txs db') = mset (finalized_txs db) + mset (blk_txs b) \<and>
        blk_validator b = vrt_validator_id v \<and> blk_txs b \<noteq> []"
proof -
  have "short_chain db" using assms(3) by (simp add: short_chain_def)
  from run_once_settled [OF sound_reachable [OF assms(1,2)] this assms(4)] show ?thesis by cases simp_all
qed

end
