(* ===== verification/Kani_Pg_Process.thy ===== *)
theory Kani_Pg_Process
  imports Kani_Pg_Settle
begin

text \<open>
  The validator process, \<open>main\<close> of \<open>crates/kani-node/src/main.rs\<close>: the settings it reads from the
  environment and the three modes it runs in. The mode \<open>forever\<close> never returns; the model runs
  its first \<open>n\<close> passes. The poll interval only sets how long the process sleeps between two.
\<close>

section \<open>Settings\<close>

text \<open>\<open>str::parse::<u64>()\<close>: an optional plus sign and digits.\<close>

definition parse_u64 :: "string \<Rightarrow> int option" where
  "parse_u64 s =
     (case parse_digits (case s of [] \<Rightarrow> [] | c # cs \<Rightarrow> if c = CHR ''+'' then cs else s) of
        None \<Rightarrow> None
      | Some n \<Rightarrow> if int n < 2 ^ 64 then Some (int n) else None)"

record validator_settings =
  vset_database_url :: string
  vset_validator_id :: string
  vset_run_mode :: validator_run_mode
  vset_poll_interval_ms :: int
  vset_max_transactions_per_block :: i64

datatype process_error =
  ProcessRuntime sandbox_runtime_config_error
| ProcessVar var_error
| ProcessRunMode string
| ProcessNode node_error

definition validator_settings_from_env :: "env_vars \<Rightarrow> process_error + validator_settings" where
  "validator_settings_from_env vars =
     and_then (map_err ProcessRuntime (runtime_config_from_values (var_ok (vars ''ENV''))
       (var_ok (vars ''REAL_VALUE'')) (var_ok (vars ''REDEEMABLE'')))) (\<lambda>_.
     and_then (map_err ProcessVar (vars ''DATABASE_URL'')) (\<lambda>url.
     let validator_id = var_or ''validator-a'' (vars ''KANI_VALIDATOR_ID'') in
     and_then (map_err ProcessRunMode (run_mode_from_env_value (var_ok (vars ''KANI_VALIDATOR_RUN_MODE'')))) (\<lambda>mode.
     Inr \<lparr>vset_database_url = url, vset_validator_id = validator_id, vset_run_mode = mode,
       vset_poll_interval_ms =
         (case Option.bind (var_ok (vars ''KANI_VALIDATOR_POLL_MS'')) parse_u64 of None \<Rightarrow> 750 | Some k \<Rightarrow> k),
       vset_max_transactions_per_block =
         (case Option.bind (var_ok (vars ''KANI_MAX_TXS_PER_BLOCK'')) parse_i64 of None \<Rightarrow> 25 | Some k \<Rightarrow> k)\<rparr>)))"

section \<open>The modes\<close>

datatype process_outcome = StillRunning | PassDone bool | SweepDone nat

definition via_process :: "'a node_op \<Rightarrow> database \<times> env \<Rightarrow> (process_error + 'a) \<times> database \<times> env" where
  "via_process m = (\<lambda>s. map_prod (map_err ProcessNode) id (m s))"

definition sweep_ids :: "env_vars \<Rightarrow> validator_settings \<Rightarrow> string list" where
  "sweep_ids vars settings =
     parse_validator_ids (var_ok (vars ''KANI_VALIDATOR_IDS'')) (vset_validator_id settings)"

definition validator_main ::
  "platform \<Rightarrow> postgres_api \<Rightarrow> env_vars \<Rightarrow> nat \<Rightarrow> database \<times> env
    \<Rightarrow> (process_error + process_outcome) \<times> database \<times> env" where
  "validator_main pf pg vars n =
     h_bind (h_lift (validator_settings_from_env vars)) (\<lambda>settings.
     let i = vset_validator_id settings; most = vset_max_transactions_per_block settings in
     (case vset_run_mode settings of
        RunForever \<Rightarrow> h_bind (via_process (connect_with_max pg most i)) (\<lambda>v s.
          (Inr StillRunning, run_forever_passes pf pg v n s))
      | RunOnce \<Rightarrow> h_bind (via_process (validator_once pf pg most i)) (\<lambda>finalized.
          h_return (PassDone finalized))
      | RunSweep \<Rightarrow> h_bind (via_process (validator_sweep pf pg most (sweep_ids vars settings))) (\<lambda>k.
          h_return (SweepDone k))))"

section \<open>What a sweep settles\<close>

lemma connect_sound:
  assumes "sound pg (alone db w)" "connect_with_max pg most i (db, w) = (r, (db', w'))"
  shows "sound pg (alone db' w')" "db_blocks db' = db_blocks db" "finalized_txs db' = finalized_txs db"
    "r = Inr v \<Longrightarrow> vrt_validator_id v = i"
proof -
  obtain r1 db1 w1 where seed: "via_storage (pg_ensure_sandbox_seed pg) (db, w) = (r1, (db1, w1))"
    by (rule prod_cases3)
  have db': "db' = db1"
    using assms(2) seed by (auto simp: connect_with_max_def validator_connect_def h_bind_def h_return_def
        draw_engine_def simp del: via_storage_ok split: sum.splits prod.splits)
  have "network_ok pg (alone db w)" using assms(1) by (simp add: sound_def)
  then have ok: "rows_ok pg (db_transactions db)" "db_accounts db \<noteq> []" by (simp_all add: network_ok_def)
  obtain r2 s2 where store: "pg_ensure_sandbox_seed pg (db, w) = (r2, s2)" by (rule prod.exhaust)
  then have "s2 = (db1, w1)" using seed by (simp add: via_storage_def)
  then have k: "kept pg S (db, w) (db1, w1)" for S using seeded_connect_kept [OF ok(2) store] by simp
  have "sound pg (alone db1 w1)"
    using assms(1) network_ok_kept [OF _ k] chain_ok_kept [OF _ k] by (simp add: sound_def)
  then show "sound pg (alone db' w')" unfolding db' by (rule sound_env)
  from kept_settled [OF k ok(1)] show "db_blocks db' = db_blocks db" "finalized_txs db' = finalized_txs db"
    by (simp_all add: db')
  show "r = Inr v \<Longrightarrow> vrt_validator_id v = i"
    using assms(2) seed by (auto simp: connect_with_max_def validator_connect_def h_bind_def h_return_def
        with_max_transactions_per_block_def simp del: via_storage_ok split: sum.splits prod.splits)
qed

text \<open>The blocks \<open>bs\<close> lead from one database to the other.\<close>

definition appends :: "postgres_api \<Rightarrow> database \<Rightarrow> block list \<Rightarrow> database \<Rightarrow> bool" where
  "appends pg db bs db' \<longleftrightarrow> db_blocks db' = db_blocks db @ map (block_to_row pg) bs \<and>
     mset (finalized_txs db') = mset (finalized_txs db) + mset (concat (map blk_txs bs)) \<and>
     (\<forall>b \<in> set bs. blk_txs b \<noteq> [])"

lemma appends_Nil [simp]:
  "appends pg db [] db' \<longleftrightarrow> db_blocks db' = db_blocks db \<and> mset (finalized_txs db') = mset (finalized_txs db)"
  by (simp add: appends_def)

lemma appends_Cons: "appends pg db [b] db1 \<Longrightarrow> appends pg db1 bs db' \<Longrightarrow> appends pg db (b # bs) db'"
  by (auto simp: appends_def)

lemma validator_once_settled:
  assumes sound: "sound pg (alone db w)" and short: "short_chain db"
    and run: "validator_once pf pg most i (db, w) = (Inr finalized, (db', w'))"
  shows "sound pg (alone db' w')"
    and "\<exists>bs. appends pg db bs db' \<and> length bs = (if finalized then 1 else 0) \<and> (\<forall>b \<in> set bs. blk_validator b = i)"
proof -
  obtain v db1 w1 where connect: "connect_with_max pg most i (db, w) = (Inr v, (db1, w1))"
    and rest: "run_validator_once pf pg v (db1, w1) = (Inr finalized, (db', w'))"
    using run by (auto simp: validator_once_def elim!: h_bind_okE)
  note c = connect_sound [OF sound connect]
  obtain res where once: "run_once pf pg v (db1, w1) = (Inr res, (db', w'))"
    and finalized: "finalized \<longleftrightarrow> res \<noteq> None"
    using rest by (auto simp: run_validator_once_def elim!: h_bind_okE split: option.splits)
  show "sound pg (alone db' w')" by (rule run_once_sound [OF c(1) once])
  have short1: "short_chain db1" using short c(2) by (simp add: short_chain_def)
  show "\<exists>bs. appends pg db bs db' \<and> length bs = (if finalized then 1 else 0) \<and> (\<forall>b \<in> set bs. blk_validator b = i)"
  proof (rule run_once_settled [OF c(1) short1 once], goal_cases)
    case 1
    then show ?case using c(2,3) finalized by (intro exI [of _ "[]"]) simp
  next
    case (2 b)
    then show ?case using c(2,3) c(4) [OF refl] finalized
      by (intro exI [of _ "[b]"]) (simp add: appends_def)
  qed
qed

lemma validator_sweep_settled:
  assumes "sound pg (alone db w)" "length (db_blocks db) + length ids \<le> 2 ^ 62"
    and "validator_sweep pf pg most ids (db, w) = (Inr k, (db', w'))"
  shows "\<exists>bs. appends pg db bs db' \<and> length bs = k \<and> (\<forall>b \<in> set bs. blk_validator b \<in> set ids)"
  using assms
proof (induction ids arbitrary: db w k)
  case Nil
  then show ?case by simp
next
  case (Cons i ids)
  obtain finalized db1 w1 m where first: "validator_once pf pg most i (db, w) = (Inr finalized, (db1, w1))"
    and rest: "validator_sweep pf pg most ids (db1, w1) = (Inr m, (db', w'))"
    and k: "k = (if finalized then Suc m else m)"
    using Cons.prems(3) by (auto elim!: h_bind_okE)
  have "short_chain db" using Cons.prems(2) by (simp add: short_chain_def)
  note once = validator_once_settled [OF Cons.prems(1) this first]
  obtain bs1 where bs1: "appends pg db bs1 db1" "length bs1 = (if finalized then 1 else 0)"
    "\<forall>b \<in> set bs1. blk_validator b = i" using once(2) by blast
  have "length (db_blocks db1) = length (db_blocks db) + length bs1" using bs1(1) by (simp add: appends_def)
  then have "length (db_blocks db1) + length ids \<le> 2 ^ 62" using bs1(2) Cons.prems(2) by (auto split: if_splits)
  from Cons.IH [OF once(1) this rest] obtain bs where bs: "appends pg db1 bs db'" "length bs = m"
    "\<forall>b \<in> set bs. blk_validator b \<in> set ids" by blast
  have "appends pg db (bs1 @ bs) db'"
    using bs1(1) bs(1) by (auto simp: appends_def)
  then show ?case
    using bs1(2,3) bs(2,3) k by (intro exI [of _ "bs1 @ bs"]) (auto split: if_splits)
qed

text \<open>
  Claim C17. What a validator sweep settles. When the process runs alone in the mode \<open>sweep\<close> and
  reports \<open>k\<close> finalized blocks, exactly \<open>k\<close> blocks were appended to the chain of the database, each
  not empty and made by one of the validators of the sweep, and the finalized transactions are
  those there were together with exactly the transactions of these blocks.
\<close>

theorem sweep_settles:
  assumes "network_reachable pf pg \<lparr>net_db = db, net_env = w, net_passes = [], net_seeders = []\<rparr>" "pg_ok pg"
    and "validator_settings_from_env vars = Inr settings"
    and "length (db_blocks db) + length (sweep_ids vars settings) \<le> 2 ^ 62"
    and "validator_main pf pg vars n (db, w) = (Inr (SweepDone k), (db', w'))"
  shows "\<exists>bs. length bs = k \<and> db_blocks db' = db_blocks db @ map (block_to_row pg) bs \<and>
    mset (finalized_txs db') = mset (finalized_txs db) + mset (concat (map blk_txs bs)) \<and>
    (\<forall>b \<in> set bs. blk_txs b \<noteq> [] \<and> blk_validator b \<in> set (sweep_ids vars settings))"
proof -
  have "validator_sweep pf pg (vset_max_transactions_per_block settings) (sweep_ids vars settings) (db, w)
      = (Inr k, (db', w'))"
    using assms(3,5)
    by (auto simp: validator_main_def Let_def via_process_def map_prod_def h_bind_def h_return_def h_lift_def map_err_def
        split: validator_run_mode.splits sum.splits prod.splits)
  from validator_sweep_settled [OF sound_reachable [OF assms(1,2)] assms(4) this]
  show ?thesis by (auto simp: appends_def)
qed

end
