(* ===== verification/Kani_Pg_Settle_Witnesses.thy ===== *)
theory Kani_Pg_Settle_Witnesses
  imports Kani_Pg_Witnesses Kani_Pg_Process
begin

text \<open>Passes and a sweep over the example database: what they settle, and which statuses they write back.\<close>

section \<open>A rejected transaction\<close>

text \<open>After the treasury issued, a corporation without funds requests a transfer, and a pass begins.\<close>

definition overdrawn_state :: "database \<times> env" where
  "overdrawn_state = snd (pg_node_submit_payment sample_platform sample_pg sample_node ''CORP_B'' ''CORP_A''
     ''KCAD_TEST'' 5 None (minted_db, minted_env))"

definition overdrawn_pass :: "(node_error + (block \<times> ledger) option) \<times> database \<times> env" where
  "overdrawn_pass = begin_pass sample_platform sample_pg (sample_validator ''validator-a'') overdrawn_state"

definition overdrawn_finish :: "database \<times> env \<Rightarrow> (node_error + block option) \<times> database \<times> env" where
  "overdrawn_finish s = (case overdrawn_pass of
     (Inr (Some (b, l)), s0) \<Rightarrow> finish_pass sample_pg (sample_validator ''validator-a'') b l s
   | (_, s0) \<Rightarrow> (Inr None, s))"

lemma overdrawn_values:
  "(case overdrawn_pass of
     (Inr (Some (b, l)), s) \<Rightarrow>
       map (\<lambda>r. (tr_id r, tr_status r)) (db_transactions (fst overdrawn_state)) =
         [(uuid_text 0, ''PENDING''), (uuid_text 1, ''PENDING'')] \<and>
       map (\<lambda>r. (tr_id r, tr_status r)) (db_transactions (fst s)) =
         [(uuid_text 0, ''PENDING''), (uuid_text 1, ''REJECTED'')] \<and>
       map tx_id (blk_txs b) = [uuid_text 0] \<and> is_ok (fst (overdrawn_finish s))
   | _ \<Rightarrow> False)"
  by code_simp

theorem pass_restores_statuses_witness:
  "case overdrawn_pass of
     (Inr (Some (b, l)), s) \<Rightarrow>
       (\<exists>r \<in> set (db_transactions (fst s)). tr_id r = uuid_text 1 \<and> tr_status r = ''REJECTED'') \<and>
       (\<exists>r \<in> set (db_transactions (fst (snd (overdrawn_finish s)))).
          tr_id r = uuid_text 1 \<and> tr_status r = ''PENDING'')
   | _ \<Rightarrow> False"
proof -
  obtain b l db1 w1 where pass: "overdrawn_pass = (Inr (Some (b, l)), (db1, w1))"
    using overdrawn_values by (auto split: prod.splits sum.splits option.splits)
  note values1 = overdrawn_values [unfolded pass, simplified]
  let ?v = "sample_validator ''validator-a''"
  let ?n = "\<lparr>net_db = fst overdrawn_state, net_env = snd overdrawn_state, net_passes = [], net_seeders = []\<rparr>"
  let ?m = "\<lparr>net_db = db1, net_env = w1, net_passes = [(?v, b, l)], net_seeders = []\<rparr>"
  have "network_step sample_platform sample_pg minted_network ?n"
    unfolding minted_network_def
    by (rule net_client, rule client_submit) (unfold overdrawn_state_def prod.collapse, rule surjective_pairing)
  then have reach: "network_reachable sample_platform sample_pg ?n"
    by (rule network_next [OF network_next [OF seeded_reachable minted_step]])
  have begun: "begin_pass sample_platform sample_pg ?v (net_db ?n, net_env ?n) = (Inr (Some (b, l)), (db1, w1))"
    using pass by (simp add: overdrawn_pass_def)
  have finish: "overdrawn_finish (db1, w1) = finish_pass sample_pg ?v b l (db1, w1)"
    by (simp add: overdrawn_finish_def pass)
  then obtain res db3 w3 where fin: "finish_pass sample_pg ?v b l (db1, w1) = (Inr res, (db3, w3))"
    using values1 by (cases "finish_pass sample_pg ?v b l (db1, w1)") (auto simp: is_ok_iff)
  obtain q r where q: "db_transactions (fst overdrawn_state) = [q, r]" "tr_id r = uuid_text 1" "tr_status r = ''PENDING''"
    using values1 by (auto simp: map_eq_Cons_conv)
  then have r: "r \<in> set (db_transactions (fst overdrawn_state))" "tr_id r = uuid_text 1" "tr_status r = ''PENDING''"
    by simp_all
  have other: "uuid_text 1 \<noteq> uuid_text 0" by code_simp
  have "(network_step sample_platform sample_pg)\<^sup>*\<^sup>* \<lparr>net_db = db1, net_env = w1, net_passes = (?v, b, l) # net_passes ?n, net_seeders = net_seeders ?n\<rparr> ?m"
    by simp
  from pass_restores_statuses [OF reach sample_pg_ok begun this fin, of r] r values1 other
  have "\<exists>r' \<in> set (db_transactions db3). tr_id r' = uuid_text 1 \<and> tr_status r' = ''PENDING''"
    by (auto simp: map_eq_Cons_conv)
  moreover have "\<exists>r' \<in> set (db_transactions db1). tr_id r' = uuid_text 1 \<and> tr_status r' = ''REJECTED''"
    using values1 by (auto simp: map_eq_Cons_conv)
  ultimately show ?thesis by (simp add: pass finish fin)
qed

section \<open>A pass and a sweep\<close>

definition sample_pass :: "(node_error + block option) \<times> database \<times> env" where
  "sample_pass = run_once sample_platform sample_pg (sample_validator ''validator-a'') (minted_db, minted_env)"

lemma sample_pass_values: "case sample_pass of (Inr (Some b), s) \<Rightarrow> True | _ \<Rightarrow> False"
  by code_simp

theorem run_once_settles_witness:
  "case fst sample_pass of
     Inr (Some b) \<Rightarrow> db_blocks (fst (snd sample_pass)) = [block_to_row sample_pg b] \<and> blk_validator b = ''validator-a''
   | _ \<Rightarrow> False"
proof -
  obtain b db w where pass: "sample_pass = (Inr (Some b), (db, w))"
    using sample_pass_values by (auto split: prod.splits sum.splits option.splits)
  have reach: "network_reachable sample_platform sample_pg \<lparr>net_db = minted_db, net_env = minted_env, net_passes = [], net_seeders = []\<rparr>"
    using network_next [OF seeded_reachable minted_step] by (simp add: minted_network_def)
  have empty: "db_blocks minted_db = []" by (simp add: minted_db_def seeded_db_def database_empty_def)
  from run_once_settles [OF reach sample_pg_ok _ pass [unfolded sample_pass_def]] empty
  show ?thesis by (simp add: pass sample_validator_def)
qed

definition sweep_vars :: env_vars where
  "sweep_vars = (\<lambda>k. case map_of [(''ENV'', ''SANDBOX''), (''REAL_VALUE'', ''false''), (''REDEEMABLE'', ''false''),
     (''DATABASE_URL'', ''postgres://kani''), (''KANI_VALIDATOR_RUN_MODE'', ''sweep''),
     (''KANI_VALIDATOR_IDS'', ''validator-a, validator-b'')] k of
     Some v \<Rightarrow> Inr v | None \<Rightarrow> Inl VarNotPresent)"

definition sweep_settings :: validator_settings where
  "sweep_settings = \<lparr>vset_database_url = ''postgres://kani'', vset_validator_id = ''validator-a'',
     vset_run_mode = RunSweep, vset_poll_interval_ms = 750, vset_max_transactions_per_block = 25\<rparr>"

lemma sweep_settings: "validator_settings_from_env sweep_vars = Inr sweep_settings"
  by code_simp

lemma sample_sweep_ids: "sweep_ids sweep_vars sweep_settings = [''validator-a'', ''validator-b'']"
  by code_simp

definition sample_sweep :: "(process_error + process_outcome) \<times> database \<times> env" where
  "sample_sweep = validator_main sample_platform sample_pg sweep_vars 0 (minted_db, minted_env)"

lemma sample_sweep_values: "case fst sample_sweep of Inr (SweepDone k) \<Rightarrow> k = 1 | _ \<Rightarrow> False"
  by code_simp

theorem sweep_settles_witness:
  "length (db_blocks (fst (snd sample_sweep))) = 1"
proof -
  have "fst sample_sweep = Inr (SweepDone 1)"
    using sample_sweep_values by (auto split: sum.splits process_outcome.splits)
  then obtain db w where sweep: "sample_sweep = (Inr (SweepDone 1), (db, w))" by (metis prod.collapse)
  have reach: "network_reachable sample_platform sample_pg \<lparr>net_db = minted_db, net_env = minted_env, net_passes = [], net_seeders = []\<rparr>"
    using network_next [OF seeded_reachable minted_step] by (simp add: minted_network_def)
  have empty: "db_blocks minted_db = []" by (simp add: minted_db_def seeded_db_def database_empty_def)
  from sweep_settles [OF reach sample_pg_ok sweep_settings _ sweep [unfolded sample_sweep_def]] empty
  show ?thesis by (auto simp: sweep sample_sweep_ids)
qed

end
