(* ===== verification/Rust_F64.thy ===== *)
theory Rust_F64
  imports Rust_Std "HOL-Library.Log_Nat"
begin

text \<open>
  The type \<open>f64\<close>. Every finite \<open>f64\<close> is a whole multiple of the least positive one,
  \<open>2 ^ -1074\<close>: a finite number is its sign and its magnitude in these units. Parsing and
  division round the exact result to the nearest \<open>f64\<close>, ties to the even mantissa; the lemmas
  show that rounding is monotone, exact on the numbers that have a representation, and off by at
  most one part in \<open>2 ^ 53\<close>.
\<close>

section \<open>Values\<close>

datatype f64 =
  F64_NaN
| F64_Infinite bool
| F64_Finite bool int

text \<open>One in the last place of the subnormal numbers is one unit: \<open>1.0\<close> is \<open>2 ^ 1074\<close> units, and
  \<open>2 ^ 1024\<close>, the first power of two that is too large, is \<open>2 ^ 2098\<close> units.\<close>

definition f64_one_units :: int where "f64_one_units = 2 ^ 1074"
definition f64_overflow_units :: int where "f64_overflow_units = 2 ^ 2098"

text \<open>Fifty-three bits, the lowest at some unit.\<close>

definition f64_units :: "int \<Rightarrow> bool" where
  "f64_units u \<longleftrightarrow> 0 \<le> u \<and> u < f64_overflow_units \<and> 2 ^ nat (bitlen u - 53) dvd u"

fun f64_ok :: "f64 \<Rightarrow> bool" where
  "f64_ok (F64_Finite _ u) = f64_units u"
| "f64_ok _ = True"

section \<open>Rounding\<close>

text \<open>The whole number nearest to \<open>n / d\<close>, the even one of two.\<close>

definition round_half_even :: "int \<Rightarrow> int \<Rightarrow> int" where
  "round_half_even n d =
     (let q = n div d; r = n mod d in
      if 2 * r < d \<or> (2 * r = d \<and> even q) then q else q + 1)"

text \<open>The magnitude nearest to \<open>n / d\<close> units, without a bound on the exponent.\<close>

definition round_units :: "int \<Rightarrow> int \<Rightarrow> int" where
  "round_units n d =
     (let g = 2 ^ nat (bitlen (n div d) - 53) in round_half_even n (d * g) * g)"

definition f64_from_units :: "bool \<Rightarrow> int \<Rightarrow> int \<Rightarrow> f64" where
  "f64_from_units negative n d =
     (let u = round_units n d in
      if f64_overflow_units \<le> u then F64_Infinite negative else F64_Finite negative u)"

text \<open>The \<open>f64\<close> nearest to \<open>n / d\<close>, as a literal or \<open>str::parse\<close> of it.\<close>

definition f64_from_ratio :: "bool \<Rightarrow> int \<Rightarrow> int \<Rightarrow> f64" where
  "f64_from_ratio negative n d = f64_from_units negative (n * f64_one_units) d"

section \<open>Operations\<close>

text \<open>The operators \<open><=\<close>, \<open>>=\<close> and \<open>==\<close>; the two zeros are equal, and NaN is not even equal
  to itself.\<close>

fun f64_key :: "f64 \<Rightarrow> int option" where
  "f64_key F64_NaN = None"
| "f64_key (F64_Infinite negative) = Some (if negative then - f64_overflow_units else f64_overflow_units)"
| "f64_key (F64_Finite negative u) = Some (if negative then - u else u)"

definition f64_compare :: "(int \<Rightarrow> int \<Rightarrow> bool) \<Rightarrow> f64 \<Rightarrow> f64 \<Rightarrow> bool" where
  "f64_compare R x y = (case (f64_key x, f64_key y) of (Some a, Some b) \<Rightarrow> R a b | _ \<Rightarrow> False)"

definition f64_le :: "f64 \<Rightarrow> f64 \<Rightarrow> bool" where "f64_le = f64_compare (\<le>)"
definition f64_lt :: "f64 \<Rightarrow> f64 \<Rightarrow> bool" where "f64_lt = f64_compare (<)"
definition f64_eq :: "f64 \<Rightarrow> f64 \<Rightarrow> bool" where "f64_eq = f64_compare (=)"

fun f64_div :: "f64 \<Rightarrow> f64 \<Rightarrow> f64" where
  "f64_div (F64_Finite s u) (F64_Finite t v) =
     (if v \<noteq> 0 then f64_from_units (s \<noteq> t) (u * f64_one_units) v
      else if u \<noteq> 0 then F64_Infinite (s \<noteq> t) else F64_NaN)"
| "f64_div (F64_Finite s _) (F64_Infinite t) = F64_Finite (s \<noteq> t) 0"
| "f64_div (F64_Infinite s) (F64_Finite t _) = F64_Infinite (s \<noteq> t)"
| "f64_div _ _ = F64_NaN"

definition f64_zero :: f64 where "f64_zero = F64_Finite False 0"

section \<open>Texts\<close>

text \<open>\<open>str::parse::<f64>()\<close>: an optional sign, then \<open>inf\<close>, \<open>infinity\<close> or \<open>nan\<close> in any case, or
  digits with at most one point and an exponent. The value is the digits times a power of ten.\<close>

definition parse_exponent :: "string \<Rightarrow> int option" where
  "parse_exponent s = (case s of
     [] \<Rightarrow> Some 0
   | c # cs \<Rightarrow>
       if c = CHR ''e'' \<or> c = CHR ''E'' then
         (case cs of
            [] \<Rightarrow> None
          | d # ds \<Rightarrow> if d = CHR ''-'' then map_option (\<lambda>n. - int n) (parse_digits ds)
                      else if d = CHR ''+'' then map_option int (parse_digits ds)
                      else map_option int (parse_digits cs))
       else None)"

definition decimal_number :: "string \<Rightarrow> (int \<times> int) option" where
  "decimal_number s =
     (let whole = takeWhile is_ascii_digit s; rest = dropWhile is_ascii_digit s;
          (fraction, rest) = (case rest of
              c # cs \<Rightarrow> if c = CHR ''.'' then (takeWhile is_ascii_digit cs, dropWhile is_ascii_digit cs)
                        else ([], rest)
            | [] \<Rightarrow> ([], []))
      in if whole = [] \<and> fraction = [] then None
         else map_option (\<lambda>x. (int (dec_value (whole @ fraction)), x - int (length fraction)))
                (parse_exponent rest))"

definition decimal_ratio :: "int \<times> int \<Rightarrow> int \<times> int" where
  "decimal_ratio = (\<lambda>(m, x). (m * 10 ^ nat x, 10 ^ nat (- x)))"

definition parse_unsigned_f64 :: "bool \<Rightarrow> string \<Rightarrow> f64 option" where
  "parse_unsigned_f64 negative s =
     (let word = to_ascii_lowercase s in
      if word = ''inf'' \<or> word = ''infinity'' then Some (F64_Infinite negative)
      else if word = ''nan'' then Some F64_NaN
      else map_option (\<lambda>v. let (n, d) = decimal_ratio v in f64_from_ratio negative n d)
             (decimal_number s))"

definition parse_f64 :: "string \<Rightarrow> f64 option" where
  "parse_f64 s = (case s of
     [] \<Rightarrow> None
   | c # cs \<Rightarrow> if c = CHR ''-'' then parse_unsigned_f64 True cs
               else if c = CHR ''+'' then parse_unsigned_f64 False cs
               else parse_unsigned_f64 False s)"

text \<open>\<open>format!("{:.2}")\<close>: the exact value rounded to hundredths, ties to even.\<close>

fun f64_fixed2 :: "f64 \<Rightarrow> string" where
  "f64_fixed2 F64_NaN = ''NaN''"
| "f64_fixed2 (F64_Infinite negative) = (if negative then ''-inf'' else ''inf'')"
| "f64_fixed2 (F64_Finite negative u) =
     (let h = round_half_even (100 * u) f64_one_units in
      (if negative then ''-'' else '''') @ int_to_dec (h div 100) @ ''.'' @
      [dec_digit (nat (h mod 100 div 10)), dec_digit (nat (h mod 10))])"

section \<open>Rounding is monotone, exact and close\<close>

lemma round_half_even_exact [simp]: "0 < d \<Longrightarrow> round_half_even (k * d) d = k"
  by (simp add: round_half_even_def)

lemma round_half_even_cases:
  obtains (down) "round_half_even n d = n div d" "2 * (n mod d) \<le> d"
      "2 * (n mod d) = d \<longrightarrow> even (n div d)"
  | (up) "round_half_even n d = n div d + 1" "d \<le> 2 * (n mod d)"
      "2 * (n mod d) = d \<longrightarrow> odd (n div d)"
  by (cases "2 * (n mod d) < d \<or> 2 * (n mod d) = d \<and> even (n div d)")
    (auto simp: round_half_even_def Let_def)

lemma div_parts:
  fixes n d :: int
  assumes "0 < d"
  obtains x r where "n div d * d = x" "n mod d = r" "x + r = n" "0 \<le> r" "r < d"
  using assms that [of "n div d * d" "n mod d"] by simp

lemma round_half_even_close:
  assumes "0 < d"
  shows "2 * (round_half_even n d * d) \<le> 2 * n + d" "2 * n \<le> 2 * (round_half_even n d * d) + d"
proof -
  obtain x r where n: "n div d * d = x" "n mod d = r" "x + r = n" "0 \<le> r" "r < d"
    using assms by (rule div_parts)
  have "(n div d + 1) * d = x + d" by (simp add: distrib_right n(1))
  then show "2 * (round_half_even n d * d) \<le> 2 * n + d" "2 * n \<le> 2 * (round_half_even n d * d) + d"
    by (cases n d rule: round_half_even_cases; use n in simp)+
qed

lemma round_half_even_mono:
  assumes d: "0 < d" "0 < d'" and le: "n * d' \<le> n' * d"
  shows "round_half_even n d \<le> round_half_even n' d'"
proof -
  define q r q' r' where qr: "q = n div d" "r = n mod d" "q' = n' div d'" "r' = n' mod d'"
  have n: "n = q * d + r" "n' = q' * d' + r'" by (simp_all add: qr)
  have r: "0 \<le> r" "r < d" "0 \<le> r'" "r' < d'" using d by (simp_all add: qr)
  have eq: "q * (d * d') + r * d' \<le> q' * (d * d') + r' * d" using le n by (simp add: algebra_simps)
  have "r' * d < d * d'" using r(4) d(1) by (simp add: mult.commute)
  moreover have "0 \<le> r * d'" using r(1) d(2) by simp
  ultimately have "q * (d * d') < (q' + 1) * (d * d')" using eq by (simp add: distrib_right)
  moreover have "0 < d * d'" using d by simp
  ultimately have "q < q' + 1" using mult_less_cancel_right_pos by blast
  show ?thesis
  proof (cases "q = q'")
    case False
    with \<open>q < q' + 1\<close> have "q + 1 \<le> q'" by simp
    then show ?thesis
      by (cases n d rule: round_half_even_cases; cases n' d' rule: round_half_even_cases) (simp_all add: qr)
  next
    case True
    have half: "r * d' \<le> r' * d" using eq True by simp
    have up: "d' \<le> 2 * r' \<and> (2 * r' = d' \<longrightarrow> 2 * r = d)" if "d \<le> 2 * r"
    proof -
      have "d * d' \<le> 2 * (r * d')" using that d by (metis mult.assoc mult_right_mono less_imp_le)
      then have "d' * d \<le> 2 * r' * d" using half by (simp add: mult.commute mult.left_commute)
      then have "d' \<le> 2 * r'" using d(1) by simp
      moreover have "2 * r = d" if "2 * r' = d'"
      proof -
        have "2 * (r * d') \<le> d' * d" using half \<open>2 * r' = d'\<close> by (metis mult.assoc mult_left_mono zero_le_numeral)
        then have "2 * r * d' \<le> d * d'" by (simp add: mult.commute mult.left_commute)
        then have "2 * r \<le> d" using d(2) by simp
        with \<open>d \<le> 2 * r\<close> show ?thesis by simp
      qed
      ultimately show ?thesis by simp
    qed
    show ?thesis
      by (cases n d rule: round_half_even_cases; cases n' d' rule: round_half_even_cases)
        (use up True qr in auto)
  qed
qed

lemma round_half_even_ge: "0 < d \<Longrightarrow> k * d \<le> n \<Longrightarrow> k \<le> round_half_even n d"
  using round_half_even_mono [of 1 d k n] round_half_even_exact [of 1 k] by simp

lemma round_half_even_le: "0 < d \<Longrightarrow> n \<le> k * d \<Longrightarrow> round_half_even n d \<le> k"
  using round_half_even_mono [of d 1 n k] round_half_even_exact [of 1 k] by simp

text \<open>The granule: how many units one step of the mantissa is.\<close>

lemma round_units_ge_power:
  assumes "0 < d" "2 ^ j * d \<le> n" "nat (bitlen (n div d) - 53) \<le> j"
  shows "2 ^ j \<le> round_units n d"
proof -
  define s where "s = nat (bitlen (n div d) - 53)"
  have pow: "(2::int) ^ j = 2 ^ (j - s) * 2 ^ s" using assms(3) by (simp add: s_def flip: power_add)
  then have "2 ^ (j - s) \<le> round_half_even n (d * 2 ^ s)"
    using assms(1,2) by (intro round_half_even_ge) (simp_all add: mult.assoc mult.commute [of d])
  then show ?thesis by (simp add: round_units_def Let_def pow flip: s_def)
qed

lemma round_units_le_power:
  assumes "0 < d" "n \<le> 2 ^ j * d" "nat (bitlen (n div d) - 53) \<le> j"
  shows "round_units n d \<le> 2 ^ j"
proof -
  define s where "s = nat (bitlen (n div d) - 53)"
  have pow: "(2::int) ^ j = 2 ^ (j - s) * 2 ^ s" using assms(3) by (simp add: s_def flip: power_add)
  then have "round_half_even n (d * 2 ^ s) \<le> 2 ^ (j - s)"
    using assms(1,2) by (intro round_half_even_le) (simp_all add: mult.assoc mult.commute [of d])
  then show ?thesis by (simp add: round_units_def Let_def pow flip: s_def)
qed

lemma bitlen_mono: "x \<le> y \<Longrightarrow> bitlen x \<le> bitlen y"
  by (simp add: bitlen_def floorlog_mono nat_mono)

lemma bitlen_div_bounds:
  assumes "0 < d" "0 < n div d"
  shows "n < 2 ^ nat (bitlen (n div d)) * d" "2 ^ nat (bitlen (n div d) - 1) * d \<le> n"
proof -
  obtain x r where n: "n div d * d = x" "n mod d = r" "x + r = n" "0 \<le> r" "r < d"
    using assms(1) by (rule div_parts)
  have "n div d + 1 \<le> 2 ^ nat (bitlen (n div d))" using bitlen_bounds [OF assms(2)] by simp
  then have "(n div d + 1) * d \<le> 2 ^ nat (bitlen (n div d)) * d"
    using assms(1) by (intro mult_right_mono) simp_all
  then show "n < 2 ^ nat (bitlen (n div d)) * d" using n by (simp only: distrib_right mult_1)
  have "2 ^ nat (bitlen (n div d) - 1) * d \<le> n div d * d"
    using bitlen_bounds [OF assms(2)] assms(1) by (intro mult_right_mono) simp_all
  then show "2 ^ nat (bitlen (n div d) - 1) * d \<le> n" using n by linarith
qed

lemma round_units_le_bitlen:
  assumes "0 < d"
  shows "round_units n d \<le> 2 ^ nat (bitlen (n div d))"
proof (rule round_units_le_power [OF assms])
  show "n \<le> 2 ^ nat (bitlen (n div d)) * d"
  proof (cases "0 < n div d")
    case True
    then show ?thesis by (rule bitlen_div_bounds(1) [OF assms, THEN less_imp_le])
  next
    case False
    then have "bitlen (n div d) = 0" by (simp add: bitlen_eq_zero_iff)
    moreover have "n < d" using False assms by (simp add: pos_imp_zdiv_pos_iff)
    ultimately show ?thesis by simp
  qed
qed (simp add: nat_mono)

lemma round_units_mono:
  assumes d: "0 < d" "0 < d'" and le: "n * d' \<le> n' * d"
  shows "round_units n d \<le> round_units n' d'"
proof -
  define k k' where "k = bitlen (n div d)" and "k' = bitlen (n' div d')"
  have q: "n div d \<le> n' div d'"
  proof -
    have "n div d * d \<le> n" using d(1) by (metis div_mult_mod_eq le_add_same_cancel1 pos_mod_sign)
    then have "n div d * d * d' \<le> n * d'" using d(2) by (intro mult_right_mono) simp_all
    then have "n div d * d' * d \<le> n' * d" using le by (simp only: mult.assoc mult.commute [of d'])
    then have "n div d * d' \<le> n'" using d(1) by (rule mult_right_le_imp_le)
    then have "n div d * d' div d' \<le> n' div d'" using d(2) by (intro zdiv_mono1)
    then show ?thesis using d(2) by simp
  qed
  then have k: "k \<le> k'" unfolding k_def k'_def by (rule bitlen_mono)
  show ?thesis
  proof (cases "nat (k - 53) = nat (k' - 53)")
    case True
    have "n * (d' * 2 ^ nat (k - 53)) \<le> n' * (d * 2 ^ nat (k - 53))"
      using mult_right_mono [OF le, of "2 ^ nat (k - 53)"] by (simp add: mult.assoc)
    then have "round_half_even n (d * 2 ^ nat (k - 53)) \<le> round_half_even n' (d' * 2 ^ nat (k - 53))"
      using d by (intro round_half_even_mono) simp_all
    then show ?thesis using True by (simp add: round_units_def Let_def flip: k_def k'_def)
  next
    case False
    with k have big: "53 < k'" "k < k'" by simp_all
    have nonneg: "0 \<le> k" by (simp add: k_def bitlen_nonneg)
    have pos': "0 < n' div d'" using big bitlen_eq_zero_iff [of "n' div d'"] by (simp add: k'_def)
    have "round_units n d \<le> 2 ^ nat k" unfolding k_def using d(1) by (rule round_units_le_bitlen)
    also have "\<dots> \<le> 2 ^ nat (k' - 1)" using big by (intro power_increasing) simp_all
    also have "\<dots> \<le> round_units n' d'"
      using d(2) bitlen_div_bounds(2) [OF d(2) pos'] big
      by (intro round_units_ge_power) (simp_all flip: k'_def)
    finally show ?thesis .
  qed
qed

lemma round_units_exact:
  assumes "0 < d" "2 ^ nat (bitlen u - 53) dvd u"
  shows "round_units (u * d) d = u"
proof -
  define g :: int where "g = 2 ^ nat (bitlen u - 53)"
  obtain m where m: "u = g * m" using assms(2) unfolding g_def by (rule dvdE)
  have g: "0 < g" by (simp add: g_def)
  have "round_half_even (u * d) (d * g) = m"
    using round_half_even_exact [of "d * g" m] assms(1) g by (simp add: m mult_ac)
  moreover have "u * d div d = u" using assms(1) by simp
  ultimately have "round_units (u * d) d = m * g" unfolding round_units_def Let_def
    by (simp only: flip: g_def)
  then show ?thesis by (simp only: m mult.commute)
qed

lemma round_units_dvd:
  assumes "0 < d" "0 \<le> n"
  shows "2 ^ nat (bitlen (round_units n d) - 53) dvd round_units n d"
proof -
  define k s where "k = bitlen (n div d)" and "s = nat (k - 53)"
  have dvd: "2 ^ s dvd round_units n d" by (simp add: round_units_def Let_def s_def k_def)
  have k: "0 \<le> k" by (simp add: k_def bitlen_nonneg)
  have le: "round_units n d \<le> 2 ^ nat k" unfolding k_def using assms(1) by (rule round_units_le_bitlen)
  show ?thesis
  proof (cases "round_units n d = 2 ^ nat k")
    case True
    have "bitlen (1 * 2 ^ nat k) = bitlen 1 + int (nat k)" by (rule bitlen_pow2) simp
    then have "bitlen (round_units n d) = k + 1" using k True by (simp add: bitlen_def floorlog_def)
    then show ?thesis using True by (simp add: le_imp_power_dvd nat_mono)
  next
    case False
    then have "round_units n d < 2 ^ nat k" using le by simp
    then have "bitlen (round_units n d) \<le> k" using k by (simp add: bitlen_le_iff_power)
    then have "nat (bitlen (round_units n d) - 53) \<le> s" by (simp add: s_def nat_mono)
    then have "2 ^ nat (bitlen (round_units n d) - 53) dvd (2 ^ s :: int)" by (rule le_imp_power_dvd)
    then show ?thesis using dvd by (rule dvd_trans)
  qed
qed

lemma round_units_nonneg: "0 < d \<Longrightarrow> 0 \<le> n \<Longrightarrow> 0 \<le> round_units n d"
  using round_units_mono [of 1 d 0 n] by (simp add: round_units_def Let_def round_half_even_def)

text \<open>From the least normal number on, rounding moves a value by at most one part in \<open>2 ^ 53\<close>.\<close>

lemma round_units_close:
  assumes d: "0 < d" and big: "2 ^ 52 * d \<le> n"
  shows "2 ^ 53 * (round_units n d * d) \<le> (2 ^ 53 + 1) * n"
    and "(2 ^ 53 - 1) * n \<le> 2 ^ 53 * (round_units n d * d)"
proof -
  define k g where "k = bitlen (n div d)" and "g = (2::int) ^ nat (k - 53)"
  have q: "2 ^ 52 \<le> n div d" using zdiv_mono1 [OF big d] d by simp
  then have pos: "0 < n div d" by simp
  have "bitlen (2 ^ 52 :: int) \<le> k" unfolding k_def by (rule bitlen_mono [OF q])
  moreover have "bitlen (1 * 2 ^ 52 :: int) = bitlen 1 + int 52" by (rule bitlen_pow2) simp
  ultimately have k: "53 \<le> k" by (simp add: bitlen_def floorlog_def)
  then have "nat (k - 1) = nat (k - 53) + 52" by simp
  then have "2 ^ 52 * g = 2 ^ nat (k - 1)" by (simp add: g_def power_add)
  then have fine: "2 ^ 52 * (d * g) \<le> n"
    using bitlen_div_bounds(2) [OF d pos] by (simp add: k_def mult_ac)
  have dg: "0 < d * g" using d by (simp add: g_def)
  have r: "round_units n d * d = round_half_even n (d * g) * (d * g)"
    by (simp add: round_units_def Let_def mult_ac flip: k_def g_def)
  show "2 ^ 53 * (round_units n d * d) \<le> (2 ^ 53 + 1) * n"
    unfolding r using round_half_even_close(1) [OF dg, of n] fine by simp
  show "(2 ^ 53 - 1) * n \<le> 2 ^ 53 * (round_units n d * d)"
    unfolding r using round_half_even_close(2) [OF dg, of n] fine by simp
qed

section \<open>Well-formed values\<close>

lemma f64_from_units_ok: "0 < d \<Longrightarrow> 0 \<le> n \<Longrightarrow> f64_ok (f64_from_units s n d)"
  by (simp add: f64_from_units_def Let_def f64_units_def round_units_dvd round_units_nonneg)

lemma f64_from_ratio_ok: "0 < d \<Longrightarrow> 0 \<le> n \<Longrightarrow> f64_ok (f64_from_ratio s n d)"
  by (simp add: f64_from_ratio_def f64_from_units_ok f64_one_units_def)

lemma f64_key_from_units:
  "f64_key (f64_from_units False n d) = Some (min f64_overflow_units (round_units n d))"
  by (simp add: f64_from_units_def Let_def min_def)

lemma f64_from_units_exact:
  "0 < d \<Longrightarrow> f64_units u \<Longrightarrow> f64_from_units s (u * d) d = F64_Finite s u"
  by (simp add: f64_from_units_def f64_units_def round_units_exact)

lemma decimal_number_nonneg: "decimal_number s = Some (m, x) \<Longrightarrow> 0 \<le> m"
  by (auto simp: decimal_number_def Let_def split: prod.splits if_splits)

lemma parse_unsigned_f64_ok:
  assumes "parse_unsigned_f64 negative s = Some y"
  shows "f64_ok y"
proof (cases "decimal_number s")
  case None
  with assms show ?thesis by (auto simp: parse_unsigned_f64_def Let_def split: if_splits)
next
  case (Some v)
  then have "0 \<le> fst v" by (cases v) (simp add: decimal_number_nonneg)
  then have "f64_ok (f64_from_ratio negative (fst v * 10 ^ nat (snd v)) (10 ^ nat (- snd v)))"
    by (intro f64_from_ratio_ok) simp_all
  with assms Some show ?thesis
    by (auto simp: parse_unsigned_f64_def Let_def decimal_ratio_def case_prod_beta split: if_splits)
qed

lemma parse_f64_ok: "parse_f64 s = Some x \<Longrightarrow> f64_ok x"
  by (auto simp: parse_f64_def intro: parse_unsigned_f64_ok split: list.splits if_splits)

lemma f64_div_ok:
  assumes "f64_ok x" "f64_ok y"
  shows "f64_ok (f64_div x y)"
proof (cases x; cases y)
  fix s u t v
  assume xy: "x = F64_Finite s u" "y = F64_Finite t v"
  with assms have "0 \<le> u" "0 \<le> v" by (simp_all add: f64_units_def)
  then show ?thesis by (auto simp: xy f64_one_units_def intro!: f64_from_units_ok)
qed (simp_all add: f64_units_def f64_overflow_units_def)

lemma f64_le_finite [simp]:
  "f64_le (F64_Finite False u) (F64_Finite False v) \<longleftrightarrow> u \<le> v"
  by (simp add: f64_le_def f64_compare_def)

end
