(* ===== verification/Kani_Cost_Guard.thy ===== *)
theory Kani_Cost_Guard
  imports Kani_Node Rust_F64
begin

text \<open>
  The budget brake, \<open>crates/kani-api/src/bin/kani-cost-guard.rs\<close>: a service that receives budget
  notifications and pauses the scheduler of the validators when the spending crosses a threshold.
  Base64 (crate \<open>base64\<close>), JSON (\<open>serde_json\<close>) and the texts of HTTP errors (\<open>reqwest\<close>) are the
  parameter \<open>guard_api\<close>; the two services the guard calls are the function \<open>web\<close>, which answers a
  request after the requests made before. The state of a handler is the list of requests made.
\<close>

section \<open>Configuration\<close>

record cost_guard_config =
  cgc_project_id :: string
  cgc_region :: string
  cgc_scheduler_job :: string
  cgc_budget_id :: "string option"
  cgc_brake_threshold :: f64
  cgc_dry_run :: bool

text \<open>The errors \<open>CostGuardConfig::from_env\<close> and \<open>main\<close> collect in \<open>anyhow::Error\<close>.\<close>

datatype start_error =
  StartRuntime sandbox_runtime_config_error
| StartVar var_error
| StartThresholdText string
| StartMessage string

definition required_env :: "env_vars \<Rightarrow> string \<Rightarrow> start_error + string" where
  "required_env vars name =
     and_then (map_err StartVar (vars name)) (\<lambda>value.
     let value = trim value in
     if value = [] then Inl (StartMessage (name @ '' must not be empty'')) else Inr value)"

definition optional_env :: "env_vars \<Rightarrow> string \<Rightarrow> string option" where
  "optional_env vars name =
     (case map_option trim (var_ok (vars name)) of
        None \<Rightarrow> None
      | Some value \<Rightarrow> if value = [] then None else Some value)"

definition f64_ten :: f64 where "f64_ten = f64_from_ratio False 10 1"

definition cost_guard_from_env :: "env_vars \<Rightarrow> start_error + cost_guard_config" where
  "cost_guard_from_env vars =
     (let text = var_or ''0.8'' (vars ''KANI_BUDGET_BRAKE_THRESHOLD'') in
      and_then (ok_or (StartThresholdText text) (parse_f64 text)) (\<lambda>threshold.
      if \<not> (f64_le f64_zero threshold \<and> f64_le threshold f64_ten) \<or> f64_eq threshold f64_zero
      then Inl (StartMessage ''KANI_BUDGET_BRAKE_THRESHOLD must be greater than 0 and no more than 10'')
      else
      and_then (required_env vars ''KANI_SCHEDULER_PROJECT'') (\<lambda>project.
      and_then (required_env vars ''KANI_SCHEDULER_REGION'') (\<lambda>region.
      and_then (required_env vars ''KANI_SCHEDULER_JOB'') (\<lambda>job.
      Inr \<lparr>cgc_project_id = project, cgc_region = region, cgc_scheduler_job = job,
        cgc_budget_id = optional_env vars ''KANI_BUDGET_ID'', cgc_brake_threshold = threshold,
        cgc_dry_run = (case vars ''KANI_COST_GUARD_DRY_RUN'' of
            Inl _ \<Rightarrow> False | Inr value \<Rightarrow> eq_ignore_ascii_case value ''true'')\<rparr>)))))"

text \<open>What \<open>main\<close> decides before it listens; \<open>SandboxRuntimeConfig::from_env\<close> reads its three
  variables with \<open>env::var(_).ok()\<close>.\<close>

definition cost_guard_start :: "env_vars \<Rightarrow> start_error + cost_guard_config" where
  "cost_guard_start vars =
     and_then (map_err StartRuntime (runtime_config_from_values (var_ok (vars ''ENV''))
       (var_ok (vars ''REAL_VALUE'')) (var_ok (vars ''REDEEMABLE'')))) (\<lambda>_.
     cost_guard_from_env vars)"

section \<open>Messages\<close>

record pub_sub_message =
  psm_data :: "string option"
  psm_attributes :: "string btree_map"
  psm_message_id :: "string option"
  psm_legacy_message_id :: "string option"

record pub_sub_push_envelope =
  pse_message :: pub_sub_message
  pse_subscription :: "string option"

record budget_notification =
  bn_budget_display_name :: "string option"
  bn_cost_amount :: "f64 option"
  bn_budget_amount :: "f64 option"
  bn_alert_threshold_exceeded :: "f64 option"
  bn_forecast_threshold_exceeded :: "f64 option"
  bn_currency_code :: "string option"

record cost_guard_health =
  cgh_service :: string
  cgh_status :: string
  cgh_environment :: string
  cgh_real_value :: bool
  cgh_redeemable :: bool

record budget_guard_response =
  bgr_action :: string
  bgr_reason :: string
  bgr_threshold :: f64
  bgr_alert_threshold_exceeded :: "f64 option"
  bgr_forecast_threshold_exceeded :: "f64 option"
  bgr_cost_amount :: "f64 option"
  bgr_budget_amount :: "f64 option"
  bgr_currency_code :: "string option"
  bgr_budget_display_name :: "string option"
  bgr_subscription :: "string option"
  bgr_message_id :: "string option"
  bgr_dry_run :: bool

definition message_data :: "pub_sub_message \<Rightarrow> string + string" where
  "message_data m = ok_or ''Pub/Sub push message missing data field'' (psm_data m)"

definition message_id :: "pub_sub_message \<Rightarrow> string option" where
  "message_id m = (case psm_message_id m of None \<Rightarrow> psm_legacy_message_id m | Some i \<Rightarrow> Some i)"

definition cost_guard_health_response :: cost_guard_health where
  "cost_guard_health_response = \<lparr>cgh_service = ''kani-cost-guard'', cgh_status = ''ok'',
     cgh_environment = ''SANDBOX'', cgh_real_value = False, cgh_redeemable = False\<rparr>"

section \<open>The decision\<close>

definition budget_id_matches :: "string btree_map \<Rightarrow> string option \<Rightarrow> bool" where
  "budget_id_matches attributes expected =
     (case expected of
        None \<Rightarrow> True
      | Some expected \<Rightarrow> (case bt_get attributes ''budgetId'' of None \<Rightarrow> False | Some actual \<Rightarrow> actual = expected))"

definition zip_option :: "'a option \<Rightarrow> 'b option \<Rightarrow> ('a \<times> 'b) option" where
  "zip_option x y = (case (x, y) of (Some a, Some b) \<Rightarrow> Some (a, b) | _ \<Rightarrow> None)"

definition should_pause_scheduler :: "budget_notification \<Rightarrow> f64 \<Rightarrow> bool" where
  "should_pause_scheduler n brake_threshold =
     (if (case bn_alert_threshold_exceeded n of None \<Rightarrow> False
          | Some threshold \<Rightarrow> f64_le brake_threshold threshold) then True
      else (case zip_option (bn_cost_amount n) (bn_budget_amount n) of
              None \<Rightarrow> False
            | Some (cost_amount, budget_amount) \<Rightarrow>
                f64_lt f64_zero budget_amount \<and> f64_le brake_threshold (f64_div cost_amount budget_amount)))"

definition below_reason :: string where
  "below_reason = ''budget notification did not cross brake threshold''"

definition ratio_reason :: "budget_notification \<Rightarrow> f64 \<Rightarrow> string" where
  "ratio_reason n brake_threshold =
     (case zip_option (bn_cost_amount n) (bn_budget_amount n) of
        None \<Rightarrow> below_reason
      | Some (cost_amount, budget_amount) \<Rightarrow>
          if f64_lt f64_zero budget_amount then
            let ratio = f64_div cost_amount budget_amount in
            if f64_le brake_threshold ratio then
              ''cost ratio '' @ f64_fixed2 ratio @ '' crossed brake threshold '' @ f64_fixed2 brake_threshold
            else below_reason
          else below_reason)"

definition brake_reason :: "budget_notification \<Rightarrow> f64 \<Rightarrow> string" where
  "brake_reason n brake_threshold =
     (case bn_alert_threshold_exceeded n of
        None \<Rightarrow> ratio_reason n brake_threshold
      | Some alert_threshold \<Rightarrow>
          if f64_le brake_threshold alert_threshold then
            ''actual spend alert threshold '' @ f64_fixed2 alert_threshold @
            '' crossed brake threshold '' @ f64_fixed2 brake_threshold
          else ratio_reason n brake_threshold)"

section \<open>Responses\<close>

definition with_action :: "string \<Rightarrow> budget_guard_response \<Rightarrow> budget_guard_response" where
  "with_action action r = r\<lparr>bgr_action := action\<rparr>"

definition response_for ::
  "cost_guard_config \<Rightarrow> pub_sub_push_envelope \<Rightarrow> budget_notification \<Rightarrow> budget_guard_response" where
  "response_for config envelope n =
     \<lparr>bgr_action = ''received'', bgr_reason = brake_reason n (cgc_brake_threshold config),
      bgr_threshold = cgc_brake_threshold config,
      bgr_alert_threshold_exceeded = bn_alert_threshold_exceeded n,
      bgr_forecast_threshold_exceeded = bn_forecast_threshold_exceeded n,
      bgr_cost_amount = bn_cost_amount n, bgr_budget_amount = bn_budget_amount n,
      bgr_currency_code = bn_currency_code n, bgr_budget_display_name = bn_budget_display_name n,
      bgr_subscription = pse_subscription envelope, bgr_message_id = message_id (pse_message envelope),
      bgr_dry_run = cgc_dry_run config\<rparr>"

definition response_for_invalid ::
  "cost_guard_config \<Rightarrow> pub_sub_push_envelope \<Rightarrow> string \<Rightarrow> budget_guard_response" where
  "response_for_invalid config envelope reason =
     \<lparr>bgr_action = ''ignored'', bgr_reason = reason, bgr_threshold = cgc_brake_threshold config,
      bgr_alert_threshold_exceeded = None, bgr_forecast_threshold_exceeded = None,
      bgr_cost_amount = None, bgr_budget_amount = None, bgr_currency_code = None,
      bgr_budget_display_name = None, bgr_subscription = pse_subscription envelope,
      bgr_message_id = message_id (pse_message envelope), bgr_dry_run = cgc_dry_run config\<rparr>"

section \<open>Outside services\<close>

text \<open>A request the client is asked to send, and what becomes of it: it fails (also before it is
  on the wire), or it is answered with a status and a body, which may fail to arrive.\<close>

record http_request =
  hr_method :: string
  hr_url :: string
  hr_headers :: "(string \<times> string) list"
  hr_json :: "string option"

datatype http_outcome =
  SendError string
| Answer nat "string + string"

type_synonym web = "http_request list \<Rightarrow> http_request \<Rightarrow> http_outcome"

type_synonym 'a guard_op = "http_request list \<Rightarrow> (string + 'a) \<times> http_request list"

record guard_api =
  ga_base64_decode :: "string \<Rightarrow> string + string"
  ga_notification_json :: "string \<Rightarrow> string + budget_notification"
  ga_token_json :: "string + string \<Rightarrow> string + string"
  ga_status_error :: "string \<Rightarrow> nat \<Rightarrow> string"
  ga_status_text :: "nat \<Rightarrow> string"

definition send_request :: "web \<Rightarrow> http_request \<Rightarrow> http_request list
    \<Rightarrow> (string + nat \<times> (string + string)) \<times> http_request list" where
  "send_request web r sent =
     ((case web sent r of SendError e \<Rightarrow> Inl e | Answer status body \<Rightarrow> Inr (status, body)), sent @ [r])"

definition token_url :: string where
  "token_url = ''http://metadata.google.internal/computeMetadata/v1/instance/service-accounts/default/token''"

definition token_request :: http_request where
  "token_request = \<lparr>hr_method = ''GET'', hr_url = token_url,
     hr_headers = [(''Metadata-Flavor'', ''Google'')], hr_json = None\<rparr>"

definition pause_url :: "cost_guard_config \<Rightarrow> string" where
  "pause_url config = ''https://cloudscheduler.googleapis.com/v1/projects/'' @ cgc_project_id config @
     ''/locations/'' @ cgc_region config @ ''/jobs/'' @ cgc_scheduler_job config @ '':pause''"

definition pause_request :: "cost_guard_config \<Rightarrow> string \<Rightarrow> http_request" where
  "pause_request config token = \<lparr>hr_method = ''POST'', hr_url = pause_url config,
     hr_headers = [(''Authorization'', ''Bearer '' @ token)], hr_json = Some ''{}''\<rparr>"

definition is_success :: "nat \<Rightarrow> bool" where "is_success status \<longleftrightarrow> 200 \<le> status \<and> status < 300"

definition is_error_status :: "nat \<Rightarrow> bool" where "is_error_status status \<longleftrightarrow> 400 \<le> status \<and> status < 600"

definition metadata_access_token :: "guard_api \<Rightarrow> web \<Rightarrow> string guard_op" where
  "metadata_access_token ga web =
     h_bind (\<lambda>sent. map_prod (map_err (\<lambda>e. ''failed to query metadata server token: '' @ e)) id
        (send_request web token_request sent)) (\<lambda>(status, body).
     h_bind (h_lift (if is_error_status status
        then Inl (''metadata server token request failed: '' @ ga_status_error ga token_url status)
        else Inr ())) (\<lambda>_.
     h_lift (map_err (\<lambda>e. ''failed to decode metadata server token: '' @ e) (ga_token_json ga body))))"

definition pause_scheduler_job :: "guard_api \<Rightarrow> web \<Rightarrow> cost_guard_config \<Rightarrow> unit guard_op" where
  "pause_scheduler_job ga web config =
     h_bind (metadata_access_token ga web) (\<lambda>token.
     h_bind (\<lambda>sent. map_prod (map_err (\<lambda>e. ''failed to call Cloud Scheduler pause API: '' @ e)) id
        (send_request web (pause_request config token) sent)) (\<lambda>(status, body).
     if is_success status then h_return ()
     else h_fail (''Cloud Scheduler pause API returned '' @ ga_status_text ga status @ '': '' @
       (case body of Inl _ \<Rightarrow> [] | Inr text \<Rightarrow> text))))"

section \<open>The handler\<close>

definition decode_budget_notification :: "guard_api \<Rightarrow> string \<Rightarrow> string + budget_notification" where
  "decode_budget_notification ga encoded =
     and_then (map_err (\<lambda>e. ''invalid Pub/Sub base64 payload: '' @ e) (ga_base64_decode ga encoded)) (\<lambda>decoded.
     map_err (\<lambda>e. ''invalid Cloud Billing budget notification JSON: '' @ e) (ga_notification_json ga decoded))"

definition handle_budget_event :: "guard_api \<Rightarrow> web \<Rightarrow> cost_guard_config \<Rightarrow> pub_sub_push_envelope
    \<Rightarrow> (nat \<times> budget_guard_response) guard_op" where
  "handle_budget_event ga web config envelope =
     (case message_data (pse_message envelope) of
        Inl e \<Rightarrow> h_return (200, response_for_invalid config envelope e)
      | Inr data \<Rightarrow>
     (case decode_budget_notification ga data of
        Inl e \<Rightarrow> h_return (200, response_for_invalid config envelope e)
      | Inr notification \<Rightarrow>
          let response = response_for config envelope notification in
          if \<not> budget_id_matches (psm_attributes (pse_message envelope)) (cgc_budget_id config)
          then h_return (200, with_action ''ignored'' response)
          else if \<not> should_pause_scheduler notification (cgc_brake_threshold config)
          then h_return (200, with_action ''ignored'' response)
          else if cgc_dry_run config then h_return (202, with_action ''dry_run'' response)
          else h_bind (pause_scheduler_job ga web config) (\<lambda>_.
            h_return (202, with_action ''paused_scheduler'' response))))"

text \<open>The status and the body of the answer: a response, or an object with the error.\<close>

definition budget_events :: "guard_api \<Rightarrow> web \<Rightarrow> cost_guard_config \<Rightarrow> pub_sub_push_envelope
    \<Rightarrow> http_request list \<Rightarrow> (nat \<times> (string + budget_guard_response)) \<times> http_request list" where
  "budget_events ga web config envelope sent =
     (case handle_budget_event ga web config envelope sent of
        (Inl e, sent) \<Rightarrow> ((500, Inl e), sent)
      | (Inr (status, response), sent) \<Rightarrow> ((status, Inr response), sent))"

end
