(* ===== verification/Kani_Cost_Guard_Props.thy ===== *)
theory Kani_Cost_Guard_Props
  imports Kani_Cost_Guard
begin

text \<open>
  Properties of the budget brake: which requests an event makes the guard send and how it answers,
  and the exact spending at which the brake acts, rounding included.
\<close>

section \<open>The answer to an event\<close>

text \<open>The event is a notification of the configured budget that crosses the threshold.\<close>

definition brakes :: "guard_api \<Rightarrow> cost_guard_config \<Rightarrow> pub_sub_push_envelope \<Rightarrow> bool" where
  "brakes ga config envelope =
     (case and_then (message_data (pse_message envelope)) (decode_budget_notification ga) of
        Inl _ \<Rightarrow> False
      | Inr n \<Rightarrow> budget_id_matches (psm_attributes (pse_message envelope)) (cgc_budget_id config) \<and>
          should_pause_scheduler n (cgc_brake_threshold config))"

text \<open>The service answered the last of the requests, one to pause the job, with success.\<close>

definition acknowledged :: "web \<Rightarrow> cost_guard_config \<Rightarrow> http_request list \<Rightarrow> http_request list \<Rightarrow> bool" where
  "acknowledged web config sent new \<longleftrightarrow>
     (\<exists>token status body. new = [token_request, pause_request config token] \<and>
        web (sent @ [token_request]) (pause_request config token) = Answer status body \<and> is_success status)"

text \<open>The token the metadata server gives out.\<close>

definition token_given :: "guard_api \<Rightarrow> web \<Rightarrow> http_request list \<Rightarrow> string \<Rightarrow> bool" where
  "token_given ga web sent token \<longleftrightarrow>
     (\<exists>status body. web sent token_request = Answer status body \<and> \<not> is_error_status status \<and>
        ga_token_json ga body = Inr token)"

lemma metadata_access_token_cases:
  obtains (token) token where "token_given ga web sent token"
      "metadata_access_token ga web sent = (Inr token, sent @ [token_request])"
  | (failed) e where "\<And>token. \<not> token_given ga web sent token"
      "metadata_access_token ga web sent = (Inl e, sent @ [token_request])"
proof (cases "web sent token_request")
  case (SendError e)
  with failed show ?thesis
    by (simp add: metadata_access_token_def token_given_def h_bind_def send_request_def map_err_def)
next
  case (Answer status body)
  with token failed show ?thesis
    by (cases "is_error_status status"; cases "ga_token_json ga body")
      (auto simp: metadata_access_token_def token_given_def h_bind_def h_lift_def send_request_def map_err_def)
qed

lemma pause_scheduler_job_cases:
  obtains (no_token) e where "\<And>token. \<not> token_given ga web sent token"
      "pause_scheduler_job ga web config sent = (Inl e, sent @ [token_request])"
  | (paused) token where "token_given ga web sent token"
      "acknowledged web config sent [token_request, pause_request config token]"
      "pause_scheduler_job ga web config sent = (Inr (), sent @ [token_request, pause_request config token])"
  | (refused) token e where "token_given ga web sent token"
      "\<not> acknowledged web config sent [token_request, pause_request config token]"
      "pause_scheduler_job ga web config sent = (Inl e, sent @ [token_request, pause_request config token])"
proof (cases ga web sent rule: metadata_access_token_cases)
  case (failed e)
  with no_token show ?thesis by (simp add: pause_scheduler_job_def h_bind_def)
next
  case (token token)
  have inj: "pause_request config token = pause_request config token' \<longleftrightarrow> token = token'" for token'
    by (simp add: pause_request_def)
  show ?thesis
  proof (cases "web (sent @ [token_request]) (pause_request config token)")
    case (SendError e)
    with token refused [of token] show ?thesis
      by (simp add: pause_scheduler_job_def h_bind_def send_request_def map_err_def acknowledged_def inj)
  next
    case (Answer status body)
    with token refused [of token] paused [of token] show ?thesis
      by (cases "is_success status")
        (auto simp: pause_scheduler_job_def h_bind_def h_return_def h_fail_def send_request_def map_err_def
          acknowledged_def inj)
  qed
qed

lemma ratio_reason_below:
  "ratio_reason n t = below_reason \<longleftrightarrow>
     \<not> (case zip_option (bn_cost_amount n) (bn_budget_amount n) of None \<Rightarrow> False
        | Some (c, b) \<Rightarrow> f64_lt f64_zero b \<and> f64_le t (f64_div c b))"
  by (auto simp: ratio_reason_def below_reason_def Let_def split: option.splits)

lemma brake_reason_below: "brake_reason n t = below_reason \<longleftrightarrow> \<not> should_pause_scheduler n t"
  by (auto simp: brake_reason_def should_pause_scheduler_def ratio_reason_below split: option.splits)
    (auto simp: below_reason_def)

lemma with_action_simps [simp]:
  "bgr_action (with_action a r) = a" "bgr_reason (with_action a r) = bgr_reason r"
  by (simp_all add: with_action_def)

lemma response_for_simps [simp]:
  "bgr_reason (response_for config envelope n) = brake_reason n (cgc_brake_threshold config)"
  "bgr_action (response_for_invalid config envelope e) = ''ignored''"
  by (simp_all add: response_for_def response_for_invalid_def)

text \<open>
  Claim C32. What a budget event does. The guard sends nothing unless the event is a decodable
  notification of the configured budget that crosses the threshold and it is not a dry run; then it
  asks for a token, and with the token it got, once, to pause the configured job. It answers 500,
  so that the event is delivered again, exactly when it tried and the pause was not acknowledged;
  it reports the scheduler as paused exactly when it was acknowledged, and names the crossing
  as its reason whenever it acts or would have acted but for the dry run.
\<close>
theorem budget_event_spec:
  assumes "budget_events ga web config envelope sent = ((status, body), sent')"
  shows "\<exists>new. sent' = sent @ new \<and>
    (new \<noteq> [] \<longleftrightarrow> brakes ga config envelope \<and> \<not> cgc_dry_run config) \<and>
    (new = [] \<or> new = [token_request] \<and> (\<forall>token. \<not> token_given ga web sent token) \<or>
       (\<exists>token. new = [token_request, pause_request config token] \<and> token_given ga web sent token)) \<and>
    (status = 500 \<longleftrightarrow> new \<noteq> [] \<and> \<not> acknowledged web config sent new) \<and>
    (case body of
       Inl _ \<Rightarrow> status = 500
     | Inr r \<Rightarrow> (bgr_action r = ''paused_scheduler'' \<longleftrightarrow> acknowledged web config sent new) \<and>
         (brakes ga config envelope \<longrightarrow> bgr_reason r \<noteq> below_reason))"
proof -
  let ?d = "and_then (message_data (pse_message envelope)) (decode_budget_notification ga)"
  have none: "\<not> acknowledged web config sent []" by (simp add: acknowledged_def)
  show ?thesis
  proof (cases "brakes ga config envelope \<and> \<not> cgc_dry_run config")
    case False
    then have "\<exists>r. handle_budget_event ga web config envelope sent = (Inr r, sent) \<and> fst r \<noteq> 500 \<and>
        bgr_action (snd r) \<noteq> ''paused_scheduler'' \<and>
        (brakes ga config envelope \<longrightarrow> bgr_reason (snd r) \<noteq> below_reason)"
      by (auto simp: handle_budget_event_def brakes_def and_then_def h_return_def brake_reason_below Let_def
          split: sum.splits)
    with assms False none show ?thesis by (auto simp: budget_events_def)
  next
    case True
    then obtain data n where d: "message_data (pse_message envelope) = Inr data"
        "decode_budget_notification ga data = Inr n"
        "budget_id_matches (psm_attributes (pse_message envelope)) (cgc_budget_id config)"
        "should_pause_scheduler n (cgc_brake_threshold config)"
      by (auto simp: brakes_def and_then_def split: sum.splits)
    have reason: "brake_reason n (cgc_brake_threshold config) \<noteq> below_reason"
      using d(4) by (simp add: brake_reason_below)
    have handle: "handle_budget_event ga web config envelope sent =
        h_bind (pause_scheduler_job ga web config) (\<lambda>_. h_return (202,
          with_action ''paused_scheduler'' (response_for config envelope n))) sent"
      using d True by (simp add: handle_budget_event_def Let_def)
    have token: "\<not> acknowledged web config sent [token_request]" by (simp add: acknowledged_def)
    show ?thesis
      by (cases rule: pause_scheduler_job_cases [where ga = ga and web = web and sent = sent and config = config])
        (use assms True token reason in \<open>auto simp: budget_events_def handle h_bind_def h_return_def\<close>)
  qed
qed

section \<open>The point at which the brake acts\<close>

text \<open>The value of the text of a number without a minus sign, as a fraction.\<close>

definition exact_decimal :: "string \<Rightarrow> (int \<times> int) option" where
  "exact_decimal s = map_option decimal_ratio
     (decimal_number (case s of c # cs \<Rightarrow> if c = CHR ''+'' then cs else s | [] \<Rightarrow> []))"

lemma decimal_number_head:
  assumes "decimal_number s = Some v"
  obtains c cs where "s = c # cs" "is_ascii_digit c \<or> c = CHR ''.''"
proof (cases s)
  case Nil
  with assms show ?thesis by (simp add: decimal_number_def)
next
  case (Cons c cs)
  with assms that show ?thesis
    by (cases "is_ascii_digit c \<or> c = CHR ''.''") (auto simp: decimal_number_def Let_def)
qed

lemma decimal_number_no_word:
  assumes "decimal_number s = Some v"
  shows "to_ascii_lowercase s \<noteq> ''inf''" "to_ascii_lowercase s \<noteq> ''infinity''"
    "to_ascii_lowercase s \<noteq> ''nan''"
proof -
  obtain c cs where "s = c # cs" and c: "is_ascii_digit c \<or> c = CHR ''.''"
    using assms by (rule decimal_number_head)
  moreover from c have "char_to_lower c = c"
    by (auto simp: char_to_lower_def is_ascii_digit_def is_ascii_uppercase_def byte_of_def)
  moreover from c have "c \<noteq> CHR ''i''" "c \<noteq> CHR ''n''" by (auto simp: is_ascii_digit_def byte_of_def)
  ultimately show "to_ascii_lowercase s \<noteq> ''inf''" "to_ascii_lowercase s \<noteq> ''infinity''"
    "to_ascii_lowercase s \<noteq> ''nan''" by (simp_all add: to_ascii_lowercase_def)
qed

lemma parse_f64_exact_decimal:
  assumes "exact_decimal s = Some (p, q)"
  shows "parse_f64 s = Some (f64_from_ratio False p q)" "0 \<le> p" "0 < q"
proof -
  define digits where "digits = (case s of c # cs \<Rightarrow> if c = CHR ''+'' then cs else s | [] \<Rightarrow> [])"
  obtain m x where v: "decimal_number digits = Some (m, x)" "decimal_ratio (m, x) = (p, q)"
    using assms by (auto simp: exact_decimal_def digits_def)
  then show "0 \<le> p" "0 < q" using decimal_number_nonneg [OF v(1)] by (auto simp: decimal_ratio_def)
  have "parse_unsigned_f64 False digits = Some (f64_from_ratio False p q)"
    using decimal_number_no_word [OF v(1)] v by (simp add: parse_unsigned_f64_def)
  moreover obtain c cs where "digits = c # cs" "is_ascii_digit c \<or> c = CHR ''.''"
    using v(1) by (rule decimal_number_head)
  ultimately show "parse_f64 s = Some (f64_from_ratio False p q)"
    by (auto simp: parse_f64_def digits_def is_ascii_digit_def byte_of_def split: list.splits if_splits)
qed

lemma cost_guard_from_env_threshold:
  assumes "cost_guard_from_env vars = Inr config" "vars ''KANI_BUDGET_BRAKE_THRESHOLD'' = Inr text"
  shows "parse_f64 text = Some (cgc_brake_threshold config)"
    and "f64_le f64_zero (cgc_brake_threshold config)" "f64_le (cgc_brake_threshold config) f64_ten"
    and "\<not> f64_eq (cgc_brake_threshold config) f64_zero"
  using assms
  by (auto simp: cost_guard_from_env_def var_or_def and_then_def ok_or_def Let_def split: option.splits if_splits sum.splits)

lemma f64_le_from_units:
  "f64_le (f64_from_units False n d) (f64_from_units False n' d') \<longleftrightarrow>
     min f64_overflow_units (round_units n d) \<le> min f64_overflow_units (round_units n' d')"
  by (simp add: f64_le_def f64_compare_def f64_key_from_units)

lemma f64_ten_finite: "f64_ten = F64_Finite False (10 * f64_one_units)"
  by code_simp

lemma round_units_small: "0 < d \<Longrightarrow> n \<le> 2 ^ 52 * d \<Longrightarrow> round_units n d \<le> 2 ^ 52"
  using round_units_le_power [of d n 52] bitlen_mono [of "n div d" "2 ^ 52"]
    bitlen_pow2 [of 1 52] zdiv_mono1 [of n "2 ^ 52 * d" d]
  by (simp add: bitlen_def floorlog_def)

text \<open>Two quotients whose rounded values are in this order are nearly in this order.\<close>

lemma round_units_order:
  assumes d: "0 < d" "0 < d'" and le: "round_units n d \<le> round_units n' d'" and big: "2 ^ 53 * d \<le> n"
  shows "(2 ^ 53 - 1) * (n * d') \<le> (2 ^ 53 + 1) * (n' * d)"
proof -
  define r r' where "r = round_units n d" and "r' = round_units n' d'"
  have "2 ^ 53 \<le> r" unfolding r_def
    using round_units_mono [of 1 d "2 ^ 53" n] round_units_exact [of 1 "2 ^ 53"] bitlen_pow2 [of 1 53] d big
    by (simp add: bitlen_def floorlog_def)
  have big': "2 ^ 52 * d' \<le> n'"
  proof (rule ccontr)
    assume "\<not> 2 ^ 52 * d' \<le> n'"
    then have "r' \<le> 2 ^ 52" unfolding r'_def by (intro round_units_small d) simp
    with \<open>2 ^ 53 \<le> r\<close> le show False by (simp add: r_def r'_def)
  qed
  have "2 ^ 52 * d \<le> n" using d(1) big by simp
  then have "(2 ^ 53 - 1) * n * d' \<le> 2 ^ 53 * (r * d) * d'"
    unfolding r_def using d by (intro mult_right_mono round_units_close(2)) simp_all
  also have "\<dots> \<le> 2 ^ 53 * (r' * d) * d'"
    using d le by (intro mult_right_mono mult_left_mono) (simp_all add: r_def r'_def)
  also have "\<dots> = 2 ^ 53 * (r' * d') * d" by (simp add: mult_ac)
  also have "\<dots> \<le> (2 ^ 53 + 1) * n' * d"
    unfolding r'_def using d big' by (intro mult_right_mono round_units_close(1)) simp_all
  finally show ?thesis by (simp only: mult.assoc)
qed

text \<open>
  Claim C40. The point at which the brake acts. Let the threshold of the configuration be written as
  a decimal number of the value \<open>p / q\<close>, and let a notification give a cost and a positive budget.
  Whenever the exact quotient of the two amounts reaches the threshold as it is written, the brake
  acts, although the threshold and the quotient are both rounded; and a notification without an
  alert never makes it act for a quotient below the threshold by more than one part in \<open>2 ^ 52\<close>.
\<close>
theorem brake_exact:
  assumes "cost_guard_from_env vars = Inr config"
    and "vars ''KANI_BUDGET_BRAKE_THRESHOLD'' = Inr text" "exact_decimal text = Some (p, q)"
    and "bn_cost_amount n = Some (F64_Finite False c)"
    and "bn_budget_amount n = Some (F64_Finite False b)" "0 < b"
  shows "(p * b \<le> c * q \<longrightarrow> should_pause_scheduler n (cgc_brake_threshold config)) \<and>
    (should_pause_scheduler n (cgc_brake_threshold config) \<and> bn_alert_threshold_exceeded n = None \<and>
       q \<le> 10 ^ 300 * p \<longrightarrow> (2 ^ 53 - 1) * (p * b) \<le> (2 ^ 53 + 1) * (c * q))"
proof -
  let ?one = f64_one_units
  have one: "0 < ?one" "2 ^ 53 * 10 ^ 300 \<le> ?one" by (simp_all add: f64_one_units_def)
  have q: "0 < q" and t: "cgc_brake_threshold config = f64_from_units False (p * ?one) q"
    using parse_f64_exact_decimal [OF assms(3)] cost_guard_from_env_threshold(1) [OF assms(1,2)]
    by (simp_all add: f64_from_ratio_def)
  have ratio: "f64_div (F64_Finite False c) (F64_Finite False b) = f64_from_units False (c * ?one) b"
    using assms(6) by simp
  have pos: "f64_lt f64_zero (F64_Finite False b)"
    using assms(6) by (simp add: f64_lt_def f64_compare_def f64_zero_def)
  have pause: "should_pause_scheduler n (cgc_brake_threshold config) \<longleftrightarrow>
      (\<exists>a. bn_alert_threshold_exceeded n = Some a \<and> f64_le (cgc_brake_threshold config) a) \<or>
      min f64_overflow_units (round_units (p * ?one) q) \<le> min f64_overflow_units (round_units (c * ?one) b)"
    using assms(4-6) pos
    by (auto simp: should_pause_scheduler_def zip_option_def ratio t f64_le_from_units split: option.splits)
  have first: "should_pause_scheduler n (cgc_brake_threshold config)" if "p * b \<le> c * q"
  proof -
    have "p * ?one * b \<le> c * ?one * q" using mult_right_mono [OF that, of ?one] one by (simp add: mult_ac)
    then have "round_units (p * ?one) q \<le> round_units (c * ?one) b" using q assms(6) by (intro round_units_mono)
    then show ?thesis using pause by (auto simp: min_def)
  qed
  have second: "(2 ^ 53 - 1) * (p * b) \<le> (2 ^ 53 + 1) * (c * q)"
    if acts: "should_pause_scheduler n (cgc_brake_threshold config)"
      and "bn_alert_threshold_exceeded n = None" "q \<le> 10 ^ 300 * p"
  proof -
    have "f64_le (f64_from_units False (p * ?one) q) f64_ten"
      using cost_guard_from_env_threshold(3) [OF assms(1,2)] t by simp
    then have "min f64_overflow_units (round_units (p * ?one) q) \<le> 10 * ?one"
      by (simp add: f64_le_def f64_compare_def f64_key_from_units f64_ten_finite)
    moreover have "10 * ?one < f64_overflow_units" by (simp add: f64_one_units_def f64_overflow_units_def)
    ultimately have le: "round_units (p * ?one) q \<le> round_units (c * ?one) b"
      using acts that(2) pause by (auto simp: min_def split: if_splits)
    have "0 < p" using that(3) q by (smt (verit) mult_nonneg_nonpos zero_le_power)
    have "2 ^ 53 * q \<le> 2 ^ 53 * 10 ^ 300 * p" using that(3) by simp
    also have "\<dots> \<le> ?one * p" using one(2) \<open>0 < p\<close> by (intro mult_right_mono) simp_all
    finally have "2 ^ 53 * q \<le> p * ?one" by (simp only: mult.commute)
    then have "(2 ^ 53 - 1) * (p * ?one * b) \<le> (2 ^ 53 + 1) * (c * ?one * q)"
      using q assms(6) le by (intro round_units_order)
    then have "(2 ^ 53 - 1) * (p * b) * ?one \<le> (2 ^ 53 + 1) * (c * q) * ?one" by (simp only: mult_ac)
    then show ?thesis using one(1) by (rule mult_right_le_imp_le)
  qed
  show ?thesis using first second by blast
qed

section \<open>A run\<close>

definition sample_vars :: env_vars where
  "sample_vars name =
     (if name = ''KANI_BUDGET_BRAKE_THRESHOLD'' then Inr ''0.8''
      else if name = ''KANI_SCHEDULER_PROJECT'' then Inr ''kani-network-sandbox''
      else if name = ''KANI_SCHEDULER_REGION'' then Inr ''northamerica-northeast1''
      else if name = ''KANI_SCHEDULER_JOB'' then Inr '' kani-sandbox-validator-schedule ''
      else if name = ''KANI_BUDGET_ID'' then Inr ''budget-1''
      else Inl VarNotPresent)"

definition sample_config :: cost_guard_config where
  "sample_config = (case cost_guard_from_env sample_vars of Inr c \<Rightarrow> c
     | Inl _ \<Rightarrow> \<lparr>cgc_project_id = [], cgc_region = [], cgc_scheduler_job = [], cgc_budget_id = None,
         cgc_brake_threshold = F64_NaN, cgc_dry_run = True\<rparr>)"

text \<open>Forty of fifty spent: the threshold of 0.8 exactly. The alert of the other notification is
  for the whole budget.\<close>

definition sample_notification :: budget_notification where
  "sample_notification = \<lparr>bn_budget_display_name = None,
     bn_cost_amount = Some (F64_Finite False (40 * f64_one_units)),
     bn_budget_amount = Some (F64_Finite False (50 * f64_one_units)),
     bn_alert_threshold_exceeded = None, bn_forecast_threshold_exceeded = None,
     bn_currency_code = Some ''CAD''\<rparr>"

definition sample_alert :: budget_notification where
  "sample_alert = sample_notification\<lparr>bn_alert_threshold_exceeded := Some (F64_Finite False f64_one_units)\<rparr>"

definition sample_guard :: guard_api where
  "sample_guard = \<lparr>ga_base64_decode = (\<lambda>s. Inr s), ga_notification_json = (\<lambda>_. Inr sample_alert),
     ga_token_json = (\<lambda>body. body), ga_status_error = (\<lambda>_ _. ''status''), ga_status_text = (\<lambda>_. ''status'')\<rparr>"

definition sample_web :: web where
  "sample_web sent r = Answer 200 (Inr ''token'')"

definition sample_envelope :: pub_sub_push_envelope where
  "sample_envelope = \<lparr>pse_message = \<lparr>psm_data = Some ''e30='', psm_attributes = [(''budgetId'', ''budget-1'')],
     psm_message_id = Some ''message-1'', psm_legacy_message_id = None\<rparr>, pse_subscription = None\<rparr>"

text \<open>The brake at one half of the budget.\<close>

definition half_config :: cost_guard_config where
  "half_config = \<lparr>cgc_project_id = ''project'', cgc_region = ''region'', cgc_scheduler_job = ''job'',
     cgc_budget_id = Some ''budget-1'', cgc_brake_threshold = F64_Finite False (2 ^ 1073), cgc_dry_run = False\<rparr>"

lemma sample_alert_pauses: "should_pause_scheduler sample_alert (cgc_brake_threshold half_config)"
  by (simp add: should_pause_scheduler_def sample_alert_def half_config_def f64_one_units_def)

lemma sample_event:
  obtains r where "budget_events sample_guard sample_web half_config sample_envelope [] =
    ((202, Inr r), [token_request, pause_request half_config ''token''])"
proof -
  have "budget_id_matches (psm_attributes (pse_message sample_envelope)) (cgc_budget_id half_config)"
    by code_simp
  then show ?thesis
    using that sample_alert_pauses
    by (simp add: budget_events_def handle_budget_event_def message_data_def ok_or_def sample_envelope_def
      decode_budget_notification_def sample_guard_def map_err_def and_then_def Let_def
      pause_scheduler_job_def metadata_access_token_def send_request_def sample_web_def h_bind_def h_lift_def
      h_return_def is_error_status_def is_success_def half_config_def)
qed

theorem budget_event_spec_witness:
  "acknowledged sample_web half_config [] [token_request, pause_request half_config ''token''] \<and>
   brakes sample_guard half_config sample_envelope"
proof -
  obtain r where run: "budget_events sample_guard sample_web half_config sample_envelope [] =
      ((202, Inr r), [token_request, pause_request half_config ''token''])"
    by (rule sample_event)
  show ?thesis using budget_event_spec [OF run] by auto
qed

theorem brake_exact_witness:
  "should_pause_scheduler sample_notification (cgc_brake_threshold sample_config) \<and>
   (2 ^ 53 - 1) * (8 * (50 * f64_one_units)) \<le> (2 ^ 53 + 1) * (40 * f64_one_units * 10)"
proof -
  have "is_ok (cost_guard_from_env sample_vars)" by code_simp
  then have started: "cost_guard_from_env sample_vars = Inr sample_config"
    by (auto simp: is_ok_iff sample_config_def)
  have written: "sample_vars ''KANI_BUDGET_BRAKE_THRESHOLD'' = Inr ''0.8''" by (simp add: sample_vars_def)
  have decimal: "exact_decimal ''0.8'' = Some (8, 10)" by code_simp
  show ?thesis
    using brake_exact [OF started written decimal, of sample_notification "40 * f64_one_units" "50 * f64_one_units"]
    by (auto simp: sample_notification_def f64_one_units_def)
qed

end
