(* ===== verification/Spec2Isabelle.thy ===== *)
theory Spec2Isabelle
  imports Kani_Types Kani_Crypto Kani_Compliance Kani_Consensus Kani_Codec Kani_Ledger
    Kani_Ledger_Inv Kani_Ledger_Runs Kani_Node Kani_Node_Props Kani_Iso20022 Kani_Iso_Read Kani_Api_Input Kani_Api Kani_Api_Reports Kani_Api_Router
    Kani_Node_Steps Kani_Api_Contract Kani_Api_Props Kani_Api_Input_Props Kani_Api_Pages
    Kani_Api_Report_Props Kani_Api_Settled Kani_Api_Example Kani_Api_Retry Kani_Api_Witnesses
    Kani_Pg_Tables Kani_Pg_Store Kani_Pg_Snapshot Kani_Pg_Node Kani_Pg_Rows Kani_Pg_Keep
    Kani_Pg_Books Kani_Pg_Save Kani_Pg_Pass Kani_Pg_Prepare Kani_Pg_Session Kani_Pg_Chain Kani_Pg_Props
    Kani_Pg_Faults Kani_Pg_Example Kani_Pg_Witnesses Kani_Pg_Oversized
    Kani_Pg_Seeding Kani_Pg_Settle Kani_Pg_Process Kani_Pg_Settle_Witnesses Rust_F64 Kani_Cost_Guard Kani_Cost_Guard_Props
begin

text \<open>
  A model of the KANI settlement network, the Rust workspace \<open>src/crates\<close>.

  \<^bold>\<open>The program.\<close> Institutions hold accounts in sandbox assets. A client asks the HTTP API
  (\<open>kani-api\<close>) to move, mint or burn an asset; the API authenticates the institution by its
  credentials, screens the payment (\<open>kani-compliance\<close>) and hands it to the node
  (\<open>kani-node\<close>). A node without a database settles the payment at once: it builds a block with
  one transaction, collects the votes of the validators (\<open>kani-consensus\<close>), hashes and signs it
  (\<open>kani-crypto\<close>), verifies it and applies it to its in-memory ledger (\<open>kani-ledger\<close>). A
  node with a database stores the payment as pending in PostgreSQL; validator processes
  (\<open>ValidatorRuntime\<close>) take an advisory lock, load the ledger, turn the pending transactions
  into a block and save the ledger back, while other nodes go on writing. \<open>kani-iso20022\<close>
  reads pacs.008 messages and builds pacs.002 and camt.053 messages; \<open>kani-cost-guard\<close> is a
  separate service that pauses the validators' schedule when a budget is used up.

  \<^bold>\<open>Foundations.\<close>
  \<^item> \<open>Kani_Prelude\<close>: fallible results (\<open>and_then\<close> is the \<open>?\<close> operator), fallible steps on
    a state (\<open>h_bind\<close>), hash maps as association lists, pages and circular lists. Locales:
    \<open>state_preorder\<close> (operations that move a state along a preorder) and \<open>key_value_map\<close>
    (what a client may use of a map), interpreted on the hash maps (\<open>hm\<close>) here and on the
    ordered maps (\<open>bt\<close>) in \<open>Rust_Std\<close>.
  \<^item> \<open>Rust_Std\<close>: wrapping \<open>i128\<close> and \<open>i64\<close>, byte strings with \<open>trim\<close> and the ASCII
    functions, decimal numbers, \<open>BTreeMap\<close>, and the environment \<open>env\<close> that supplies
    \<open>Uuid::new_v4()\<close> and \<open>Utc::now()\<close> from two unbounded supplies. A theorem that needs fresh
    identifiers assumes the supply injective. \<open>Rust_F64\<close>: the type \<open>f64\<close> as exact dyadic
    numbers with correctly rounded parsing and division.

  \<^bold>\<open>Data and pure crates.\<close>
  \<^item> \<open>Kani_Types\<close>: \<open>kani-types/src/lib.rs\<close>, every struct, enum and constructor.
  \<^item> \<open>Kani_Crypto\<close>: \<open>kani-crypto/src/lib.rs\<close>; the digests and the JSON bytes are parameters
    (\<open>hashers\<close>, a serialiser).
  \<^item> \<open>Kani_Compliance\<close>: \<open>kani-compliance/src/lib.rs\<close>; the classes of payments each decision
    receives.
  \<^item> \<open>Kani_Consensus\<close>: \<open>kani-consensus/src/lib.rs\<close>; the trait \<open>ConsensusEngine\<close> is the
    locale \<open>consensus_engine\<close>, interpreted on proof of authority (\<open>poa\<close>), on the BFT prototype
    (\<open>bft\<close>) and on the configured engine (\<open>engine\<close>): overlap of quorums, votes by distinct
    active validators, fair rotation of the leader, finality proofs.
  \<^item> \<open>Kani_Iso20022\<close>: \<open>kani-iso20022/src/lib.rs\<close>; the XML parser is the parameter
    \<open>xml_api\<close>. Exactness of \<open>parse_minor_units\<close>. \<open>Kani_Iso_Read\<close>: an XML reader, and that it
    finds in the built messages exactly the values they were built from.

  \<^bold>\<open>The in-memory ledger and node.\<close>
  \<^item> \<open>Kani_Ledger\<close>: \<open>InMemoryLedger\<close> of \<open>kani-ledger/src/lib.rs\<close>, every method.
    \<open>Kani_Ledger_Inv\<close> states the accounting: the specification \<open>chain_balance\<close> sums the
    transactions of the chain in unbounded integers, and the ledger follows it modulo
    \<open>2 ^ 128\<close> always and exactly while less than \<open>2 ^ 127\<close> units were minted.
    \<open>Kani_Ledger_Runs\<close> has the step relation \<open>ledger_step\<close>, the reachable ledgers and their
    invariant: solvency, journal, nonces, hash chain, final compliance decisions, snapshots.
  \<^item> \<open>Kani_Node\<close>: \<open>KaniNode\<close> of \<open>kani-node/src/lib.rs\<close> without a storage, the sandbox guard
    and the selection of pending transactions. \<open>Kani_Node_Props\<close>, \<open>Kani_Node_Steps\<close>: what a
    verified block guarantees, that the node's own blocks are verified, idempotent submission,
    and that every operation of the node is a run of the ledger.

  \<^bold>\<open>The HTTP API\<close>, \<open>kani-api/src/lib.rs\<close>.
  \<^item> \<open>Kani_Api_Input\<close> (validation, filters, mapping of messages), \<open>Kani_Api\<close> (one definition
    per handler, with the audit trail), \<open>Kani_Api_Reports\<close> (the administrator's reports),
    \<open>Kani_Api_Router\<close> (\<open>serve\<close>, one request to one answer, and the runs
    \<open>api_reachable\<close>). The texts of times are the parameter \<open>chrono_api\<close>.
  \<^item> \<open>Kani_Api_Contract\<close>: the locales \<open>service_relation\<close>, \<open>audited_relation\<close> and
    \<open>service_contract\<close> prove once that every route keeps a relation the node's operations
    keep. Interpretations: \<open>moves\<close> (the ledger steps), \<open>audit\<close> (the audit log grows), \<open>quiet\<close>
    (only the audit log changes), \<open>lockout\<close> (a suspended institution stays suspended) and
    \<open>settled\<close> (the records of finalized payments).
  \<^item> \<open>Kani_Api_Props\<close>, \<open>Kani_Api_Settled\<close>, \<open>Kani_Api_Retry\<close>, \<open>Kani_Api_Input_Props\<close>,
    \<open>Kani_Api_Pages\<close>, \<open>Kani_Api_Report_Props\<close>: the properties. The service refines the
    ledger's runs; who may do what; retried requests; reading page by page; the reports against
    what they count. \<open>Kani_Api_Example\<close> and \<open>Kani_Api_Witnesses\<close> hold a concrete run.

  \<^bold>\<open>The database.\<close>
  \<^item> \<open>Kani_Codec\<close>: the texts of the enumerations; locale \<open>db_codec\<close>, interpreted on each pair
    of functions. \<open>Kani_Pg_Tables\<close>: the tables and constraints of \<open>src/migrations\<close>, the rows,
    \<open>sql_insert\<close>, \<open>sql_update\<close> and \<open>sql_page\<close>. What PostgreSQL computes
    itself (the form of a \<open>uuid\<close>, the precision of \<open>timestamptz\<close>, the collation, \<open>lower\<close>) is
    the parameter \<open>postgres_api\<close>.
  \<^item> \<open>Kani_Pg_Store\<close>, \<open>Kani_Pg_Snapshot\<close>: every method of \<open>PostgresLedgerStore\<close>; a statement
    is atomic, a transaction leaves nothing behind when it fails. \<open>Kani_Pg_Node\<close>: \<open>KaniNode\<close>
    over the store, \<open>ValidatorRuntime\<close> and the loops of \<open>kani-node/src/main.rs\<close>.
  \<^item> \<open>Kani_Pg_Rows\<close> (locale \<open>row_codec\<close>: what is bound is read back, interpreted on the ten
    row types), \<open>Kani_Pg_Save\<close> (locale \<open>upsert_table\<close>: the table a loop of upserts leaves,
    interpreted on the loops of \<open>save_snapshot\<close>), \<open>Kani_Pg_Keep\<close> (what other sessions may do
    while a pass is under way; interpretation \<open>kept\<close>), \<open>Kani_Pg_Books\<close> (balances of the tables
    against the finalized transactions), \<open>Kani_Pg_Prepare\<close> and \<open>Kani_Pg_Pass\<close> (the two halves
    of a pass), \<open>Kani_Pg_Chain\<close> (the block table is a hash chain).
  \<^item> \<open>Kani_Pg_Session\<close>: the network, one database with nodes, connecting processes and
    validators. Its steps: a request to a node, the load of a process that connects, the seeding
    it does on what it loaded, the first half of a pass (lock, load, select, build, apply), its
    second half (save, unlock), and a session that is lost between the halves and gives its lock
    back. A network starts when the first process has seeded the empty database and no other has
    read it before; without that proviso the books are wrong (\<open>Kani_Pg_Seeding\<close>: a second seeder
    sets the balances back to zero). \<open>Kani_Pg_Props\<close>: solvency, final transactions, exclusive block
    production, the chain and idempotency in every reachable network. \<open>Kani_Pg_Faults\<close>: two faults
    of the passes. \<open>Kani_Pg_Settle\<close>: what a pass appends and finalizes, and the fault that it writes
    every other transaction back with the status it loaded. \<open>Kani_Pg_Process\<close>: \<open>main\<close> of
    \<open>kani-node/src/main.rs\<close>, its settings and modes, and what a sweep of validators settles.
    \<open>Kani_Pg_Example\<close>, \<open>Kani_Pg_Witnesses\<close>, \<open>Kani_Pg_Oversized\<close> and
    \<open>Kani_Pg_Settle_Witnesses\<close> hold concrete runs.

  \<^bold>\<open>The cost guard\<close>, \<open>kani-api/src/bin/kani-cost-guard.rs\<close>: \<open>Kani_Cost_Guard\<close> and
  \<open>Kani_Cost_Guard_Props\<close>. Base64 and JSON decoding and the outside services are parameters;
  the requests sent are the state. When the scheduler is paused, what is answered, and that
  rounding never makes the brake miss its threshold.

  \<^bold>\<open>Bounds.\<close> No operation of the program is modelled with fuel: loops over data are structural
  recursion, the trims and the decimal printer have termination proofs, and the endless loop of
  the validator process is the iteration of one pass. The client of \<open>Kani_Api_Pages\<close> that follows
  \<open>next_offset\<close> has fuel, and one request more than there are blocks is shown to be enough. Integers wrap as in the release build. Where a theorem
  needs a bound it names it: less than \<open>2 ^ 127\<close> units minted for the exact books in memory
  (in the database the column \<open>NUMERIC(38, 0)\<close> enforces it), and chains shorter than
  \<open>2 ^ 61\<close> or \<open>2 ^ 62\<close> blocks, more than any run writes, so that heights and offsets do not wrap.

  \<^bold>\<open>Not modelled.\<close>
  \<^item> What axum, serde and the HTTP library do before and after a handler: routing of unknown
    paths, decoding of bodies, encoding of answers. A request arrives decoded.
  \<^item> The wiring of the processes: \<open>main\<close> of the API and the settings it reads, logging, the
    sleep between two passes, sockets. The settings of the validator and of the cost guard, and
    the sandbox flags, are modelled.
  \<^item> sqlx: connecting, migrating, and connection errors inside an operation. Every session that
    dies is \<open>net_lost\<close>; a process that loses only the connection that holds its lock and goes on
    to save through the pool is not covered. Texts contain no NUL.
  \<^item> Interleavings finer than the steps above: an operation of a node on the store, the load of a
    ledger and the save of a ledger are one step each (the save is one transaction in the code;
    the load is a sequence of queries). In memory, the mutex serialises the operations.
\<close>

end
